(* ===== verification/Prelude.thy ===== *)
theory Prelude
  imports
    Main
    "HOL-Library.Word"
    "HOL-Library.State_Monad"
    "HOL-Library.List_Lexorder"
    "HOL-Library.Char_ord"
    "HOL-Library.Multiset"
begin

text \<open>
  The vocabulary every other theory uses.

  \<^item> Machine integers: \<open>uint64\<close> peer identifiers and point counts and \<open>uint32\<close> shard
    numbers are words; \<open>int32\<close>/\<open>int64\<close> values are integers whose wrap-around is written
    out with \<open>i32\<close> and \<open>i64\<close>.
  \<^item> Times and durations in nanoseconds, with the saturation of \<open>time.Since\<close>.
  \<^item> The effect monad: a Go method that calls the API server or Qdrant is a value of
    \<open>HOL-Library.State_Monad\<close> over a \<open>sys\<close>, a world of arbitrary type together with the
    list of all effects issued so far. \<open>emits\<close> is the compositional way to say which effects
    an operation may append.
  \<^item> \<open>slices.SortFunc\<close> as insertion by a three-way comparison, with the contract such a
    comparison owes (\<open>locale go_cmp\<close>) and the fact every planner relies on: the result does not
    depend on the order of the input.
  \<^item> The "best candidate so far" loop the planners share (\<open>best_of\<close>).
\<close>

named_theorems emits_intros "which effects an operation can append to the trace"
named_theorems go_consts "the source's constants"

section \<open>Machine integers\<close>

type_synonym u64 = "64 word"
type_synonym u32 = "32 word"

definition i32 :: "int \<Rightarrow> int" where
  "i32 x = (x + 2 ^ 31) mod 2 ^ 32 - 2 ^ 31"

definition i64 :: "int \<Rightarrow> int" where
  "i64 x = (x + 2 ^ 63) mod 2 ^ 64 - 2 ^ 63"

definition is_i32 :: "int \<Rightarrow> bool" where
  "is_i32 x \<longleftrightarrow> - (2 ^ 31) \<le> x \<and> x < 2 ^ 31"

lemma i32_range: "is_i32 (i32 x)"
  by (simp add: i32_def is_i32_def)

lemma i32_id [simp]: "is_i32 x \<Longrightarrow> i32 x = x"
  by (simp add: i32_def is_i32_def)

lemma uint_u32_bounds: "0 \<le> uint (a :: u32) \<and> uint a < 4294967296"
  using uint_lt2p [of a] by simp

lemma i32_uint:
  "i32 (uint (a :: u32)) = (if uint a < 2 ^ 31 then uint a else uint a - 2 ^ 32)"
proof (cases "uint a < 2 ^ 31")
  case True
  then show ?thesis using uint_u32_bounds [of a] by (simp add: i32_def)
next
  case False
  have "(uint a + 2 ^ 31) mod 2 ^ 32 = (uint a + 2 ^ 31 - 2 ^ 32) mod 2 ^ 32"
    by (rule minus_mod_self2 [symmetric])
  also have "\<dots> = uint a + 2 ^ 31 - 2 ^ 32"
    using False uint_u32_bounds [of a] by (intro mod_pos_pos_trivial) simp_all
  finally show ?thesis using False by (simp add: i32_def)
qed

lemma signed_read_inj:
  fixes x y :: int
  assumes "0 \<le> x \<and> x < 4294967296" and "0 \<le> y \<and> y < 4294967296"
  shows "(if x < 2 ^ 31 then x else x - 2 ^ 32) = (if y < 2 ^ 31 then y else y - 2 ^ 32) \<longleftrightarrow> x = y"
  using assms by auto

lemma i32_uint_inj: "i32 (uint (a :: u32)) = i32 (uint b) \<longleftrightarrow> a = b"
  unfolding i32_uint word_uint_eq_iff [of a b]
  by (rule signed_read_inj) (rule uint_u32_bounds)+

section \<open>Times and durations\<close>

text \<open>
  A \<open>time.Duration\<close> is an \<open>int64\<close> number of nanoseconds. A \<open>time.Time\<close> is a number of
  nanoseconds since the zero time (year 1), so \<open>0\<close> is \<open>time.Time{}\<close>. \<open>time.Since\<close> subtracts
  and saturates at the ends of the \<open>int64\<close> range.
\<close>

type_synonym duration = int
type_synonym time = int

definition Second :: duration where "Second = 1000000000"
definition Minute :: duration where "Minute = 60 * Second"
definition Millisecond :: duration where "Millisecond = 1000000"

declare Second_def [go_consts] Minute_def [go_consts] Millisecond_def [go_consts]

definition max_duration :: duration where "max_duration = 2 ^ 63 - 1"
definition min_duration :: duration where "min_duration = - (2 ^ 63)"

definition time_sub :: "time \<Rightarrow> time \<Rightarrow> duration" where
  "time_sub t u = max min_duration (min max_duration (t - u))"

lemma time_sub_exact:
  "min_duration \<le> t - u \<Longrightarrow> t - u \<le> max_duration \<Longrightarrow> time_sub t u = t - u"
  by (simp add: time_sub_def)

lemma time_sub_less_iff:
  "min_duration < d \<Longrightarrow> d \<le> max_duration \<Longrightarrow> time_sub t u < d \<longleftrightarrow> t - u < d"
  by (auto simp: time_sub_def)

section \<open>Results, option maps\<close>

text \<open>
  A Go error is its text. \<open>errval\<close> of a sum is the error branch; a call that returns only an
  error returns a \<open>string option\<close>, \<open>None\<close> for \<open>nil\<close>.
\<close>

type_synonym err = string

text \<open>A lookup in a Go map returns the zero value of an absent key.\<close>

definition get_or :: "'v \<Rightarrow> ('k \<rightharpoonup> 'v) \<Rightarrow> 'k \<Rightarrow> 'v" where
  "get_or d m k = (case m k of None \<Rightarrow> d | Some v \<Rightarrow> v)"

lemma get_or_simps [simp]:
  "m k = None \<Longrightarrow> get_or d m k = d"
  "m k = Some v \<Longrightarrow> get_or d m k = v"
  by (simp_all add: get_or_def)

lemma get_or_upd [simp]: "get_or d (m(k \<mapsto> v)) j = (if j = k then v else get_or d m j)"
  by (simp add: get_or_def)

section \<open>The effect monad\<close>

record ('w, 'e) sys =
  world :: 'w
  trace :: "'e list"

text \<open>
  \<open>perform\<close> runs one external call on the world and appends the effect that records it, with its
  outcome. \<open>emit\<close> appends an effect that has no answer (an event, a metric). \<open>inspect\<close> reads the
  world without an effect (the clock).
\<close>

definition perform :: "('a \<Rightarrow> 'e) \<Rightarrow> ('w \<Rightarrow> 'a \<times> 'w) \<Rightarrow> (('w, 'e) sys, 'a) state" where
  "perform mk f = State (\<lambda>s. case f (world s) of (r, w) \<Rightarrow>
     (r, s\<lparr>world := w, trace := trace s @ [mk r]\<rparr>))"

definition emit :: "'e \<Rightarrow> (('w, 'e) sys, unit) state" where
  "emit e = State (\<lambda>s. ((), s\<lparr>trace := trace s @ [e]\<rparr>))"

definition inspect :: "('w \<Rightarrow> 'a) \<Rightarrow> (('w, 'e) sys, 'a) state" where
  "inspect f = State (\<lambda>s. (f (world s), s))"

lemma run_perform [simp]:
  "run_state (perform mk f) s =
     (case f (world s) of (r, w) \<Rightarrow> (r, s\<lparr>world := w, trace := trace s @ [mk r]\<rparr>))"
  by (simp add: perform_def)

lemma run_emit [simp]: "run_state (emit e) s = ((), s\<lparr>trace := trace s @ [e]\<rparr>)"
  by (simp add: emit_def)

lemma run_inspect [simp]: "run_state (inspect f) s = (f (world s), s)"
  by (simp add: inspect_def)

lemma run_bind [simp]:
  "run_state (State_Monad.bind m f) s = (case run_state m s of (x, s') \<Rightarrow> run_state (f x) s')"
  by (simp add: State_Monad.bind_def)

lemma run_return [simp]: "run_state (State_Monad.return x) s = (x, s)"
  by (simp add: State_Monad.return_def)

text \<open>\<open>foreach\<close> is a \<open>for ... range\<close> loop whose body updates an accumulator.\<close>

primrec foreach :: "('x \<Rightarrow> 'a \<Rightarrow> ('s, 'a) state) \<Rightarrow> 'x list \<Rightarrow> 'a \<Rightarrow> ('s, 'a) state" where
  "foreach body [] a = State_Monad.return a"
| "foreach body (x # xs) a = do { a' \<leftarrow> body x a; foreach body xs a' }"

lemma foreach_inv:
  assumes "run_state (foreach body xs a) s = (b, s')" and "J a s"
    and "\<And>x a s a' s'. x \<in> set xs \<Longrightarrow> J a s \<Longrightarrow> run_state (body x a) s = (a', s') \<Longrightarrow> J a' s'"
  shows "J b s'"
  using assms
proof (induction xs arbitrary: a s)
  case (Cons x xs)
  obtain a1 s1 where step: "run_state (body x a) s = (a1, s1)" by fastforce
  have "J a1 s1" by (rule Cons.prems(3) [OF _ Cons.prems(2) step]) simp
  moreover have "run_state (foreach body xs a1) s1 = (b, s')" using Cons.prems(1) step by simp
  ultimately show ?case using Cons.IH Cons.prems(3) by (meson list.set_intros(2))
qed simp

subsection \<open>Which effects an operation appends\<close>

definition emits :: "('e \<Rightarrow> bool) \<Rightarrow> (('w, 'e) sys, 'a) state \<Rightarrow> bool" where
  "emits P m \<longleftrightarrow>
     (\<forall>s. \<exists>es. trace (snd (run_state m s)) = trace s @ es \<and> list_all P es)"

lemma emits_return [emits_intros]: "emits P (State_Monad.return x)"
  by (simp add: emits_def)

lemma emits_emit [emits_intros]: "P e \<Longrightarrow> emits P (emit e)"
  by (simp add: emits_def)

lemma emits_inspect [emits_intros]: "emits P (inspect f)"
  by (simp add: emits_def)

lemma emits_perform [emits_intros]: "(\<And>r. P (mk r)) \<Longrightarrow> emits P (perform mk f)"
  by (simp add: emits_def split: prod.split)

text \<open>
  Sequencing and loops, also with what is known about the value passed on: it came out of a run, or
  out of the list.
\<close>

lemma emits_bind_run:
  assumes "emits P m" and "\<And>s x s'. run_state m s = (x, s') \<Longrightarrow> emits P (f x)"
  shows "emits P (State_Monad.bind m f)"
  unfolding emits_def
proof
  fix s
  obtain x s' where r: "run_state m s = (x, s')" by fastforce
  obtain es where es: "trace s' = trace s @ es" "list_all P es"
    using assms(1) r unfolding emits_def by (metis snd_conv)
  obtain fs where fs: "trace (snd (run_state (f x) s')) = trace s' @ fs" "list_all P fs"
    using assms(2) [OF r] unfolding emits_def by metis
  show "\<exists>es. trace (snd (run_state (State_Monad.bind m f) s)) = trace s @ es \<and> list_all P es"
    using r es fs by (intro exI [of _ "es @ fs"]) simp
qed

lemma emits_bind [emits_intros]:
  "emits P m \<Longrightarrow> (\<And>x. emits P (f x)) \<Longrightarrow> emits P (State_Monad.bind m f)"
  by (rule emits_bind_run)

lemma emits_if [emits_intros]:
  "(c \<Longrightarrow> emits P a) \<Longrightarrow> (\<not> c \<Longrightarrow> emits P b) \<Longrightarrow> emits P (if c then a else b)"
  by simp

lemma emits_case_option [emits_intros]:
  "(v = None \<Longrightarrow> emits P a) \<Longrightarrow> (\<And>x. v = Some x \<Longrightarrow> emits P (b x)) \<Longrightarrow>
   emits P (case v of None \<Rightarrow> a | Some x \<Rightarrow> b x)"
  by (cases v) simp_all

lemma emits_case_sum [emits_intros]:
  "(\<And>x. v = Inl x \<Longrightarrow> emits P (a x)) \<Longrightarrow> (\<And>x. v = Inr x \<Longrightarrow> emits P (b x)) \<Longrightarrow>
   emits P (case v of Inl x \<Rightarrow> a x | Inr x \<Rightarrow> b x)"
  by (cases v) simp_all

lemma emits_case_prod [emits_intros]:
  "(\<And>x y. v = (x, y) \<Longrightarrow> emits P (f x y)) \<Longrightarrow> emits P (case v of (x, y) \<Rightarrow> f x y)"
  by (cases v) simp

lemma emits_case_list [emits_intros]:
  "(v = [] \<Longrightarrow> emits P a) \<Longrightarrow> (\<And>x xs. v = x # xs \<Longrightarrow> emits P (b x xs)) \<Longrightarrow>
   emits P (case v of [] \<Rightarrow> a | x # xs \<Rightarrow> b x xs)"
  by (cases v) simp_all

lemma emits_Let [emits_intros]: "emits P (f v) \<Longrightarrow> emits P (let x = v in f x)"
  by simp

lemma emits_foreach_mem:
  "(\<And>x a. x \<in> set xs \<Longrightarrow> emits P (body x a)) \<Longrightarrow> emits P (foreach body xs a)"
  by (induction xs arbitrary: a) (auto intro: emits_return emits_bind)

lemma emits_foreach [emits_intros]:
  "(\<And>x a. emits P (body x a)) \<Longrightarrow> emits P (foreach body xs a)"
  by (rule emits_foreach_mem)

lemma emits_mono: "emits P m \<Longrightarrow> (\<And>e. P e \<Longrightarrow> Q e) \<Longrightarrow> emits Q m"
  unfolding emits_def by (metis list.pred_mono_strong)

lemma emitsD:
  assumes "emits P m" and "run_state m s = (x, s')"
  obtains es where "trace s' = trace s @ es" and "list_all P es"
  using assms unfolding emits_def by (metis snd_conv)

section \<open>Sorting with a comparison function\<close>

text \<open>
  \<open>slices.SortFunc\<close> takes a three-way comparison. Go leaves the order of elements that compare
  equal unspecified; insertion keeps them in input order, which is one of the allowed results, and
  \<open>go_cmp.sort_func_perm\<close> shows there is only one where no two different elements compare equal.
\<close>

primrec insort_func :: "('a \<Rightarrow> 'a \<Rightarrow> int) \<Rightarrow> 'a \<Rightarrow> 'a list \<Rightarrow> 'a list" where
  "insort_func cmp x [] = [x]"
| "insort_func cmp x (y # ys) =
     (if cmp x y \<le> 0 then x # y # ys else y # insort_func cmp x ys)"

primrec sort_func :: "('a \<Rightarrow> 'a \<Rightarrow> int) \<Rightarrow> 'a list \<Rightarrow> 'a list" where
  "sort_func cmp [] = []"
| "sort_func cmp (x # xs) = insort_func cmp x (sort_func cmp xs)"

lemma mset_insort_func [simp]: "mset (insort_func cmp x xs) = add_mset x (mset xs)"
  by (induction xs) simp_all

lemma mset_sort_func [simp]: "mset (sort_func cmp xs) = mset xs"
  by (induction xs) simp_all

lemma set_sort_func [simp]: "set (sort_func cmp xs) = set xs"
  by (metis mset_sort_func set_mset_mset)

lemma length_sort_func [simp]: "length (sort_func cmp xs) = length xs"
  by (metis mset_sort_func size_mset)

lemma sort_func_eq_Nil [simp]: "sort_func cmp xs = [] \<longleftrightarrow> xs = []"
  by (metis length_0_conv length_sort_func)

lemma set_insort_func [simp]: "set (insort_func cmp x xs) = insert x (set xs)"
  by (induction xs) auto

text \<open>What a comparison passed to \<open>slices.SortFunc\<close> owes: it is a total preorder.\<close>

locale go_cmp =
  fixes cmp :: "'a \<Rightarrow> 'a \<Rightarrow> int"
  assumes cmp_anti: "cmp a b < 0 \<longleftrightarrow> 0 < cmp b a"
    and cmp_trans: "cmp a b \<le> 0 \<Longrightarrow> cmp b c \<le> 0 \<Longrightarrow> cmp a c \<le> 0"
begin

lemma cmp_total: "\<not> cmp a b \<le> 0 \<Longrightarrow> cmp b a \<le> 0"
  using cmp_anti by (meson le_less not_le)

lemma insort_func_sorted:
  "sorted_wrt (\<lambda>a b. cmp a b \<le> 0) xs \<Longrightarrow> sorted_wrt (\<lambda>a b. cmp a b \<le> 0) (insort_func cmp x xs)"
  by (induction xs) (auto intro: cmp_trans dest: cmp_total)

lemma sort_func_sorted: "sorted_wrt (\<lambda>a b. cmp a b \<le> 0) (sort_func cmp xs)"
  by (induction xs) (auto intro: insort_func_sorted)

lemma sorted_perm_unique:
  assumes "sorted_wrt (\<lambda>a b. cmp a b \<le> 0) xs" and "sorted_wrt (\<lambda>a b. cmp a b \<le> 0) ys"
    and "mset xs = mset ys"
    and "\<And>a b. a \<in> set xs \<Longrightarrow> b \<in> set xs \<Longrightarrow> cmp a b \<le> 0 \<Longrightarrow> cmp b a \<le> 0 \<Longrightarrow> a = b"
  shows "xs = ys"
  using assms
proof (induction xs arbitrary: ys)
  case Nil
  then show ?case by simp
next
  case (Cons x xs)
  then obtain y ys' where ys: "ys = y # ys'" by (cases ys) auto
  have same: "set (x # xs) = set ys" using Cons.prems(3) by (metis set_mset_mset)
  have "x \<in> set ys" and "y \<in> set (x # xs)" using same ys by auto
  then have "x = y \<or> (cmp x y \<le> 0 \<and> cmp y x \<le> 0)"
    using Cons.prems(1,2) ys by auto
  then have xy: "x = y" using Cons.prems(4) [of x y] \<open>y \<in> set (x # xs)\<close> by auto
  have "xs = ys'"
    by (rule Cons.IH) (use Cons.prems ys xy in auto)
  then show ?case using ys xy by simp
qed

lemma sort_func_perm:
  assumes "mset xs = mset ys"
    and "\<And>a b. a \<in> set xs \<Longrightarrow> b \<in> set xs \<Longrightarrow> cmp a b \<le> 0 \<Longrightarrow> cmp b a \<le> 0 \<Longrightarrow> a = b"
  shows "sort_func cmp xs = sort_func cmp ys"
  by (rule sorted_perm_unique) (use assms sort_func_sorted in auto)

lemma sort_func_hd_least:
  "sort_func cmp xs = y # ys \<Longrightarrow> x \<in> set xs \<Longrightarrow> cmp y x \<le> 0 \<or> x = y"
  using sort_func_sorted [of xs] set_sort_func [of cmp xs] by auto

end

text \<open>\<open>strings.Compare\<close> and \<open>cmp.Compare\<close>: the sign of the order.\<close>

definition go_compare :: "'a::linorder \<Rightarrow> 'a \<Rightarrow> int" where
  "go_compare a b = (if a < b then - 1 else if b < a then 1 else 0)"

lemma go_compare_le: "go_compare a b \<le> 0 \<longleftrightarrow> a \<le> b"
  by (auto simp: go_compare_def)

lemma go_compare_eq0: "go_compare a b = 0 \<longleftrightarrow> a = b"
  by (auto simp: go_compare_def)

lemma go_compare_less: "go_compare a b < 0 \<longleftrightarrow> a < b"
  by (auto simp: go_compare_def)

interpretation compare_by: go_cmp "\<lambda>a b. go_compare (key a) (key b)" for key
  by unfold_locales (auto simp: go_compare_def split: if_splits)

section \<open>Keeping the best candidate\<close>

text \<open>
  The loop \<open>for x { if best == nil || x before best { best = x } }\<close>: the first candidate with no
  strictly better one.
\<close>

definition best_of :: "('a \<Rightarrow> 'a \<Rightarrow> bool) \<Rightarrow> 'a list \<Rightarrow> 'a option" where
  "best_of lt xs =
     fold (\<lambda>x best. case best of None \<Rightarrow> Some x | Some b \<Rightarrow> (if lt x b then Some x else best)) xs None"

lemma best_of_Nil [simp]: "best_of lt [] = None"
  by (simp add: best_of_def)

lemma best_of_snoc:
  "best_of lt (xs @ [x]) =
     (case best_of lt xs of None \<Rightarrow> Some x | Some b \<Rightarrow> (if lt x b then Some x else Some b))"
  by (simp add: best_of_def split: option.split)

lemma best_of_None [simp]: "best_of lt xs = None \<longleftrightarrow> xs = []"
  by (induction xs rule: rev_induct) (auto simp: best_of_snoc split: option.splits)

lemma best_of_mem: "best_of lt xs = Some x \<Longrightarrow> x \<in> set xs"
  by (induction xs arbitrary: x rule: rev_induct)
     (auto simp: best_of_snoc split: option.splits if_splits)

locale choice_order =
  fixes lt :: "'a \<Rightarrow> 'a \<Rightarrow> bool"
  assumes lt_irrefl: "\<not> lt x x"
    and lt_trans: "lt x y \<Longrightarrow> lt y z \<Longrightarrow> lt x z"
    and lt_negtrans: "\<not> lt x y \<Longrightarrow> \<not> lt y z \<Longrightarrow> \<not> lt x z"
begin

lemma best_of_least: "best_of lt xs = Some x \<Longrightarrow> y \<in> set xs \<Longrightarrow> \<not> lt y x"
proof (induction xs arbitrary: x y rule: rev_induct)
  case Nil
  then show ?case by simp
next
  case (snoc z zs)
  show ?case
  proof (cases "best_of lt zs")
    case None
    with snoc.prems show ?thesis by (simp add: best_of_snoc lt_irrefl)
  next
    case (Some b)
    with snoc show ?thesis
      by (auto simp: best_of_snoc lt_irrefl split: if_splits intro: lt_trans dest: lt_negtrans)
  qed
qed

lemma best_of_perm:
  assumes "set xs = set ys"
    and "\<And>a b. a \<in> set xs \<Longrightarrow> b \<in> set xs \<Longrightarrow> \<not> lt a b \<Longrightarrow> \<not> lt b a \<Longrightarrow> a = b"
  shows "best_of lt xs = best_of lt ys"
proof (cases "best_of lt xs")
  case None
  then show ?thesis using assms(1) by simp
next
  case (Some x)
  then obtain y where y: "best_of lt ys = Some y"
    using assms(1) best_of_None [of lt ys] by (cases "best_of lt ys") auto
  have "x \<in> set xs" and "y \<in> set xs" using Some y best_of_mem assms(1) by fastforce+
  moreover have "\<not> lt y x" using best_of_least [OF Some] \<open>y \<in> set xs\<close> by blast
  moreover have "\<not> lt x y" using best_of_least [OF y] \<open>x \<in> set xs\<close> assms(1) by blast
  ultimately show ?thesis using Some y assms(2) by auto
qed

end

end
