(* ===== verification/Go_Strings.thy ===== *)
theory Go_Strings
  imports Prelude
begin

text \<open>
  The parts of Go's \<open>strconv\<close>, \<open>strings\<close>, \<open>fmt\<close> and \<open>net/url\<close> the operator uses, on byte strings:
  decimal formatting and parsing (with the values \<open>strconv\<close> returns beside an error, which
  \<open>activeMoveCompleted\<close> ignores), the split functions of \<open>peerOrdinal\<close>, and the host name of a
  parsed URL. The round trips format/parse are the facts the executor and the drain rely on.
\<close>

section \<open>Decimal formatting\<close>

definition digit_char :: "nat \<Rightarrow> char" where
  "digit_char d = char_of (48 + d)"

fun nat_digits :: "nat \<Rightarrow> string" where
  "nat_digits n = (if n < 10 then [digit_char n] else nat_digits (n div 10) @ [digit_char (n mod 10)])"

declare nat_digits.simps [simp del]

definition FormatUint :: "u64 \<Rightarrow> string" where
  "FormatUint x = nat_digits (unat x)"

definition FormatInt :: "int \<Rightarrow> string" where
  "FormatInt i = (if i < 0 then CHR ''-'' # nat_digits (nat (- i)) else nat_digits (nat i))"

section \<open>Decimal parsing\<close>

datatype parse_error = ErrSyntax | ErrRange

definition is_digit :: "char \<Rightarrow> bool" where
  "is_digit c \<longleftrightarrow> 48 \<le> (of_char c :: nat) \<and> (of_char c :: nat) \<le> 57"

definition digit_val :: "char \<Rightarrow> nat" where
  "digit_val c = of_char c - 48"

text \<open>
  The loop of \<open>strconv.ParseUint\<close> in base 10 for the largest value \<open>mx\<close>: a bad byte gives 0 and a
  syntax error, an overflow gives \<open>mx\<close> and a range error, whichever comes first.
\<close>

fun parse_uint_loop :: "nat \<Rightarrow> nat \<Rightarrow> string \<Rightarrow> nat \<times> parse_error option" where
  "parse_uint_loop mx n [] = (n, None)"
| "parse_uint_loop mx n (c # cs) =
     (if \<not> is_digit c then (0, Some ErrSyntax)
      else if mx div 10 + 1 \<le> n then (mx, Some ErrRange)
      else if mx < n * 10 + digit_val c then (mx, Some ErrRange)
      else parse_uint_loop mx (n * 10 + digit_val c) cs)"

definition parse_uint :: "nat \<Rightarrow> string \<Rightarrow> nat \<times> parse_error option" where
  "parse_uint mx s = (if s = [] then (0, Some ErrSyntax) else parse_uint_loop mx 0 s)"

definition ParseUint64 :: "string \<Rightarrow> u64 \<times> parse_error option" where
  "ParseUint64 s = (case parse_uint (2 ^ 64 - 1) s of (n, e) \<Rightarrow> (of_nat n, e))"

definition ParseInt32 :: "string \<Rightarrow> int \<times> parse_error option" where
  "ParseInt32 s =
     (let neg = (s \<noteq> [] \<and> hd s = CHR ''-'');
          body = (if s \<noteq> [] \<and> (hd s = CHR ''-'' \<or> hd s = CHR ''+'') then tl s else s)
      in case parse_uint (2 ^ 32 - 1) body of
           (un, Some ErrSyntax) \<Rightarrow> (0, Some ErrSyntax)
         | (un, e) \<Rightarrow>
             if \<not> neg \<and> 2 ^ 31 \<le> un then (2 ^ 31 - 1, Some ErrRange)
             else if neg \<and> 2 ^ 31 < un then (- (2 ^ 31), Some ErrRange)
             else (if neg then - int un else int un, None))"

section \<open>Splitting\<close>

text \<open>\<open>strings.Cut\<close> at a one-byte separator: the part before, the part after, found.\<close>

definition cut :: "char \<Rightarrow> string \<Rightarrow> string \<times> string \<times> bool" where
  "cut c s = (takeWhile (\<lambda>x. x \<noteq> c) s, tl (dropWhile (\<lambda>x. x \<noteq> c) s), c \<in> set s)"

definition LastIndex :: "string \<Rightarrow> char \<Rightarrow> int" where
  "LastIndex s c =
     (if c \<in> set s then int (length s) - 1 - int (length (takeWhile (\<lambda>x. x \<noteq> c) (rev s))) else - 1)"

section \<open>The host name of a URL\<close>

text \<open>
  \<open>url.Parse\<close> followed by \<open>Hostname\<close>: \<open>None\<close> where \<open>Parse\<close> fails, the empty string where the URL
  has no host. Bracketed IP literals give \<open>None\<close>; the host of one without a zone has no hyphen, so
  \<open>peerOrdinal\<close> rejects it either way.
\<close>

definition is_alpha :: "char \<Rightarrow> bool" where
  "is_alpha c \<longleftrightarrow> (let n = (of_char c :: nat) in (65 \<le> n \<and> n \<le> 90) \<or> (97 \<le> n \<and> n \<le> 122))"

definition is_hex :: "char \<Rightarrow> bool" where
  "is_hex c \<longleftrightarrow> is_digit c \<or>
     (let n = (of_char c :: nat) in (65 \<le> n \<and> n \<le> 70) \<or> (97 \<le> n \<and> n \<le> 102))"

definition unhex :: "char \<Rightarrow> nat" where
  "unhex c = (let n = (of_char c :: nat) in
     if is_digit c then n - 48 else if 97 \<le> n then n - 87 else n - 55)"

definition is_ctl :: "char \<Rightarrow> bool" where
  "is_ctl c \<longleftrightarrow> (of_char c :: nat) < 32 \<or> (of_char c :: nat) = 127"

definition host_char :: "char \<Rightarrow> bool" where
  "host_char c \<longleftrightarrow> is_alpha c \<or> is_digit c \<or> 128 \<le> (of_char c :: nat) \<or>
     c \<in> set ''!$&()*+,;=:[]<>-_.~'' \<or> c = CHR 0x22 \<or> c = CHR 0x27"

text \<open>\<open>unescape\<close> in host mode (only bytes above 127 and \<open>%25\<close> may be escaped), and its validity test
  elsewhere.\<close>

fun unescape_host :: "string \<Rightarrow> string option" where
  "unescape_host [] = Some []"
| "unescape_host (c # cs) =
     (if c = CHR ''%'' then
        (case cs of
           a # b # rest \<Rightarrow>
             if is_hex a \<and> is_hex b \<and> (8 \<le> unhex a \<or> (a = CHR ''2'' \<and> b = CHR ''5''))
             then map_option (\<lambda>t. char_of (unhex a * 16 + unhex b) # t) (unescape_host rest)
             else None
         | _ \<Rightarrow> None)
      else if host_char c then map_option (\<lambda>t. c # t) (unescape_host cs) else None)"

fun valid_escapes :: "string \<Rightarrow> bool" where
  "valid_escapes [] = True"
| "valid_escapes (c # cs) =
     (if c = CHR ''%''
      then (case cs of a # b # rest \<Rightarrow> is_hex a \<and> is_hex b \<and> valid_escapes rest | _ \<Rightarrow> False)
      else valid_escapes cs)"

definition valid_userinfo :: "string \<Rightarrow> bool" where
  "valid_userinfo s \<longleftrightarrow> list_all (\<lambda>c. is_alpha c \<or> is_digit c \<or>
     c \<in> set ''-._:~!$&()*+,;=%@'' \<or> c = CHR 0x27) s \<and> valid_escapes s"

text \<open>\<open>getScheme\<close>: \<open>None\<close> is the error, otherwise the scheme (possibly empty) and the rest.\<close>

fun get_scheme_at :: "string \<Rightarrow> nat \<Rightarrow> string \<Rightarrow> (string \<times> string) option" where
  "get_scheme_at raw i [] = Some ([], raw)"
| "get_scheme_at raw i (c # cs) =
     (if is_alpha c then get_scheme_at raw (Suc i) cs
      else if is_digit c \<or> c \<in> set ''+-.'' then
        (if i = 0 then Some ([], raw) else get_scheme_at raw (Suc i) cs)
      else if c = CHR '':'' then (if i = 0 then None else Some (take i raw, cs))
      else Some ([], raw))"

definition parse_host :: "string \<Rightarrow> string option" where
  "parse_host h =
     (if CHR ''['' \<in> set h then None
      else case cut (CHR '':'') h of
        (name, port, found) \<Rightarrow>
          if found \<and> \<not> list_all is_digit port then None
          else map_option (\<lambda>full. fst (cut (CHR '':'') full)) (unescape_host h))"

definition parse_authority :: "string \<Rightarrow> string option" where
  "parse_authority a =
     (let i = LastIndex a (CHR ''@'') in
      if i < 0 then parse_host a
      else if valid_userinfo (take (nat i) a) then parse_host (drop (Suc (nat i)) a) else None)"

definition url_hostname :: "string \<Rightarrow> string option" where
  "url_hostname raw =
     (case cut (CHR ''#'') raw of (u, frag, _) \<Rightarrow>
        if list_ex is_ctl u \<or> \<not> valid_escapes frag then None
        else if u = ''*'' then Some []
        else case get_scheme_at u 0 u of
          None \<Rightarrow> None
        | Some (scheme, rest0) \<Rightarrow>
            (case cut (CHR ''?'') rest0 of (rest, _, _) \<Rightarrow>
               if take 1 rest \<noteq> ''/'' then
                 (if scheme \<noteq> [] then Some []
                  else if CHR '':'' \<in> set (fst (cut (CHR ''/'') rest)) then None
                  else if valid_escapes rest then Some [] else None)
               else if take 2 rest = ''//'' \<and> (scheme \<noteq> [] \<or> take 3 rest \<noteq> ''///'') then
                 (case cut (CHR ''/'') (drop 2 rest) of (authority, path, _) \<Rightarrow>
                    if valid_escapes path then parse_authority authority else None)
               else if valid_escapes rest then Some [] else None))"

section \<open>Round trips\<close>

lemma of_char_digit_char: "d < 10 \<Longrightarrow> (of_char (digit_char d) :: nat) = 48 + d"
  by (simp add: digit_char_def)

lemma is_digit_digit_char [simp]: "d < 10 \<Longrightarrow> is_digit (digit_char d)"
  by (simp add: is_digit_def of_char_digit_char)

lemma digit_val_digit_char [simp]: "d < 10 \<Longrightarrow> digit_val (digit_char d) = d"
  by (simp add: digit_val_def of_char_digit_char)

lemma nat_digits_not_Nil [simp]: "nat_digits n \<noteq> []"
  by (subst nat_digits.simps) simp

lemma nat_digits_is_digit: "list_all is_digit (nat_digits n)"
proof (induction n rule: nat_digits.induct)
  case (1 n)
  then show ?case by (subst nat_digits.simps) simp
qed

lemma parse_uint_loop_append:
  "parse_uint_loop mx k (xs @ ys) =
     (case parse_uint_loop mx k xs of (m, None) \<Rightarrow> parse_uint_loop mx m ys | r \<Rightarrow> r)"
  by (induction mx k xs rule: parse_uint_loop.induct) auto

lemma parse_uint_loop_digits: "n \<le> mx \<Longrightarrow> parse_uint_loop mx 0 (nat_digits n) = (n, None)"
proof (induction n rule: nat_digits.induct)
  case (1 n)
  show ?case
  proof (cases "n < 10")
    case True
    then show ?thesis using "1.prems" by (subst nat_digits.simps) simp
  next
    case False
    have "parse_uint_loop mx 0 (nat_digits (n div 10)) = (n div 10, None)"
      using "1.IH" False "1.prems" by simp
    moreover have "\<not> mx div 10 + 1 \<le> n div 10"
      using "1.prems" div_le_mono [of n mx 10] by simp
    moreover have "n div 10 * 10 + n mod 10 = n" by simp
    ultimately show ?thesis
      using False "1.prems" by (subst nat_digits.simps) (simp add: parse_uint_loop_append)
  qed
qed

lemma parse_uint_digits: "n \<le> mx \<Longrightarrow> parse_uint mx (nat_digits n) = (n, None)"
  by (simp add: parse_uint_def parse_uint_loop_digits)

lemma ParseUint64_FormatUint [simp]: "ParseUint64 (FormatUint x) = (x, None)"
proof -
  have "unat x < 2 ^ 64" using unsigned_less [of x, where ?'a = nat] by simp
  then have "unat x \<le> 2 ^ 64 - 1" by simp
  then show ?thesis by (simp add: ParseUint64_def FormatUint_def parse_uint_digits)
qed

lemma FormatUint_inj: "FormatUint x = FormatUint y \<longleftrightarrow> x = y"
  by (metis ParseUint64_FormatUint prod.inject)

lemma nat_digits_hd_digit: "is_digit (hd (nat_digits n))"
  using nat_digits_is_digit [of n] by (cases "nat_digits n") simp_all

lemma ParseInt32_nat_digits:
  assumes "n < 2 ^ 31"
  shows "ParseInt32 (nat_digits n) = (int n, None)"
proof -
  have "hd (nat_digits n) \<noteq> CHR ''-''" and "hd (nat_digits n) \<noteq> CHR ''+''"
    using nat_digits_hd_digit [of n] by (auto simp: is_digit_def)
  then show ?thesis using assms by (simp add: ParseInt32_def parse_uint_digits)
qed

section \<open>Splitting and host names of plain strings\<close>

text \<open>The characters of a Kubernetes object name.\<close>

definition dns_char :: "char \<Rightarrow> bool" where
  "dns_char c \<longleftrightarrow> is_digit c \<or> (97 \<le> (of_char c :: nat) \<and> (of_char c :: nat) \<le> 122) \<or> c = CHR ''-''"

lemma cut_notin: "c \<notin> set s \<Longrightarrow> cut c s = (s, [], False)"
  by (induction s) (auto simp: cut_def)

lemma cut_append: "c \<notin> set a \<Longrightarrow> cut c (a @ c # b) = (a, b, True)"
  by (induction a) (auto simp: cut_def)

lemma LastIndex_notin: "c \<notin> set s \<Longrightarrow> LastIndex s c = - 1"
  by (simp add: LastIndex_def)

lemma LastIndex_append: "c \<notin> set b \<Longrightarrow> LastIndex (a @ c # b) c = int (length a)"
proof -
  assume "c \<notin> set b"
  then have "takeWhile (\<lambda>x. x \<noteq> c) (rev b @ c # rev a) = rev b" by (subst takeWhile_append2) auto
  then show ?thesis by (simp add: LastIndex_def)
qed

lemma unescape_plain: "list_all (\<lambda>c. host_char c \<and> c \<noteq> CHR ''%'') s \<Longrightarrow> unescape_host s = Some s"
  by (induction s) auto

lemma dns_char_other:
  assumes "dns_char c"
  shows "c \<noteq> CHR ''#''" "c \<noteq> CHR ''?''" "c \<noteq> CHR ''/''" "c \<noteq> CHR ''@''" "c \<noteq> CHR ''[''" "c \<noteq> CHR '':''"
    "c \<noteq> CHR ''.''" "c \<noteq> CHR ''%''"
  using assms by (auto simp: dns_char_def is_digit_def)

lemma dns_char_host: "dns_char c \<Longrightarrow> host_char c"
  by (auto simp: dns_char_def host_char_def is_alpha_def Let_def)

lemma dns_char_no_ctl: "dns_char c \<Longrightarrow> \<not> is_ctl c"
  by (auto simp: dns_char_def is_digit_def is_ctl_def)

lemma dns_char_facts:
  assumes "list_all dns_char s"
  shows "CHR ''#'' \<notin> set s" "CHR ''?'' \<notin> set s" "CHR ''/'' \<notin> set s" "CHR ''@'' \<notin> set s"
    "CHR ''['' \<notin> set s" "CHR '':'' \<notin> set s" "CHR ''.'' \<notin> set s"
    "list_all (\<lambda>c. host_char c \<and> c \<noteq> CHR ''%'') s" "\<not> list_ex is_ctl s"
proof -
  have all: "dns_char c" if "c \<in> set s" for c using assms that by (simp add: list_all_iff)
  show "CHR ''#'' \<notin> set s" "CHR ''?'' \<notin> set s" "CHR ''/'' \<notin> set s" "CHR ''@'' \<notin> set s"
    "CHR ''['' \<notin> set s" "CHR '':'' \<notin> set s" "CHR ''.'' \<notin> set s"
    using dns_char_other all by metis+
  show "list_all (\<lambda>c. host_char c \<and> c \<noteq> CHR ''%'') s"
    using all dns_char_host dns_char_other(8) by (simp add: list_all_iff)
  show "\<not> list_ex is_ctl s" using all dns_char_no_ctl by (auto simp: list_ex_iff)
qed

lemma nat_digits_facts:
  "list_all dns_char (nat_digits n)" "CHR ''-'' \<notin> set (nat_digits n)"
proof -
  have "\<not> is_digit (CHR ''-'')" by (simp add: is_digit_def)
  then show "list_all dns_char (nat_digits n)" "CHR ''-'' \<notin> set (nat_digits n)"
    using nat_digits_is_digit [of n] by (auto simp: list_all_iff dns_char_def)
qed

text \<open>The host name of a URL with the scheme \<open>http\<close>, a plain host and a numeric port.\<close>

lemma url_hostname_plain:
  assumes h: "CHR ''#'' \<notin> set h" "CHR ''?'' \<notin> set h" "CHR ''/'' \<notin> set h" "CHR ''@'' \<notin> set h"
      "CHR ''['' \<notin> set h" "CHR '':'' \<notin> set h" "list_all (\<lambda>c. host_char c \<and> c \<noteq> CHR ''%'') h"
      "\<not> list_ex is_ctl h"
    and tail: "tail = [] \<or> tail = ''/''"
  shows "url_hostname (''http://'' @ h @ '':6335'' @ tail) = Some h"
proof -
  let ?auth = "h @ '':6335''"
  let ?u = "''http://'' @ ?auth @ tail"
  have frag: "cut (CHR ''#'') ?u = (?u, [], False)" using h(1) tail by (intro cut_notin) auto
  have ctl: "\<not> list_ex is_ctl ?u" using h(8) tail by (auto simp: is_ctl_def list_ex_append)
  have scheme: "get_scheme_at ?u 0 ?u = Some (''http'', ''//'' @ ?auth @ tail)"
    by (simp add: is_alpha_def is_digit_def Let_def)
  have query: "cut (CHR ''?'') (''//'' @ ?auth @ tail) = (''//'' @ ?auth @ tail, [], False)"
    using h(2) tail by (intro cut_notin) auto
  have path: "cut (CHR ''/'') (?auth @ tail) = (?auth, [], tail \<noteq> [])"
    using h(3) tail cut_notin [of "CHR ''/''" ?auth] cut_append [of "CHR ''/''" ?auth "[]"] by auto
  have host: "parse_host ?auth = Some h"
  proof -
    have "list_all (\<lambda>c. host_char c \<and> c \<noteq> CHR ''%'') ?auth"
      using h(7) by (simp add: host_char_def is_digit_def)
    then have "unescape_host ?auth = Some ?auth" by (rule unescape_plain)
    moreover have "cut (CHR '':'') ?auth = (h, ''6335'', True)" using cut_append [OF h(6), of "''6335''"] by simp
    ultimately show ?thesis using h(5) by (simp add: parse_host_def is_digit_def)
  qed
  have "parse_authority ?auth = Some h"
    using h(4) host by (simp add: parse_authority_def LastIndex_notin)
  then show ?thesis
    unfolding url_hostname_def using frag ctl scheme query path by (simp add: valid_escapes.simps)
qed

end
