(* ===== verification/Api_Types.thy ===== *)
theory Api_Types
  imports Go_Strings
begin

text \<open>
  The custom resources of \<open>api/v1alpha1\<close>: one record per struct, one field per field, with a prefix
  per struct because Isabelle's field names are global. Pointers are options, slices are lists,
  string enumerations are datatypes whose last constructor carries any other value where the Go type
  is an open string. Values of Kubernetes library types that the operator only passes through are
  \<open>k8s_value\<close>. \<open>metav1.Condition\<close> is the record \<open>Condition\<close>.

  A human-readable message is its format (named by a key) and the arguments the source formats into
  it, \<open>Msg key args\<close>; the text of an error is \<open>Text\<close>.
\<close>

datatype k8s_value = K8sValue string

datatype fmt_arg = ArgS string | ArgN int

datatype message = Msg string "fmt_arg list" | Text string

datatype ConditionStatus = ConditionTrue | ConditionFalse | ConditionUnknown

record Condition =
  cond_Type :: string
  cond_Status :: ConditionStatus
  cond_ObservedGeneration :: int
  cond_LastTransitionTime :: time
  cond_Reason :: string
  cond_Message :: message

section \<open>QdrantCluster\<close>

record ImageSpec =
  img_Repository :: string
  img_Tag :: string

datatype RetentionPolicy = RetentionRetain | RetentionDelete | RetentionOther string

record PersistenceSpec =
  pers_Size :: "k8s_value option"
  pers_StorageClassName :: string
  pers_AccessModes :: "string list"
  pers_RetentionPolicy :: RetentionPolicy

record TLSSpec =
  tls_SecretName :: string
  tls_CertKey :: string
  tls_KeyKey :: string
  tls_CACertKey :: string
  tls_CertTTLSeconds :: int

record ConfigSpec =
  cfg_ClusterEnabled :: bool
  cfg_TLSEnabled :: bool
  cfg_TLS :: "TLSSpec option"
  cfg_RawOverride :: "k8s_value option"

record SecretKeyRef =
  skr_Name :: string
  skr_Key :: string

datatype SnapshotStorage = SnapshotStorageLocal | SnapshotStorageS3 | SnapshotStorageOther string

record S3CredentialsRef =
  s3c_Name :: string
  s3c_AccessKeyKey :: string
  s3c_SecretKeyKey :: string

record S3StorageSpec =
  s3_Bucket :: string
  s3_Region :: string
  s3_EndpointURL :: string
  s3_Credentials :: S3CredentialsRef

record SnapshotsSpec =
  snap_Storage :: SnapshotStorage
  snap_S3 :: "S3StorageSpec option"

record RebalanceSpec =
  reb_Enabled :: "bool option"

text \<open>
  \<open>corev1.ResourceRequirements\<close>: a nil map is \<open>None\<close>. \<open>corev1.Affinity\<close>: the operator passes a value of the
  user through and builds one kind of value itself, a preferred anti-affinity with its weight, its
  label selector and its topology key.
\<close>

record ResourceRequirements =
  rr_Limits :: "(string \<times> k8s_value) list option"
  rr_Requests :: "(string \<times> k8s_value) list option"

datatype Affinity =
    AffinityValue k8s_value
  | PreferredPodAntiAffinity int "(string \<times> string) list" string

record QdrantClusterSpec =
  spec_Image :: ImageSpec
  spec_Replicas :: int
  spec_Resources :: ResourceRequirements
  spec_Persistence :: PersistenceSpec
  spec_Config :: ConfigSpec
  spec_ServiceType :: string
  spec_ServiceAnnotations :: "(string \<times> string) list"
  spec_APIKey :: "SecretKeyRef option"
  spec_ReadOnlyAPIKey :: "SecretKeyRef option"
  spec_RunAsUser :: int
  spec_FSGroup :: int
  spec_Rebalance :: "RebalanceSpec option"
  spec_Snapshots :: "SnapshotsSpec option"
  spec_NodeSelector :: "(string \<times> string) list"
  spec_Tolerations :: "k8s_value list"
  spec_Affinity :: "Affinity option"

record MoveStatus =
  am_Kind :: string
  am_Collection :: string
  am_ShardID :: int
  am_FromPeer :: string
  am_ToPeer :: string
  am_Drop :: bool
  am_IssuedAt :: "time option"

record DrainStatus =
  ds_TargetReplicas :: int
  ds_CurrentReplicas :: int
  ds_Peers :: "string list"
  ds_PendingMoves :: "string list"
  ds_Message :: message
  ds_StartedAt :: time

record PeerShards =
  ps_Peer :: string
  ps_Shards :: int

record CollectionDistribution =
  cd_Collection :: string
  cd_PerPeer :: "PeerShards list"
  cd_TransfersInFlight :: int

record QdrantClusterStatus =
  st_Phase :: string
  st_Replicas :: int
  st_ReadyReplicas :: int
  st_Peers :: "string list"
  st_ObservedGeneration :: int
  st_ShardDistribution :: "CollectionDistribution list"
  st_PlannedMoves :: "string list"
  st_ActiveMove :: "MoveStatus option"
  st_MoveBackoff :: int
  st_DrainStatus :: "DrainStatus option"
  st_Selector :: string
  st_Conditions :: "Condition list"

record QdrantCluster =
  qc_Name :: string
  qc_Namespace :: string
  qc_Generation :: int
  qc_Spec :: QdrantClusterSpec
  qc_Status :: QdrantClusterStatus

section \<open>QdrantCollection\<close>

record VectorsSpec =
  vec_Size :: u64
  vec_Distance :: string

datatype CollectionDeletePolicy = CollectionRetain | CollectionDelete | CollectionPolicyOther string

datatype ReshardPolicy = ReshardManual | ReshardAuto | ReshardPolicyOther string

record QdrantCollectionSpec =
  cs_ClusterRef :: string
  cs_CollectionName :: string
  cs_Vectors :: VectorsSpec
  cs_ShardNumber :: "u32 option"
  cs_ReplicationFactor :: u32
  cs_OnDelete :: CollectionDeletePolicy
  cs_Alias :: string
  cs_Reshard :: ReshardPolicy

record ReshardStatus =
  rsh_Phase :: string
  rsh_SourceCollection :: string
  rsh_ShadowCollection :: string
  rsh_TargetShardNumber :: u32
  rsh_CopiedPoints :: u64
  rsh_TotalPoints :: u64
  rsh_Cursor :: string
  rsh_StartedAt :: "time option"
  rsh_Attempts :: int

record QdrantCollectionStatus =
  cst_Phase :: string
  cst_Adopted :: bool
  cst_PointsCount :: u64
  cst_ObservedGeneration :: int
  cst_ActiveCollection :: string
  cst_Reshard :: "ReshardStatus option"
  cst_Conditions :: "Condition list"

record QdrantCollection =
  col_Name :: string
  col_Namespace :: string
  col_Generation :: int
  col_DeletionTimestamp :: "time option"
  col_Finalizers :: "string list"
  col_Spec :: QdrantCollectionSpec
  col_Status :: QdrantCollectionStatus

definition TargetCollectionName :: "QdrantCollection \<Rightarrow> string" where
  "TargetCollectionName c =
     (if cs_CollectionName (col_Spec c) \<noteq> [] then cs_CollectionName (col_Spec c) else col_Name c)"

section \<open>QdrantBackup\<close>

record RetentionSpec =
  ret_KeepLast :: int

record QdrantBackupSpec =
  bks_ClusterRef :: string
  bks_Collections :: "string list"
  bks_Schedule :: string
  bks_Retention :: "RetentionSpec option"
  bks_Suspend :: bool

record SnapshotRef =
  sr_Collection :: string
  sr_Peer :: int
  sr_Name :: string
  sr_CreatedAt :: string

record PendingSnapshot =
  pend_Collection :: string
  pend_Peer :: int
  pend_IssuedAt :: "time option"
  pend_Known :: "string list"

record QdrantBackupStatus =
  bst_Phase :: string
  bst_ObservedGeneration :: int
  bst_Active :: "PendingSnapshot option"
  bst_Pending :: "PendingSnapshot list"
  bst_Snapshots :: "SnapshotRef list"
  bst_LastSuccessTime :: "time option"
  bst_NextScheduleTime :: "time option"
  bst_Conditions :: "Condition list"

record QdrantBackup =
  bk_Name :: string
  bk_Namespace :: string
  bk_Generation :: int
  bk_Spec :: QdrantBackupSpec
  bk_Status :: QdrantBackupStatus

section \<open>QdrantRestore\<close>

record RestoreSource =
  src_Peer :: int
  src_Location :: string

record QdrantRestoreSpec =
  rss_ClusterRef :: string
  rss_Collection :: string
  rss_FromBackup :: string
  rss_Sources :: "RestoreSource list"
  rss_Priority :: string

record QdrantRestoreStatus =
  rst_Phase :: string
  rst_ObservedGeneration :: int
  rst_Pending :: "RestoreSource list"
  rst_Restored :: "RestoreSource list"
  rst_CompletionTime :: "time option"
  rst_Conditions :: "Condition list"

record QdrantRestore =
  res_Name :: string
  res_Namespace :: string
  res_Generation :: int
  res_Spec :: QdrantRestoreSpec
  res_Status :: QdrantRestoreStatus

section \<open>Status conditions\<close>

text \<open>
  \<open>k8s.io/apimachinery/pkg/api/meta\<close> keeps the condition list. The functions are not part of the
  repository, so they are a parameter of every definition that sets a condition, and
  \<open>conditions_ok\<close> is the documented behaviour the controllers rely on: what was set for a type is
  what is found for it (up to the transition time the library fills in), and the other types are
  untouched.
\<close>

record meta_lib =
  SetStatusCondition :: "Condition list \<Rightarrow> Condition \<Rightarrow> Condition list"
  FindStatusCondition :: "Condition list \<Rightarrow> string \<Rightarrow> Condition option"

definition same_condition :: "Condition \<Rightarrow> Condition \<Rightarrow> bool" where
  "same_condition a b \<longleftrightarrow> a\<lparr>cond_LastTransitionTime := 0\<rparr> = b\<lparr>cond_LastTransitionTime := 0\<rparr>"

definition conditions_ok :: "meta_lib \<Rightarrow> bool" where
  "conditions_ok M \<longleftrightarrow>
     (\<forall>cs c t. t \<noteq> cond_Type c \<longrightarrow>
        FindStatusCondition M (SetStatusCondition M cs c) t = FindStatusCondition M cs t) \<and>
     (\<forall>cs c. \<exists>c'. FindStatusCondition M (SetStatusCondition M cs c) (cond_Type c) = Some c' \<and>
        same_condition c' c)"

text \<open>\<open>meta.IsStatusConditionTrue\<close>, by its documentation.\<close>

definition IsStatusConditionTrue :: "meta_lib \<Rightarrow> Condition list \<Rightarrow> string \<Rightarrow> bool" where
  "IsStatusConditionTrue M cs t \<longleftrightarrow>
     (case FindStatusCondition M cs t of None \<Rightarrow> False | Some c \<Rightarrow> cond_Status c = ConditionTrue)"

definition mk_cond :: "string \<Rightarrow> ConditionStatus \<Rightarrow> string \<Rightarrow> message \<Rightarrow> int \<Rightarrow> Condition" where
  "mk_cond t st reason msg gen = \<lparr>cond_Type = t, cond_Status = st, cond_ObservedGeneration = gen,
     cond_LastTransitionTime = 0, cond_Reason = reason, cond_Message = msg\<rparr>"

lemma mk_cond_sel [simp]:
  "cond_Type (mk_cond t st r m g) = t" "cond_Status (mk_cond t st r m g) = st"
  "cond_Reason (mk_cond t st r m g) = r" "cond_Message (mk_cond t st r m g) = m"
  "cond_ObservedGeneration (mk_cond t st r m g) = g"
  by (simp_all add: mk_cond_def)

lemma same_condition_sel:
  assumes "same_condition a b"
  shows "cond_Type a = cond_Type b" "cond_Status a = cond_Status b" "cond_Reason a = cond_Reason b"
    "cond_Message a = cond_Message b" "cond_ObservedGeneration a = cond_ObservedGeneration b"
  using assms by (cases a; cases b; simp add: same_condition_def)+

lemma find_set_condition:
  assumes "conditions_ok M"
  obtains c' where "FindStatusCondition M (SetStatusCondition M cs (mk_cond t st r m g)) t = Some c'"
    and "cond_Status c' = st" and "cond_Reason c' = r" and "cond_Message c' = m"
    and "cond_ObservedGeneration c' = g" and "cond_Type c' = t"
proof -
  obtain c' where "FindStatusCondition M (SetStatusCondition M cs (mk_cond t st r m g)) t = Some c'"
      and "same_condition c' (mk_cond t st r m g)"
    using assms unfolding conditions_ok_def by (metis mk_cond_sel(1))
  then show thesis using that same_condition_sel by (metis mk_cond_sel)
qed

lemma find_set_other:
  "conditions_ok M \<Longrightarrow> t' \<noteq> t \<Longrightarrow>
   FindStatusCondition M (SetStatusCondition M cs (mk_cond t st r m g)) t' = FindStatusCondition M cs t'"
  unfolding conditions_ok_def by (metis mk_cond_sel(1))

text \<open>An instance, used where a witness needs concrete conditions: replace in place, else append.\<close>

fun set_cond_list :: "Condition list \<Rightarrow> Condition \<Rightarrow> Condition list" where
  "set_cond_list [] c = [c]"
| "set_cond_list (d # ds) c = (if cond_Type d = cond_Type c then c # ds else d # set_cond_list ds c)"

definition find_cond_list :: "Condition list \<Rightarrow> string \<Rightarrow> Condition option" where
  "find_cond_list cs t = List.find (\<lambda>c. cond_Type c = t) cs"

definition list_meta :: meta_lib where
  "list_meta = \<lparr>SetStatusCondition = set_cond_list, FindStatusCondition = find_cond_list\<rparr>"

lemma find_set_cond_list:
  "find_cond_list (set_cond_list cs c) t = (if t = cond_Type c then Some c else find_cond_list cs t)"
  by (induction cs) (auto simp: find_cond_list_def)

lemma list_meta_ok: "conditions_ok list_meta"
  by (auto simp: conditions_ok_def list_meta_def find_set_cond_list same_condition_def)

end
