(* ===== verification/Qdrant_Client.thy ===== *)
theory Qdrant_Client
  imports Api_Types
begin

text \<open>
  The boundary between the controllers and the outside: the data Qdrant reports
  (\<open>internal/qdrant/client.go\<close>, \<open>cluster.go\<close>, \<open>snapshot.go\<close>), the Go interface \<open>Client\<close> as a record
  of functions on a world of any type, the Kubernetes calls the controllers make, and the effects
  that record all of them. Each interface method has a wrapper that runs it and appends its effect,
  so that a statement about the trace is a statement about what the operator really issued.
\<close>

section \<open>Data\<close>

record CollectionSpec =
  csp_VectorSize :: u64
  csp_Distance :: string
  csp_ShardNumber :: u32
  csp_ReplicationFactor :: u32

record CollectionInfo =
  ci_Exists :: bool
  ci_PointsCount :: u64
  ci_VectorSize :: u64
  ci_Distance :: string
  ci_ShardNumber :: u32
  ci_ReplicationFactor :: u32

record Peer =
  peer_ID :: u64
  peer_URI :: string

record ClusterInfo =
  clu_Enabled :: bool
  clu_PeerID :: u64
  clu_Peers :: "Peer list"
  clu_RaftLeader :: u64
  clu_PendingOperations :: int

record ShardInfo =
  sh_ShardID :: u32
  sh_PeerID :: u64
  sh_State :: string
  sh_PointsCount :: u64

record TransferInfo =
  tr_ShardID :: u32
  tr_From :: u64
  tr_To :: u64
  tr_Method :: string

record CollectionClusterInfo =
  cc_PeerID :: u64
  cc_ShardCount :: int
  cc_Shards :: "ShardInfo list"
  cc_Transfers :: "TransferInfo list"

record CreateAlias =
  ca_AliasName :: string
  ca_CollectionName :: string

record DeleteAlias =
  da_AliasName :: string

record AliasAction =
  aa_CreateAlias :: "CreateAlias option"
  aa_DeleteAlias :: "DeleteAlias option"

record SnapshotInfo =
  sn_Name :: string
  sn_CreationTime :: string
  sn_Size :: u64

text \<open>A point or a scroll offset is a \<open>json.RawMessage\<close>, carried through unread.\<close>

type_synonym raw = string

section \<open>The client interface\<close>

record 'w Client =
  GetCollection :: "string \<Rightarrow> 'w \<Rightarrow> (err + CollectionInfo) \<times> 'w"
  CreateCollection :: "string \<Rightarrow> CollectionSpec \<Rightarrow> 'w \<Rightarrow> err option \<times> 'w"
  DeleteCollection :: "string \<Rightarrow> 'w \<Rightarrow> err option \<times> 'w"
  ListCollections :: "'w \<Rightarrow> (err + string list) \<times> 'w"
  GetClusterInfo :: "'w \<Rightarrow> (err + ClusterInfo) \<times> 'w"
  CollectionCluster :: "string \<Rightarrow> 'w \<Rightarrow> (err + CollectionClusterInfo) \<times> 'w"
  MoveShard :: "string \<Rightarrow> u32 \<Rightarrow> u64 \<Rightarrow> u64 \<Rightarrow> 'w \<Rightarrow> err option \<times> 'w"
  ReplicateShard :: "string \<Rightarrow> u32 \<Rightarrow> u64 \<Rightarrow> u64 \<Rightarrow> 'w \<Rightarrow> err option \<times> 'w"
  DropReplica :: "string \<Rightarrow> u32 \<Rightarrow> u64 \<Rightarrow> 'w \<Rightarrow> err option \<times> 'w"
  RemovePeer :: "u64 \<Rightarrow> bool \<Rightarrow> 'w \<Rightarrow> err option \<times> 'w"
  UpdateAliases :: "AliasAction list \<Rightarrow> 'w \<Rightarrow> err option \<times> 'w"
  ListAliases :: "'w \<Rightarrow> (err + (string \<rightharpoonup> string)) \<times> 'w"
  ScrollPoints :: "string \<Rightarrow> raw option \<Rightarrow> int \<Rightarrow> 'w \<Rightarrow> (err + raw list \<times> raw option) \<times> 'w"
  UpsertPoints :: "string \<Rightarrow> raw list \<Rightarrow> 'w \<Rightarrow> err option \<times> 'w"
  CreateSnapshot :: "string \<Rightarrow> 'w \<Rightarrow> err option \<times> 'w"
  ListSnapshots :: "string \<Rightarrow> 'w \<Rightarrow> (err + SnapshotInfo list) \<times> 'w"
  DeleteSnapshot :: "string \<Rightarrow> string \<Rightarrow> 'w \<Rightarrow> err option \<times> 'w"
  RecoverSnapshot :: "string \<Rightarrow> string \<Rightarrow> string \<Rightarrow> 'w \<Rightarrow> err option \<times> 'w"

section \<open>Effects\<close>

datatype qcall =
    QGetCollection string
  | QCreateCollection string CollectionSpec
  | QDeleteCollection string
  | QListCollections
  | QClusterInfo
  | QCollectionCluster string
  | QMoveShard string u32 u64 u64
  | QReplicateShard string u32 u64 u64
  | QDropReplica string u32 u64
  | QRemovePeer u64 bool
  | QUpdateAliases "AliasAction list"
  | QListAliases
  | QScrollPoints string "raw option" int
  | QUpsertPoints string "raw list"
  | QCreateSnapshot string
  | QListSnapshots string
  | QDeleteSnapshot string string
  | QRecoverSnapshot string string string

datatype kcall =
    KGet string string string
  | KList string string
  | KCreate string string
  | KUpdate string string
  | KDelete string string
  | KScaleStatefulSet string int
  | KStatusCluster QdrantClusterStatus
  | KStatusCollection QdrantCollectionStatus
  | KStatusBackup QdrantBackupStatus
  | KStatusRestore QdrantRestoreStatus

text \<open>
  \<open>Qdrant target call ok\<close>: \<open>target\<close> is the ordinal of the peer the call went to, \<open>None\<close> for the
  client Service; \<open>ok\<close> is whether it returned no error. \<open>Event warning reason note\<close> is an event of
  the recorder, \<open>Metric\<close> an increment or a set of a Prometheus vector, \<open>Forget\<close> the deletion of its series.
\<close>

datatype effect =
    Qdrant "int option" qcall bool
  | Kube kcall bool
  | Event bool string message
  | Metric string "string list" int
  | Forget string "string list"

type_synonym ('w, 'a) io = "(('w, effect) sys, 'a) state"

text \<open>The shard operations of the executor, and the calls that only read.\<close>

fun is_shard_op :: "effect \<Rightarrow> bool" where
  "is_shard_op (Qdrant _ (QMoveShard _ _ _ _) _) = True"
| "is_shard_op (Qdrant _ (QReplicateShard _ _ _ _) _) = True"
| "is_shard_op (Qdrant _ (QDropReplica _ _ _) _) = True"
| "is_shard_op _ = False"

fun is_read_call :: "qcall \<Rightarrow> bool" where
  "is_read_call (QGetCollection _) = True"
| "is_read_call QListCollections = True"
| "is_read_call QClusterInfo = True"
| "is_read_call (QCollectionCluster _) = True"
| "is_read_call QListAliases = True"
| "is_read_call (QScrollPoints _ _ _) = True"
| "is_read_call (QListSnapshots _) = True"
| "is_read_call _ = False"

fun is_read :: "effect \<Rightarrow> bool" where
  "is_read (Qdrant _ c _) = is_read_call c"
| "is_read (Kube (KGet _ _ _) _) = True"
| "is_read (Kube (KList _ _) _) = True"
| "is_read _ = False"

fun is_scale :: "effect \<Rightarrow> bool" where
  "is_scale (Kube (KScaleStatefulSet _ _) _) = True"
| "is_scale _ = False"

section \<open>Logged calls\<close>

abbreviation ok_sum :: "err + 'a \<Rightarrow> bool" where
  "ok_sum r \<equiv> (case r of Inl _ \<Rightarrow> False | Inr _ \<Rightarrow> True)"

definition q_GetCollection :: "int option \<Rightarrow> 'w Client \<Rightarrow> string \<Rightarrow> ('w, err + CollectionInfo) io" where
  "q_GetCollection t cl n = perform (\<lambda>r. Qdrant t (QGetCollection n) (ok_sum r)) (GetCollection cl n)"

definition q_CreateCollection :: "int option \<Rightarrow> 'w Client \<Rightarrow> string \<Rightarrow> CollectionSpec \<Rightarrow> ('w, err option) io" where
  "q_CreateCollection t cl n sp =
     perform (\<lambda>r. Qdrant t (QCreateCollection n sp) (r = None)) (CreateCollection cl n sp)"

definition q_DeleteCollection :: "int option \<Rightarrow> 'w Client \<Rightarrow> string \<Rightarrow> ('w, err option) io" where
  "q_DeleteCollection t cl n = perform (\<lambda>r. Qdrant t (QDeleteCollection n) (r = None)) (DeleteCollection cl n)"

definition q_ListCollections :: "int option \<Rightarrow> 'w Client \<Rightarrow> ('w, err + string list) io" where
  "q_ListCollections t cl = perform (\<lambda>r. Qdrant t QListCollections (ok_sum r)) (ListCollections cl)"

definition q_ClusterInfo :: "int option \<Rightarrow> 'w Client \<Rightarrow> ('w, err + ClusterInfo) io" where
  "q_ClusterInfo t cl = perform (\<lambda>r. Qdrant t QClusterInfo (ok_sum r)) (GetClusterInfo cl)"

definition q_CollectionCluster :: "int option \<Rightarrow> 'w Client \<Rightarrow> string \<Rightarrow> ('w, err + CollectionClusterInfo) io" where
  "q_CollectionCluster t cl n =
     perform (\<lambda>r. Qdrant t (QCollectionCluster n) (ok_sum r)) (CollectionCluster cl n)"

definition q_MoveShard :: "int option \<Rightarrow> 'w Client \<Rightarrow> string \<Rightarrow> u32 \<Rightarrow> u64 \<Rightarrow> u64 \<Rightarrow> ('w, err option) io" where
  "q_MoveShard t cl c s from to =
     perform (\<lambda>r. Qdrant t (QMoveShard c s from to) (r = None)) (MoveShard cl c s from to)"

definition q_ReplicateShard :: "int option \<Rightarrow> 'w Client \<Rightarrow> string \<Rightarrow> u32 \<Rightarrow> u64 \<Rightarrow> u64 \<Rightarrow> ('w, err option) io" where
  "q_ReplicateShard t cl c s from to =
     perform (\<lambda>r. Qdrant t (QReplicateShard c s from to) (r = None)) (ReplicateShard cl c s from to)"

definition q_DropReplica :: "int option \<Rightarrow> 'w Client \<Rightarrow> string \<Rightarrow> u32 \<Rightarrow> u64 \<Rightarrow> ('w, err option) io" where
  "q_DropReplica t cl c s p = perform (\<lambda>r. Qdrant t (QDropReplica c s p) (r = None)) (DropReplica cl c s p)"

definition q_RemovePeer :: "int option \<Rightarrow> 'w Client \<Rightarrow> u64 \<Rightarrow> bool \<Rightarrow> ('w, err option) io" where
  "q_RemovePeer t cl p force = perform (\<lambda>r. Qdrant t (QRemovePeer p force) (r = None)) (RemovePeer cl p force)"

definition q_UpdateAliases :: "int option \<Rightarrow> 'w Client \<Rightarrow> AliasAction list \<Rightarrow> ('w, err option) io" where
  "q_UpdateAliases t cl as = perform (\<lambda>r. Qdrant t (QUpdateAliases as) (r = None)) (UpdateAliases cl as)"

definition q_ListAliases :: "int option \<Rightarrow> 'w Client \<Rightarrow> ('w, err + (string \<rightharpoonup> string)) io" where
  "q_ListAliases t cl = perform (\<lambda>r. Qdrant t QListAliases (ok_sum r)) (ListAliases cl)"

definition q_ScrollPoints :: "int option \<Rightarrow> 'w Client \<Rightarrow> string \<Rightarrow> raw option \<Rightarrow> int \<Rightarrow> ('w, err + raw list \<times> raw option) io" where
  "q_ScrollPoints t cl c off lim =
     perform (\<lambda>r. Qdrant t (QScrollPoints c off lim) (ok_sum r)) (ScrollPoints cl c off lim)"

definition q_UpsertPoints :: "int option \<Rightarrow> 'w Client \<Rightarrow> string \<Rightarrow> raw list \<Rightarrow> ('w, err option) io" where
  "q_UpsertPoints t cl c ps = perform (\<lambda>r. Qdrant t (QUpsertPoints c ps) (r = None)) (UpsertPoints cl c ps)"

definition q_CreateSnapshot :: "int option \<Rightarrow> 'w Client \<Rightarrow> string \<Rightarrow> ('w, err option) io" where
  "q_CreateSnapshot t cl c = perform (\<lambda>r. Qdrant t (QCreateSnapshot c) (r = None)) (CreateSnapshot cl c)"

definition q_ListSnapshots :: "int option \<Rightarrow> 'w Client \<Rightarrow> string \<Rightarrow> ('w, err + SnapshotInfo list) io" where
  "q_ListSnapshots t cl c = perform (\<lambda>r. Qdrant t (QListSnapshots c) (ok_sum r)) (ListSnapshots cl c)"

definition q_DeleteSnapshot :: "int option \<Rightarrow> 'w Client \<Rightarrow> string \<Rightarrow> string \<Rightarrow> ('w, err option) io" where
  "q_DeleteSnapshot t cl c n = perform (\<lambda>r. Qdrant t (QDeleteSnapshot c n) (r = None)) (DeleteSnapshot cl c n)"

definition q_RecoverSnapshot :: "int option \<Rightarrow> 'w Client \<Rightarrow> string \<Rightarrow> string \<Rightarrow> string \<Rightarrow> ('w, err option) io" where
  "q_RecoverSnapshot t cl c loc prio =
     perform (\<lambda>r. Qdrant t (QRecoverSnapshot c loc prio) (r = None)) (RecoverSnapshot cl c loc prio)"

lemmas q_defs =
  q_GetCollection_def q_CreateCollection_def q_DeleteCollection_def q_ListCollections_def
  q_ClusterInfo_def q_CollectionCluster_def q_MoveShard_def q_ReplicateShard_def q_DropReplica_def
  q_RemovePeer_def q_UpdateAliases_def q_ListAliases_def q_ScrollPoints_def q_UpsertPoints_def
  q_CreateSnapshot_def q_ListSnapshots_def q_DeleteSnapshot_def q_RecoverSnapshot_def

text \<open>Events and metrics, as \<open>keiailab-commons/pkg/events\<close> and the Prometheus vectors receive them.\<close>

definition Emit :: "string \<Rightarrow> message \<Rightarrow> ('w, unit) io" where
  "Emit reason note = emit (Event False reason note)"

definition EmitWarning :: "string \<Rightarrow> message \<Rightarrow> ('w, unit) io" where
  "EmitWarning reason note = emit (Event True reason note)"

lemmas event_defs = Emit_def EmitWarning_def

text \<open>\<open>ctrl.Result\<close>: only the requeue delay is used; 0 means none.\<close>

record Result =
  RequeueAfter :: duration

text \<open>\<open>requeueOrNothing\<close> of \<open>rebalance.go\<close>, shared by all controllers.\<close>

definition requeueOrNothing :: "duration \<Rightarrow> Result" where
  "requeueOrNothing d = (if 0 < d then \<lparr>RequeueAfter = d\<rparr> else \<lparr>RequeueAfter = 0\<rparr>)"

end
