(* ===== verification/Kube_Objects.thy ===== *)
theory Kube_Objects
  imports Api_Types
begin

text \<open>
  The Kubernetes objects the cluster controller owns, with the fields of the library types that
  \<open>internal/resources\<close> sets and the controllers read; a field that no code of the repository sets or
  reads is left out. A \<open>map[string]string\<close> is the list of its pairs, pointers are options.
\<close>

section \<open>Metadata\<close>

record ObjectMeta =
  om_Name :: string
  om_Namespace :: string
  om_Labels :: "(string \<times> string) list"
  om_Annotations :: "(string \<times> string) list"
  om_ResourceVersion :: string
  om_Controller :: "string option"

definition plainMeta :: "string \<Rightarrow> string \<Rightarrow> (string \<times> string) list \<Rightarrow> ObjectMeta" where
  "plainMeta name ns labels = \<lparr>om_Name = name, om_Namespace = ns, om_Labels = labels, om_Annotations = [],
     om_ResourceVersion = [], om_Controller = None\<rparr>"

lemma plainMeta_sel [simp]:
  "om_Name (plainMeta n ns ls) = n" "om_Namespace (plainMeta n ns ls) = ns" "om_Labels (plainMeta n ns ls) = ls"
  "om_Annotations (plainMeta n ns ls) = []" "om_ResourceVersion (plainMeta n ns ls) = []"
  "om_Controller (plainMeta n ns ls) = None"
  by (simp_all add: plainMeta_def)

section \<open>Small objects\<close>

record ServiceAccount =
  sa_Meta :: ObjectMeta

record ConfigMap =
  cm_Meta :: ObjectMeta
  cm_Data :: "(string \<times> string) list"

record ServicePort =
  sp_Name :: string
  sp_Port :: int
  sp_Protocol :: string
  sp_TargetPort :: int

record Service =
  svc_Meta :: ObjectMeta
  svc_Type :: string
  svc_ClusterIP :: string
  svc_PublishNotReadyAddresses :: bool
  svc_Selector :: "(string \<times> string) list"
  svc_Ports :: "ServicePort list"

record PodDisruptionBudget =
  pdb_Meta :: ObjectMeta
  pdb_MinAvailable :: "int option"
  pdb_Selector :: "(string \<times> string) list"

section \<open>Pods\<close>

text \<open>An environment variable has a literal value, or names a secret and a key in it.\<close>

datatype EnvSource = EnvValue string | EnvSecret string string

record EnvVar =
  env_Name :: string
  env_Source :: EnvSource

record VolumeMount =
  vm_Name :: string
  vm_MountPath :: string
  vm_SubPath :: string
  vm_ReadOnly :: bool

datatype VolumeSource =
    VolConfigMap string int
  | VolEmptyDir
  | VolSecret string "(string \<times> string) list"

record Volume =
  vol_Name :: string
  vol_Source :: VolumeSource

record ContainerPort =
  cp_Name :: string
  cp_ContainerPort :: int
  cp_Protocol :: string

record Probe =
  probe_Path :: string
  probe_Port :: int
  probe_Scheme :: string
  probe_InitialDelaySeconds :: int
  probe_PeriodSeconds :: int
  probe_FailureThreshold :: int
  probe_SuccessThreshold :: int
  probe_TimeoutSeconds :: int

record SecurityContext =
  sec_RunAsUser :: int
  sec_RunAsGroup :: int
  sec_RunAsNonRoot :: bool
  sec_AllowPrivilegeEscalation :: bool
  sec_Privileged :: bool
  sec_ReadOnlyRootFilesystem :: bool
  sec_DropCapabilities :: "string list"
  sec_SeccompProfile :: string

record Container =
  ct_Name :: string
  ct_Image :: string
  ct_ImagePullPolicy :: string
  ct_Command :: "string list"
  ct_Args :: "string list"
  ct_Env :: "EnvVar list"
  ct_Resources :: ResourceRequirements
  ct_Ports :: "ContainerPort list"
  ct_ReadinessProbe :: Probe
  ct_PreStop :: "string list"
  ct_SecurityContext :: SecurityContext
  ct_VolumeMounts :: "VolumeMount list"

record PodSpec =
  pod_ServiceAccountName :: string
  pod_FSGroup :: int
  pod_FSGroupChangePolicy :: string
  pod_SeccompProfile :: string
  pod_NodeSelector :: "(string \<times> string) list"
  pod_Tolerations :: "k8s_value list"
  pod_Affinity :: "Affinity option"
  pod_Containers :: "Container list"
  pod_Volumes :: "Volume list"

record PodTemplate =
  pt_Labels :: "(string \<times> string) list"
  pt_Annotations :: "(string \<times> string) list"
  pt_Spec :: PodSpec

section \<open>StatefulSet\<close>

record PersistentVolumeClaim =
  pvc_Name :: string
  pvc_AccessModes :: "string list"
  pvc_StorageClassName :: string
  pvc_Requests :: "(string \<times> k8s_value) list"

record StatefulSet =
  sts_Meta :: ObjectMeta
  sts_Replicas :: "int option"
  sts_ServiceName :: string
  sts_PodManagementPolicy :: string
  sts_PVCRetention :: "(string \<times> string) option"
  sts_UpdateType :: string
  sts_RollingUpdate :: "int option option"
  sts_Selector :: "(string \<times> string) list"
  sts_Template :: PodTemplate
  sts_VolumeClaimTemplates :: "PersistentVolumeClaim list"
  sts_StatusReplicas :: int
  sts_ReadyReplicas :: int
  sts_UpdatedReplicas :: int
  sts_CurrentRevision :: string
  sts_UpdateRevision :: string

abbreviation sts_Name :: "StatefulSet \<Rightarrow> string" where "sts_Name s \<equiv> om_Name (sts_Meta s)"
abbreviation sts_Namespace :: "StatefulSet \<Rightarrow> string" where "sts_Namespace s \<equiv> om_Namespace (sts_Meta s)"

text \<open>\<open>&appsv1.StatefulSet{}\<close>: the zero value.\<close>

definition blankSts :: StatefulSet where
  "blankSts = \<lparr>sts_Meta = plainMeta [] [] [], sts_Replicas = None, sts_ServiceName = [], sts_PodManagementPolicy = [],
     sts_PVCRetention = None, sts_UpdateType = [], sts_RollingUpdate = None, sts_Selector = [],
     sts_Template = \<lparr>pt_Labels = [], pt_Annotations = [], pt_Spec = \<lparr>pod_ServiceAccountName = [], pod_FSGroup = 0,
       pod_FSGroupChangePolicy = [], pod_SeccompProfile = [], pod_NodeSelector = [], pod_Tolerations = [],
       pod_Affinity = None, pod_Containers = [], pod_Volumes = []\<rparr>\<rparr>,
     sts_VolumeClaimTemplates = [], sts_StatusReplicas = 0, sts_ReadyReplicas = 0, sts_UpdatedReplicas = 0,
     sts_CurrentRevision = [], sts_UpdateRevision = []\<rparr>"

section \<open>Objects\<close>

text \<open>\<open>client.Object\<close>, for the kinds the cluster controller applies.\<close>

datatype object =
    OServiceAccount ServiceAccount
  | OConfigMap ConfigMap
  | OService Service
  | OPodDisruptionBudget PodDisruptionBudget
  | OStatefulSet StatefulSet

fun obj_Kind :: "object \<Rightarrow> string" where
  "obj_Kind (OServiceAccount _) = ''ServiceAccount''"
| "obj_Kind (OConfigMap _) = ''ConfigMap''"
| "obj_Kind (OService _) = ''Service''"
| "obj_Kind (OPodDisruptionBudget _) = ''PodDisruptionBudget''"
| "obj_Kind (OStatefulSet _) = ''StatefulSet''"

fun obj_Meta :: "object \<Rightarrow> ObjectMeta" where
  "obj_Meta (OServiceAccount o') = sa_Meta o'"
| "obj_Meta (OConfigMap o') = cm_Meta o'"
| "obj_Meta (OService o') = svc_Meta o'"
| "obj_Meta (OPodDisruptionBudget o') = pdb_Meta o'"
| "obj_Meta (OStatefulSet o') = sts_Meta o'"

fun obj_setMeta :: "(ObjectMeta \<Rightarrow> ObjectMeta) \<Rightarrow> object \<Rightarrow> object" where
  "obj_setMeta f (OServiceAccount o') = OServiceAccount (o'\<lparr>sa_Meta := f (sa_Meta o')\<rparr>)"
| "obj_setMeta f (OConfigMap o') = OConfigMap (o'\<lparr>cm_Meta := f (cm_Meta o')\<rparr>)"
| "obj_setMeta f (OService o') = OService (o'\<lparr>svc_Meta := f (svc_Meta o')\<rparr>)"
| "obj_setMeta f (OPodDisruptionBudget o') = OPodDisruptionBudget (o'\<lparr>pdb_Meta := f (pdb_Meta o')\<rparr>)"
| "obj_setMeta f (OStatefulSet o') = OStatefulSet (o'\<lparr>sts_Meta := f (sts_Meta o')\<rparr>)"

lemma obj_setMeta_sel [simp]:
  "obj_Meta (obj_setMeta f ob) = f (obj_Meta ob)" "obj_Kind (obj_setMeta f ob) = obj_Kind ob"
  by (cases ob; simp)+

end
