(* ===== verification/Cluster_Env.thy ===== *)
theory Cluster_Env
  imports Qdrant_Client Kube_Objects
begin

text \<open>
  What the cluster controller works on besides Qdrant: the fields of the StatefulSet, the pods and
  the nodes it reads and writes, and \<open>QdrantClusterReconciler\<close>, the struct whose methods the handlers
  are. Its Kubernetes client, its clock and its condition library are functions on the world: they
  are not part of the repository. \<open>r_GetVersion kind ns name\<close> is a read of which the caller uses the resource
  version only; \<open>r_SetControllerReference\<close>, \<open>r_QuantityEqual\<close> (\<open>Quantity.Equal\<close>) and \<open>r_LabelsString\<close>
  (\<open>labels.Set.String\<close>) are functions of the Kubernetes libraries. Each call has a wrapper that appends its effect to the trace.

  A pointer to a \<open>QdrantCluster\<close> that a method mutates is passed in and returned updated.
\<close>

section \<open>Kubernetes objects\<close>

text \<open>The kinds of API errors the source distinguishes (\<open>apierrors.IsNotFound\<close>, \<open>IsAlreadyExists\<close>).\<close>

datatype kerr = KNotFound | KAlreadyExists | KOther string

record Pod =
  pod_Name :: string
  pod_NodeName :: string

record NodeCondition =
  nc_Type :: string
  nc_Status :: ConditionStatus
  nc_LastTransitionTime :: time

type_synonym Node = "NodeCondition list"

section \<open>The reconciler\<close>

record 'w ClusterReconciler =
  r_Meta :: meta_lib
  r_Now :: "'w \<Rightarrow> time"
  r_StatusUpdate :: "QdrantCluster \<Rightarrow> 'w \<Rightarrow> kerr option \<times> 'w"
  r_GetStatefulSet :: "string \<Rightarrow> string \<Rightarrow> 'w \<Rightarrow> (kerr + StatefulSet) \<times> 'w"
  r_UpdateStatefulSet :: "StatefulSet \<Rightarrow> 'w \<Rightarrow> kerr option \<times> 'w"
  r_ListCollections :: "string \<Rightarrow> 'w \<Rightarrow> (kerr + QdrantCollection list) \<times> 'w"
  r_ListPods :: "string \<Rightarrow> (string \<times> string) list \<Rightarrow> 'w \<Rightarrow> (kerr + Pod list) \<times> 'w"
  r_GetNode :: "string \<Rightarrow> 'w \<Rightarrow> (kerr + Node) \<times> 'w"
  r_DeletePod :: "string \<Rightarrow> string \<Rightarrow> 'w \<Rightarrow> kerr option \<times> 'w"
  r_GetCluster :: "string \<Rightarrow> string \<Rightarrow> 'w \<Rightarrow> (kerr + QdrantCluster) \<times> 'w"
  r_GetVersion :: "string \<Rightarrow> string \<Rightarrow> string \<Rightarrow> 'w \<Rightarrow> (kerr + string) \<times> 'w"
  r_CreateObject :: "object \<Rightarrow> 'w \<Rightarrow> kerr option \<times> 'w"
  r_UpdateObject :: "object \<Rightarrow> 'w \<Rightarrow> kerr option \<times> 'w"
  r_DeletePDB :: "string \<Rightarrow> string \<Rightarrow> 'w \<Rightarrow> kerr option \<times> 'w"
  r_SetControllerReference :: "QdrantCluster \<Rightarrow> object \<Rightarrow> kerr + object"
  r_QuantityEqual :: "k8s_value \<Rightarrow> k8s_value \<Rightarrow> bool"
  r_LabelsString :: "(string \<times> string) list \<Rightarrow> string"
  r_QdrantClientFor :: "(QdrantCluster \<Rightarrow> 'w Client) option"
  r_QdrantClientForPeer :: "(QdrantCluster \<Rightarrow> int \<Rightarrow> 'w Client) option"

abbreviation ok_ksum :: "kerr + 'a \<Rightarrow> bool" where
  "ok_ksum r \<equiv> (case r of Inl _ \<Rightarrow> False | Inr _ \<Rightarrow> True)"

definition k_StatusUpdate :: "'w ClusterReconciler \<Rightarrow> QdrantCluster \<Rightarrow> ('w, kerr option) io" where
  "k_StatusUpdate r qc =
     perform (\<lambda>e. Kube (KStatusCluster (qc_Status qc)) (e = None)) (r_StatusUpdate r qc)"

definition k_GetStatefulSet :: "'w ClusterReconciler \<Rightarrow> string \<Rightarrow> string \<Rightarrow> ('w, kerr + StatefulSet) io" where
  "k_GetStatefulSet r ns n =
     perform (\<lambda>e. Kube (KGet ''StatefulSet'' ns n) (ok_ksum e)) (r_GetStatefulSet r ns n)"

definition k_ScaleStatefulSet :: "'w ClusterReconciler \<Rightarrow> StatefulSet \<Rightarrow> ('w, kerr option) io" where
  "k_ScaleStatefulSet r sts =
     perform (\<lambda>e. Kube (KScaleStatefulSet (sts_Name sts) (case sts_Replicas sts of None \<Rightarrow> 1 | Some n \<Rightarrow> n)) (e = None))
       (r_UpdateStatefulSet r sts)"

definition k_ListCollections :: "'w ClusterReconciler \<Rightarrow> string \<Rightarrow> ('w, kerr + QdrantCollection list) io" where
  "k_ListCollections r ns =
     perform (\<lambda>e. Kube (KList ''QdrantCollection'' ns) (ok_ksum e)) (r_ListCollections r ns)"

definition k_ListPods :: "'w ClusterReconciler \<Rightarrow> string \<Rightarrow> (string \<times> string) list \<Rightarrow> ('w, kerr + Pod list) io" where
  "k_ListPods r ns ls = perform (\<lambda>e. Kube (KList ''Pod'' ns) (ok_ksum e)) (r_ListPods r ns ls)"

definition k_GetNode :: "'w ClusterReconciler \<Rightarrow> string \<Rightarrow> ('w, kerr + Node) io" where
  "k_GetNode r n = perform (\<lambda>e. Kube (KGet ''Node'' [] n) (ok_ksum e)) (r_GetNode r n)"

definition k_DeletePod :: "'w ClusterReconciler \<Rightarrow> string \<Rightarrow> string \<Rightarrow> ('w, kerr option) io" where
  "k_DeletePod r ns n = perform (\<lambda>e. Kube (KDelete ''Pod'' n) (e = None)) (r_DeletePod r ns n)"

definition k_GetCluster :: "'w ClusterReconciler \<Rightarrow> string \<Rightarrow> string \<Rightarrow> ('w, kerr + QdrantCluster) io" where
  "k_GetCluster r ns n = perform (\<lambda>e. Kube (KGet ''QdrantCluster'' ns n) (ok_ksum e)) (r_GetCluster r ns n)"

definition k_GetVersion :: "'w ClusterReconciler \<Rightarrow> object \<Rightarrow> ('w, kerr + string) io" where
  "k_GetVersion r ob = perform (\<lambda>e. Kube (KGet (obj_Kind ob) (om_Namespace (obj_Meta ob)) (om_Name (obj_Meta ob))) (ok_ksum e))
     (r_GetVersion r (obj_Kind ob) (om_Namespace (obj_Meta ob)) (om_Name (obj_Meta ob)))"

definition k_Create :: "'w ClusterReconciler \<Rightarrow> object \<Rightarrow> ('w, kerr option) io" where
  "k_Create r ob = perform (\<lambda>e. Kube (KCreate (obj_Kind ob) (om_Name (obj_Meta ob))) (e = None)) (r_CreateObject r ob)"

text \<open>An update of a StatefulSet records the number of replicas it writes.\<close>

definition k_Update :: "'w ClusterReconciler \<Rightarrow> object \<Rightarrow> ('w, kerr option) io" where
  "k_Update r ob =
     (case ob of
        OStatefulSet sts \<Rightarrow> k_ScaleStatefulSet r sts
      | _ \<Rightarrow> perform (\<lambda>e. Kube (KUpdate (obj_Kind ob) (om_Name (obj_Meta ob))) (e = None)) (r_UpdateObject r ob))"

definition k_DeletePDB :: "'w ClusterReconciler \<Rightarrow> string \<Rightarrow> string \<Rightarrow> ('w, kerr option) io" where
  "k_DeletePDB r ns n = perform (\<lambda>e. Kube (KDelete ''PodDisruptionBudget'' n) (e = None)) (r_DeletePDB r ns n)"

definition k_Now :: "'w ClusterReconciler \<Rightarrow> ('w, time) io" where
  "k_Now r = inspect (r_Now r)"

lemmas k_defs =
  k_StatusUpdate_def k_GetStatefulSet_def k_ScaleStatefulSet_def k_ListCollections_def
  k_ListPods_def k_GetNode_def k_DeletePod_def k_GetCluster_def k_GetVersion_def k_Create_def k_Update_def
  k_DeletePDB_def k_Now_def

section \<open>Conditions and the status of a cluster\<close>

definition condReady :: string where "condReady = ''Ready''"
definition condDegraded :: string where "condDegraded = ''Degraded''"
definition condProgressing :: string where "condProgressing = ''Progressing''"

declare condReady_def [go_consts] condDegraded_def [go_consts] condProgressing_def [go_consts]

definition upd_status :: "(QdrantClusterStatus \<Rightarrow> QdrantClusterStatus) \<Rightarrow> QdrantCluster \<Rightarrow> QdrantCluster" where
  "upd_status f qc = qc\<lparr>qc_Status := f (qc_Status qc)\<rparr>"

definition set_cond ::
    "'w ClusterReconciler \<Rightarrow> string \<Rightarrow> ConditionStatus \<Rightarrow> string \<Rightarrow> message \<Rightarrow> QdrantCluster \<Rightarrow> QdrantCluster" where
  "set_cond r t st reason msg qc =
     upd_status (\<lambda>s. s\<lparr>st_Conditions := SetStatusCondition (r_Meta r) (st_Conditions s)
       (mk_cond t st reason msg (qc_Generation qc))\<rparr>) qc"

lemma upd_status_sel [simp]:
  "qc_Status (upd_status f qc) = f (qc_Status qc)"
  "qc_Name (upd_status f qc) = qc_Name qc" "qc_Namespace (upd_status f qc) = qc_Namespace qc"
  "qc_Generation (upd_status f qc) = qc_Generation qc" "qc_Spec (upd_status f qc) = qc_Spec qc"
  by (simp_all add: upd_status_def)

lemma set_cond_sel [simp]:
  "st_Conditions (qc_Status (set_cond r t st reason msg qc)) =
     SetStatusCondition (r_Meta r) (st_Conditions (qc_Status qc)) (mk_cond t st reason msg (qc_Generation qc))"
  "st_ActiveMove (qc_Status (set_cond r t st reason msg qc)) = st_ActiveMove (qc_Status qc)"
  "st_MoveBackoff (qc_Status (set_cond r t st reason msg qc)) = st_MoveBackoff (qc_Status qc)"
  "st_PlannedMoves (qc_Status (set_cond r t st reason msg qc)) = st_PlannedMoves (qc_Status qc)"
  "st_DrainStatus (qc_Status (set_cond r t st reason msg qc)) = st_DrainStatus (qc_Status qc)"
  "st_Phase (qc_Status (set_cond r t st reason msg qc)) = st_Phase (qc_Status qc)"
  "qc_Name (set_cond r t st reason msg qc) = qc_Name qc"
  "qc_Namespace (set_cond r t st reason msg qc) = qc_Namespace qc"
  "qc_Generation (set_cond r t st reason msg qc) = qc_Generation qc"
  "qc_Spec (set_cond r t st reason msg qc) = qc_Spec qc"
  by (simp_all add: set_cond_def)

end
