(* ===== verification/Rebalance_Planner.thy ===== *)
theory Rebalance_Planner
  imports Qdrant_Client
begin

text \<open>
  The planners of \<open>internal/controller/rebalance.go\<close>: pure functions from an observation to a list
  of planned operations. \<open>planReplications\<close> restores the replication factor, \<open>planDeadDrops\<close>
  reclaims dead replicas, \<open>planRebalance\<close> levels the shard counts per collection and, when no count
  move is left, \<open>planSizeRebalance\<close> levels the points per peer.

  A Go map that is ranged over is an association list whose order stands for the iteration order the
  runtime happens to choose; a map that is only looked up is a partial function. An inner set
  \<open>map[uint64]bool\<close> is the duplicate-free list of its elements.
\<close>

section \<open>Constants\<close>

definition shardStateActive :: string where "shardStateActive = ''Active''"
definition shardStateDead :: string where "shardStateDead = ''Dead''"
definition sizeMinDelta :: u64 where "sizeMinDelta = 10000"

declare shardStateActive_def [go_consts] shardStateDead_def [go_consts] sizeMinDelta_def [go_consts]

section \<open>Planned moves\<close>

record plannedMove =
  pm_Collection :: string
  pm_ShardID :: u32
  pm_From :: u64
  pm_To :: u64
  pm_Drop :: bool
  pm_Replicate :: bool
  pm_fromCount :: int
  pm_toCount :: int

definition plannedMove_String :: "plannedMove \<Rightarrow> string" where
  "plannedMove_String m =
     (let hdr = pm_Collection m @ ''/'' @ nat_digits (unat (pm_ShardID m)) @ '': '' in
      if pm_Drop m then hdr @ ''drop@'' @ FormatUint (pm_From m)
      else if pm_Replicate m then
        hdr @ ''+replica '' @ FormatUint (pm_From m) @ ''->'' @ FormatUint (pm_To m)
      else hdr @ FormatUint (pm_From m) @ ''->'' @ FormatUint (pm_To m))"

section \<open>Observations\<close>

record observation =
  o_Peers :: "Peer list"
  o_Collections :: "(string \<times> CollectionClusterInfo) list"
  o_RF :: "string \<rightharpoonup> u32"
  o_Sizes :: "string \<rightharpoonup> (u32 \<rightharpoonup> u64)"
  o_SizesComplete :: bool

definition transfersInFlight :: "observation \<Rightarrow> int" where
  "transfersInFlight obs = fold (\<lambda>(_, cc) n. n + int (length (cc_Transfers cc))) (o_Collections obs) 0"

definition allShardsActive :: "observation \<Rightarrow> bool" where
  "allShardsActive obs \<longleftrightarrow>
     list_all (\<lambda>(_, cc). list_all (\<lambda>s. sh_State s = shardStateActive) (cc_Shards cc)) (o_Collections obs)"

definition transitioning :: "observation \<Rightarrow> bool" where
  "transitioning obs \<longleftrightarrow>
     list_ex (\<lambda>(_, cc). list_ex (\<lambda>s. sh_State s \<noteq> shardStateActive \<and> sh_State s \<noteq> shardStateDead)
       (cc_Shards cc)) (o_Collections obs)"

definition hasDead :: "observation \<Rightarrow> bool" where
  "hasDead obs \<longleftrightarrow>
     list_ex (\<lambda>(_, cc). list_ex (\<lambda>s. sh_State s = shardStateDead) (cc_Shards cc)) (o_Collections obs)"

text \<open>The shards of one collection that match; \<open>held_by\<close> is the set of their peers.\<close>

definition held_by :: "(ShardInfo \<Rightarrow> bool) \<Rightarrow> ShardInfo list \<Rightarrow> u32 \<Rightarrow> u64 list" where
  "held_by P shards sid = map sh_PeerID (filter (\<lambda>s. sh_ShardID s = sid \<and> P s) shards)"

definition shards_of :: "observation \<Rightarrow> string \<Rightarrow> ShardInfo list" where
  "shards_of obs coll =
     (case map_of (o_Collections obs) coll of None \<Rightarrow> [] | Some cc \<Rightarrow> cc_Shards cc)"

definition deadHolders :: "observation \<Rightarrow> string \<Rightarrow> u32 \<Rightarrow> u64 list" where
  "deadHolders obs coll sid =
     remdups (held_by (\<lambda>s. sh_State s = shardStateDead) (shards_of obs coll) sid)"

text \<open>The sorted collection names every planner iterates over.\<close>

definition collNames :: "observation \<Rightarrow> string list" where
  "collNames obs = sort (map fst (o_Collections obs))"

text \<open>The number of replicas per peer of the consensus; other peers are not counted.\<close>

definition peerCounts :: "Peer list \<Rightarrow> ShardInfo list \<Rightarrow> (u64 \<rightharpoonup> int)" where
  "peerCounts peers shards =
     fold (\<lambda>s m. case m (sh_PeerID s) of None \<Rightarrow> m | Some c \<Rightarrow> m(sh_PeerID s \<mapsto> c + 1)) shards
       (fold (\<lambda>p m. m(peer_ID p \<mapsto> 0)) peers Map.empty)"

definition holders :: "ShardInfo list \<Rightarrow> u32 \<Rightarrow> u64 list" where
  "holders shards sid = remdups (held_by (\<lambda>_. True) shards sid)"

section \<open>Levelling the shard counts\<close>

text \<open>The candidate of one donor/recipient pair: the least shard of the donor the recipient lacks.\<close>

definition movable :: "ShardInfo list \<Rightarrow> u64 \<Rightarrow> u64 \<Rightarrow> u32 list" where
  "movable shards donor recip =
     sort (map sh_ShardID (filter (\<lambda>s. sh_PeerID s = donor \<and>
       recip \<notin> set (holders shards (sh_ShardID s))) shards))"

definition countMove :: "string \<Rightarrow> Peer list \<Rightarrow> ShardInfo list \<Rightarrow> Peer \<Rightarrow> Peer \<Rightarrow> plannedMove list" where
  "countMove coll peers shards donor recip =
     (let count = get_or 0 (peerCounts peers shards) in
      if peer_ID donor = peer_ID recip \<or> count (peer_ID donor) - count (peer_ID recip) < 2 then []
      else case movable shards (peer_ID donor) (peer_ID recip) of
        [] \<Rightarrow> []
      | sid # _ \<Rightarrow>
          [\<lparr>pm_Collection = coll, pm_ShardID = sid, pm_From = peer_ID donor, pm_To = peer_ID recip,
            pm_Drop = False, pm_Replicate = False,
            pm_fromCount = count (peer_ID donor), pm_toCount = count (peer_ID recip)\<rparr>])"

definition countMoves :: "observation \<Rightarrow> plannedMove list" where
  "countMoves obs =
     concat (map (\<lambda>coll.
       concat (map (\<lambda>donor.
         concat (map (\<lambda>recip. countMove coll (o_Peers obs) (shards_of obs coll) donor recip)
           (o_Peers obs))) (o_Peers obs))) (collNames obs))"

definition cmpMoves :: "plannedMove \<Rightarrow> plannedMove \<Rightarrow> int" where
  "cmpMoves a b =
     (if pm_fromCount a \<noteq> pm_fromCount b then pm_fromCount b - pm_fromCount a
      else if pm_toCount a \<noteq> pm_toCount b then pm_toCount a - pm_toCount b
      else if pm_From a \<noteq> pm_From b then (if pm_From b < pm_From a then - 1 else 1)
      else if pm_To a \<noteq> pm_To b then (if pm_To a < pm_To b then - 1 else 1)
      else if pm_ShardID a \<noteq> pm_ShardID b then uint (pm_ShardID a) - uint (pm_ShardID b)
      else go_compare (pm_Collection a) (pm_Collection b))"

section \<open>Levelling the points per peer\<close>

definition sizeAt :: "observation \<Rightarrow> string \<Rightarrow> u32 \<Rightarrow> u64" where
  "sizeAt obs coll sid = get_or 0 (get_or Map.empty (o_Sizes obs) coll) sid"

definition peerTotals :: "observation \<Rightarrow> (u64 \<rightharpoonup> u64)" where
  "peerTotals obs =
     fold (\<lambda>(coll, cc) m.
       fold (\<lambda>s m. case m (sh_PeerID s) of None \<Rightarrow> m
                   | Some v \<Rightarrow> m(sh_PeerID s \<mapsto> v + sizeAt obs coll (sh_ShardID s)))
         (cc_Shards cc) m)
       (o_Collections obs)
       (fold (\<lambda>p m. m(peer_ID p \<mapsto> 0)) (o_Peers obs) Map.empty)"

text \<open>The spread of a map of totals; its keys are the identifiers of the peers.\<close>

definition spread :: "u64 list \<Rightarrow> (u64 \<rightharpoonup> u64) \<Rightarrow> u64" where
  "spread ids t =
     (let vs = map (get_or 0 t) ids in fold max vs 0 - fold min vs (- 1))"

text \<open>
  \<open>float64(n)\<close> for an unsigned integer: 53 significant bits, ties to even. Doubling is exact, so the
  comparison of the source is one of integers.
\<close>

definition float64_of_int :: "int \<Rightarrow> int" where
  "float64_of_int n =
     (if n < 2 ^ 53 then n
      else let e = (if n < 2 ^ 54 then 1 :: nat else if n < 2 ^ 55 then 2 else if n < 2 ^ 56 then 3
                    else if n < 2 ^ 57 then 4 else if n < 2 ^ 58 then 5 else if n < 2 ^ 59 then 6
                    else if n < 2 ^ 60 then 7 else if n < 2 ^ 61 then 8 else if n < 2 ^ 62 then 9
                    else if n < 2 ^ 63 then 10 else 11);
               q = n div 2 ^ e; r = n mod 2 ^ e; half = (2::int) ^ (e - 1)
           in (if r < half \<or> (r = half \<and> even q) then q else q + 1) * 2 ^ e)"

record extremes =
  ex_donor :: u64
  ex_recip :: u64
  ex_mx :: u64
  ex_mn :: u64

definition findExtremes :: "Peer list \<Rightarrow> (u64 \<Rightarrow> u64) \<Rightarrow> extremes" where
  "findExtremes peers tot =
     fold (\<lambda>p x.
       let x = (if ex_mx x < tot (peer_ID p)
                then x\<lparr>ex_mx := tot (peer_ID p), ex_donor := peer_ID p\<rparr> else x)
       in (if tot (peer_ID p) < ex_mn x
           then x\<lparr>ex_mn := tot (peer_ID p), ex_recip := peer_ID p\<rparr> else x))
     peers \<lparr>ex_donor = 0, ex_recip = 0, ex_mx = 0, ex_mn = - 1\<rparr>"

record cand =
  cand_coll :: string
  cand_shardID :: u32
  cand_newSpread :: u64

definition cand_lt :: "cand \<Rightarrow> cand \<Rightarrow> bool" where
  "cand_lt a b \<longleftrightarrow> cand_newSpread a < cand_newSpread b \<or>
     (cand_newSpread a = cand_newSpread b \<and>
       (cand_coll a < cand_coll b \<or> (cand_coll a = cand_coll b \<and> cand_shardID a < cand_shardID b)))"

text \<open>The totals after moving one shard of \<open>sz\<close> points from \<open>donor\<close> to \<open>recip\<close>.\<close>

definition shiftTotals :: "(u64 \<rightharpoonup> u64) \<Rightarrow> u64 \<Rightarrow> u64 \<Rightarrow> u64 \<Rightarrow> (u64 \<rightharpoonup> u64)" where
  "shiftTotals tot donor recip sz =
     (let t = tot(donor \<mapsto> get_or 0 tot donor - sz) in t(recip \<mapsto> get_or 0 t recip + sz))"

definition sizeCands :: "observation \<Rightarrow> u64 \<Rightarrow> u64 \<Rightarrow> u64 \<Rightarrow> cand list" where
  "sizeCands obs donor recip gap =
     concat (map (\<lambda>coll.
       filter (\<lambda>c. cand_newSpread c < gap)
         (map (\<lambda>s. \<lparr>cand_coll = coll, cand_shardID = sh_ShardID s,
                     cand_newSpread = spread (map peer_ID (o_Peers obs))
                       (shiftTotals (peerTotals obs) donor recip (sizeAt obs coll (sh_ShardID s)))\<rparr>)
           (filter (\<lambda>s. sh_PeerID s = donor \<and>
              recip \<notin> set (holders (shards_of obs coll) (sh_ShardID s))) (shards_of obs coll))))
       (collNames obs))"

definition planSizeRebalance :: "observation \<Rightarrow> plannedMove list" where
  "planSizeRebalance obs =
     (if length (o_Peers obs) < 2 \<or> \<not> o_SizesComplete obs then []
      else
        let x = findExtremes (o_Peers obs) (get_or 0 (peerTotals obs));
            donor = ex_donor x; recip = ex_recip x; gap = ex_mx x - ex_mn x
        in if donor = recip \<or> gap < sizeMinDelta \<or>
              float64_of_int (uint (ex_mx x)) < 2 * float64_of_int (uint (max (ex_mn x) 1)) then []
           else case best_of cand_lt (sizeCands obs donor recip gap) of
             None \<Rightarrow> []
           | Some c \<Rightarrow> [\<lparr>pm_Collection = cand_coll c, pm_ShardID = cand_shardID c, pm_From = donor,
               pm_To = recip, pm_Drop = False, pm_Replicate = False, pm_fromCount = 0, pm_toCount = 0\<rparr>])"

definition planRebalance :: "observation \<Rightarrow> plannedMove list" where
  "planRebalance obs =
     (if length (o_Peers obs) < 2 then []
      else if hasDead obs then []
      else let plan = sort_func cmpMoves (countMoves obs) in
           if plan = [] then planSizeRebalance obs else plan)"

section \<open>Restoring the replication factor\<close>

text \<open>Least loaded first, then the lower peer identifier.\<close>

definition load_lt :: "(u64 \<Rightarrow> int) \<Rightarrow> Peer \<Rightarrow> Peer \<Rightarrow> bool" where
  "load_lt load a b \<longleftrightarrow> load (peer_ID a) < load (peer_ID b) \<or>
     (load (peer_ID a) = load (peer_ID b) \<and> peer_ID a < peer_ID b)"

definition activeOn :: "ShardInfo list \<Rightarrow> u32 \<Rightarrow> u64 list" where
  "activeOn shards sid = held_by (\<lambda>s. sh_State s = shardStateActive) shards sid"

definition replicationOf :: "observation \<Rightarrow> string \<Rightarrow> u32 \<Rightarrow> u32 \<Rightarrow> plannedMove list" where
  "replicationOf obs coll rf sid =
     (let shards = shards_of obs coll; hs = sort (activeOn shards sid);
          count = get_or 0 (peerCounts (o_Peers obs) shards)
      in if rf \<le> of_nat (length hs) then []
         else case best_of (load_lt count)
                (filter (\<lambda>p. \<not> (peer_ID p \<in> set hs \<or> peer_ID p \<in> set (deadHolders obs coll sid)))
                  (o_Peers obs)) of
           None \<Rightarrow> []
         | Some p \<Rightarrow> [\<lparr>pm_Collection = coll, pm_ShardID = sid, pm_From = hd hs, pm_To = peer_ID p,
             pm_Drop = False, pm_Replicate = True, pm_fromCount = 0, pm_toCount = 0\<rparr>])"

definition planReplications :: "observation \<Rightarrow> plannedMove list" where
  "planReplications obs =
     concat (map (\<lambda>coll.
       let rf = get_or 0 (o_RF obs) coll in
       if rf < 2 \<or> of_nat (length (o_Peers obs)) < rf then []
       else concat (map (replicationOf obs coll rf)
         (sort (remdups (map sh_ShardID
           (filter (\<lambda>s. sh_State s = shardStateActive) (shards_of obs coll)))))))
       (collNames obs))"

section \<open>Reclaiming dead replicas\<close>

definition deadDropsOf :: "observation \<Rightarrow> string \<Rightarrow> u32 \<Rightarrow> plannedMove list" where
  "deadDropsOf obs coll sid =
     (let shards = shards_of obs coll; rf = max (get_or 0 (o_RF obs) coll) 1 in
      if of_nat (length (activeOn shards sid)) < rf then []
      else map (\<lambda>pid. \<lparr>pm_Collection = coll, pm_ShardID = sid, pm_From = pid, pm_To = 0,
             pm_Drop = True, pm_Replicate = False, pm_fromCount = 0, pm_toCount = 0\<rparr>)
        (sort (held_by (\<lambda>s. sh_State s = shardStateDead) shards sid)))"

definition planDeadDrops :: "observation \<Rightarrow> plannedMove list" where
  "planDeadDrops obs =
     concat (map (\<lambda>coll.
       concat (map (deadDropsOf obs coll)
         (sort (remdups (map sh_ShardID
           (filter (\<lambda>s. sh_State s = shardStateDead) (shards_of obs coll)))))))
       (collNames obs))"

section \<open>Well-formed observations\<close>

text \<open>
  What \<open>observe\<close> delivers: collection names are the keys of a map, peer identifiers are the keys of
  the JSON object \<open>peers\<close>, and one peer holds at most one replica of a shard.
\<close>

definition shard_key :: "ShardInfo \<Rightarrow> u32 \<times> u64" where
  "shard_key s = (sh_ShardID s, sh_PeerID s)"

definition wf_obs :: "observation \<Rightarrow> bool" where
  "wf_obs obs \<longleftrightarrow> distinct (map fst (o_Collections obs)) \<and> distinct (map peer_ID (o_Peers obs)) \<and>
     (\<forall>(_, cc) \<in> set (o_Collections obs). distinct (map shard_key (cc_Shards cc)))"

text \<open>How many replicas of a collection a peer holds.\<close>

definition replicas_on :: "ShardInfo list \<Rightarrow> u64 \<Rightarrow> int" where
  "replicas_on shards p = int (length (filter (\<lambda>s. sh_PeerID s = p) shards))"

lemma replicas_on_simps [simp]:
  "replicas_on [] p = 0"
  "replicas_on (s # ss) p = (if sh_PeerID s = p then 1 else 0) + replicas_on ss p"
  by (simp_all add: replicas_on_def)

lemma peers_init:
  "fold (\<lambda>p m. m(peer_ID p \<mapsto> z)) peers m k =
     (if k \<in> peer_ID ` set peers then Some z else m k)"
  by (induction peers arbitrary: m) auto

lemma peerCounts_fold:
  "fold (\<lambda>s m. case m (sh_PeerID s) of None \<Rightarrow> m | Some c \<Rightarrow> m(sh_PeerID s \<mapsto> c + 1)) shards m p =
     map_option (\<lambda>c. c + replicas_on shards p) (m p)"
proof (induction shards arbitrary: m)
  case (Cons s ss)
  then show ?case by (cases "m (sh_PeerID s)"; cases "m p") auto
qed (simp add: option.map_ident)

lemma peerCounts_eq:
  "peerCounts peers shards p =
     (if p \<in> peer_ID ` set peers then Some (replicas_on shards p) else None)"
  unfolding peerCounts_def peerCounts_fold peers_init by simp

lemma get_peerCounts [simp]:
  "q \<in> set peers \<Longrightarrow> get_or 0 (peerCounts peers shards) (peer_ID q) = replicas_on shards (peer_ID q)"
  by (simp add: peerCounts_eq get_or_def)

lemma set_held_by:
  "p \<in> set (held_by P shards sid) \<longleftrightarrow>
     (\<exists>s \<in> set shards. sh_ShardID s = sid \<and> sh_PeerID s = p \<and> P s)"
  by (auto simp: held_by_def)

lemma set_holders:
  "p \<in> set (holders shards sid) \<longleftrightarrow> (\<exists>s \<in> set shards. sh_ShardID s = sid \<and> sh_PeerID s = p)"
  by (auto simp: holders_def held_by_def)

lemma set_movable:
  "sid \<in> set (movable shards donor recip) \<longleftrightarrow>
     donor \<in> set (holders shards sid) \<and> recip \<notin> set (holders shards sid)"
  by (auto simp: movable_def set_holders)

lemma set_collNames [simp]: "set (collNames obs) = fst ` set (o_Collections obs)"
  by (simp add: collNames_def)

lemma shards_of_mem:
  "wf_obs obs \<Longrightarrow> (coll, cc) \<in> set (o_Collections obs) \<Longrightarrow> shards_of obs coll = cc_Shards cc"
  by (simp add: shards_of_def wf_obs_def)

lemma wf_obs_shards: "wf_obs obs \<Longrightarrow> distinct (map shard_key (shards_of obs coll))"
proof (cases "map_of (o_Collections obs) coll")
  case (Some cc)
  then show "wf_obs obs \<Longrightarrow> ?thesis"
    using map_of_SomeD [OF Some] by (auto simp: shards_of_def wf_obs_def)
qed (simp add: shards_of_def)

subsection \<open>Levelling the counts\<close>

lemma countMove_iff:
  "mv \<in> set (countMove coll peers shards donor recip) \<longleftrightarrow>
     (\<exists>sid rest. movable shards (peer_ID donor) (peer_ID recip) = sid # rest \<and>
        peer_ID donor \<noteq> peer_ID recip \<and>
        2 \<le> get_or 0 (peerCounts peers shards) (peer_ID donor)
          - get_or 0 (peerCounts peers shards) (peer_ID recip) \<and>
        mv = \<lparr>pm_Collection = coll, pm_ShardID = sid, pm_From = peer_ID donor, pm_To = peer_ID recip,
          pm_Drop = False, pm_Replicate = False,
          pm_fromCount = get_or 0 (peerCounts peers shards) (peer_ID donor),
          pm_toCount = get_or 0 (peerCounts peers shards) (peer_ID recip)\<rparr>)"
  by (cases "movable shards (peer_ID donor) (peer_ID recip)") (auto simp: countMove_def Let_def)

lemma countMoves_iff:
  "mv \<in> set (countMoves obs) \<longleftrightarrow>
     (\<exists>coll \<in> fst ` set (o_Collections obs). \<exists>donor \<in> set (o_Peers obs). \<exists>recip \<in> set (o_Peers obs).
        mv \<in> set (countMove coll (o_Peers obs) (shards_of obs coll) donor recip))"
  by (auto simp: countMoves_def)

text \<open>
  A move is legal in a placement when its source holds the shard and its target does not, both being
  different members of the consensus.
\<close>

definition legal_move :: "observation \<Rightarrow> plannedMove \<Rightarrow> bool" where
  "legal_move obs mv \<longleftrightarrow>
     pm_Collection mv \<in> fst ` set (o_Collections obs) \<and>
     pm_From mv \<in> peer_ID ` set (o_Peers obs) \<and> pm_To mv \<in> peer_ID ` set (o_Peers obs) \<and>
     pm_From mv \<noteq> pm_To mv \<and>
     pm_From mv \<in> set (holders (shards_of obs (pm_Collection mv)) (pm_ShardID mv)) \<and>
     pm_To mv \<notin> set (holders (shards_of obs (pm_Collection mv)) (pm_ShardID mv))"

lemma countMoves_legal:
  assumes "mv \<in> set (countMoves obs)"
  shows "legal_move obs mv" and "\<not> pm_Drop mv" and "\<not> pm_Replicate mv"
    and "replicas_on (shards_of obs (pm_Collection mv)) (pm_To mv) + 2
           \<le> replicas_on (shards_of obs (pm_Collection mv)) (pm_From mv)"
proof -
  from assms obtain coll donor recip where c:
    "coll \<in> fst ` set (o_Collections obs)" "donor \<in> set (o_Peers obs)" "recip \<in> set (o_Peers obs)"
    "mv \<in> set (countMove coll (o_Peers obs) (shards_of obs coll) donor recip)"
    unfolding countMoves_iff by blast
  from c(4) obtain sid rest where r:
    "movable (shards_of obs coll) (peer_ID donor) (peer_ID recip) = sid # rest"
    "peer_ID donor \<noteq> peer_ID recip"
    "2 \<le> get_or 0 (peerCounts (o_Peers obs) (shards_of obs coll)) (peer_ID donor)
       - get_or 0 (peerCounts (o_Peers obs) (shards_of obs coll)) (peer_ID recip)"
    "pm_Collection mv = coll" "pm_ShardID mv = sid" "pm_From mv = peer_ID donor"
    "pm_To mv = peer_ID recip" "\<not> pm_Drop mv" "\<not> pm_Replicate mv"
    unfolding countMove_iff by (elim exE conjE) simp
  note m = c(1-3) r
  have "sid \<in> set (movable (shards_of obs coll) (peer_ID donor) (peer_ID recip))" using r(1) by simp
  then have "peer_ID donor \<in> set (holders (shards_of obs coll) sid)"
      and "peer_ID recip \<notin> set (holders (shards_of obs coll) sid)"
    unfolding set_movable by simp_all
  then show "legal_move obs mv" using m unfolding legal_move_def by simp
  show "\<not> pm_Drop mv" and "\<not> pm_Replicate mv" and
    "replicas_on (shards_of obs (pm_Collection mv)) (pm_To mv) + 2
           \<le> replicas_on (shards_of obs (pm_Collection mv)) (pm_From mv)"
    using m by auto
qed

text \<open>
  A peer with more replicas than another holds a shard the other lacks: the source's remark that the
  one-replica-per-peer rule can leave an imbalance behind never applies.
\<close>

lemma movable_ex:
  assumes d: "distinct (map shard_key shards)" and more: "replicas_on shards q < replicas_on shards p"
  shows "movable shards p q \<noteq> []"
proof
  assume "movable shards p q = []"
  then have none: "\<And>sid. p \<in> set (holders shards sid) \<Longrightarrow> q \<in> set (holders shards sid)"
    using set_movable [of _ shards p q] by fastforce
  define ids where "ids r = sh_ShardID ` {s \<in> set shards. sh_PeerID s = r}" for r
  have inj: "inj_on sh_ShardID {s \<in> set shards. sh_PeerID s = r}" for r
    using d by (auto simp: inj_on_def distinct_map shard_key_def)
  have card_ids: "int (card (ids r)) = replicas_on shards r" for r
  proof -
    have "distinct shards" using d by (simp add: distinct_map)
    then have "length (filter (\<lambda>s. sh_PeerID s = r) shards) = card {s \<in> set shards. sh_PeerID s = r}"
      by (metis distinct_card distinct_filter set_filter)
    then show ?thesis by (simp add: ids_def replicas_on_def card_image [OF inj])
  qed
  have "ids p \<subseteq> ids q"
  proof
    fix sid assume "sid \<in> ids p"
    then have "q \<in> set (holders shards sid)" using none [of sid] by (auto simp: ids_def set_holders)
    then show "sid \<in> ids q" by (auto simp: ids_def set_holders)
  qed
  moreover have "finite (ids q)" by (simp add: ids_def)
  ultimately have "card (ids p) \<le> card (ids q)" by (simp add: card_mono)
  then show False using card_ids [of p] card_ids [of q] more by simp
qed

text \<open>
  Balanced: no two members of the consensus differ by more than one replica in any collection.
\<close>

definition balanced :: "observation \<Rightarrow> bool" where
  "balanced obs \<longleftrightarrow>
     (\<forall>coll \<in> fst ` set (o_Collections obs). \<forall>p \<in> set (o_Peers obs). \<forall>q \<in> set (o_Peers obs).
        replicas_on (shards_of obs coll) (peer_ID p) - replicas_on (shards_of obs coll) (peer_ID q) \<le> 1)"

lemma countMoves_Nil_imp_balanced:
  assumes "wf_obs obs" and "countMoves obs = []"
  shows "balanced obs"
proof (rule ccontr)
  assume "\<not> balanced obs"
  then obtain coll p q where pq: "coll \<in> fst ` set (o_Collections obs)" "p \<in> set (o_Peers obs)"
    "q \<in> set (o_Peers obs)"
    "1 < replicas_on (shards_of obs coll) (peer_ID p) - replicas_on (shards_of obs coll) (peer_ID q)"
    unfolding balanced_def by fastforce
  have "movable (shards_of obs coll) (peer_ID p) (peer_ID q) \<noteq> []"
    by (rule movable_ex) (use wf_obs_shards [OF assms(1)] pq in auto)
  then have "countMove coll (o_Peers obs) (shards_of obs coll) p q \<noteq> []"
    using pq by (auto simp: countMove_def Let_def split: list.split)
  then show False using assms(2) pq by (auto simp: countMoves_def)
qed

lemma balanced_imp_countMoves_Nil:
  assumes "balanced obs"
  shows "countMoves obs = []"
proof (rule ccontr)
  assume "countMoves obs \<noteq> []"
  then obtain mv where mv: "mv \<in> set (countMoves obs)" by (cases "countMoves obs") auto
  have l: "legal_move obs mv" and c: "replicas_on (shards_of obs (pm_Collection mv)) (pm_To mv) + 2
      \<le> replicas_on (shards_of obs (pm_Collection mv)) (pm_From mv)"
    using countMoves_legal [OF mv] by auto
  from l have "pm_Collection mv \<in> fst ` set (o_Collections obs)" "pm_From mv \<in> peer_ID ` set (o_Peers obs)"
    "pm_To mv \<in> peer_ID ` set (o_Peers obs)" by (auto simp: legal_move_def)
  then show False using assms c unfolding balanced_def by fastforce
qed

end
