(* ===== verification/Rebalance_Safety.thy ===== *)
theory Rebalance_Safety
  imports Rebalance_Planner
begin

text \<open>
  Safety of the planners. Re-replication copies only from an active replica to a consensus member
  that holds none and has no dead one, exactly where the replication factor is not met; dead drops
  touch only dead replicas of shards whose active replicas meet it; the size stage plans at most one
  legal move and that move narrows the spread of the points per peer. All plans depend on the
  observed placement only, not on the order in which maps and lists happen to be traversed.
\<close>

section \<open>The orders the planners choose by\<close>

lemma cmpMoves_le:
  "cmpMoves a b \<le> 0 \<longleftrightarrow>
     pm_fromCount b < pm_fromCount a \<or> (pm_fromCount a = pm_fromCount b \<and>
      (pm_toCount a < pm_toCount b \<or> (pm_toCount a = pm_toCount b \<and>
       (pm_From b < pm_From a \<or> (pm_From a = pm_From b \<and>
        (pm_To a < pm_To b \<or> (pm_To a = pm_To b \<and>
         (pm_ShardID a < pm_ShardID b \<or> (pm_ShardID a = pm_ShardID b \<and>
           pm_Collection a \<le> pm_Collection b)))))))))"
proof -
  have "uint (pm_ShardID a) - uint (pm_ShardID b) \<le> 0 \<longleftrightarrow> pm_ShardID a \<le> pm_ShardID b"
    by (simp add: word_le_def)
  then show ?thesis
    unfolding cmpMoves_def by (auto simp: go_compare_le)
qed

lemma cmpMoves_sign: "cmpMoves a b < 0 \<longleftrightarrow> 0 < cmpMoves b a"
  by (auto simp: cmpMoves_def go_compare_def)

interpretation moves: go_cmp cmpMoves
  by unfold_locales (auto simp: cmpMoves_sign cmpMoves_le)

lemma cmpMoves_antisym:
  assumes "cmpMoves a b \<le> 0" and "cmpMoves b a \<le> 0"
    and "pm_Drop a = pm_Drop b" and "pm_Replicate a = pm_Replicate b"
  shows "a = b"
proof -
  have "pm_fromCount a = pm_fromCount b \<and> pm_toCount a = pm_toCount b \<and> pm_From a = pm_From b \<and>
      pm_To a = pm_To b \<and> pm_ShardID a = pm_ShardID b \<and> pm_Collection a = pm_Collection b"
    using assms(1,2) unfolding cmpMoves_le by auto
  then show ?thesis using assms(3,4) by (cases a; cases b) simp
qed

interpretation loads: choice_order "load_lt load" for load
  by unfold_locales (auto simp: load_lt_def)

interpretation cands: choice_order cand_lt
  by unfold_locales (auto simp: cand_lt_def)

lemma load_lt_total: "\<not> load_lt load a b \<Longrightarrow> \<not> load_lt load b a \<Longrightarrow> peer_ID a = peer_ID b"
  by (auto simp: load_lt_def)

lemma cand_lt_total: "\<not> cand_lt a b \<Longrightarrow> \<not> cand_lt b a \<Longrightarrow> a = b"
  by (cases a; cases b) (auto simp: cand_lt_def)

section \<open>Re-replication\<close>

lemma activeOn_mem:
  "p \<in> set (activeOn shards sid) \<longleftrightarrow>
     (\<exists>s \<in> set shards. sh_ShardID s = sid \<and> sh_PeerID s = p \<and> sh_State s = shardStateActive)"
  by (simp add: activeOn_def set_held_by)

lemma deadHolders_mem:
  "p \<in> set (deadHolders obs coll sid) \<longleftrightarrow>
     (\<exists>s \<in> set (shards_of obs coll). sh_ShardID s = sid \<and> sh_PeerID s = p \<and> sh_State s = shardStateDead)"
  by (simp add: deadHolders_def set_held_by)

text \<open>The peers \<open>planReplications\<close> may copy a shard to.\<close>

definition eligible :: "observation \<Rightarrow> string \<Rightarrow> u32 \<Rightarrow> Peer list" where
  "eligible obs coll sid =
     filter (\<lambda>p. \<not> (peer_ID p \<in> set (activeOn (shards_of obs coll) sid) \<or>
                    peer_ID p \<in> set (deadHolders obs coll sid))) (o_Peers obs)"

definition under_replicated :: "observation \<Rightarrow> string \<Rightarrow> u32 \<Rightarrow> bool" where
  "under_replicated obs coll sid \<longleftrightarrow>
     (let rf = get_or 0 (o_RF obs) coll; act = activeOn (shards_of obs coll) sid in
      coll \<in> fst ` set (o_Collections obs) \<and> 2 \<le> rf \<and> rf \<le> of_nat (length (o_Peers obs)) \<and>
      act \<noteq> [] \<and> of_nat (length act) < rf)"

definition replicateMove :: "observation \<Rightarrow> string \<Rightarrow> u32 \<Rightarrow> Peer \<Rightarrow> plannedMove" where
  "replicateMove obs coll sid p = \<lparr>pm_Collection = coll, pm_ShardID = sid,
     pm_From = hd (sort (activeOn (shards_of obs coll) sid)), pm_To = peer_ID p,
     pm_Drop = False, pm_Replicate = True, pm_fromCount = 0, pm_toCount = 0\<rparr>"

definition bestTarget :: "observation \<Rightarrow> string \<Rightarrow> u32 \<Rightarrow> Peer option" where
  "bestTarget obs coll sid =
     best_of (load_lt (get_or 0 (peerCounts (o_Peers obs) (shards_of obs coll)))) (eligible obs coll sid)"

lemma replicationOf_eq:
  "replicationOf obs coll rf sid =
     (if rf \<le> of_nat (length (activeOn (shards_of obs coll) sid)) then []
      else case bestTarget obs coll sid of None \<Rightarrow> [] | Some p \<Rightarrow> [replicateMove obs coll sid p])"
  by (simp add: replicationOf_def bestTarget_def eligible_def replicateMove_def Let_def
      cong: option.case_cong)

lemma active_ids:
  "sid \<in> set (sort (remdups (map sh_ShardID (filter (\<lambda>s. sh_State s = shardStateActive) shards)))) \<longleftrightarrow>
     activeOn shards sid \<noteq> []"
  by (auto simp: activeOn_def held_by_def filter_empty_conv)

lemma planReplications_iff:
  "mv \<in> set (planReplications obs) \<longleftrightarrow>
     (\<exists>coll sid p. under_replicated obs coll sid \<and> bestTarget obs coll sid = Some p \<and>
        mv = replicateMove obs coll sid p)"
proof
  assume "mv \<in> set (planReplications obs)"
  then obtain coll sid where c: "coll \<in> fst ` set (o_Collections obs)"
      "2 \<le> get_or 0 (o_RF obs) coll" "get_or 0 (o_RF obs) coll \<le> of_nat (length (o_Peers obs))"
      and sid: "sid \<in> set (sort (remdups (map sh_ShardID
        (filter (\<lambda>s. sh_State s = shardStateActive) (shards_of obs coll)))))"
      and mv: "mv \<in> set (replicationOf obs coll (get_or 0 (o_RF obs) coll) sid)"
    unfolding planReplications_def Let_def by (auto split: if_splits simp: not_less)
  from mv obtain p where "bestTarget obs coll sid = Some p" "mv = replicateMove obs coll sid p"
      "of_nat (length (activeOn (shards_of obs coll) sid)) < get_or 0 (o_RF obs) coll"
    by (cases "bestTarget obs coll sid") (auto simp: replicationOf_eq split: if_splits)
  then show "\<exists>coll sid p. under_replicated obs coll sid \<and> bestTarget obs coll sid = Some p \<and>
        mv = replicateMove obs coll sid p"
    using c sid [unfolded active_ids] unfolding under_replicated_def Let_def by blast
next
  assume "\<exists>coll sid p. under_replicated obs coll sid \<and> bestTarget obs coll sid = Some p \<and>
        mv = replicateMove obs coll sid p"
  then obtain coll sid p where u: "under_replicated obs coll sid"
      and p: "bestTarget obs coll sid = Some p" "mv = replicateMove obs coll sid p"
    by blast
  have "mv \<in> set (replicationOf obs coll (get_or 0 (o_RF obs) coll) sid)"
    using u p by (simp add: replicationOf_eq under_replicated_def Let_def not_le)
  moreover have "sid \<in> set (sort (remdups (map sh_ShardID
        (filter (\<lambda>s. sh_State s = shardStateActive) (shards_of obs coll)))))"
    using u unfolding active_ids by (simp add: under_replicated_def Let_def)
  moreover have "\<not> (get_or 0 (o_RF obs) coll < 2 \<or> of_nat (length (o_Peers obs)) < get_or 0 (o_RF obs) coll)"
    and "coll \<in> set (collNames obs)"
    using u by (auto simp: under_replicated_def Let_def)
  ultimately show "mv \<in> set (planReplications obs)"
    unfolding planReplications_def Let_def
    by (simp del: set_sort set_remdups set_collNames) (intro bexI [of _ coll] conjI bexI [of _ sid]; simp)
qed

lemma hd_sort_mem: "xs \<noteq> [] \<Longrightarrow> hd (sort xs) \<in> set xs"
  by (metis hd_in_set length_0_conv length_sort set_sort)

text \<open>
  Every planned replication copies a shard whose active replicas do not meet the replication
  factor, from a peer where it is active, to a member of the consensus that holds neither an active
  nor a dead replica of it and carries the fewest replicas of the collection among such members.
\<close>

lemma planReplications_safe:
  assumes "mv \<in> set (planReplications obs)"
  shows "pm_Replicate mv \<and> \<not> pm_Drop mv \<and>
    under_replicated obs (pm_Collection mv) (pm_ShardID mv) \<and>
    pm_From mv \<in> set (activeOn (shards_of obs (pm_Collection mv)) (pm_ShardID mv)) \<and>
    pm_To mv \<in> peer_ID ` set (eligible obs (pm_Collection mv) (pm_ShardID mv)) \<and>
    (\<forall>p \<in> set (eligible obs (pm_Collection mv) (pm_ShardID mv)).
       replicas_on (shards_of obs (pm_Collection mv)) (pm_To mv)
         \<le> replicas_on (shards_of obs (pm_Collection mv)) (peer_ID p))"
proof -
  obtain coll sid p where u: "under_replicated obs coll sid"
    and b: "bestTarget obs coll sid = Some p" and mv: "mv = replicateMove obs coll sid p"
    using assms unfolding planReplications_iff by blast
  note b = b [unfolded bestTarget_def]
  have "hd (sort (activeOn (shards_of obs coll) sid)) \<in> set (activeOn (shards_of obs coll) sid)"
    using u by (intro hd_sort_mem) (simp add: under_replicated_def Let_def)
  moreover have pe: "p \<in> set (eligible obs coll sid)" using b by (rule best_of_mem)
  moreover have "\<forall>q \<in> set (eligible obs coll sid).
       replicas_on (shards_of obs coll) (peer_ID p) \<le> replicas_on (shards_of obs coll) (peer_ID q)"
  proof
    fix q assume q: "q \<in> set (eligible obs coll sid)"
    have "p \<in> set (o_Peers obs)" and "q \<in> set (o_Peers obs)" using pe q by (auto simp: eligible_def)
    then show "replicas_on (shards_of obs coll) (peer_ID p) \<le> replicas_on (shards_of obs coll) (peer_ID q)"
      using loads.best_of_least [OF b q] by (auto simp: load_lt_def)
  qed
  ultimately show ?thesis using u mv by (simp add: replicateMove_def)
qed

text \<open>
  No under-replicated shard is forgotten: where some member of the consensus can take a copy, the
  plan contains one for that shard.
\<close>

lemma planReplications_complete:
  assumes "under_replicated obs coll sid" and "eligible obs coll sid \<noteq> []"
  shows "\<exists>mv \<in> set (planReplications obs). pm_Collection mv = coll \<and> pm_ShardID mv = sid"
proof -
  obtain p where p: "bestTarget obs coll sid = Some p"
    using assms(2) by (cases "bestTarget obs coll sid") (auto simp: bestTarget_def)
  then have "replicateMove obs coll sid p \<in> set (planReplications obs)"
    using assms(1) unfolding planReplications_iff by blast
  then show ?thesis by (rule bexI [rotated]) (simp add: replicateMove_def)
qed

text \<open>
  C8: the replication stage repairs exactly what it can. Every planned replication copies a shard whose active
  replicas do not meet the replication factor, from a peer where it is active, to a member of the consensus
  that holds neither an active nor a dead replica of it and carries the fewest replicas of the collection
  among such members; and no such shard is forgotten: where some member can take a copy, the plan has one.
\<close>

theorem planReplications_repairs:
  "(\<forall>mv \<in> set (planReplications obs).
      pm_Replicate mv \<and> \<not> pm_Drop mv \<and>
      under_replicated obs (pm_Collection mv) (pm_ShardID mv) \<and>
      pm_From mv \<in> set (activeOn (shards_of obs (pm_Collection mv)) (pm_ShardID mv)) \<and>
      pm_To mv \<in> peer_ID ` set (eligible obs (pm_Collection mv) (pm_ShardID mv)) \<and>
      (\<forall>p \<in> set (eligible obs (pm_Collection mv) (pm_ShardID mv)).
         replicas_on (shards_of obs (pm_Collection mv)) (pm_To mv)
           \<le> replicas_on (shards_of obs (pm_Collection mv)) (peer_ID p))) \<and>
   (\<forall>coll sid. under_replicated obs coll sid \<longrightarrow> eligible obs coll sid \<noteq> [] \<longrightarrow>
      (\<exists>mv \<in> set (planReplications obs). pm_Collection mv = coll \<and> pm_ShardID mv = sid))"
  using planReplications_safe planReplications_complete by blast

section \<open>Reclaiming dead replicas\<close>

definition dropMove :: "string \<Rightarrow> u32 \<Rightarrow> u64 \<Rightarrow> plannedMove" where
  "dropMove coll sid pid = \<lparr>pm_Collection = coll, pm_ShardID = sid, pm_From = pid, pm_To = 0,
     pm_Drop = True, pm_Replicate = False, pm_fromCount = 0, pm_toCount = 0\<rparr>"

lemma deadDropsOf_iff:
  "mv \<in> set (deadDropsOf obs coll sid) \<longleftrightarrow>
     max (get_or 0 (o_RF obs) coll) 1 \<le> of_nat (length (activeOn (shards_of obs coll) sid)) \<and>
     (\<exists>pid \<in> set (deadHolders obs coll sid). mv = dropMove coll sid pid)"
  by (auto simp: deadDropsOf_def Let_def dropMove_def deadHolders_def not_less
      simp del: max.bounded_iff max_less_iff_conj less_max_iff_disj)

lemma dead_ids:
  "sid \<in> set (sort (remdups (map sh_ShardID
     (filter (\<lambda>s. sh_State s = shardStateDead) (shards_of obs coll))))) \<longleftrightarrow>
   deadHolders obs coll sid \<noteq> []"
  by (auto simp: deadHolders_def held_by_def filter_empty_conv)

lemma planDeadDrops_iff:
  "mv \<in> set (planDeadDrops obs) \<longleftrightarrow>
     (\<exists>coll sid pid. coll \<in> fst ` set (o_Collections obs) \<and> pid \<in> set (deadHolders obs coll sid) \<and>
        max (get_or 0 (o_RF obs) coll) 1 \<le> of_nat (length (activeOn (shards_of obs coll) sid)) \<and>
        mv = dropMove coll sid pid)"
proof -
  have "mv \<in> set (planDeadDrops obs) \<longleftrightarrow> (\<exists>coll \<in> set (collNames obs).
      \<exists>sid \<in> set (sort (remdups (map sh_ShardID
        (filter (\<lambda>s. sh_State s = shardStateDead) (shards_of obs coll))))).
        mv \<in> set (deadDropsOf obs coll sid))"
    by (simp add: planDeadDrops_def)
  also have "\<dots> \<longleftrightarrow> (\<exists>coll \<in> fst ` set (o_Collections obs). \<exists>sid. deadHolders obs coll sid \<noteq> [] \<and>
        mv \<in> set (deadDropsOf obs coll sid))"
    unfolding Bex_def dead_ids set_collNames ..
  also have "\<dots> \<longleftrightarrow> (\<exists>coll sid pid. coll \<in> fst ` set (o_Collections obs) \<and>
        pid \<in> set (deadHolders obs coll sid) \<and>
        max (get_or 0 (o_RF obs) coll) 1 \<le> of_nat (length (activeOn (shards_of obs coll) sid)) \<and>
        mv = dropMove coll sid pid)"
    unfolding deadDropsOf_iff by (metis empty_iff empty_set)
  finally show ?thesis .
qed

text \<open>What the placement of a collection is after a replica has been dropped.\<close>

definition drop_replica :: "u32 \<Rightarrow> u64 \<Rightarrow> ShardInfo list \<Rightarrow> ShardInfo list" where
  "drop_replica sid pid shards = filter (\<lambda>s. shard_key s \<noteq> (sid, pid)) shards"

lemma drop_replica_activeOn:
  assumes "distinct (map shard_key shards)"
    and "s \<in> set shards" and "shard_key s = (sid, pid)" and "sh_State s \<noteq> shardStateActive"
  shows "activeOn (drop_replica sid pid shards) sid' = activeOn shards sid'"
proof -
  have "(sh_ShardID t = sid' \<and> sh_State t = shardStateActive \<and> shard_key t \<noteq> (sid, pid)) \<longleftrightarrow>
      (sh_ShardID t = sid' \<and> sh_State t = shardStateActive)" if "t \<in> set shards" for t
  proof -
    have "t = s" if "shard_key t = (sid, pid)"
      using assms(1-3) \<open>t \<in> set shards\<close> that by (metis distinct_map inj_onD)
    then show ?thesis using assms(4) by auto
  qed
  then show ?thesis
    unfolding activeOn_def held_by_def drop_replica_def filter_filter
    by (intro arg_cong [of _ _ "map sh_PeerID"] filter_cong) (auto simp: conj_commute)
qed

text \<open>
  C7: durability comes first. A planned dead drop removes a replica that is dead, and every shard of
  the collection keeps exactly the active replicas it had; for the shard itself they number at least
  the replication factor and at least one. (A shard has fewer than \<open>2 ^ 32\<close> replicas.)
\<close>

theorem planDeadDrops_keep_durability:
  assumes "wf_obs obs" and "mv \<in> set (planDeadDrops obs)"
    and "length (shards_of obs (pm_Collection mv)) < 2 ^ 32"
  shows "pm_Drop mv \<and>
    pm_From mv \<in> set (deadHolders obs (pm_Collection mv) (pm_ShardID mv)) \<and>
    (\<forall>sid. activeOn (drop_replica (pm_ShardID mv) (pm_From mv) (shards_of obs (pm_Collection mv))) sid
       = activeOn (shards_of obs (pm_Collection mv)) sid) \<and>
    max (unat (get_or 0 (o_RF obs) (pm_Collection mv))) 1
      \<le> length (activeOn (drop_replica (pm_ShardID mv) (pm_From mv) (shards_of obs (pm_Collection mv)))
           (pm_ShardID mv))"
proof -
  obtain coll sid pid where pid: "pid \<in> set (deadHolders obs coll sid)"
    and rf: "max (get_or 0 (o_RF obs) coll) 1 \<le> of_nat (length (activeOn (shards_of obs coll) sid))"
    and mv: "pm_Collection mv = coll" "pm_ShardID mv = sid" "pm_From mv = pid" "pm_Drop mv"
    using assms(2) unfolding planDeadDrops_iff by (auto simp: dropMove_def)
  obtain s where s: "s \<in> set (shards_of obs coll)" "shard_key s = (sid, pid)" "sh_State s = shardStateDead"
    using pid by (auto simp: deadHolders_mem shard_key_def)
  have keep: "activeOn (drop_replica sid pid (shards_of obs coll)) sid' = activeOn (shards_of obs coll) sid'" for sid'
    using wf_obs_shards [OF assms(1)] s by (intro drop_replica_activeOn) (auto simp: go_consts)
  have "length (activeOn (shards_of obs coll) sid) < 2 ^ 32"
    using assms(3) mv(1) le_less_trans [OF length_filter_le] by (simp add: activeOn_def held_by_def)
  then have "unat (of_nat (length (activeOn (shards_of obs coll) sid)) :: u32)
      = length (activeOn (shards_of obs coll) sid)"
    by (simp add: unat_of_nat)
  then have "max (unat (get_or 0 (o_RF obs) coll)) 1 \<le> length (activeOn (shards_of obs coll) sid)"
    using rf unfolding max.bounded_iff by (simp add: word_le_nat_alt)
  then show ?thesis using mv pid keep by simp
qed

section \<open>Applying a move\<close>

text \<open>What the placement is once Qdrant has carried a planned move out.\<close>

definition relocate :: "u32 \<Rightarrow> u64 \<Rightarrow> u64 \<Rightarrow> ShardInfo list \<Rightarrow> ShardInfo list" where
  "relocate sid from to shards =
     map (\<lambda>s. if shard_key s = (sid, from) then s\<lparr>sh_PeerID := to\<rparr> else s) shards"

definition on_shards :: "(ShardInfo list \<Rightarrow> ShardInfo list) \<Rightarrow> string \<Rightarrow> observation \<Rightarrow> observation" where
  "on_shards f coll obs = obs\<lparr>o_Collections :=
     map (\<lambda>(c, cc). (c, if c = coll then cc\<lparr>cc_Shards := f (cc_Shards cc)\<rparr> else cc)) (o_Collections obs)\<rparr>"

definition applyMove :: "plannedMove \<Rightarrow> observation \<Rightarrow> observation" where
  "applyMove mv obs =
     on_shards (relocate (pm_ShardID mv) (pm_From mv) (pm_To mv)) (pm_Collection mv) obs"

lemma on_shards_sel [simp]:
  "o_Peers (on_shards f coll obs) = o_Peers obs"
  "o_RF (on_shards f coll obs) = o_RF obs"
  "o_Sizes (on_shards f coll obs) = o_Sizes obs"
  "o_SizesComplete (on_shards f coll obs) = o_SizesComplete obs"
  "map fst (o_Collections (on_shards f coll obs)) = map fst (o_Collections obs)"
  by (auto simp: on_shards_def)

lemma on_shards_names [simp]:
  "fst ` set (o_Collections (on_shards f coll obs)) = fst ` set (o_Collections obs)"
  using on_shards_sel(5) [of f coll obs] by (metis list.set_map)

lemma sizeAt_on_shards [simp]: "sizeAt (on_shards f coll obs) = sizeAt obs"
  by (intro ext) (simp add: sizeAt_def)

lemma shards_of_on_shards:
  "shards_of (on_shards f coll obs) c =
     (if c = coll \<and> coll \<in> fst ` set (o_Collections obs) then f (shards_of obs coll) else shards_of obs c)"
proof -
  have "map_of (map (\<lambda>(c, cc). (c, if c = coll then cc\<lparr>cc_Shards := f (cc_Shards cc)\<rparr> else cc)) xs) c =
      map_option (\<lambda>cc. if c = coll then cc\<lparr>cc_Shards := f (cc_Shards cc)\<rparr> else cc) (map_of xs c)" for xs
    by (induction xs) auto
  then have "map_of (o_Collections (on_shards f coll obs)) c =
      map_option (\<lambda>cc. if c = coll then cc\<lparr>cc_Shards := f (cc_Shards cc)\<rparr> else cc)
        (map_of (o_Collections obs) c)"
    by (simp add: on_shards_def)
  moreover have "map_of (o_Collections obs) coll = None \<longleftrightarrow> coll \<notin> fst ` set (o_Collections obs)"
    by (rule map_of_eq_None_iff)
  ultimately show ?thesis
    by (cases "map_of (o_Collections obs) c") (auto simp: shards_of_def)
qed

lemma relocate_Cons:
  "relocate sid from to (s # ss) =
     (if shard_key s = (sid, from) then s\<lparr>sh_PeerID := to\<rparr> else s) # relocate sid from to ss"
  by (simp add: relocate_def)

lemma relocate_absent: "(sid, from) \<notin> shard_key ` set shards \<Longrightarrow> relocate sid from to shards = shards"
  by (induction shards) (auto simp: relocate_def)

lemma relocate_distinct:
  assumes "distinct (map shard_key shards)" and "(sid, to) \<notin> shard_key ` set shards"
  shows "distinct (map shard_key (relocate sid from to shards))"
  using assms
proof (induction shards)
  case (Cons s ss)
  have "shard_key s \<notin> shard_key ` set (relocate sid from to ss)"
    if "shard_key s \<noteq> (sid, from)"
    using that Cons.prems by (auto simp: relocate_def shard_key_def split: if_splits)
  moreover have "(sid, to) \<notin> shard_key ` set ss" using Cons.prems by auto
  ultimately show ?case
    using Cons by (auto simp: relocate_Cons relocate_absent) (auto simp: shard_key_def relocate_absent)
qed (simp add: relocate_def)

lemma legal_move_keys:
  assumes "legal_move obs mv"
  shows "(pm_ShardID mv, pm_From mv) \<in> shard_key ` set (shards_of obs (pm_Collection mv))"
    and "(pm_ShardID mv, pm_To mv) \<notin> shard_key ` set (shards_of obs (pm_Collection mv))"
  using assms by (force simp: legal_move_def set_holders shard_key_def)+

lemma applyMove_wf:
  assumes "wf_obs obs" and "legal_move obs mv"
  shows "wf_obs (applyMove mv obs)"
proof -
  have "distinct (map shard_key (relocate (pm_ShardID mv) (pm_From mv) (pm_To mv)
      (shards_of obs (pm_Collection mv))))"
    using wf_obs_shards [OF assms(1)] legal_move_keys(2) [OF assms(2)] by (rule relocate_distinct)
  moreover have "cc_Shards cc = shards_of obs c" if "(c, cc) \<in> set (o_Collections obs)" for c cc
    using shards_of_mem [OF assms(1) that] by simp
  ultimately have "\<forall>(_, cc) \<in> set (o_Collections (applyMove mv obs)). distinct (map shard_key (cc_Shards cc))"
    using wf_obs_shards [OF assms(1)] by (auto simp: applyMove_def on_shards_def)
  then show ?thesis
    using assms(1) by (simp add: wf_obs_def applyMove_def)
qed

section \<open>Levelling the points\<close>

text \<open>The points a peer holds of a list of shards, and in all; sums of 64-bit words wrap.\<close>

definition shard_points :: "(u32 \<Rightarrow> 'a::ab_group_add) \<Rightarrow> u64 \<Rightarrow> ShardInfo list \<Rightarrow> 'a" where
  "shard_points sz p shards = sum_list (map (\<lambda>s. sz (sh_ShardID s)) (filter (\<lambda>s. sh_PeerID s = p) shards))"

definition points_on :: "observation \<Rightarrow> u64 \<Rightarrow> u64" where
  "points_on obs p =
     sum_list (map (\<lambda>(coll, cc). shard_points (sizeAt obs coll) p (cc_Shards cc)) (o_Collections obs))"

lemma shard_points_simps [simp]:
  "shard_points sz p [] = 0"
  "shard_points sz p (s # ss) =
     (if sh_PeerID s = p then sz (sh_ShardID s) else 0) + shard_points sz p ss"
  by (simp_all add: shard_points_def)

lemma peerTotals_inner:
  "fold (\<lambda>s m. case m (sh_PeerID s) of None \<Rightarrow> m | Some v \<Rightarrow> m(sh_PeerID s \<mapsto> v + sz (sh_ShardID s)))
     shards m p = map_option (\<lambda>v. v + shard_points sz p shards) (m p)"
proof (induction shards arbitrary: m)
  case (Cons s ss)
  then show ?case by (cases "m (sh_PeerID s)"; cases "m p") auto
qed (simp add: option.map_ident)

lemma peerTotals_outer:
  "fold (\<lambda>(coll, cc) m.
     fold (\<lambda>s m. case m (sh_PeerID s) of None \<Rightarrow> m
                 | Some v \<Rightarrow> m(sh_PeerID s \<mapsto> v + sizeAt obs coll (sh_ShardID s))) (cc_Shards cc) m)
     xs m p =
   map_option (\<lambda>v. v + sum_list (map (\<lambda>(coll, cc). shard_points (sizeAt obs coll) p (cc_Shards cc)) xs)) (m p)"
proof (induction xs arbitrary: m)
  case (Cons x xs)
  obtain coll cc where "x = (coll, cc)" by fastforce
  then show ?case
    unfolding fold_simps comp_apply Cons
    by (simp add: peerTotals_inner option.map_comp comp_def add.assoc)
qed (simp add: option.map_ident)

lemma peerTotals_eq:
  "peerTotals obs p = (if p \<in> peer_ID ` set (o_Peers obs) then Some (points_on obs p) else None)"
  unfolding peerTotals_def peerTotals_outer peers_init points_on_def by simp

lemma shard_points_relocate:
  assumes "distinct (map shard_key shards)" and "(sid, from) \<in> shard_key ` set shards" and "from \<noteq> to"
  shows "shard_points sz p (relocate sid from to shards) =
    shard_points sz p shards + (if p = to then sz sid else 0) - (if p = from then sz sid else 0)"
  using assms
proof (induction shards)
  case (Cons s ss)
  show ?case
  proof (cases "shard_key s = (sid, from)")
    case True
    then have "relocate sid from to ss = ss"
      using Cons.prems(1) by (intro relocate_absent) (auto simp: image_iff)
    then show ?thesis using True Cons.prems(3) by (auto simp: relocate_Cons shard_key_def)
  next
    case False
    then have "shard_points sz p (relocate sid from to ss) =
        shard_points sz p ss + (if p = to then sz sid else 0) - (if p = from then sz sid else 0)"
      using Cons.prems by (intro Cons.IH) auto
    then show ?thesis using False by (simp add: relocate_Cons)
  qed
qed simp

lemma sum_list_change_one:
  fixes g h :: "'a \<Rightarrow> 'b::ab_group_add"
  assumes "distinct xs" and "a \<in> set xs" and "\<And>x. x \<in> set xs \<Longrightarrow> x \<noteq> a \<Longrightarrow> h x = g x"
  shows "sum_list (map h xs) = sum_list (map g xs) - g a + h a"
  using assms by (simp add: sum_list_distinct_conv_sum_set sum.remove [of "set xs" a])

lemma points_on_applyMove:
  assumes "wf_obs obs" and "legal_move obs mv"
  shows "points_on (applyMove mv obs) p = points_on obs p
    + (if p = pm_To mv then sizeAt obs (pm_Collection mv) (pm_ShardID mv) else 0)
    - (if p = pm_From mv then sizeAt obs (pm_Collection mv) (pm_ShardID mv) else 0)"
proof -
  define c where "c = pm_Collection mv"
  define f where "f = relocate (pm_ShardID mv) (pm_From mv) (pm_To mv)"
  obtain cc where cc: "(c, cc) \<in> set (o_Collections obs)"
    using assms(2) by (auto simp: legal_move_def c_def)
  have d: "distinct (o_Collections obs)" and names: "distinct (map fst (o_Collections obs))"
    using assms(1) by (auto simp: wf_obs_def distinct_map)
  let ?g = "\<lambda>(coll, cc). shard_points (sizeAt obs coll) p (cc_Shards cc)"
  let ?h = "\<lambda>(coll, cc). shard_points (sizeAt obs coll) p (if coll = c then f (cc_Shards cc) else cc_Shards cc)"
  have "points_on (applyMove mv obs) p = sum_list (map ?h (o_Collections obs))"
    unfolding points_on_def applyMove_def sizeAt_on_shards
    unfolding on_shards_def c_def f_def by (auto simp: comp_def intro!: arg_cong [of _ _ sum_list])
  also have "\<dots> = sum_list (map ?g (o_Collections obs)) - ?g (c, cc) + ?h (c, cc)"
    by (rule sum_list_change_one [OF d cc]) (use names cc in \<open>auto dest: eq_key_imp_eq_value split: if_splits\<close>)
  also have "?h (c, cc) = ?g (c, cc) + (if p = pm_To mv then sizeAt obs c (pm_ShardID mv) else 0)
      - (if p = pm_From mv then sizeAt obs c (pm_ShardID mv) else 0)"
    using legal_move_keys(1) [OF assms(2)] wf_obs_shards [OF assms(1), of c] assms(2)
    by (simp add: f_def shard_points_relocate shards_of_mem [OF assms(1) cc] legal_move_def flip: c_def)
  finally show ?thesis by (simp add: points_on_def c_def)
qed

lemma spread_cong: "(\<And>p. p \<in> set ids \<Longrightarrow> get_or 0 t p = get_or 0 u p) \<Longrightarrow> spread ids t = spread ids u"
  unfolding spread_def by (metis map_cong)

lemma spread_applyMove:
  assumes "wf_obs obs" and "legal_move obs mv"
  shows "spread (map peer_ID (o_Peers obs)) (peerTotals (applyMove mv obs)) =
    spread (map peer_ID (o_Peers obs))
      (shiftTotals (peerTotals obs) (pm_From mv) (pm_To mv) (sizeAt obs (pm_Collection mv) (pm_ShardID mv)))"
proof (rule spread_cong)
  fix p assume "p \<in> set (map peer_ID (o_Peers obs))"
  moreover have "o_Peers (applyMove mv obs) = o_Peers obs" by (simp add: applyMove_def)
  ultimately show "get_or 0 (peerTotals (applyMove mv obs)) p = get_or 0 (shiftTotals (peerTotals obs)
      (pm_From mv) (pm_To mv) (sizeAt obs (pm_Collection mv) (pm_ShardID mv))) p"
    using assms(2)
    by (auto simp: shiftTotals_def Let_def peerTotals_eq get_or_def points_on_applyMove [OF assms]
        legal_move_def)
qed

text \<open>The extremes are the greatest and the least total, attained by the peers they name.\<close>

lemma findExtremes_props:
  fixes tot :: "u64 \<Rightarrow> u64"
  defines "ex \<equiv> \<lambda>peers. findExtremes peers tot"
  shows "ex_mx (ex peers) = fold max (map (tot \<circ> peer_ID) peers) 0"
    and "ex_mn (ex peers) = fold min (map (tot \<circ> peer_ID) peers) (- 1)"
    and "ex_mx (ex peers) = 0 \<or> ex_donor (ex peers) \<in> peer_ID ` set peers \<and> tot (ex_donor (ex peers)) = ex_mx (ex peers)"
    and "ex_mn (ex peers) = - 1 \<or> ex_recip (ex peers) \<in> peer_ID ` set peers \<and> tot (ex_recip (ex peers)) = ex_mn (ex peers)"
proof (induction peers rule: rev_induct)
  case Nil
  { case 1 show ?case by (simp add: ex_def findExtremes_def)
  next case 2 show ?case by (simp add: ex_def findExtremes_def)
  next case 3 show ?case by (simp add: ex_def findExtremes_def)
  next case 4 show ?case by (simp add: ex_def findExtremes_def) }
next
  case (snoc p ps)
  have step: "ex (ps @ [p]) =
      (let x = (if ex_mx (ex ps) < tot (peer_ID p)
                then (ex ps)\<lparr>ex_mx := tot (peer_ID p), ex_donor := peer_ID p\<rparr> else ex ps)
       in (if tot (peer_ID p) < ex_mn x
           then x\<lparr>ex_mn := tot (peer_ID p), ex_recip := peer_ID p\<rparr> else x))"
    by (simp add: ex_def findExtremes_def)
  { case 1 show ?case using snoc(1) by (auto simp: step Let_def max_def)
  next case 2 show ?case using snoc(2) by (auto simp: step Let_def min_def)
  next case 3 show ?case using snoc(3) by (auto simp: step Let_def)
  next case 4 show ?case using snoc(4) by (auto simp: step Let_def) }
qed

lemma fold_extremes_mem:
  fixes vs :: "'a::linorder list"
  assumes "v \<in> set vs"
  shows "v \<le> fold max vs a" and "fold min vs a \<le> v"
proof -
  show "v \<le> fold max vs a"
    using assms by (simp flip: Max.set_eq_fold)
  show "fold min vs a \<le> v"
    using assms by (simp flip: Min.set_eq_fold)
qed

lemma size_move_narrows:
  assumes "wf_obs obs" and "mv \<in> set (planSizeRebalance obs)"
  shows "planSizeRebalance obs = [mv] \<and> legal_move obs mv \<and> \<not> pm_Drop mv \<and> \<not> pm_Replicate mv \<and>
    spread (map peer_ID (o_Peers obs)) (peerTotals (applyMove mv obs))
      < spread (map peer_ID (o_Peers obs)) (peerTotals obs)"
proof -
  let ?ids = "map peer_ID (o_Peers obs)"
  define tot where "tot = get_or 0 (peerTotals obs)"
  define x where "x = findExtremes (o_Peers obs) tot"
  note ex = findExtremes_props [where tot = tot and peers = "o_Peers obs", folded x_def]
  let ?cands = "sizeCands obs (ex_donor x) (ex_recip x) (ex_mx x - ex_mn x)"
  have eq: "planSizeRebalance obs =
      (if length (o_Peers obs) < 2 \<or> \<not> o_SizesComplete obs \<or> ex_donor x = ex_recip x \<or>
          ex_mx x - ex_mn x < sizeMinDelta \<or>
          float64_of_int (uint (ex_mx x)) < 2 * float64_of_int (uint (max (ex_mn x) 1)) then []
       else case best_of cand_lt ?cands of None \<Rightarrow> []
         | Some c \<Rightarrow> [\<lparr>pm_Collection = cand_coll c, pm_ShardID = cand_shardID c, pm_From = ex_donor x,
             pm_To = ex_recip x, pm_Drop = False, pm_Replicate = False, pm_fromCount = 0, pm_toCount = 0\<rparr>])"
    unfolding planSizeRebalance_def Let_def x_def tot_def by auto
  then obtain c where best: "best_of cand_lt ?cands = Some c"
    using assms(2) by (cases "best_of cand_lt ?cands") (auto split: if_splits)
  then have c: "c \<in> set ?cands" by (rule best_of_mem)
  have ne: "ex_donor x \<noteq> ex_recip x" and gap: "sizeMinDelta \<le> ex_mx x - ex_mn x"
    and plan: "planSizeRebalance obs = [mv]" and mv: "pm_Collection mv = cand_coll c"
      "pm_ShardID mv = cand_shardID c" "pm_From mv = ex_donor x" "pm_To mv = ex_recip x"
      "\<not> pm_Drop mv" "\<not> pm_Replicate mv" and two: "o_Peers obs \<noteq> []"
    using assms(2) unfolding eq by (auto simp: best not_less split: if_splits)
  have sp: "spread ?ids (peerTotals obs) = ex_mx x - ex_mn x"
    by (simp add: spread_def Let_def ex(1,2) tot_def comp_def)
  have "ex_mn x \<le> tot (peer_ID p) \<and> tot (peer_ID p) \<le> ex_mx x" if "p \<in> set (o_Peers obs)" for p
    using that unfolding ex(1,2) by (auto intro!: fold_extremes_mem)
  then have le: "ex_mn x \<le> ex_mx x" using two by (meson hd_in_set order_trans)
  have "ex_mx x \<noteq> 0" and "ex_mn x \<noteq> - 1"
    using gap le by (auto simp: sizeMinDelta_def word_order.extremum_unique)
  then have mem: "ex_donor x \<in> set ?ids" "ex_recip x \<in> set ?ids" using ex(3,4) by auto
  from c have coll: "cand_coll c \<in> fst ` set (o_Collections obs)"
    and hold: "ex_donor x \<in> set (holders (shards_of obs (cand_coll c)) (cand_shardID c))"
      "ex_recip x \<notin> set (holders (shards_of obs (cand_coll c)) (cand_shardID c))"
    and new: "spread ?ids (shiftTotals (peerTotals obs) (ex_donor x) (ex_recip x)
        (sizeAt obs (cand_coll c) (cand_shardID c))) < ex_mx x - ex_mn x"
    by (auto simp: sizeCands_def set_holders intro: rev_image_eqI)
  have legal: "legal_move obs mv" using coll hold mem ne by (simp add: legal_move_def mv)
  show ?thesis
    using plan legal mv(5,6) new sp spread_applyMove [OF assms(1) legal] by (simp add: mv)
qed

lemma planRebalance_mem:
  assumes "wf_obs obs" and "mv \<in> set (planRebalance obs)"
  shows "legal_move obs mv" and "\<not> pm_Drop mv" and "\<not> pm_Replicate mv" and "\<not> hasDead obs"
proof -
  have "mv \<in> set (countMoves obs) \<or> mv \<in> set (planSizeRebalance obs)" and dead: "\<not> hasDead obs"
    using assms(2) by (auto simp: planRebalance_def Let_def split: if_splits)
  then have "legal_move obs mv \<and> \<not> pm_Drop mv \<and> \<not> pm_Replicate mv"
    using countMoves_legal size_move_narrows [OF assms(1)] by blast
  then show "legal_move obs mv" and "\<not> pm_Drop mv" and "\<not> pm_Replicate mv" and "\<not> hasDead obs"
    using dead by auto
qed

text \<open>
  C9: the size stage plans at most one move; it is legal, and the spread of the points per peer (the
  greatest total less the least, over the members of the consensus) is strictly smaller once it has
  been carried out.
\<close>

theorem planSizeRebalance_narrows:
  assumes "wf_obs obs" and "mv \<in> set (planSizeRebalance obs)"
  shows "planSizeRebalance obs = [mv] \<and> legal_move obs mv \<and> \<not> pm_Drop mv \<and> \<not> pm_Replicate mv \<and>
    spread (map peer_ID (o_Peers obs)) (peerTotals (applyMove mv obs))
      < spread (map peer_ID (o_Peers obs)) (peerTotals obs)"
  using size_move_narrows [OF assms] .

section \<open>Plans depend on the placement only\<close>

text \<open>
  Two observations describe the same placement when they agree on the peers, the replication factors
  and the sizes and list the same replicas per collection; the order in which collections and
  replicas are listed (a Go map is ranged over in random order) may differ.
\<close>

definition same_placement :: "observation \<Rightarrow> observation \<Rightarrow> bool" where
  "same_placement a b \<longleftrightarrow>
     o_Peers a = o_Peers b \<and> o_RF a = o_RF b \<and> o_Sizes a = o_Sizes b \<and>
     o_SizesComplete a = o_SizesComplete b \<and>
     mset (map fst (o_Collections a)) = mset (map fst (o_Collections b)) \<and>
     (\<forall>coll. mset (shards_of a coll) = mset (shards_of b coll))"

lemma sort_mset_cong: "mset xs = mset ys \<Longrightarrow> sort xs = sort ys"
  by (metis sorted_list_of_multiset_mset)

lemma sort_remdups_cong: "set xs = set ys \<Longrightarrow> sort (remdups xs) = sort (remdups ys)"
  by (simp add: sorted_list_of_set_sort_remdups [symmetric])

lemma mset_map_filter_cong:
  "mset xs = mset ys \<Longrightarrow> mset (map f (filter P xs)) = mset (map f (filter P ys))"
  by (simp add: mset_filter)

lemma mset_set_eq: "mset xs = mset ys \<Longrightarrow> set xs = set ys"
  by (metis set_mset_mset)

lemma replicas_on_cong: "mset xs = mset ys \<Longrightarrow> replicas_on xs p = replicas_on ys p"
  unfolding replicas_on_def by (metis mset_filter size_mset)

lemma peerCounts_cong: "mset xs = mset ys \<Longrightarrow> peerCounts peers xs = peerCounts peers ys"
  by (intro ext) (simp add: peerCounts_eq replicas_on_cong [of xs ys])

lemma holders_cong: "mset xs = mset ys \<Longrightarrow> set (holders xs sid) = set (holders ys sid)"
  using mset_set_eq [of xs ys] by (auto simp: set_holders)

lemma mset_held_by_cong: "mset xs = mset ys \<Longrightarrow> mset (held_by P xs sid) = mset (held_by P ys sid)"
  unfolding held_by_def by (rule mset_map_filter_cong)

lemma movable_cong:
  assumes "mset xs = mset ys"
  shows "movable xs p q = movable ys p q"
  unfolding movable_def holders_cong [OF assms]
  by (intro sort_mset_cong mset_map_filter_cong assms)

lemma countMoves_cong:
  assumes "same_placement a b"
  shows "countMoves a = countMoves b"
proof -
  have s: "mset (shards_of a coll) = mset (shards_of b coll)" for coll
    using assms by (simp add: same_placement_def)
  have "countMove coll (o_Peers a) (shards_of a coll) p q = countMove coll (o_Peers b) (shards_of b coll) p q"
    for coll p q
    using assms unfolding countMove_def movable_cong [OF s] peerCounts_cong [OF s]
    by (simp add: same_placement_def)
  moreover have "collNames a = collNames b"
    using assms unfolding collNames_def same_placement_def by (blast intro: sort_mset_cong)
  ultimately show ?thesis
    using assms by (simp add: countMoves_def same_placement_def)
qed

lemma same_placement_shards:
  assumes "same_placement a b"
  shows "mset (shards_of a coll) = mset (shards_of b coll)" and "collNames a = collNames b"
    and "o_Peers a = o_Peers b" and "o_RF a = o_RF b" and "o_SizesComplete a = o_SizesComplete b"
    and "sizeAt a = sizeAt b"
  using assms unfolding same_placement_def collNames_def
  by (auto intro: sort_mset_cong simp: sizeAt_def [abs_def] simp del: mset_map)

lemma names_ex: "(\<exists>(_, cc) \<in> set (o_Collections obs). P (cc_Shards cc)) \<longleftrightarrow>
   (\<exists>coll \<in> set (collNames obs). P (shards_of obs coll))" if "wf_obs obs"
  using shards_of_mem [OF that] by force

lemma hasDead_iff:
  assumes "wf_obs obs"
  shows "hasDead obs \<longleftrightarrow>
    (\<exists>coll \<in> set (collNames obs). \<exists>s \<in> set (shards_of obs coll). sh_State s = shardStateDead)"
  using names_ex [OF assms, of "\<lambda>ss. \<exists>s \<in> set ss. sh_State s = shardStateDead"]
  by (simp add: hasDead_def list_ex_iff case_prod_beta)

lemma hasDead_cong:
  assumes "same_placement a b" and "wf_obs a" and "wf_obs b"
  shows "hasDead a = hasDead b"
  using mset_set_eq [OF same_placement_shards(1) [OF assms(1)]] same_placement_shards(2) [OF assms(1)]
  by (simp add: hasDead_iff assms del: set_collNames)

lemma points_on_names:
  assumes "wf_obs obs"
  shows "points_on obs p =
    sum_list (map (\<lambda>coll. shard_points (sizeAt obs coll) p (shards_of obs coll)) (collNames obs))"
proof -
  have "points_on obs p =
      sum_list (map (\<lambda>coll. shard_points (sizeAt obs coll) p (shards_of obs coll)) (map fst (o_Collections obs)))"
    unfolding points_on_def
    by (auto simp: shards_of_mem [OF assms] intro!: arg_cong [of _ _ sum_list])
  then show ?thesis unfolding collNames_def by (simp add: multiset.map_comp flip: sum_mset_sum_list)
qed

lemma shard_points_cong: "mset xs = mset ys \<Longrightarrow> shard_points sz p xs = shard_points sz p ys"
  unfolding shard_points_def sum_mset_sum_list [symmetric]
  by (rule arg_cong [of _ _ sum_mset], rule mset_map_filter_cong)

lemma peerTotals_cong:
  assumes "same_placement a b" and "wf_obs a" and "wf_obs b"
  shows "peerTotals a = peerTotals b"
proof -
  note sp = same_placement_shards [OF assms(1)]
  have "points_on a p = points_on b p" for p
    unfolding points_on_names [OF assms(2)] points_on_names [OF assms(3)] sp(2,6)
      shard_points_cong [OF sp(1)] ..
  then show ?thesis by (intro ext) (simp add: peerTotals_eq sp(3))
qed

lemma sizeCands_cong:
  assumes "same_placement a b" and "wf_obs a" and "wf_obs b"
  shows "set (sizeCands a donor recip gap) = set (sizeCands b donor recip gap)"
  using same_placement_shards [OF assms(1)] mset_set_eq [OF same_placement_shards(1) [OF assms(1)]]
    holders_cong [OF same_placement_shards(1) [OF assms(1)]] peerTotals_cong [OF assms]
  by (simp add: sizeCands_def del: set_collNames)

lemma planSizeRebalance_cong:
  assumes "same_placement a b" and "wf_obs a" and "wf_obs b"
  shows "planSizeRebalance a = planSizeRebalance b"
proof -
  have "best_of cand_lt (sizeCands a donor recip gap) = best_of cand_lt (sizeCands b donor recip gap)"
    for donor recip gap
    using sizeCands_cong [OF assms] by (rule cands.best_of_perm) (rule cand_lt_total)
  then show ?thesis
    using same_placement_shards [OF assms(1)] peerTotals_cong [OF assms]
    by (simp add: planSizeRebalance_def Let_def)
qed

lemma planReplications_cong:
  assumes "same_placement a b"
  shows "planReplications a = planReplications b"
proof -
  note sp = same_placement_shards [OF assms]
  have act: "sort (activeOn (shards_of a coll) sid) = sort (activeOn (shards_of b coll) sid)" for coll sid
    unfolding activeOn_def by (intro sort_mset_cong mset_held_by_cong sp(1))
  have dead: "set (deadHolders a coll sid) = set (deadHolders b coll sid)" for coll sid
    using mset_set_eq [OF mset_held_by_cong [OF sp(1)]] by (simp add: deadHolders_def)
  have "replicationOf a coll rf = replicationOf b coll rf" for coll rf
    unfolding replicationOf_def [abs_def] Let_def act dead peerCounts_cong [OF sp(1)] sp(3) ..
  moreover have "sort (remdups (map sh_ShardID (filter P (shards_of a coll)))) =
      sort (remdups (map sh_ShardID (filter P (shards_of b coll))))" for P coll
    by (intro sort_remdups_cong mset_set_eq mset_map_filter_cong sp(1))
  ultimately show ?thesis unfolding planReplications_def sp(2,3,4) by (simp cong: if_cong)
qed

lemma planDeadDrops_cong:
  assumes "same_placement a b"
  shows "planDeadDrops a = planDeadDrops b"
proof -
  note sp = same_placement_shards [OF assms]
  have len: "length (activeOn (shards_of a coll) sid) = length (activeOn (shards_of b coll) sid)" for coll sid
    unfolding activeOn_def by (metis mset_held_by_cong size_mset sp(1))
  have "sort (held_by P (shards_of a coll) sid) = sort (held_by P (shards_of b coll) sid)" for P coll sid
    by (intro sort_mset_cong mset_held_by_cong sp(1))
  then have "deadDropsOf a coll = deadDropsOf b coll" for coll
    by (simp add: deadDropsOf_def fun_eq_iff len sp(4))
  moreover have "sort (remdups (map sh_ShardID (filter P (shards_of a coll)))) =
      sort (remdups (map sh_ShardID (filter P (shards_of b coll))))" for P coll
    by (intro sort_remdups_cong mset_set_eq mset_map_filter_cong sp(1))
  ultimately show ?thesis unfolding planDeadDrops_def sp(2) by simp
qed

text \<open>
  C6: the same placement always gets the same plan, whatever order the runtime ranges over the maps
  in and whatever order the replicas are reported in. (Re-planning from a fresh observation without
  stored state relies on it.)
\<close>

theorem plans_deterministic:
  assumes "same_placement a b" and "wf_obs a" and "wf_obs b"
  shows "planRebalance a = planRebalance b \<and> planReplications a = planReplications b \<and>
    planDeadDrops a = planDeadDrops b"
  using countMoves_cong [OF assms(1)] planSizeRebalance_cong [OF assms] hasDead_cong [OF assms]
    planReplications_cong [OF assms(1)] planDeadDrops_cong [OF assms(1)] same_placement_shards(3) [OF assms(1)]
  by (simp add: planRebalance_def)

end
