(* ===== verification/Rebalance_Convergence.thy ===== *)
theory Rebalance_Convergence
  imports Rebalance_Safety
begin

text \<open>
  Carrying out the count plan terminates. Each planned count move lowers the sum of the squared
  replica counts, so executing the head of the plan over and over (what the executor does, one move
  at a time) reaches a placement where no two peers differ by more than one replica in any
  collection. The size stage, which runs where the count plan is empty, is not covered by that
  argument: a concrete placement shows the two stages undoing each other.
\<close>

section \<open>The potential\<close>

definition squares :: "observation \<Rightarrow> string \<Rightarrow> int" where
  "squares obs coll = sum_list (map (\<lambda>p. (replicas_on (shards_of obs coll) (peer_ID p))\<^sup>2) (o_Peers obs))"

definition potential :: "observation \<Rightarrow> int" where
  "potential obs = sum_list (map (squares obs) (collNames obs))"

lemma potential_nonneg: "0 \<le> potential obs"
  unfolding potential_def squares_def by (intro sum_list_nonneg) (auto intro!: sum_list_nonneg)

lemma replicas_on_points: "replicas_on shards p = shard_points (\<lambda>_. 1) p shards"
  by (induction shards) auto

lemma replicas_on_relocate:
  assumes "distinct (map shard_key shards)" and "(sid, from) \<in> shard_key ` set shards" and "from \<noteq> to"
  shows "replicas_on (relocate sid from to shards) p =
    replicas_on shards p + (if p = to then 1 else 0) - (if p = from then 1 else 0)"
  unfolding replicas_on_points using shard_points_relocate [OF assms] .

lemma sum_squares_transfer:
  fixes f g :: "'a \<Rightarrow> int"
  assumes "finite A" and "a \<in> A" and "b \<in> A" and "a \<noteq> b" and "f b + 2 \<le> f a"
    and "\<And>x. g x = f x + (if x = b then 1 else 0) - (if x = a then 1 else 0)"
  shows "(\<Sum>x\<in>A. (g x)\<^sup>2) + 2 \<le> (\<Sum>x\<in>A. (f x)\<^sup>2)"
proof -
  have split: "(\<Sum>x\<in>A. h x) = h a + h b + (\<Sum>x\<in>A - {a} - {b}. h x)" for h :: "'a \<Rightarrow> int"
    using assms(1-4) by (simp add: sum.remove [of A a] sum.remove [of "A - {a}" b])
  have "(\<Sum>x\<in>A - {a} - {b}. (g x)\<^sup>2) = (\<Sum>x\<in>A - {a} - {b}. (f x)\<^sup>2)"
    by (rule sum.cong) (auto simp: assms(6))
  moreover have "(g a)\<^sup>2 + (g b)\<^sup>2 + 2 \<le> (f a)\<^sup>2 + (f b)\<^sup>2"
    using assms(4,5) by (simp add: assms(6) power2_eq_square algebra_simps)
  ultimately show ?thesis unfolding split by simp
qed

lemma applyMove_collNames [simp]: "collNames (applyMove mv obs) = collNames obs"
  by (simp add: collNames_def applyMove_def)

lemma squares_applyMove:
  assumes "wf_obs obs" and "legal_move obs mv"
    and "replicas_on (shards_of obs (pm_Collection mv)) (pm_To mv) + 2
      \<le> replicas_on (shards_of obs (pm_Collection mv)) (pm_From mv)"
  shows "squares (applyMove mv obs) (pm_Collection mv) + 2 \<le> squares obs (pm_Collection mv)"
    and "coll \<noteq> pm_Collection mv \<Longrightarrow> squares (applyMove mv obs) coll = squares obs coll"
proof -
  let ?c = "pm_Collection mv"
  have ids: "distinct (map peer_ID (o_Peers obs))" using assms(1) by (simp add: wf_obs_def)
  have sq: "squares o' coll = (\<Sum>p \<in> peer_ID ` set (o_Peers obs). (replicas_on (shards_of o' coll) p)\<^sup>2)"
    if "o_Peers o' = o_Peers obs" for o' coll
    using that sum_list_distinct_conv_sum_set [OF ids, of "\<lambda>p. (replicas_on (shards_of o' coll) p)\<^sup>2"]
    by (simp add: squares_def comp_def)
  have peers: "o_Peers (applyMove mv obs) = o_Peers obs" by (simp add: applyMove_def)
  have after: "replicas_on (shards_of (applyMove mv obs) ?c) p =
      replicas_on (shards_of obs ?c) p + (if p = pm_To mv then 1 else 0) - (if p = pm_From mv then 1 else 0)" for p
    using assms(2) replicas_on_relocate [OF wf_obs_shards [OF assms(1)] legal_move_keys(1) [OF assms(2)], of "pm_To mv"]
    by (simp add: applyMove_def shards_of_on_shards legal_move_def)
  show "squares (applyMove mv obs) ?c + 2 \<le> squares obs ?c"
    unfolding sq [OF peers] sq [OF refl]
    by (rule sum_squares_transfer [where a = "pm_From mv" and b = "pm_To mv"])
       (use assms(2,3) after in \<open>auto simp: legal_move_def\<close>)
  show "coll \<noteq> ?c \<Longrightarrow> squares (applyMove mv obs) coll = squares obs coll"
    by (simp add: squares_def peers) (simp add: applyMove_def shards_of_on_shards)
qed

lemma count_move_lowers:
  assumes "wf_obs obs" and "mv \<in> set (countMoves obs)"
  shows "wf_obs (applyMove mv obs)" and "potential (applyMove mv obs) + 2 \<le> potential obs"
proof -
  note legal = countMoves_legal(1,4) [OF assms(2)]
  note sq = squares_applyMove [OF assms(1) legal]
  have mem: "pm_Collection mv \<in> set (collNames obs)" using legal(1) by (simp add: legal_move_def)
  have "distinct (collNames obs)" using assms(1) by (simp add: collNames_def wf_obs_def)
  then have "potential (applyMove mv obs) = potential obs - squares obs (pm_Collection mv)
      + squares (applyMove mv obs) (pm_Collection mv)"
    unfolding potential_def applyMove_collNames by (rule sum_list_change_one [OF _ mem sq(2)])
  then show "potential (applyMove mv obs) + 2 \<le> potential obs" using sq(1) by simp
  show "wf_obs (applyMove mv obs)" using applyMove_wf [OF assms(1) legal(1)] .
qed

text \<open>
  Every move of the count plan strictly lowers the sum over all collections and peers of the
  squared replica counts, by at least 2, and leaves a well-formed placement.
\<close>

theorem countMoves_decrease:
  assumes "wf_obs obs" and "mv \<in> set (countMoves obs)"
  shows "wf_obs (applyMove mv obs) \<and> potential (applyMove mv obs) + 2 \<le> potential obs"
  using count_move_lowers [OF assms] by simp

section \<open>Running the count plan\<close>

text \<open>
  One step executes the head of the sorted count plan; \<open>fuel\<close> bounds the number of moves.
\<close>

fun count_run :: "nat \<Rightarrow> observation \<Rightarrow> observation" where
  "count_run 0 obs = obs"
| "count_run (Suc n) obs =
     (case sort_func cmpMoves (countMoves obs) of
        [] \<Rightarrow> obs
      | mv # _ \<Rightarrow> count_run n (applyMove mv obs))"

text \<open>
  C4: executing the count plan one move at a time ends, after at most half the initial potential
  many moves, in a placement that is balanced: in every collection the replica counts of any two
  members of the consensus differ by at most one, and the planner has no count move left.
\<close>

theorem count_run_balances:
  assumes "wf_obs obs" and "potential obs \<le> 2 * int n"
  shows "balanced (count_run n obs) \<and> countMoves (count_run n obs) = [] \<and> wf_obs (count_run n obs)"
proof -
  have "countMoves (count_run n obs) = [] \<and> wf_obs (count_run n obs)"
    using assms
  proof (induction n arbitrary: obs)
    case 0
    have "countMoves obs = []"
    proof (rule ccontr)
      assume "countMoves obs \<noteq> []"
      then obtain mv where "mv \<in> set (countMoves obs)" by (cases "countMoves obs") auto
      then have "potential (applyMove mv obs) + 2 \<le> potential obs"
        using count_move_lowers 0 by blast
      then show False using potential_nonneg [of "applyMove mv obs"] 0 by simp
    qed
    then show ?case using 0 by simp
  next
    case (Suc n)
    show ?case
    proof (cases "sort_func cmpMoves (countMoves obs)")
      case Nil
      then show ?thesis using Suc.prems by simp
    next
      case (Cons mv rest)
      then have "mv \<in> set (countMoves obs)" by (metis list.set_intros(1) set_sort_func)
      then have "wf_obs (applyMove mv obs)" and "potential (applyMove mv obs) + 2 \<le> potential obs"
        using count_move_lowers Suc.prems by blast+
      then show ?thesis using Suc.IH [of "applyMove mv obs"] Suc.prems Cons by simp
    qed
  qed
  then show ?thesis using countMoves_Nil_imp_balanced by blast
qed

section \<open>The two stages can undo each other\<close>

text \<open>
  Two peers, one collection with four shards: 0 and 1 on peer 1 with 30000 points each, 2 and 3 on
  peer 2 with none. Every peer holds two replicas, so the count plan is empty and the size stage
  moves shard 0 to peer 2; now the counts are 1 and 3, and the count stage moves it back.
\<close>

definition shardOn :: "u32 \<Rightarrow> u64 \<Rightarrow> ShardInfo" where
  "shardOn sid p = \<lparr>sh_ShardID = sid, sh_PeerID = p, sh_State = shardStateActive, sh_PointsCount = 0\<rparr>"

definition twoPeers :: "Peer list" where
  "twoPeers = [\<lparr>peer_ID = 1, peer_URI = []\<rparr>, \<lparr>peer_ID = 2, peer_URI = []\<rparr>]"

definition placed :: "ShardInfo list \<Rightarrow> observation" where
  "placed shards = \<lparr>o_Peers = twoPeers,
     o_Collections = [(''c'', \<lparr>cc_PeerID = 1, cc_ShardCount = 4, cc_Shards = shards, cc_Transfers = []\<rparr>)],
     o_RF = [''c'' \<mapsto> 1], o_Sizes = [''c'' \<mapsto> [0 \<mapsto> 30000, 1 \<mapsto> 30000, 2 \<mapsto> 0, 3 \<mapsto> 0]],
     o_SizesComplete = True\<rparr>"

definition skewed :: observation where
  "skewed = placed [shardOn 0 1, shardOn 1 1, shardOn 2 2, shardOn 3 2]"

lemmas sample_defs = skewed_def placed_def shardOn_def twoPeers_def

lemmas planner_defs =
  planRebalance_def planSizeRebalance_def countMoves_def countMove_def collNames_def shards_of_def
  movable_def holders_def held_by_def peerCounts_def peerTotals_def sizeAt_def findExtremes_def
  sizeCands_def spread_def shiftTotals_def cand_lt_def best_of_def float64_of_int_def hasDead_def
  cmpMoves_def get_or_def

definition backForth :: "u64 \<Rightarrow> u64 \<Rightarrow> int \<Rightarrow> int \<Rightarrow> plannedMove" where
  "backForth from to fc tc = \<lparr>pm_Collection = ''c'', pm_ShardID = 0, pm_From = from, pm_To = to,
     pm_Drop = False, pm_Replicate = False, pm_fromCount = fc, pm_toCount = tc\<rparr>"

lemma skewed_wf: "wf_obs skewed"
  by (simp add: wf_obs_def sample_defs shard_key_def)

text \<open>
  C16: the two balancing stages do not always settle. There is a well-formed placement from which the
  executor moves a shard away for its size and then back for its count, so that it stands where it
  started and the same two moves are planned again.
\<close>

theorem planRebalance_can_oscillate:
  "\<exists>obs there again. wf_obs obs \<and> planRebalance obs = [there] \<and>
     planRebalance (applyMove there obs) = [again] \<and> applyMove again (applyMove there obs) = obs"
proof (intro exI conjI)
  let ?there = "backForth 1 2 0 0" and ?again = "backForth 2 1 3 1"
  show "wf_obs skewed" by (rule skewed_wf)
  show "planRebalance skewed = [?there]"
    by (simp add: sample_defs planner_defs go_consts backForth_def
        del: set_filter set_map set_remdups)
  show "planRebalance (applyMove ?there skewed) = [?again]"
    by (simp add: sample_defs planner_defs go_consts backForth_def applyMove_def on_shards_def
        relocate_def shard_key_def del: set_filter set_map set_remdups)
  show "applyMove ?again (applyMove ?there skewed) = skewed"
    by (simp add: sample_defs backForth_def applyMove_def on_shards_def relocate_def shard_key_def)
qed

end
