(* ===== verification/Move_Executor.thy ===== *)
theory Move_Executor
  imports Cluster_Env Rebalance_Convergence
begin

text \<open>
  The executor of \<open>internal/controller/rebalance.go\<close>: it settles the move in flight, plans afresh from
  the observation, publishes the plan in the status, and issues at most one operation, after the
  record of it has been committed.
\<close>

section \<open>Constants\<close>

definition moveAppearDeadline :: duration where "moveAppearDeadline = 60 * Second"
definition moveBaseBackoff :: duration where "moveBaseBackoff = 30 * Second"
definition moveMaxBackoff :: duration where "moveMaxBackoff = 10 * Minute"
definition moveMaxBackoffShift :: int where "moveMaxBackoffShift = 5"
definition phaseRebalancing :: string where "phaseRebalancing = ''Rebalancing''"
definition phaseRunning :: string where "phaseRunning = ''Running''"
definition settleBusy :: string where "settleBusy = ''busy''"
definition settleWaiting :: string where "settleWaiting = ''waiting''"
definition settleLost :: string where "settleLost = ''lost''"
definition settleSettled :: string where "settleSettled = ''settled''"
definition reasonMoveFailed :: string where "reasonMoveFailed = ''MoveFailed''"
definition reasonBalanced :: string where "reasonBalanced = ''Balanced''"
definition kindReplicate :: string where "kindReplicate = ''Replicate''"

lemmas exec_consts [go_consts] =
  moveAppearDeadline_def moveBaseBackoff_def moveMaxBackoff_def moveMaxBackoffShift_def
  phaseRebalancing_def phaseRunning_def settleBusy_def settleWaiting_def settleLost_def
  settleSettled_def reasonMoveFailed_def reasonBalanced_def kindReplicate_def

section \<open>Operations\<close>

definition rebalanceEnabled :: "QdrantCluster \<Rightarrow> bool" where
  "rebalanceEnabled qc \<longleftrightarrow>
     (case spec_Rebalance (qc_Spec qc) of None \<Rightarrow> True
      | Some rb \<Rightarrow> (case reb_Enabled rb of None \<Rightarrow> True | Some b \<Rightarrow> b))"

text \<open>The level is an \<open>int32\<close>, so \<open>level - 1\<close> wraps; the shifted duration is an \<open>int64\<close>.\<close>

definition backoff :: "int \<Rightarrow> duration" where
  "backoff level =
     (let exp = min (max (i32 (level - 1)) 0) moveMaxBackoffShift;
          d = min (i64 (moveBaseBackoff * 2 ^ nat exp)) moveMaxBackoff
      in if d \<le> 0 then moveMaxBackoff else d)"

definition activeMoveCompleted :: "observation \<Rightarrow> MoveStatus \<Rightarrow> bool" where
  "activeMoveCompleted obs am \<longleftrightarrow>
     (case map_of (o_Collections obs) (am_Collection am) of
        None \<Rightarrow> False
      | Some cc \<Rightarrow>
          let from = fst (ParseUint64 (am_FromPeer am)) in
          if am_Drop am then
            \<not> list_ex (\<lambda>s. i32 (uint (sh_ShardID s)) = am_ShardID am \<and> sh_PeerID s = from) (cc_Shards cc)
          else
            let to = fst (ParseUint64 (am_ToPeer am));
                own = filter (\<lambda>s. i32 (uint (sh_ShardID s)) = am_ShardID am) (cc_Shards cc);
                toActive = list_ex (\<lambda>s. sh_PeerID s = to \<and> sh_State s = shardStateActive) own;
                fromHolds = list_ex (\<lambda>s. sh_PeerID s = from) own
            in if am_Kind am = kindReplicate then toActive else toActive \<and> \<not> fromHolds)"

definition shardOperationFailed :: "QdrantCluster \<Rightarrow> ('w, unit) io" where
  "shardOperationFailed qc =
     emit (Metric ''shard_operation_failures_total'' [qc_Namespace qc, qc_Name qc] 1)"

definition settleActiveMove ::
    "'w ClusterReconciler \<Rightarrow> QdrantCluster \<Rightarrow> observation \<Rightarrow> ('w, (string \<times> duration) \<times> QdrantCluster) io" where
  "settleActiveMove r qc obs =
     (if 0 < transfersInFlight obs then State_Monad.return ((settleBusy, 10 * Second), qc)
      else case st_ActiveMove (qc_Status qc) of
        None \<Rightarrow> State_Monad.return ((settleSettled, 0), qc)
      | Some am \<Rightarrow>
          if activeMoveCompleted obs am then
            State_Monad.return ((settleSettled, 0),
              set_cond r condDegraded ConditionFalse ''MoveCompleted''
                (Msg ''move settled'' [ArgS (am_Collection am), ArgN (am_ShardID am)])
                (upd_status (\<lambda>s. s\<lparr>st_ActiveMove := None, st_MoveBackoff := 0\<rparr>) qc))
          else do {
            now \<leftarrow> k_Now r;
            if (case am_IssuedAt am of None \<Rightarrow> False | Some t \<Rightarrow> time_sub now t < moveAppearDeadline)
            then State_Monad.return ((settleWaiting, 5 * Second), qc)
            else do {
              let qc = upd_status (\<lambda>s. s\<lparr>st_ActiveMove := None, st_MoveBackoff := i32 (st_MoveBackoff s + 1)\<rparr>) qc;
              shardOperationFailed qc;
              let d = backoff (st_MoveBackoff (qc_Status qc));
              let qc = set_cond r condDegraded ConditionTrue reasonMoveFailed
                (Msg ''lost command'' [ArgS (am_Collection am), ArgN (am_ShardID am), ArgN moveAppearDeadline, ArgN d]) qc;
              EmitWarning ''MoveFailed'' (Msg ''lost command, replanning'' []);
              State_Monad.return ((settleLost, d), qc)
            }
          })"

text \<open>The record of a move that \<open>issueActiveMove\<close> publishes before it issues the move.\<close>

definition moveRecord :: "plannedMove \<Rightarrow> string \<Rightarrow> time \<Rightarrow> MoveStatus" where
  "moveRecord mv kind now =
     \<lparr>am_Kind = kind, am_Collection = pm_Collection mv, am_ShardID = i32 (uint (pm_ShardID mv)),
      am_FromPeer = FormatUint (pm_From mv), am_ToPeer = (if pm_Drop mv then [] else FormatUint (pm_To mv)),
      am_Drop = pm_Drop mv, am_IssuedAt = Some now\<rparr>"

definition issueOp :: "plannedMove \<Rightarrow> 'w Client \<Rightarrow> ('w, err option) io" where
  "issueOp mv qcl =
     (if pm_Drop mv then q_DropReplica None qcl (pm_Collection mv) (pm_ShardID mv) (pm_From mv)
      else if pm_Replicate mv then
        q_ReplicateShard None qcl (pm_Collection mv) (pm_ShardID mv) (pm_From mv) (pm_To mv)
      else q_MoveShard None qcl (pm_Collection mv) (pm_ShardID mv) (pm_From mv) (pm_To mv))"

definition issueActiveMove ::
    "'w ClusterReconciler \<Rightarrow> QdrantCluster \<Rightarrow> plannedMove \<Rightarrow> string \<Rightarrow> 'w Client \<Rightarrow> ('w, duration \<times> QdrantCluster) io" where
  "issueActiveMove r qc mv kind qcl = do {
     now \<leftarrow> k_Now r;
     let qc = upd_status (\<lambda>s. s\<lparr>st_ActiveMove := Some (moveRecord mv kind now)\<rparr>) qc;
     committed \<leftarrow> k_StatusUpdate r qc;
     if committed \<noteq> None then State_Monad.return (5 * Second, qc)
     else do {
       e \<leftarrow> issueOp mv qcl;
       case e of
         Some msg \<Rightarrow> do {
           let qc = upd_status (\<lambda>s. s\<lparr>st_ActiveMove := None, st_MoveBackoff := i32 (st_MoveBackoff s + 1)\<rparr>) qc;
           shardOperationFailed qc;
           let qc = set_cond r condDegraded ConditionTrue reasonMoveFailed (Text msg) qc;
           EmitWarning ''MoveFailed'' (Text msg);
           State_Monad.return (backoff (st_MoveBackoff (qc_Status qc)), qc)
         }
       | None \<Rightarrow> do {
           emit (Metric ''shard_operations_total'' [qc_Namespace qc, qc_Name qc, kind] 1);
           Emit (if pm_Drop mv then ''ReplicaDropIssued'' else if pm_Replicate mv then ''ShardReplicateIssued''
                 else ''ShardMoveIssued'') (Text (plannedMove_String mv));
           State_Monad.return (10 * Second, qc)
         }
     }
   }"

definition clearMoveFailed :: "'w ClusterReconciler \<Rightarrow> QdrantCluster \<Rightarrow> QdrantCluster" where
  "clearMoveFailed r qc =
     (case FindStatusCondition (r_Meta r) (st_Conditions (qc_Status qc)) condDegraded of
        None \<Rightarrow> qc
      | Some c \<Rightarrow>
          if cond_Status c \<noteq> ConditionTrue \<or> cond_Reason c \<noteq> reasonMoveFailed then qc
          else set_cond r condDegraded ConditionFalse reasonBalanced (Msg ''no move planned'' [])
            (upd_status (\<lambda>s. s\<lparr>st_MoveBackoff := 0\<rparr>) qc))"

text \<open>The plan of a pass and its kind: durability first, then dead replicas, then balance.\<close>

definition choosePlan :: "observation \<Rightarrow> plannedMove list \<times> string" where
  "choosePlan obs =
     (let plan = planReplications obs in
      if plan \<noteq> [] then (plan, kindReplicate)
      else let plan = planDeadDrops obs in
        if plan \<noteq> [] then (plan, ''DeadRepair'') else (planRebalance obs, ''Rebalance''))"

definition reconcileRebalance ::
    "'w ClusterReconciler \<Rightarrow> QdrantCluster \<Rightarrow> observation \<Rightarrow> 'w Client \<Rightarrow> ('w, (string \<times> duration) \<times> QdrantCluster) io" where
  "reconcileRebalance r qc obs qcl = do {
     settled \<leftarrow> settleActiveMove r qc obs;
     let (sd, qc) = settled;
     if fst sd \<in> {settleBusy, settleWaiting, settleLost} then State_Monad.return ((phaseRebalancing, snd sd), qc)
     else if transitioning obs then State_Monad.return ((phaseRebalancing, 10 * Second), qc)
     else do {
       let (plan, kind) = choosePlan obs;
       let qc = upd_status (\<lambda>s. s\<lparr>st_PlannedMoves := map plannedMove_String (take 10 plan)\<rparr>) qc;
       case plan of
         [] \<Rightarrow> State_Monad.return ((phaseRunning, 5 * Minute), clearMoveFailed r qc)
       | mv # _ \<Rightarrow>
           if \<not> rebalanceEnabled qc then State_Monad.return ((phaseRunning, 2 * Minute), qc)
           else do {
             issued \<leftarrow> issueActiveMove r qc mv kind qcl;
             State_Monad.return ((phaseRebalancing, fst issued), snd issued)
           }
     }
   }"

section \<open>Properties\<close>

subsection \<open>Backoff\<close>

lemma backoff_steps:
  "backoff level = (let e = min (max (i32 (level - 1)) 0) 5 in
     if e = 0 then 30 * Second else if e = 1 then 60 * Second else if e = 2 then 120 * Second
     else if e = 3 then 240 * Second else if e = 4 then 480 * Second else 10 * Minute)"
proof -
  define e where "e = min (max (i32 (level - 1)) 0) 5"
  have "e \<in> {0, 1, 2, 3, 4, 5}" unfolding e_def by (simp add: min_def max_def) presburger
  then show ?thesis
    unfolding backoff_def Let_def moveMaxBackoffShift_def e_def [symmetric]
    by (auto simp: go_consts i64_def)
qed

lemma backoff_bounds_pos: "0 < backoff level"
  by (simp add: backoff_steps Let_def go_consts)

text \<open>
  Whatever the level (it is an \<open>int32\<close> that grows with every failure and may wrap), the delay
  before the next attempt is positive and at most ten minutes.
\<close>

theorem backoff_bounds: "0 < backoff level \<and> backoff level \<le> 10 * Minute"
  by (simp add: backoff_steps Let_def go_consts)

text \<open>
  C11: the clamped shift computes the intended exponential schedule: the \<open>n\<close>-th consecutive failure
  waits 30 seconds times \<open>2 ^ (n - 1)\<close>, at most ten minutes, for every level an \<open>int32\<close> can hold.
\<close>

theorem backoff_exact:
  assumes "1 \<le> level" and "level < 2 ^ 31"
  shows "backoff level = min (30 * Second * 2 ^ nat (level - 1)) (10 * Minute)"
proof -
  have i: "i32 (level - 1) = level - 1" using assms by (intro i32_id) (simp add: is_i32_def)
  show ?thesis
  proof (cases "level \<le> 5")
    case True
    then have "level \<in> {1, 2, 3, 4, 5}" using assms(1) by auto
    then show ?thesis by (auto simp: backoff_steps i go_consts)
  next
    case False
    then have "(2::int) ^ 5 \<le> 2 ^ nat (level - 1)" by (intro power_increasing) auto
    then have "10 * Minute \<le> 30 * Second * 2 ^ nat (level - 1)" by (simp add: go_consts)
    then show ?thesis using False by (simp add: backoff_steps i)
  qed
qed


lemma transfersInFlight_eq:
  "transfersInFlight obs = (\<Sum>x\<leftarrow>o_Collections obs. int (length (cc_Transfers (snd x))))"
proof -
  have "fold (\<lambda>(_, cc) n. n + int (length (cc_Transfers cc))) xs n =
      n + (\<Sum>x\<leftarrow>xs. int (length (cc_Transfers (snd x))))" for xs :: "(string \<times> CollectionClusterInfo) list" and n
    by (induction xs arbitrary: n) auto
  then show ?thesis by (simp add: transfersInFlight_def)
qed

lemma transfersInFlight_nonneg: "0 \<le> transfersInFlight obs"
  unfolding transfersInFlight_eq by (intro sum_list_nonneg) auto

lemma transfersInFlight_zero:
  "\<not> 0 < transfersInFlight obs \<longleftrightarrow> (\<forall>(_, cc) \<in> set (o_Collections obs). cc_Transfers cc = [])"
proof -
  have "\<not> 0 < transfersInFlight obs \<longleftrightarrow> transfersInFlight obs = 0"
    using transfersInFlight_nonneg [of obs] by auto
  also have "\<dots> \<longleftrightarrow> (\<forall>x \<in> set (o_Collections obs). int (length (cc_Transfers (snd x))) = 0)"
    unfolding transfersInFlight_eq by (subst sum_list_nonneg_eq_0_iff) auto
  finally show ?thesis by (simp add: case_prod_beta)
qed

text \<open>The effect of issuing a planned move.\<close>

definition move_effect :: "plannedMove \<Rightarrow> bool \<Rightarrow> effect" where
  "move_effect mv ok = Qdrant None
     (if pm_Drop mv then QDropReplica (pm_Collection mv) (pm_ShardID mv) (pm_From mv)
      else if pm_Replicate mv then QReplicateShard (pm_Collection mv) (pm_ShardID mv) (pm_From mv) (pm_To mv)
      else QMoveShard (pm_Collection mv) (pm_ShardID mv) (pm_From mv) (pm_To mv)) ok"

lemma is_shard_op_move_effect [simp]: "is_shard_op (move_effect mv ok)"
  by (simp add: move_effect_def)

lemma run_issueOp:
  "run_state (issueOp mv qcl) s = (e, s') \<Longrightarrow> trace s' = trace s @ [move_effect mv (e = None)]"
  by (auto simp: issueOp_def q_defs move_effect_def split: if_splits prod.splits)

lemma issueActiveMove_run:
  assumes run: "run_state (issueActiveMove r qc mv kind qcl) s = ((d, qc'), s')"
  defines "qc1 \<equiv> upd_status (\<lambda>st. st\<lparr>st_ActiveMove := Some (moveRecord mv kind (r_Now r (world s)))\<rparr>) qc"
  obtains (uncommitted) "trace s' = trace s @ [Kube (KStatusCluster (qc_Status qc1)) False]"
      "qc' = qc1" "d = 5 * Second" "fst (r_StatusUpdate r qc1 (world s)) \<noteq> None"
  | (issued) rest where
      "trace s' = trace s @ [Kube (KStatusCluster (qc_Status qc1)) True, move_effect mv True] @ rest"
      "list_all (\<lambda>e. \<not> is_shard_op e \<and> \<not> is_scale e) rest" "qc' = qc1" "d = 10 * Second"
  | (failed) rest where
      "trace s' = trace s @ [Kube (KStatusCluster (qc_Status qc1)) True, move_effect mv False] @ rest"
      "list_all (\<lambda>e. \<not> is_shard_op e \<and> \<not> is_scale e) rest"
      "st_ActiveMove (qc_Status qc') = None"
      "st_MoveBackoff (qc_Status qc') = i32 (st_MoveBackoff (qc_Status qc) + 1)"
      "d = backoff (st_MoveBackoff (qc_Status qc'))"
proof -
  obtain e w where e: "r_StatusUpdate r qc1 (world s) = (e, w)" by fastforce
  obtain e2 s2 where e2: "run_state (issueOp mv qcl)
      (s\<lparr>world := w, trace := trace s @ [Kube (KStatusCluster (qc_Status qc1)) (e = None)]\<rparr>) = (e2, s2)"
    by fastforce
  note op = run_issueOp [OF e2]
  show thesis
  proof (cases e)
    case (Some x)
    then show thesis using run e
      by (intro uncommitted) (auto simp: issueActiveMove_def k_defs Let_def qc1_def)
  next
    case None
    show thesis
    proof (cases e2)
      case N2: None
      show thesis
        using run e e2 op None N2
        by (intro issued) (auto simp: issueActiveMove_def k_defs Let_def qc1_def event_defs)
    next
      case (Some m)
      show thesis
        using run e e2 op None Some
        by (intro failed) (auto simp: issueActiveMove_def k_defs Let_def qc1_def event_defs shardOperationFailed_def)
    qed
  qed
qed


lemma settleActiveMove_run:
  assumes run: "run_state (settleActiveMove r qc obs) s = (((st, d), qc'), s')"
  obtains (busy) "0 < transfersInFlight obs" "st = settleBusy" "qc' = qc" "s' = s" "d = 10 * Second"
  | (idle) "\<not> 0 < transfersInFlight obs" "st_ActiveMove (qc_Status qc) = None"
      "st = settleSettled" "qc' = qc" "s' = s"
  | (completed) am where "\<not> 0 < transfersInFlight obs" "st_ActiveMove (qc_Status qc) = Some am"
      "activeMoveCompleted obs am" "st = settleSettled" "st_ActiveMove (qc_Status qc') = None"
      "st_MoveBackoff (qc_Status qc') = 0" "qc_Spec qc' = qc_Spec qc" "s' = s"
  | (waiting) am t where "\<not> 0 < transfersInFlight obs" "st_ActiveMove (qc_Status qc) = Some am"
      "\<not> activeMoveCompleted obs am" "am_IssuedAt am = Some t"
      "time_sub (r_Now r (world s)) t < moveAppearDeadline" "st = settleWaiting" "qc' = qc" "s' = s"
  | (lost) am rest where "\<not> 0 < transfersInFlight obs" "st_ActiveMove (qc_Status qc) = Some am"
      "\<not> activeMoveCompleted obs am" "st = settleLost"
      "case am_IssuedAt am of None \<Rightarrow> True | Some t \<Rightarrow> moveAppearDeadline \<le> time_sub (r_Now r (world s)) t"
      "st_ActiveMove (qc_Status qc') = None"
      "st_MoveBackoff (qc_Status qc') = i32 (st_MoveBackoff (qc_Status qc) + 1)"
      "d = backoff (st_MoveBackoff (qc_Status qc'))" "qc_Spec qc' = qc_Spec qc"
      "trace s' = trace s @ rest" "list_all (\<lambda>e. \<not> is_shard_op e \<and> \<not> is_scale e) rest"
proof (cases "0 < transfersInFlight obs")
  case True
  then show thesis using run by (intro busy) (auto simp: settleActiveMove_def)
next
  case flight: False
  show thesis
  proof (cases "st_ActiveMove (qc_Status qc)")
    case None
    then show thesis using run flight by (intro idle) (auto simp: settleActiveMove_def)
  next
    case am: (Some am)
    show thesis
    proof (cases "activeMoveCompleted obs am")
      case True
      then show thesis using run flight am by (intro completed) (auto simp: settleActiveMove_def)
    next
      case False
      show thesis
      proof (cases "case am_IssuedAt am of None \<Rightarrow> False
          | Some t \<Rightarrow> time_sub (r_Now r (world s)) t < moveAppearDeadline")
        case True
        then obtain t where "am_IssuedAt am = Some t" by (cases "am_IssuedAt am") auto
        then show thesis using run flight am False True
          by (intro waiting) (auto simp: settleActiveMove_def k_defs)
      next
        case late: False
        then show thesis using run flight am False
          by (intro lost)
             (auto simp: settleActiveMove_def k_defs Let_def shardOperationFailed_def event_defs
               split: option.splits)
      qed
    qed
  qed
qed

text \<open>A move lane is free when nothing is in flight and the last move has been seen to complete.\<close>

definition lane_free :: "QdrantCluster \<Rightarrow> observation \<Rightarrow> bool" where
  "lane_free qc obs \<longleftrightarrow> (\<forall>(_, cc) \<in> set (o_Collections obs). cc_Transfers cc = []) \<and>
     (case st_ActiveMove (qc_Status qc) of None \<Rightarrow> True | Some am \<Rightarrow> activeMoveCompleted obs am)"

lemma settle_names [simp]:
  "settleSettled \<notin> {settleBusy, settleWaiting, settleLost}"
  "settleBusy \<in> {settleBusy, settleWaiting, settleLost}"
  "settleWaiting \<in> {settleBusy, settleWaiting, settleLost}"
  "settleLost \<in> {settleBusy, settleWaiting, settleLost}"
  by (simp_all add: go_consts)

lemma reconcileRebalance_run:
  assumes run: "run_state (reconcileRebalance r qc obs qcl) s = ((pd, qc'), s')"
  obtains (quiet) es where "trace s' = trace s @ es"
      "list_all (\<lambda>e. \<not> is_shard_op e \<and> \<not> is_scale e) es"
  | (acts) mv plan kind qc1 where "lane_free qc obs" "\<not> transitioning obs" "rebalanceEnabled qc"
      "choosePlan obs = (mv # plan, kind)"
      "run_state (issueActiveMove r qc1 mv kind qcl) s = ((snd pd, qc'), s')" "fst pd = phaseRebalancing"
proof -
  obtain st d qc0 s0 where settle: "run_state (settleActiveMove r qc obs) s = (((st, d), qc0), s0)"
    by (metis surj_pair)
  obtain plan kind where plan: "choosePlan obs = (plan, kind)" by fastforce
  let ?qc1 = "upd_status (\<lambda>s. s\<lparr>st_PlannedMoves := map plannedMove_String (take 10 plan)\<rparr>) qc0"
  have free: thesis if "st = settleSettled" "s0 = s" "qc_Spec qc0 = qc_Spec qc" "lane_free qc obs"
  proof (cases "transitioning obs \<or> plan = [] \<or> \<not> rebalanceEnabled ?qc1")
    case True
    then show thesis
      using run settle that plan settle_names
      by (intro quiet [of "[]"]) (auto simp: reconcileRebalance_def Let_def split: list.splits if_splits)
  next
    case False
    then obtain mv rest where p: "plan = mv # rest" by (cases plan) auto
    show thesis
    proof (rule acts [of mv rest kind ?qc1])
      show "rebalanceEnabled qc" using False that(3) by (simp add: rebalanceEnabled_def)
      obtain d2 qc2 s2 where i: "run_state (issueActiveMove r ?qc1 mv kind qcl) s = ((d2, qc2), s2)"
        by (metis surj_pair)
      show "run_state (issueActiveMove r ?qc1 mv kind qcl) s = ((snd pd, qc'), s')"
        and "fst pd = phaseRebalancing"
        using run settle that plan p False i settle_names
        by (auto simp: reconcileRebalance_def Let_def)
    qed (use False that plan p in auto)
  qed
  from settle show thesis
  proof (cases rule: settleActiveMove_run)
    case (completed am)
    then show thesis using free by (auto simp: lane_free_def transfersInFlight_zero)
  next
    case idle
    then show thesis using free by (auto simp: lane_free_def transfersInFlight_zero)
  next
    case (lost am rest)
    then show thesis using run settle settle_names
      by (intro quiet [of rest]) (auto simp: reconcileRebalance_def Let_def)
  next
    case busy
    then show thesis using run settle settle_names
      by (intro quiet [of "[]"]) (auto simp: reconcileRebalance_def Let_def)
  next
    case (waiting am t)
    then show thesis using run settle settle_names
      by (intro quiet [of "[]"]) (auto simp: reconcileRebalance_def Let_def)
  qed
qed


text \<open>
  C1: one operation at a time, and its record first. A pass of the executor issues either no shard
  operation or exactly one; it issues one only when no transfer is in flight in any collection, the
  previous move (if any) has been seen to complete, no replica is between states and the cluster is
  not in dry-run mode; the operation is the head of the plan, and the status that records it was
  committed immediately before.
\<close>

theorem reconcileRebalance_single_flight:
  assumes "run_state (reconcileRebalance r qc obs qcl) s = (res, s')"
  shows "\<exists>es. trace s' = trace s @ es \<and>
    (list_all (\<lambda>e. \<not> is_shard_op e) es \<or>
     (\<exists>mv plan kind st ok rest.
        es = [Kube (KStatusCluster st) True, move_effect mv ok] @ rest \<and>
        list_all (\<lambda>e. \<not> is_shard_op e) rest \<and>
        st_ActiveMove st = Some (moveRecord mv kind (r_Now r (world s))) \<and>
        choosePlan obs = (mv # plan, kind) \<and>
        lane_free qc obs \<and> \<not> transitioning obs \<and> rebalanceEnabled qc))"
proof -
  obtain pd qc' where res: "res = (pd, qc')" by fastforce
  have weak: "list_all (\<lambda>e. \<not> is_shard_op e) xs"
    if "list_all (\<lambda>e. \<not> is_shard_op e \<and> \<not> is_scale e) xs" for xs
    using that by (simp add: list_all_iff)
  show ?thesis
    using assms unfolding res
  proof (cases rule: reconcileRebalance_run)
    case (quiet es)
    then show ?thesis using weak by blast
  next
    case (acts mv plan kind qc1)
    from acts(5) show ?thesis
    proof (cases rule: issueActiveMove_run)
      case uncommitted
      then show ?thesis by auto
    next
      case (issued rest)
      then show ?thesis using acts(1-4) weak [of rest] by fastforce
    next
      case (failed rest)
      then show ?thesis using acts(1-4) weak [of rest] by fastforce
    qed
  qed
qed

lemma shard_op_acts:
  assumes "run_state (reconcileRebalance r qc obs qcl) s = ((pd, qc'), s')"
    and "trace s' = trace s @ es" and "op \<in> set es" and "is_shard_op op"
  obtains mv plan kind ok where "choosePlan obs = (mv # plan, kind)" and "op = move_effect mv ok"
  using assms(1)
proof (cases rule: reconcileRebalance_run)
  case (quiet es')
  then show ?thesis using assms(2-4) by (auto simp: list_all_iff)
next
  case (acts mv plan kind qc1)
  from acts(5) show ?thesis
  proof (cases rule: issueActiveMove_run)
    case uncommitted
    then show ?thesis using assms(2-4) by auto
  next
    case (issued rest)
    then show ?thesis using acts(4) assms(2-4) that by (auto simp: list_all_iff)
  next
    case (failed rest)
    then show ?thesis using acts(4) assms(2-4) that by (auto simp: list_all_iff)
  qed
qed

lemma choosePlan_cases:
  assumes "choosePlan obs = (mv # plan, kind)"
  obtains (replicate) "planReplications obs = mv # plan" "kind = kindReplicate" "pm_Replicate mv" "\<not> pm_Drop mv"
  | (drop) "planReplications obs = []" "planDeadDrops obs = mv # plan" "kind \<noteq> kindReplicate"
      "pm_Drop mv" "\<not> pm_Replicate mv"
  | (move) "planReplications obs = []" "planDeadDrops obs = []" "planRebalance obs = mv # plan"
      "kind \<noteq> kindReplicate"
proof -
  have "mv \<in> set (planReplications obs) \<Longrightarrow> pm_Replicate mv \<and> \<not> pm_Drop mv"
    unfolding planReplications_iff by (auto simp: replicateMove_def)
  moreover have "mv \<in> set (planDeadDrops obs) \<Longrightarrow> pm_Drop mv \<and> \<not> pm_Replicate mv"
    unfolding planDeadDrops_iff by (auto simp: dropMove_def)
  ultimately show thesis
    using assms that unfolding choosePlan_def Let_def
    by (auto split: if_splits simp: go_consts)
qed


text \<open>
  C3: durability first. When a pass drops a replica, no shard is left for re-replication, the replica
  is dead and the shard's active replicas meet its replication factor; when it moves a shard, there
  is neither a replication nor a dead replica left, the source holds the shard and the target does not.
\<close>

theorem reconcileRebalance_durability_first:
  assumes "wf_obs obs" and "run_state (reconcileRebalance r qc obs qcl) s = (res, s')"
    and "trace s' = trace s @ es"
  shows "(\<forall>t c sid p ok. Qdrant t (QDropReplica c sid p) ok \<in> set es \<longrightarrow>
      planReplications obs = [] \<and> p \<in> set (deadHolders obs c sid) \<and>
      max (get_or 0 (o_RF obs) c) 1 \<le> of_nat (length (activeOn (shards_of obs c) sid))) \<and>
    (\<forall>t c sid from to ok. Qdrant t (QMoveShard c sid from to) ok \<in> set es \<longrightarrow>
      planReplications obs = [] \<and> planDeadDrops obs = [] \<and> \<not> hasDead obs \<and>
      from \<in> set (holders (shards_of obs c) sid) \<and> to \<notin> set (holders (shards_of obs c) sid))"
proof (intro conjI allI impI)
  obtain pd qc' where res: "res = (pd, qc')" by fastforce
  note run = assms(2) [unfolded res]
  { fix t c sid p ok
    assume op: "Qdrant t (QDropReplica c sid p) ok \<in> set es"
    obtain mv plan kind ok' where mv: "choosePlan obs = (mv # plan, kind)"
        "Qdrant t (QDropReplica c sid p) ok = move_effect mv ok'"
      by (rule shard_op_acts [OF run assms(3) op]) simp_all
    then have eff: "pm_Drop mv" "pm_Collection mv = c" "pm_ShardID mv = sid" "pm_From mv = p"
      by (auto simp: move_effect_def split: if_splits)
    from mv(1) have "planReplications obs = []" "mv \<in> set (planDeadDrops obs)"
      by (cases rule: choosePlan_cases; use eff planRebalance_mem [OF assms(1)] in auto)+
    then show "planReplications obs = []" and "p \<in> set (deadHolders obs c sid)"
      and "max (get_or 0 (o_RF obs) c) 1 \<le> of_nat (length (activeOn (shards_of obs c) sid))"
      using eff by (auto simp: planDeadDrops_iff dropMove_def)
  }
  { fix t c sid p q ok
    assume op: "Qdrant t (QMoveShard c sid p q) ok \<in> set es"
    obtain mv plan kind ok' where mv: "choosePlan obs = (mv # plan, kind)"
        "Qdrant t (QMoveShard c sid p q) ok = move_effect mv ok'"
      by (rule shard_op_acts [OF run assms(3) op]) simp_all
    then have eff: "\<not> pm_Drop mv" "\<not> pm_Replicate mv" "pm_Collection mv = c" "pm_ShardID mv = sid"
        "pm_From mv = p" "pm_To mv = q"
      by (auto simp: move_effect_def split: if_splits)
    from mv(1) have none: "planReplications obs = []" "planDeadDrops obs = []" "mv \<in> set (planRebalance obs)"
      by (cases rule: choosePlan_cases; use eff in auto)+
    then show "planReplications obs = []" and "planDeadDrops obs = []" and "\<not> hasDead obs"
      and "p \<in> set (holders (shards_of obs c) sid)" and "q \<notin> set (holders (shards_of obs c) sid)"
      using planRebalance_mem [OF assms(1) none(3)] eff by (auto simp: legal_move_def)
  }
qed

text \<open>
  A lost command never blocks the lane. If the recorded move has not been seen within the
  deadline, the pass clears the record, raises the backoff level by one and waits for the backoff;
  settling against the same observation afterwards reports a free lane.
\<close>

lemma settleActiveMove_lost:
  assumes "st_ActiveMove (qc_Status qc) = Some am" and "\<not> 0 < transfersInFlight obs"
    and "\<not> activeMoveCompleted obs am"
    and "case am_IssuedAt am of None \<Rightarrow> True | Some t \<Rightarrow> moveAppearDeadline \<le> time_sub (r_Now r (world s)) t"
    and "run_state (reconcileRebalance r qc obs qcl) s = (((phase, d), qc'), s')"
  shows "phase = phaseRebalancing \<and> st_ActiveMove (qc_Status qc') = None \<and>
    st_MoveBackoff (qc_Status qc') = i32 (st_MoveBackoff (qc_Status qc) + 1) \<and>
    d = backoff (st_MoveBackoff (qc_Status qc')) \<and> 0 < d \<and>
    (\<forall>s2. fst (fst (run_state (settleActiveMove r qc' obs) s2)) = (settleSettled, 0))"
proof -
  obtain st d0 qc0 s0 where settle: "run_state (settleActiveMove r qc obs) s = (((st, d0), qc0), s0)"
    by (metis surj_pair)
  from settle have *: "st = settleLost \<and> st_ActiveMove (qc_Status qc0) = None \<and>
      st_MoveBackoff (qc_Status qc0) = i32 (st_MoveBackoff (qc_Status qc) + 1) \<and>
      d0 = backoff (st_MoveBackoff (qc_Status qc0))"
    by (cases rule: settleActiveMove_run) (use assms(1-4) in \<open>auto split: option.splits\<close>)
  then have "phase = phaseRebalancing" "qc' = qc0" "d = d0"
    using assms(5) settle settle_names by (auto simp: reconcileRebalance_def Let_def)
  then show ?thesis using * backoff_bounds_pos assms(2) by (simp add: settleActiveMove_def)
qed

text \<open>
  C10: progress. When the lane is free, nothing is between states, the plan is not empty, the cluster
  is not in dry-run mode and the status can be committed, the pass issues the head of the plan.
\<close>

theorem reconcileRebalance_progress:
  assumes "lane_free qc obs" and "\<not> transitioning obs" and "choosePlan obs = (mv # plan, kind)"
    and "rebalanceEnabled qc" and "\<And>qc. fst (r_StatusUpdate r qc (world s)) = None"
  shows "\<exists>ok. move_effect mv ok \<in> set (trace (snd (run_state (reconcileRebalance r qc obs qcl) s)))"
proof -
  obtain st d qc0 s0 where settle: "run_state (settleActiveMove r qc obs) s = (((st, d), qc0), s0)"
    by (metis surj_pair)
  from settle have *: "st = settleSettled \<and> s0 = s \<and> qc_Spec qc0 = qc_Spec qc"
    by (cases rule: settleActiveMove_run)
       (use assms(1) in \<open>auto simp: lane_free_def simp flip: transfersInFlight_zero\<close>)
  let ?qc1 = "upd_status (\<lambda>s. s\<lparr>st_PlannedMoves := map plannedMove_String (take 10 (mv # plan))\<rparr>) qc0"
  obtain d2 qc2 s2 where issue: "run_state (issueActiveMove r ?qc1 mv kind qcl) s = ((d2, qc2), s2)"
    by (metis surj_pair)
  have "rebalanceEnabled ?qc1" using assms(4) * by (simp add: rebalanceEnabled_def)
  then have "snd (run_state (reconcileRebalance r qc obs qcl) s) = s2"
    using settle * issue assms(2,3) settle_names by (simp add: reconcileRebalance_def Let_def)
  moreover from issue have "\<exists>ok. move_effect mv ok \<in> set (trace s2)"
    by (cases rule: issueActiveMove_run) (use assms(5) in auto)
  ultimately show ?thesis by simp
qed


lemma completed_iff:
  "activeMoveCompleted obs (moveRecord mv kind now) \<longleftrightarrow>
     pm_Collection mv \<in> fst ` set (o_Collections obs) \<and>
     (if pm_Drop mv then pm_From mv \<notin> set (holders (shards_of obs (pm_Collection mv)) (pm_ShardID mv))
      else pm_To mv \<in> set (activeOn (shards_of obs (pm_Collection mv)) (pm_ShardID mv)) \<and>
        (kind = kindReplicate \<or>
         pm_From mv \<notin> set (holders (shards_of obs (pm_Collection mv)) (pm_ShardID mv))))"
proof (cases "map_of (o_Collections obs) (pm_Collection mv)")
  case None
  moreover from None have "pm_Collection mv \<notin> fst ` set (o_Collections obs)" by (simp add: map_of_eq_None_iff)
  ultimately show ?thesis by (auto simp: activeMoveCompleted_def moveRecord_def)
next
  case (Some cc)
  then have "pm_Collection mv \<in> fst ` set (o_Collections obs)" by (auto dest!: map_of_SomeD intro: rev_image_eqI)
  moreover have "shards_of obs (pm_Collection mv) = cc_Shards cc" using Some by (simp add: shards_of_def)
  ultimately show ?thesis
    using Some
    by (auto simp: activeMoveCompleted_def moveRecord_def Let_def list_ex_iff i32_uint_inj set_holders activeOn_mem)
qed

text \<open>
  The record that is committed identifies the operation: read back from the status (peer
  identifiers from decimal text, the shard number from a signed 32-bit field), the completion test is
  exactly the statement about the placement that the operation is meant to bring about.
\<close>

lemma activeMoveCompleted_iff:
  "activeMoveCompleted obs (moveRecord mv kind now) \<longleftrightarrow>
     pm_Collection mv \<in> fst ` set (o_Collections obs) \<and>
     (if pm_Drop mv then pm_From mv \<notin> set (holders (shards_of obs (pm_Collection mv)) (pm_ShardID mv))
      else pm_To mv \<in> set (activeOn (shards_of obs (pm_Collection mv)) (pm_ShardID mv)) \<and>
        \<not> (kind \<noteq> kindReplicate \<and>
           pm_From mv \<in> set (holders (shards_of obs (pm_Collection mv)) (pm_ShardID mv))))"
  unfolding completed_iff by (simp add: disj_not1 imp_conv_disj)

text \<open>
  A planned move that Qdrant has carried out is recognised: in the placement after the move, with
  all replicas active, the recorded move counts as completed, so the lane is free again.
\<close>

theorem applyMove_completes:
  assumes "wf_obs obs" and "allShardsActive obs" and "mv \<in> set (planRebalance obs)"
  shows "activeMoveCompleted (applyMove mv obs) (moveRecord mv kind now)"
proof -
  let ?c = "pm_Collection mv" and ?sid = "pm_ShardID mv"
  note m = planRebalance_mem [OF assms(1,3)]
  have c: "?c \<in> fst ` set (o_Collections obs)" and ne: "pm_From mv \<noteq> pm_To mv"
    using m(1) by (auto simp: legal_move_def)
  have after: "shards_of (applyMove mv obs) ?c = relocate ?sid (pm_From mv) (pm_To mv) (shards_of obs ?c)"
    using c by (simp add: applyMove_def shards_of_on_shards)
  obtain s where s: "s \<in> set (shards_of obs ?c)" "shard_key s = (?sid, pm_From mv)"
    using legal_move_keys(1) [OF m(1)] by (auto simp: image_iff)
  have "sh_State s = shardStateActive"
  proof -
    obtain cc where "(?c, cc) \<in> set (o_Collections obs)" using c by auto
    moreover from this have "cc_Shards cc = shards_of obs ?c" using shards_of_mem [OF assms(1)] by simp
    ultimately show ?thesis using assms(2) s(1) by (fastforce simp: allShardsActive_def list_all_iff)
  qed
  then have "pm_To mv \<in> set (activeOn (relocate ?sid (pm_From mv) (pm_To mv) (shards_of obs ?c)) ?sid)"
    using s unfolding activeOn_mem relocate_def
    by (intro bexI [of _ "s\<lparr>sh_PeerID := pm_To mv\<rparr>"]) (auto simp: shard_key_def intro: rev_image_eqI)
  moreover have "pm_From mv \<notin> set (holders (relocate ?sid (pm_From mv) (pm_To mv) (shards_of obs ?c)) ?sid)"
    using ne by (auto simp: set_holders relocate_def shard_key_def split: if_splits)
  ultimately show ?thesis
    using c m(2) after by (simp add: completed_iff) (simp add: applyMove_def)
qed

text \<open>
  Dry run. With \<open>spec.rebalance.enabled\<close> set to false a pass issues no shard operation, and
  where the lane is free and nothing is between states it still publishes the plan (its first ten
  entries).
\<close>

lemma reconcileRebalance_dry_run:
  assumes "\<not> rebalanceEnabled qc" and "run_state (reconcileRebalance r qc obs qcl) s = ((pd, qc'), s')"
  shows "(\<exists>es. trace s' = trace s @ es \<and> list_all (\<lambda>e. \<not> is_shard_op e) es) \<and>
    (lane_free qc obs \<and> \<not> transitioning obs \<longrightarrow>
       st_PlannedMoves (qc_Status qc') = map plannedMove_String (take 10 (fst (choosePlan obs))))"
proof
  show "\<exists>es. trace s' = trace s @ es \<and> list_all (\<lambda>e. \<not> is_shard_op e) es"
    using assms(2) by (cases rule: reconcileRebalance_run) (use assms(1) in \<open>auto simp: list_all_iff\<close>)
  obtain st d qc0 s0 where settle: "run_state (settleActiveMove r qc obs) s = (((st, d), qc0), s0)"
    by (metis surj_pair)
  show "lane_free qc obs \<and> \<not> transitioning obs \<longrightarrow>
       st_PlannedMoves (qc_Status qc') = map plannedMove_String (take 10 (fst (choosePlan obs)))"
  proof
    assume free: "lane_free qc obs \<and> \<not> transitioning obs"
    from settle have st: "st = settleSettled \<and> qc_Spec qc0 = qc_Spec qc"
      by (cases rule: settleActiveMove_run)
         (use free in \<open>auto simp: lane_free_def simp flip: transfersInFlight_zero\<close>)
    have "\<not> rebalanceEnabled (upd_status f qc0)" for f
      using assms(1) st by (simp add: rebalanceEnabled_def)
    then show "st_PlannedMoves (qc_Status qc') = map plannedMove_String (take 10 (fst (choosePlan obs)))"
      using assms(2) settle st free settle_names
      by (auto simp: reconcileRebalance_def Let_def clearMoveFailed_def split: prod.splits list.splits option.splits if_splits)
  qed
qed

definition find_cond :: "'w ClusterReconciler \<Rightarrow> QdrantCluster \<Rightarrow> string \<Rightarrow> Condition option" where
  "find_cond r qc t = FindStatusCondition (r_Meta r) (st_Conditions (qc_Status qc)) t"

text \<open>
  The executor takes back only its own warning. When there is nothing to do, a \<open>Degraded\<close>
  condition that was raised for a failed move is turned off and the backoff reset; a \<open>Degraded\<close>
  condition with any other reason, and every condition of another type, is left as it was.
\<close>

theorem clearMoveFailed_own_condition:
  assumes "conditions_ok (r_Meta r)"
  shows "(\<forall>t. t \<noteq> condDegraded \<longrightarrow> find_cond r (clearMoveFailed r qc) t = find_cond r qc t) \<and>
    (case find_cond r qc condDegraded of
       None \<Rightarrow> clearMoveFailed r qc = qc
     | Some c \<Rightarrow> if cond_Status c = ConditionTrue \<and> cond_Reason c = reasonMoveFailed
         then st_MoveBackoff (qc_Status (clearMoveFailed r qc)) = 0 \<and>
           \<not> IsStatusConditionTrue (r_Meta r) (st_Conditions (qc_Status (clearMoveFailed r qc))) condDegraded
         else clearMoveFailed r qc = qc)"
proof -
  obtain c' where c': "FindStatusCondition (r_Meta r) (SetStatusCondition (r_Meta r) (st_Conditions (qc_Status qc))
      (mk_cond condDegraded ConditionFalse reasonBalanced (Msg ''no move planned'' []) (qc_Generation qc)))
      condDegraded = Some c'" "cond_Status c' = ConditionFalse"
    using find_set_condition [OF assms(1)] by metis
  show ?thesis
    by (auto simp: clearMoveFailed_def find_cond_def IsStatusConditionTrue_def c' find_set_other [OF assms(1)]
        split: option.split)
qed


end
