(* ===== verification/Fake_Client.thy ===== *)
theory Fake_Client
  imports Rebalance_Planner "HOL-Library.AList"
begin

text \<open>
  The in-memory Qdrant of \<open>internal/qdrant/fake.go\<close>: an implementation of the \<open>Client\<close> interface on
  which the controller tests of the repository run. Here it is the model's own instance of the
  interface: the laws the controllers rely on are locales, and their interpretations below discharge
  them for the fake's definitions.

  \<open>Collections\<close> and \<open>Placement\<close> are ranged over, so they are association lists; the maps that are only
  looked up are partial functions. The mutex is the atomicity of each definition. A run-time panic
  (a write into a nil map, a slice out of bounds) is the error \<open>panicked\<close>.
\<close>

definition panicked :: err where "panicked = ''panic''"

record Fake =
  fk_Collections :: "(string \<times> CollectionInfo) list"
  fk_ErrOn :: "string \<rightharpoonup> err"
  fk_Created :: "string list"
  fk_Deleted :: "string list"
  fk_SelfPeerID :: u64
  fk_PeersList :: "Peer list"
  fk_Placement :: "(string \<times> (u32 \<times> u64) list) list"
  fk_InFlight :: "string \<rightharpoonup> TransferInfo list"
  fk_Moves :: "string list"
  fk_RemovedPeers :: "u64 list"
  fk_Aliases :: "string \<rightharpoonup> string"
  fk_AliasLog :: "AliasAction list list"
  fk_Points :: "string \<rightharpoonup> raw list"
  fk_ExtraReplicas :: "string \<rightharpoonup> (u32 \<rightharpoonup> u64 list)"
  fk_ShardPoints :: "string \<rightharpoonup> (u32 \<rightharpoonup> u64)"
  fk_Replicated :: "string list"
  fk_ShardStates :: "string \<rightharpoonup> (u64 \<times> u64 \<rightharpoonup> string)"
  fk_DeadReplicas :: "string \<rightharpoonup> (u32 \<rightharpoonup> u64 list)"
  fk_Snapshots :: "string \<rightharpoonup> SnapshotInfo list"
  fk_SnapshotSeq :: int
  fk_SnapshotNow :: string
  fk_Recovered :: "string list"

definition NewFake :: Fake where
  "NewFake = \<lparr>fk_Collections = [], fk_ErrOn = Map.empty, fk_Created = [], fk_Deleted = [],
     fk_SelfPeerID = 1, fk_PeersList = [\<lparr>peer_ID = 1, peer_URI = ''http://fake-0.fake-headless:6335/''\<rparr>],
     fk_Placement = [], fk_InFlight = Map.empty, fk_Moves = [], fk_RemovedPeers = [],
     fk_Aliases = Map.empty, fk_AliasLog = [], fk_Points = Map.empty, fk_ExtraReplicas = Map.empty,
     fk_ShardPoints = Map.empty, fk_Replicated = [], fk_ShardStates = Map.empty,
     fk_DeadReplicas = Map.empty, fk_Snapshots = Map.empty, fk_SnapshotSeq = 0, fk_SnapshotNow = [],
     fk_Recovered = []\<rparr>"

definition noCollection :: CollectionInfo where
  "noCollection = \<lparr>ci_Exists = False, ci_PointsCount = 0, ci_VectorSize = 0, ci_Distance = [],
     ci_ShardNumber = 0, ci_ReplicationFactor = 0\<rparr>"

definition fk_collection :: "Fake \<Rightarrow> string \<Rightarrow> CollectionInfo" where
  "fk_collection f n = get_or noCollection (map_of (fk_Collections f)) n"

section \<open>Test setters\<close>

definition SetShardPoints :: "string \<Rightarrow> (u32 \<rightharpoonup> u64) \<Rightarrow> Fake \<Rightarrow> Fake" where
  "SetShardPoints name sizes f = f\<lparr>fk_ShardPoints := (fk_ShardPoints f)(name \<mapsto> sizes)\<rparr>"

text \<open>\<open>m[name][sid] = append(m[name][sid], peer)\<close>, the inner map being made when it is nil.\<close>

definition append_at :: "string \<Rightarrow> u32 \<Rightarrow> u64 \<Rightarrow> (string \<rightharpoonup> (u32 \<rightharpoonup> u64 list)) \<Rightarrow> (string \<rightharpoonup> (u32 \<rightharpoonup> u64 list))" where
  "append_at name sid peer m =
     (let inner = get_or Map.empty m name in m(name \<mapsto> inner(sid \<mapsto> get_or [] inner sid @ [peer])))"

definition AddReplica :: "string \<Rightarrow> u32 \<Rightarrow> u64 \<Rightarrow> Fake \<Rightarrow> Fake" where
  "AddReplica name sid peer f = f\<lparr>fk_ExtraReplicas := append_at name sid peer (fk_ExtraReplicas f)\<rparr>"

definition SetShardState :: "string \<Rightarrow> u32 \<Rightarrow> u64 \<Rightarrow> string \<Rightarrow> Fake \<Rightarrow> Fake" where
  "SetShardState name sid peer state f =
     (let inner = get_or Map.empty (fk_ShardStates f) name; k = (ucast sid, peer) in
      f\<lparr>fk_ShardStates := (fk_ShardStates f)(name \<mapsto>
        inner(k := if state = shardStateActive then None else Some state))\<rparr>)"

definition MarkDead :: "string \<Rightarrow> u32 \<Rightarrow> u64 \<Rightarrow> Fake \<Rightarrow> Fake" where
  "MarkDead name sid peer f = f\<lparr>fk_DeadReplicas := append_at name sid peer (fk_DeadReplicas f)\<rparr>"

definition pointText :: "nat \<Rightarrow> raw" where
  "pointText i = ''{\"id\":'' @ nat_digits i @ '',\"vector\":[0.1]}''"

definition put_points :: "string \<Rightarrow> raw list \<Rightarrow> Fake \<Rightarrow> Fake" where
  "put_points name pts f =
     f\<lparr>fk_Points := (fk_Points f)(name \<mapsto> pts),
       fk_Collections := AList.update name
         ((fk_collection f name)\<lparr>ci_PointsCount := of_nat (length pts)\<rparr>) (fk_Collections f)\<rparr>"

definition SetPoints :: "string \<Rightarrow> nat \<Rightarrow> Fake \<Rightarrow> Fake" where
  "SetPoints name n f = put_points name (map pointText [0..<n]) f"

definition SetPeers :: "Peer list \<Rightarrow> Fake \<Rightarrow> Fake" where
  "SetPeers peers f =
     (let f = f\<lparr>fk_PeersList := peers\<rparr> in
      case peers of [] \<Rightarrow> f | p # _ \<Rightarrow> f\<lparr>fk_SelfPeerID := peer_ID p\<rparr>)"

definition SetCollection :: "string \<Rightarrow> CollectionInfo \<Rightarrow> Fake \<Rightarrow> Fake" where
  "SetCollection name info f = f\<lparr>fk_Collections := AList.update name info (fk_Collections f)\<rparr>"

definition SetPlacement :: "string \<Rightarrow> (u32 \<times> u64) list \<Rightarrow> Fake \<Rightarrow> Fake" where
  "SetPlacement name pl f = f\<lparr>fk_Placement := AList.update name pl (fk_Placement f)\<rparr>"

definition GetPlacement :: "string \<Rightarrow> Fake \<Rightarrow> (u32 \<times> u64) list" where
  "GetPlacement name f = get_or [] (map_of (fk_Placement f)) name"

section \<open>The client methods\<close>

definition guarded :: "string \<Rightarrow> (Fake \<Rightarrow> (err + 'a) \<times> Fake) \<Rightarrow> Fake \<Rightarrow> (err + 'a) \<times> Fake" where
  "guarded m body f = (case fk_ErrOn f m of Some e \<Rightarrow> (Inl e, f) | None \<Rightarrow> body f)"

definition guarded_err :: "string \<Rightarrow> (Fake \<Rightarrow> err option \<times> Fake) \<Rightarrow> Fake \<Rightarrow> err option \<times> Fake" where
  "guarded_err m body f = (case fk_ErrOn f m of Some e \<Rightarrow> (Some e, f) | None \<Rightarrow> body f)"

definition fake_GetCollection :: "string \<Rightarrow> Fake \<Rightarrow> (err + CollectionInfo) \<times> Fake" where
  "fake_GetCollection name = guarded ''GetCollection'' (\<lambda>f. (Inr (fk_collection f name), f))"

definition fake_CreateCollection :: "string \<Rightarrow> CollectionSpec \<Rightarrow> Fake \<Rightarrow> err option \<times> Fake" where
  "fake_CreateCollection name spec = guarded_err ''CreateCollection'' (\<lambda>f.
     if ci_Exists (fk_collection f name) then (Some (''collection '' @ name @ '' already exists''), f)
     else if fk_PeersList f = [] \<and> csp_ShardNumber spec \<noteq> 0 then (Some panicked, f)
     else (None, f\<lparr>
       fk_Collections := AList.update name \<lparr>ci_Exists = True, ci_PointsCount = 0,
         ci_VectorSize = csp_VectorSize spec, ci_Distance = csp_Distance spec,
         ci_ShardNumber = csp_ShardNumber spec, ci_ReplicationFactor = csp_ReplicationFactor spec\<rparr> (fk_Collections f),
       fk_Placement := AList.update name
         (map (\<lambda>i. (of_nat i, peer_ID (fk_PeersList f ! (i mod length (fk_PeersList f)))))
           [0..<unat (csp_ShardNumber spec)]) (fk_Placement f),
       fk_Created := fk_Created f @ [name]\<rparr>))"

definition fake_DeleteCollection :: "string \<Rightarrow> Fake \<Rightarrow> err option \<times> Fake" where
  "fake_DeleteCollection name = guarded_err ''DeleteCollection'' (\<lambda>f.
     (None, f\<lparr>fk_Collections := AList.delete name (fk_Collections f),
              fk_Placement := AList.delete name (fk_Placement f), fk_Deleted := fk_Deleted f @ [name]\<rparr>))"

definition fake_ListCollections :: "Fake \<Rightarrow> (err + string list) \<times> Fake" where
  "fake_ListCollections = guarded ''ListCollections'' (\<lambda>f.
     (Inr (sort (map fst (filter (\<lambda>(_, i). ci_Exists i) (fk_Collections f)))), f))"

definition fake_ClusterInfo :: "Fake \<Rightarrow> (err + ClusterInfo) \<times> Fake" where
  "fake_ClusterInfo = guarded ''ClusterInfo'' (\<lambda>f.
     (Inr \<lparr>clu_Enabled = True, clu_PeerID = fk_SelfPeerID f,
       clu_Peers = sort_func (\<lambda>a b. go_compare (peer_ID a) (peer_ID b)) (fk_PeersList f),
       clu_RaftLeader = fk_SelfPeerID f, clu_PendingOperations = 0\<rparr>, f))"

definition replica_state :: "Fake \<Rightarrow> string \<Rightarrow> u32 \<Rightarrow> u64 \<Rightarrow> string" where
  "replica_state f name sid peer =
     (if peer \<in> set (get_or [] (get_or Map.empty (fk_DeadReplicas f) name) sid) then shardStateDead
      else case get_or Map.empty (fk_ShardStates f) name (ucast sid, peer) of
        Some st \<Rightarrow> st | None \<Rightarrow> shardStateActive)"

definition reported :: "Fake \<Rightarrow> string \<Rightarrow> u32 \<Rightarrow> u64 \<Rightarrow> ShardInfo" where
  "reported f name sid peer = \<lparr>sh_ShardID = sid, sh_PeerID = peer,
     sh_State = replica_state f name sid peer,
     sh_PointsCount = get_or 0 (get_or Map.empty (fk_ShardPoints f) name) sid\<rparr>"

definition fake_shards :: "Fake \<Rightarrow> string \<Rightarrow> (u32 \<times> u64) list \<Rightarrow> ShardInfo list" where
  "fake_shards f name pl =
     concat (map (\<lambda>sid. map (reported f name sid)
       (get_or 0 (map_of pl) sid # get_or [] (get_or Map.empty (fk_ExtraReplicas f) name) sid))
       (sort (map fst pl)))"

definition fake_CollectionCluster :: "string \<Rightarrow> Fake \<Rightarrow> (err + CollectionClusterInfo) \<times> Fake" where
  "fake_CollectionCluster name = guarded ''CollectionCluster'' (\<lambda>f.
     case map_of (fk_Placement f) name of
       None \<Rightarrow> (Inl (''collection '' @ name @ '' not found''), f)
     | Some pl \<Rightarrow> (Inr \<lparr>cc_PeerID = fk_SelfPeerID f, cc_ShardCount = int (length pl),
         cc_Shards = fake_shards f name pl, cc_Transfers = get_or [] (fk_InFlight f) name\<rparr>, f))"

definition moveText :: "string \<Rightarrow> u32 \<Rightarrow> u64 \<Rightarrow> u64 \<Rightarrow> string" where
  "moveText c sid from to =
     c @ ''/'' @ nat_digits (unat sid) @ '':'' @ FormatUint from @ ''->'' @ FormatUint to"

definition fake_ReplicateShard :: "string \<Rightarrow> u32 \<Rightarrow> u64 \<Rightarrow> u64 \<Rightarrow> Fake \<Rightarrow> err option \<times> Fake" where
  "fake_ReplicateShard c sid from to = guarded_err ''ReplicateShard'' (\<lambda>f.
     (None, f\<lparr>fk_ExtraReplicas := append_at c sid to (fk_ExtraReplicas f),
              fk_Replicated := fk_Replicated f @ [moveText c sid from to]\<rparr>))"

definition fake_MoveShard :: "string \<Rightarrow> u32 \<Rightarrow> u64 \<Rightarrow> u64 \<Rightarrow> Fake \<Rightarrow> err option \<times> Fake" where
  "fake_MoveShard c sid from to = guarded_err ''MoveShard'' (\<lambda>f.
     case map_of (fk_Placement f) c of
       None \<Rightarrow> (Some (''collection '' @ c @ '' not found''), f)
     | Some pl \<Rightarrow>
         if get_or 0 (map_of pl) sid \<noteq> from
         then (Some (''shard '' @ nat_digits (unat sid) @ '' not on peer '' @ FormatUint from), f)
         else (None, f\<lparr>fk_Placement := AList.update c (AList.update sid to pl) (fk_Placement f),
                       fk_Moves := fk_Moves f @ [moveText c sid from to]\<rparr>))"

definition remove_at :: "u32 \<Rightarrow> u64 \<Rightarrow> (u32 \<rightharpoonup> u64 list) \<Rightarrow> (u32 \<rightharpoonup> u64 list)" where
  "remove_at sid peer m = m(sid \<mapsto> filter (\<lambda>p. p \<noteq> peer) (get_or [] m sid))"

definition fake_DropReplica :: "string \<Rightarrow> u32 \<Rightarrow> u64 \<Rightarrow> Fake \<Rightarrow> err option \<times> Fake" where
  "fake_DropReplica c sid peer = guarded_err ''DropReplica'' (\<lambda>f.
     case map_of (fk_Placement f) c of
       None \<Rightarrow> (Some (''collection '' @ c @ '' not found''), f)
     | Some pl \<Rightarrow>
         if get_or 0 (map_of pl) sid = peer
         then (Some (''last active replica of shard '' @ nat_digits (unat sid)), f)
         else case fk_DeadReplicas f c of
           None \<Rightarrow> (Some panicked, f)
         | Some dead \<Rightarrow>
             let f1 = f\<lparr>fk_DeadReplicas := (fk_DeadReplicas f)(c \<mapsto> remove_at sid peer dead)\<rparr> in
             case fk_ExtraReplicas f c of
               None \<Rightarrow> (Some panicked, f1)
             | Some extra \<Rightarrow>
                 (None, f1\<lparr>fk_ExtraReplicas := (fk_ExtraReplicas f)(c \<mapsto> remove_at sid peer extra),
                   fk_Moves := fk_Moves f @ [c @ ''/'' @ nat_digits (unat sid) @ '':drop@'' @ FormatUint peer]\<rparr>))"

definition fake_RemovePeer :: "u64 \<Rightarrow> bool \<Rightarrow> Fake \<Rightarrow> err option \<times> Fake" where
  "fake_RemovePeer peer force = guarded_err ''RemovePeer'' (\<lambda>f.
     if \<not> force \<and> list_ex (\<lambda>(_, pl). list_ex (\<lambda>(_, p). p = peer) pl) (fk_Placement f)
     then (Some (''peer '' @ FormatUint peer @ '' still holds shards''), f)
     else (None, f\<lparr>fk_PeersList := filter (\<lambda>p. peer_ID p \<noteq> peer) (fk_PeersList f),
                   fk_RemovedPeers := fk_RemovedPeers f @ [peer]\<rparr>))"

definition apply_alias :: "AliasAction \<Rightarrow> (string \<rightharpoonup> string) \<Rightarrow> (string \<rightharpoonup> string)" where
  "apply_alias a m =
     (let m = (case aa_DeleteAlias a of None \<Rightarrow> m | Some d \<Rightarrow> m(da_AliasName d := None)) in
      case aa_CreateAlias a of None \<Rightarrow> m | Some c \<Rightarrow> m(ca_AliasName c \<mapsto> ca_CollectionName c))"

definition fake_UpdateAliases :: "AliasAction list \<Rightarrow> Fake \<Rightarrow> err option \<times> Fake" where
  "fake_UpdateAliases acts = guarded_err ''UpdateAliases'' (\<lambda>f.
     (None, f\<lparr>fk_Aliases := fold apply_alias acts (fk_Aliases f), fk_AliasLog := fk_AliasLog f @ [acts]\<rparr>))"

definition fake_ListAliases :: "Fake \<Rightarrow> (err + (string \<rightharpoonup> string)) \<times> Fake" where
  "fake_ListAliases = guarded ''ListAliases'' (\<lambda>f. (Inr (fk_Aliases f), f))"

text \<open>
  \<open>json.Unmarshal\<close> of an offset into an \<open>int\<close>: an integer literal in range sets it, anything else
  leaves it at 0 (the error is ignored).
\<close>

definition offset_index :: "raw \<Rightarrow> int" where
  "offset_index raw =
     (let neg = (raw \<noteq> [] \<and> hd raw = CHR ''-''); digits = (if neg then tl raw else raw);
          canonical = (digits \<noteq> [] \<and> list_all is_digit digits \<and> (hd digits = CHR ''0'' \<longrightarrow> length digits = 1));
          n = fst (parse_uint (2 ^ 63) digits)
      in if \<not> canonical \<or> snd (parse_uint (2 ^ 63) digits) \<noteq> None then 0
         else if neg then - int n else if n = 2 ^ 63 then 0 else int n)"

definition fake_ScrollPoints :: "string \<Rightarrow> raw option \<Rightarrow> int \<Rightarrow> Fake \<Rightarrow> (err + raw list \<times> raw option) \<times> Fake" where
  "fake_ScrollPoints c offset limit = guarded ''ScrollPoints'' (\<lambda>f.
     let pts = get_or [] (fk_Points f) c; len = int (length pts);
         start = (case offset of None \<Rightarrow> 0 | Some o' \<Rightarrow> if o' = [] then 0 else offset_index o') in
     if len \<le> start then (Inr ([], None), f)
     else let end' = min (start + limit) len in
       if start < 0 \<or> end' < start then (Inl panicked, f)
       else (Inr (take (nat (end' - start)) (drop (nat start) pts),
                  if end' < len then Some (nat_digits (nat end')) else None), f))"

definition fake_UpsertPoints :: "string \<Rightarrow> raw list \<Rightarrow> Fake \<Rightarrow> err option \<times> Fake" where
  "fake_UpsertPoints c pts = guarded_err ''UpsertPoints'' (\<lambda>f.
     (None, put_points c (get_or [] (fk_Points f) c @ pts) f))"

definition fake_CreateSnapshot :: "string \<Rightarrow> string \<Rightarrow> Fake \<Rightarrow> err option \<times> Fake" where
  "fake_CreateSnapshot now c = guarded_err ''CreateSnapshot'' (\<lambda>f.
     if map_of (fk_Collections f) c = None then (Some (''collection '' @ c @ '' not found''), f)
     else
       let seq = fk_SnapshotSeq f + 1;
           snap = \<lparr>sn_Name = c @ ''-'' @ FormatInt seq,
             sn_CreationTime = (if fk_SnapshotNow f = [] then now else fk_SnapshotNow f), sn_Size = 0\<rparr>
       in (None, f\<lparr>fk_SnapshotSeq := seq,
                   fk_Snapshots := (fk_Snapshots f)(c \<mapsto> get_or [] (fk_Snapshots f) c @ [snap])\<rparr>))"

definition fake_ListSnapshots :: "string \<Rightarrow> Fake \<Rightarrow> (err + SnapshotInfo list) \<times> Fake" where
  "fake_ListSnapshots c = guarded ''ListSnapshots'' (\<lambda>f. (Inr (get_or [] (fk_Snapshots f) c), f))"

definition fake_DeleteSnapshot :: "string \<Rightarrow> string \<Rightarrow> Fake \<Rightarrow> err option \<times> Fake" where
  "fake_DeleteSnapshot c n = guarded_err ''DeleteSnapshot'' (\<lambda>f.
     let prev = get_or [] (fk_Snapshots f) c; kept = filter (\<lambda>s. sn_Name s \<noteq> n) prev;
         f = f\<lparr>fk_Snapshots := (fk_Snapshots f)(c \<mapsto> kept)\<rparr>
     in (if length kept = length prev then Some (''snapshot '' @ n @ '' not found in '' @ c) else None, f))"

definition fake_RecoverSnapshot :: "string \<Rightarrow> string \<Rightarrow> string \<Rightarrow> Fake \<Rightarrow> err option \<times> Fake" where
  "fake_RecoverSnapshot c loc prio = guarded_err ''RecoverSnapshot'' (\<lambda>f.
     let f = f\<lparr>fk_Recovered := fk_Recovered f @ [c @ ''<-'' @ loc @ ''('' @ prio @ '')'']\<rparr> in
     (None, if map_of (fk_Collections f) c = None
            then f\<lparr>fk_Collections := AList.update c (noCollection\<lparr>ci_Exists := True\<rparr>) (fk_Collections f)\<rparr>
            else f))"

text \<open>The fake as a \<open>Client\<close>; \<open>now\<close> is the text of the current time, used for snapshot times only.\<close>

definition fake_client :: "string \<Rightarrow> Fake Client" where
  "fake_client now = \<lparr>GetCollection = fake_GetCollection, CreateCollection = fake_CreateCollection,
     DeleteCollection = fake_DeleteCollection, ListCollections = fake_ListCollections,
     GetClusterInfo = fake_ClusterInfo, CollectionCluster = fake_CollectionCluster,
     MoveShard = fake_MoveShard, ReplicateShard = fake_ReplicateShard, DropReplica = fake_DropReplica,
     RemovePeer = fake_RemovePeer, UpdateAliases = fake_UpdateAliases, ListAliases = fake_ListAliases,
     ScrollPoints = fake_ScrollPoints, UpsertPoints = fake_UpsertPoints,
     CreateSnapshot = fake_CreateSnapshot now, ListSnapshots = fake_ListSnapshots,
     DeleteSnapshot = fake_DeleteSnapshot, RecoverSnapshot = fake_RecoverSnapshot\<rparr>"

end
