(* ===== verification/Cluster_Observe.thy ===== *)
theory Cluster_Observe
  imports Cluster_Env Rebalance_Planner Fake_Client
begin

text \<open>
  \<open>observe\<close> and \<open>collectSizes\<close> of \<open>internal/controller/qdrantcluster_controller.go\<close>: the snapshot that
  the planners, the executor, the drain and the upgrade gate consume.
\<close>

section \<open>Operations\<close>

text \<open>The report of one peer: its own shards are authoritative, others only fill a gap.\<close>

definition recordSize :: "u64 \<Rightarrow> ShardInfo \<Rightarrow> (u32 \<rightharpoonup> u64) \<Rightarrow> (u32 \<rightharpoonup> u64)" where
  "recordSize self s m =
     (if sh_PeerID s = self then m(sh_ShardID s \<mapsto> sh_PointsCount s)
      else if 0 < sh_PointsCount s \<and> m (sh_ShardID s) = None then m(sh_ShardID s \<mapsto> sh_PointsCount s)
      else m)"

definition collectSizes ::
    "'w ClusterReconciler \<Rightarrow> QdrantCluster \<Rightarrow> string list \<Rightarrow> nat \<Rightarrow>
     ('w, (string \<rightharpoonup> (u32 \<rightharpoonup> u64)) \<times> bool) io" where
  "collectSizes r qc names peerCount =
     (case r_QdrantClientForPeer r of
        None \<Rightarrow> State_Monad.return (Map.empty, False)
      | Some mk \<Rightarrow>
          foreach (\<lambda>ord acc.
            foreach (\<lambda>name (sizes, complete). do {
              cc \<leftarrow> q_CollectionCluster (Some ord) (mk qc ord) name;
              case cc of
                Inl _ \<Rightarrow> State_Monad.return (sizes, False)
              | Inr cc \<Rightarrow> State_Monad.return
                  (sizes(name \<mapsto> fold (recordSize (cc_PeerID cc)) (cc_Shards cc) (get_or Map.empty sizes name)),
                   complete)
            }) names acc)
          (map (\<lambda>i. i32 (int i)) [0..<peerCount]) (Map.empty, True))"

definition observeCollection ::
    "'w Client \<Rightarrow> Peer list \<Rightarrow> string \<Rightarrow>
     (string \<times> CollectionClusterInfo) list \<times> CollectionDistribution list \<Rightarrow>
     ('w, (string \<times> CollectionClusterInfo) list \<times> CollectionDistribution list) io" where
  "observeCollection qcl peers name acc = do {
     cc \<leftarrow> q_CollectionCluster None qcl name;
     case cc of
       Inl _ \<Rightarrow> State_Monad.return acc
     | Inr cc \<Rightarrow> State_Monad.return
         (AList.update name cc (fst acc),
          snd acc @ [\<lparr>cd_Collection = name,
            cd_PerPeer = map (\<lambda>p. \<lparr>ps_Peer = FormatUint (peer_ID p),
              ps_Shards = i32 (replicas_on (cc_Shards cc) (peer_ID p))\<rparr>) peers,
            cd_TransfersInFlight = i32 (int (length (cc_Transfers cc)))\<rparr>])
   }"

definition observeRF :: "'w Client \<Rightarrow> string \<Rightarrow> (string \<rightharpoonup> u32) \<Rightarrow> ('w, string \<rightharpoonup> u32) io" where
  "observeRF qcl name rf = do {
     info \<leftarrow> q_GetCollection None qcl name;
     case info of Inl _ \<Rightarrow> State_Monad.return rf
     | Inr info \<Rightarrow> State_Monad.return (rf(name \<mapsto> ci_ReplicationFactor info))
   }"

text \<open>A collection resource that asks for more replicas than Qdrant is configured with raises the goal.\<close>

definition raiseRF :: "QdrantCluster \<Rightarrow> QdrantCollection \<Rightarrow> (string \<rightharpoonup> u32) \<Rightarrow> (string \<rightharpoonup> u32)" where
  "raiseRF qc col rf =
     (if cs_ClusterRef (col_Spec col) \<noteq> qc_Name qc \<or> cs_ReplicationFactor (col_Spec col) = 0 then rf
      else
        let target = (if cst_ActiveCollection (col_Status col) \<noteq> [] then cst_ActiveCollection (col_Status col)
                      else TargetCollectionName col)
        in case rf target of
             None \<Rightarrow> rf
           | Some cur \<Rightarrow> if cur < cs_ReplicationFactor (col_Spec col)
               then rf(target \<mapsto> cs_ReplicationFactor (col_Spec col)) else rf)"

definition observe :: "'w ClusterReconciler \<Rightarrow> QdrantCluster \<Rightarrow> ('w, observation option \<times> QdrantCluster) io" where
  "observe r qc =
     (case r_QdrantClientFor r of
        None \<Rightarrow> State_Monad.return (None, qc)
      | Some mk \<Rightarrow> do {
          ci \<leftarrow> q_ClusterInfo None (mk qc);
          case ci of
            Inl _ \<Rightarrow> State_Monad.return (None, qc)
          | Inr ci \<Rightarrow> do {
              let qcl = mk qc;
              let qc = upd_status (\<lambda>s. s\<lparr>st_Peers := map (\<lambda>p. FormatUint (peer_ID p)) (clu_Peers ci)\<rparr>) qc;
              names \<leftarrow> q_ListCollections None qcl;
              case names of
                Inl _ \<Rightarrow> State_Monad.return (None, qc)
              | Inr names \<Rightarrow> do {
                  cd \<leftarrow> foreach (observeCollection qcl (clu_Peers ci)) names ([], []);
                  let qc = upd_status (\<lambda>s. s\<lparr>st_ShardDistribution := snd cd\<rparr>) qc;
                  rf \<leftarrow> foreach (observeRF qcl) names Map.empty;
                  cols \<leftarrow> k_ListCollections r (qc_Namespace qc);
                  let rf = (case cols of Inl _ \<Rightarrow> rf | Inr cols \<Rightarrow> fold (raiseRF qc) cols rf);
                  sizes \<leftarrow> collectSizes r qc names (length (clu_Peers ci));
                  State_Monad.return (Some \<lparr>o_Peers = clu_Peers ci, o_Collections = fst cd, o_RF = rf,
                    o_Sizes = fst sizes, o_SizesComplete = snd sizes\<rparr>, qc)
                }
            }
        })"

section \<open>Observing only reads\<close>

lemma observe_reads: "emits is_read (observe r qc)"
  unfolding observe_def collectSizes_def observeCollection_def observeRF_def q_defs k_defs Let_def
  by (intro emits_intros; simp)

text \<open>
  \<open>observe\<close> is an observation: whatever the reconciler and the cluster, every call it makes, to
  Qdrant or to the API server, is a read.
\<close>

theorem observe_only_reads: "emits is_read (observe r qc)"
  by (rule observe_reads)

section \<open>What an observation can rely on\<close>

text \<open>
  A client that reports consistently: it lists a peer once, lists at most one replica of a shard per
  peer, and reading keeps that so. This is what makes an observation well-formed.
\<close>

locale reporting_client =
  fixes cl :: "'w Client" and inv :: "'w \<Rightarrow> bool"
  assumes info: "inv w \<Longrightarrow> GetClusterInfo cl w = (r, w') \<Longrightarrow>
      inv w' \<and> (\<forall>ci. r = Inr ci \<longrightarrow> distinct (map peer_ID (clu_Peers ci)))"
    and names: "inv w \<Longrightarrow> ListCollections cl w = (n, w') \<Longrightarrow> inv w'"
    and shards: "inv w \<Longrightarrow> CollectionCluster cl c w = (q, w') \<Longrightarrow>
      inv w' \<and> (\<forall>cc. q = Inr cc \<longrightarrow> distinct (map shard_key (cc_Shards cc)))"
begin

definition good :: "(string \<times> CollectionClusterInfo) list \<Rightarrow> bool" where
  "good colls \<longleftrightarrow> distinct (map fst colls) \<and> (\<forall>(_, cc) \<in> set colls. distinct (map shard_key (cc_Shards cc)))"

lemma update_values: "x \<in> set (AList.update n v al) \<Longrightarrow> x = (n, v) \<or> x \<in> set al"
  by (induction al) (auto split: if_splits)

lemma good_update: "good colls \<Longrightarrow> distinct (map shard_key (cc_Shards cc)) \<Longrightarrow> good (AList.update n cc colls)"
  unfolding good_def by (intro conjI distinct_update) (auto dest: update_values)

lemma observeCollection_good:
  assumes "run_state (observeCollection cl peers name acc) s = (acc', s')"
    and "inv (world s)" and "good (fst acc)"
  shows "inv (world s') \<and> good (fst acc')"
proof -
  obtain q w where q: "CollectionCluster cl name (world s) = (q, w)" by fastforce
  show ?thesis
    using assms shards [OF assms(2) q] q good_update
    by (cases q) (auto simp: observeCollection_def q_defs)
qed

lemma observe_good:
  assumes run: "run_state (observe r qc) s = ((Some obs, qc'), s')"
    and cl: "r_QdrantClientFor r = Some (\<lambda>_. cl)" and inv: "inv (world s)"
  shows "wf_obs obs"
proof -
  obtain ri w1 where ri: "GetClusterInfo cl (world s) = (ri, w1)" by fastforce
  then obtain ci where ci: "ri = Inr ci" using run cl by (cases ri) (auto simp: observe_def q_defs)
  note i1 = info [OF inv ri]
  let ?s1 = "s\<lparr>world := w1, trace := trace s @ [Qdrant None QClusterInfo True]\<rparr>"
  obtain rn w2 where rn: "ListCollections cl w1 = (rn, w2)" by fastforce
  then obtain ns where ns: "rn = Inr ns" using run cl ri ci by (cases rn) (auto simp: observe_def q_defs Let_def)
  have i2: "inv w2" using names [OF _ rn] i1 by simp
  let ?s2 = "?s1\<lparr>world := w2, trace := trace ?s1 @ [Qdrant None QListCollections True]\<rparr>"
  obtain cd s3 where cd: "run_state (foreach (observeCollection cl (clu_Peers ci)) ns ([], [])) ?s2 = (cd, s3)"
    by fastforce
  have g: "inv (world s3) \<and> good (fst cd)"
    by (rule foreach_inv [OF cd, where J = "\<lambda>a s. inv (world s) \<and> good (fst a)"]) (use i2 observeCollection_good in \<open>auto simp: good_def\<close>)
  have "o_Collections obs = fst cd" and "o_Peers obs = clu_Peers ci"
    using run cl ri ci rn ns cd
    by (auto simp: observe_def q_defs Let_def split: prod.splits)
  then show ?thesis using g i1 ci by (simp add: wf_obs_def good_def)
qed

end

text \<open>The fake reports consistently when its own tables are consistent.\<close>

definition fake_ok :: "Fake \<Rightarrow> bool" where
  "fake_ok f \<longleftrightarrow> distinct (map peer_ID (fk_PeersList f)) \<and>
     (\<forall>(c, pl) \<in> set (fk_Placement f). distinct (map fst pl) \<and>
        (\<forall>(sid, p) \<in> set pl. distinct (p # get_or [] (get_or Map.empty (fk_ExtraReplicas f) c) sid)))"

lemma reported_key [simp]: "shard_key (reported f c sid p) = (sid, p)"
  by (simp add: shard_key_def reported_def)

lemma fake_shards_keys:
  "map shard_key (fake_shards f c pl) =
     concat (map (\<lambda>sid. map (Pair sid) (get_or 0 (map_of pl) sid # get_or [] (get_or Map.empty (fk_ExtraReplicas f) c) sid))
       (sort (map fst pl)))"
  by (simp add: fake_shards_def map_concat comp_def)

lemma distinct_concat_pairs:
  "distinct xs \<Longrightarrow> (\<And>x. x \<in> set xs \<Longrightarrow> distinct (g x)) \<Longrightarrow> distinct (concat (map (\<lambda>x. map (Pair x) (g x)) xs))"
  by (induction xs) (auto simp: distinct_map inj_on_def)

lemma fake_shards_distinct:
  assumes "fake_ok f" and "map_of (fk_Placement f) c = Some pl"
  shows "distinct (map shard_key (fake_shards f c pl))"
proof -
  have pl: "distinct (map fst pl)" and ex: "\<And>sid p. (sid, p) \<in> set pl \<Longrightarrow>
      distinct (p # get_or [] (get_or Map.empty (fk_ExtraReplicas f) c) sid)"
    using assms map_of_SomeD [OF assms(2)] by (fastforce simp: fake_ok_def)+
  show ?thesis unfolding fake_shards_keys
  proof (rule distinct_concat_pairs)
    fix sid assume "sid \<in> set (sort (map fst pl))"
    then obtain p where p: "(sid, p) \<in> set pl" by auto
    then have "get_or 0 (map_of pl) sid = p" using pl by (simp add: get_or_def)
    then show "distinct (get_or 0 (map_of pl) sid # get_or [] (get_or Map.empty (fk_ExtraReplicas f) c) sid)"
      using ex [OF p] by simp
  qed (use pl in simp)
qed

interpretation fake_reports: reporting_client "fake_client now" fake_ok for now
proof unfold_locales
  show "fake_ok w \<Longrightarrow> GetClusterInfo (fake_client now) w = (r, w') \<Longrightarrow>
      fake_ok w' \<and> (\<forall>ci. r = Inr ci \<longrightarrow> distinct (map peer_ID (clu_Peers ci)))" for w r w'
  proof -
    assume "fake_ok w" "GetClusterInfo (fake_client now) w = (r, w')"
    moreover have "distinct (map peer_ID (sort_func (\<lambda>a b. go_compare (peer_ID a) (peer_ID b)) ps))"
      if "distinct (map peer_ID ps)" for ps
      using that mset_eq_imp_distinct_iff [of "map peer_ID (sort_func (\<lambda>a b. go_compare (peer_ID a) (peer_ID b)) ps)"
        "map peer_ID ps"] by simp
    ultimately show ?thesis
      by (auto simp: fake_client_def fake_ClusterInfo_def guarded_def fake_ok_def split: option.splits)
  qed
  show "fake_ok w \<Longrightarrow> ListCollections (fake_client now) w = (n, w') \<Longrightarrow> fake_ok w'" for w n w'
    by (auto simp: fake_client_def fake_ListCollections_def guarded_def split: option.splits)
  show "fake_ok w \<Longrightarrow> CollectionCluster (fake_client now) c w = (q, w') \<Longrightarrow>
      fake_ok w' \<and> (\<forall>cc. q = Inr cc \<longrightarrow> distinct (map shard_key (cc_Shards cc)))" for w c q w'
    using fake_shards_distinct [of w c]
    by (auto simp: fake_client_def fake_CollectionCluster_def guarded_def split: option.splits)
qed


end
