(* ===== verification/Drain.thy ===== *)
theory Drain
  imports Move_Executor Cluster_Observe
begin

text \<open>
  Scale-in (\<open>internal/controller/drain.go\<close>): before the StatefulSet loses its highest ordinal, the
  peer of that ordinal is emptied by moves and drops, removed from the consensus, and only then the
  replica count goes down by one.
\<close>

section \<open>Peers and ordinals\<close>

definition peerOrdinal :: "string \<Rightarrow> int option" where
  "peerOrdinal uri =
     (case url_hostname uri of
        None \<Rightarrow> None
      | Some host \<Rightarrow>
          if host = [] then None
          else
            let firstLabel = fst (cut (CHR ''.'') host); idx = LastIndex firstLabel (CHR ''-'') in
            if idx < 0 \<or> idx = int (length firstLabel) - 1 then None
            else case ParseInt32 (drop (nat idx + 1) firstLabel) of
              (n, e) \<Rightarrow> if e \<noteq> None \<or> n < 0 then None else Some n)"

text \<open>A Go map from ordinals to peers: a later peer with the same ordinal replaces an earlier one.\<close>

fun ordinals_from :: "(int \<times> Peer) list \<Rightarrow> Peer list \<Rightarrow> (int \<times> Peer) list option" where
  "ordinals_from acc [] = Some acc"
| "ordinals_from acc (p # ps) =
     (case peerOrdinal (peer_URI p) of None \<Rightarrow> None | Some ord \<Rightarrow> ordinals_from (AList.update ord p acc) ps)"

definition peerOrdinals :: "Peer list \<Rightarrow> (int \<times> Peer) list option" where
  "peerOrdinals peers = ordinals_from [] peers"

section \<open>The drain plan\<close>

record drainPlan =
  dp_Moves :: "plannedMove list"
  dp_Blocked :: bool
  dp_Wait :: bool

type_synonym loads = "u64 \<rightharpoonup> int"

definition emptyPlan :: drainPlan where
  "emptyPlan = \<lparr>dp_Moves = [], dp_Blocked = False, dp_Wait = False\<rparr>"

definition drainMove :: "string \<Rightarrow> u32 \<Rightarrow> u64 \<Rightarrow> u64 \<Rightarrow> plannedMove" where
  "drainMove coll sid from to = \<lparr>pm_Collection = coll, pm_ShardID = sid, pm_From = from, pm_To = to,
     pm_Drop = False, pm_Replicate = False, pm_fromCount = 0, pm_toCount = 0\<rparr>"

definition drainDrop :: "string \<Rightarrow> u32 \<Rightarrow> u64 \<Rightarrow> plannedMove" where
  "drainDrop coll sid from = \<lparr>pm_Collection = coll, pm_ShardID = sid, pm_From = from, pm_To = 0,
     pm_Drop = True, pm_Replicate = False, pm_fromCount = 0, pm_toCount = 0\<rparr>"

text \<open>What to do with one shard of the target: move it to the least loaded keeper without it, else
  drop it when another peer has it, else give up.\<close>

definition drainShard ::
    "Peer list \<Rightarrow> string \<Rightarrow> ShardInfo list \<Rightarrow> u64 \<Rightarrow> u32 \<Rightarrow> loads \<times> drainPlan \<Rightarrow> loads \<times> drainPlan" where
  "drainShard keepers coll shards target sid st =
     (case st of (load, plan) \<Rightarrow>
        let hs = holders shards sid in
        case best_of (load_lt (get_or 0 load)) (filter (\<lambda>k. peer_ID k \<notin> set hs) keepers) of
          Some best \<Rightarrow>
            (load(peer_ID best \<mapsto> get_or 0 load (peer_ID best) + 1),
             plan\<lparr>dp_Moves := dp_Moves plan @ [drainMove coll sid target (peer_ID best)]\<rparr>)
        | None \<Rightarrow>
            if 2 \<le> length hs then (load, plan\<lparr>dp_Moves := dp_Moves plan @ [drainDrop coll sid target]\<rparr>)
            else (load, plan\<lparr>dp_Blocked := True\<rparr>))"

text \<open>\<open>colls[name].Shards\<close>.\<close>

definition coll_shards :: "(string \<times> CollectionClusterInfo) list \<Rightarrow> string \<Rightarrow> ShardInfo list" where
  "coll_shards colls coll = (case map_of colls coll of None \<Rightarrow> [] | Some cc \<Rightarrow> cc_Shards cc)"

definition drainCollection ::
    "Peer list \<Rightarrow> (string \<times> CollectionClusterInfo) list \<Rightarrow> u64 \<Rightarrow> string \<Rightarrow> loads \<times> drainPlan \<Rightarrow> loads \<times> drainPlan" where
  "drainCollection keepers colls target coll st =
     (let shards = coll_shards colls coll in
      fold (\<lambda>s. drainShard keepers coll shards target (sh_ShardID s))
        (filter (\<lambda>s. sh_PeerID s = target) shards) st)"

definition keeperLoads :: "Peer list \<Rightarrow> (string \<times> CollectionClusterInfo) list \<Rightarrow> loads" where
  "keeperLoads keepers colls =
     fold (\<lambda>coll m. fold (\<lambda>s m. case m (sh_PeerID s) of None \<Rightarrow> m | Some c \<Rightarrow> m(sh_PeerID s \<mapsto> c + 1))
         (coll_shards colls coll) m)
       (sort (map fst colls)) (fold (\<lambda>k m. m(peer_ID k \<mapsto> 0)) keepers Map.empty)"

definition planPeerDrain :: "Peer \<Rightarrow> Peer list \<Rightarrow> (string \<times> CollectionClusterInfo) list \<Rightarrow> drainPlan" where
  "planPeerDrain target keepers colls =
     (if list_ex (\<lambda>(_, cc). cc_Transfers cc \<noteq> []) colls then emptyPlan\<lparr>dp_Wait := True\<rparr>
      else snd (fold (drainCollection keepers colls (peer_ID target)) (sort (map fst colls))
        (keeperLoads keepers colls, emptyPlan)))"

section \<open>The drain cycle\<close>

definition phaseDraining :: string where "phaseDraining = ''Draining''"
definition reasonDrainBlocked :: string where "reasonDrainBlocked = ''DrainBlocked''"

declare phaseDraining_def [go_consts] reasonDrainBlocked_def [go_consts]

definition publishDrainStatus ::
    "'w ClusterReconciler \<Rightarrow> QdrantCluster \<Rightarrow> int \<Rightarrow> int \<Rightarrow> Peer option \<Rightarrow> drainPlan option \<Rightarrow> message \<Rightarrow>
     ('w, QdrantCluster) io" where
  "publishDrainStatus r qc cur tgt target plan msg = do {
     now \<leftarrow> k_Now r;
     let started = (case st_DrainStatus (qc_Status qc) of None \<Rightarrow> now | Some ds \<Rightarrow> ds_StartedAt ds);
     let ds = \<lparr>ds_TargetReplicas = tgt, ds_CurrentReplicas = cur,
       ds_Peers = (case target of None \<Rightarrow> [] | Some p \<Rightarrow> [FormatUint (peer_ID p)]),
       ds_PendingMoves = (case plan of None \<Rightarrow> [] | Some p \<Rightarrow> map plannedMove_String (take 10 (dp_Moves p))),
       ds_Message = msg, ds_StartedAt = started\<rparr>;
     let qc = upd_status (\<lambda>s. s\<lparr>st_DrainStatus := Some ds, st_Phase := phaseDraining\<rparr>) qc;
     _ \<leftarrow> k_StatusUpdate r qc;
     State_Monad.return qc
   }"

definition reshardActive :: "'w ClusterReconciler \<Rightarrow> QdrantCluster \<Rightarrow> ('w, bool) io" where
  "reshardActive r qc = do {
     cols \<leftarrow> k_ListCollections r (qc_Namespace qc);
     State_Monad.return (case cols of Inl _ \<Rightarrow> False
       | Inr cols \<Rightarrow> list_ex (\<lambda>c. cs_ClusterRef (col_Spec c) = qc_Name qc \<and> cst_Reshard (col_Status c) \<noteq> None) cols)
   }"

definition shrinkOne :: "'w ClusterReconciler \<Rightarrow> StatefulSet \<Rightarrow> int \<Rightarrow> ('w, kerr option) io" where
  "shrinkOne r live to = k_ScaleStatefulSet r (live\<lparr>sts_Replicas := Some to\<rparr>)"

text \<open>The block the source has twice: mark the drain blocked and commit the status.\<close>

definition blockDrain :: "'w ClusterReconciler \<Rightarrow> QdrantCluster \<Rightarrow> message \<Rightarrow> ('w, unit) io" where
  "blockDrain r qc msg = do {
     _ \<leftarrow> k_StatusUpdate r (set_cond r condDegraded ConditionTrue reasonDrainBlocked msg qc);
     State_Monad.return ()
   }"

definition shrinkAndReport :: "'w ClusterReconciler \<Rightarrow> StatefulSet \<Rightarrow> int \<Rightarrow> ('w, kerr option \<times> Result) io" where
  "shrinkAndReport r live cur = do {
     e \<leftarrow> shrinkOne r live (i32 (cur - 1));
     if e \<noteq> None then State_Monad.return (e, \<lparr>RequeueAfter = 0\<rparr>)
     else do {
       Emit ''DrainShrunk'' (Msg ''replicas'' [ArgN cur, ArgN (i32 (cur - 1))]);
       State_Monad.return (None, \<lparr>RequeueAfter = 5 * Second\<rparr>)
     }
   }"

text \<open>The last step: the target is to be emptied, or, when it is empty, removed and shrunk.\<close>

definition drainTarget ::
    "'w ClusterReconciler \<Rightarrow> 'w Client \<Rightarrow> QdrantCluster \<Rightarrow> StatefulSet \<Rightarrow> int \<Rightarrow> Peer \<Rightarrow> drainPlan \<Rightarrow>
     ('w, kerr option \<times> Result) io" where
  "drainTarget r qcl qc live cur target plan =
     (if dp_Blocked plan then do {
        blockDrain r qc (Msg ''no destination, last replica at risk'' []);
        State_Monad.return (None, \<lparr>RequeueAfter = Minute\<rparr>)
      }
      else if dp_Wait plan then State_Monad.return (None, \<lparr>RequeueAfter = 10 * Second\<rparr>)
      else case dp_Moves plan of
        mv # _ \<Rightarrow> do {
          issued \<leftarrow> issueActiveMove r qc mv ''Drain'' qcl;
          State_Monad.return (None, \<lparr>RequeueAfter = fst issued\<rparr>)
        }
      | [] \<Rightarrow> do {
          e \<leftarrow> q_RemovePeer None qcl (peer_ID target) False;
          case e of
            Some msg \<Rightarrow> do {
              let qc = upd_status (\<lambda>s. s\<lparr>st_MoveBackoff := i32 (st_MoveBackoff s + 1)\<rparr>) qc;
              blockDrain r qc (Msg ''RemovePeer failed'' [ArgS msg]);
              State_Monad.return (None, \<lparr>RequeueAfter = backoff (st_MoveBackoff (qc_Status qc))\<rparr>)
            }
          | None \<Rightarrow> do {
              Emit ''DrainPeerRemoved'' (Text (FormatUint (peer_ID target)));
              shrinkAndReport r live cur
            }
        })"

text \<open>The part of a pass that plans: which peer is the target, who can take its shards.\<close>

definition drainPlanned ::
    "'w ClusterReconciler \<Rightarrow> QdrantCluster \<Rightarrow> StatefulSet \<Rightarrow> int \<Rightarrow> observation \<Rightarrow> ('w, kerr option \<times> Result) io" where
  "drainPlanned r qc live cur obs =
     (let tgt = spec_Replicas (qc_Spec qc) in
      case peerOrdinals (o_Peers obs) of
        None \<Rightarrow> do {
          qc \<leftarrow> publishDrainStatus r qc cur tgt None None (Msg ''peer URI unparseable'' []);
          blockDrain r qc (Msg ''PeerURIUnparseable'' []);
          State_Monad.return (None, \<lparr>RequeueAfter = Minute\<rparr>)
        }
      | Some ordinals \<Rightarrow> (case map_of ordinals (i32 (cur - 1)) of
          None \<Rightarrow> shrinkAndReport r live cur
        | Some target \<Rightarrow>
            if \<not> allShardsActive obs then do {
              _ \<leftarrow> publishDrainStatus r qc cur tgt (Some target) None (Msg ''shards in transition'' []);
              State_Monad.return (None, \<lparr>RequeueAfter = 10 * Second\<rparr>)
            }
            else do {
              let keepers = sort_func (\<lambda>a b. go_compare (peer_ID a) (peer_ID b))
                (map snd (filter (\<lambda>(ord, _). ord < tgt) ordinals));
              let plan = planPeerDrain target keepers (o_Collections obs);
              qc \<leftarrow> publishDrainStatus r qc cur tgt (Some target) (Some plan) (Msg ''draining'' []);
              case r_QdrantClientFor r of
                None \<Rightarrow> State_Monad.return (Some (KOther ''nil QdrantClientFor''), \<lparr>RequeueAfter = 0\<rparr>)
              | Some mk \<Rightarrow> drainTarget r (mk qc) qc live cur target plan
            }))"

text \<open>The part of a pass after a successful observation.\<close>

definition drainObserved ::
    "'w ClusterReconciler \<Rightarrow> QdrantCluster \<Rightarrow> StatefulSet \<Rightarrow> int \<Rightarrow> observation \<Rightarrow> ('w, kerr option \<times> Result) io" where
  "drainObserved r qc live cur obs = do {
     let tgt = spec_Replicas (qc_Spec qc);
     let qc = upd_status (\<lambda>s. s\<lparr>st_Replicas := sts_StatusReplicas live, st_ReadyReplicas := sts_ReadyReplicas live\<rparr>) qc;
     settled \<leftarrow> settleActiveMove r qc obs;
     let (sd, qc) = settled;
     if fst sd \<noteq> settleSettled then do {
       _ \<leftarrow> publishDrainStatus r qc cur tgt None None (Msg ''settling'' [ArgS (fst sd)]);
       State_Monad.return (None, \<lparr>RequeueAfter = snd sd\<rparr>)
     }
     else do {
       resharding \<leftarrow> reshardActive r qc;
       if resharding then do {
         _ \<leftarrow> publishDrainStatus r qc cur tgt None None (Msg ''reshard in progress'' []);
         State_Monad.return (None, \<lparr>RequeueAfter = 15 * Second\<rparr>)
       }
       else drainPlanned r qc live cur obs
     }
   }"

text \<open>
  One pass; \<open>cur\<close> is \<open>*live.Spec.Replicas\<close>, which the caller has checked not to be nil. A missing
  client constructor cannot be reached after a successful observation.
\<close>

definition reconcileDrainCycle ::
    "'w ClusterReconciler \<Rightarrow> QdrantCluster \<Rightarrow> StatefulSet \<Rightarrow> int \<Rightarrow> ('w, kerr option \<times> Result) io" where
  "reconcileDrainCycle r qc live cur = do {
     observed \<leftarrow> observe r qc;
     case observed of
       (None, qc) \<Rightarrow> do {
         qc \<leftarrow> publishDrainStatus r qc cur (spec_Replicas (qc_Spec qc)) None None (Msg ''unobservable'' []);
         blockDrain r qc (Msg ''never shrink unobserved'' []);
         State_Monad.return (None, \<lparr>RequeueAfter = 30 * Second\<rparr>)
       }
     | (Some obs, qc) \<Rightarrow> drainObserved r qc live cur obs
   }"

section \<open>The plan disposes of every shard of the target\<close>

definition move_key :: "plannedMove \<Rightarrow> string \<times> u32" where
  "move_key mv = (pm_Collection mv, pm_ShardID mv)"

text \<open>The shards the target holds, in the order the plan visits them.\<close>

definition target_shards :: "(string \<times> CollectionClusterInfo) list \<Rightarrow> u64 \<Rightarrow> (string \<times> u32) list" where
  "target_shards colls target =
     concat (map (\<lambda>coll. map (\<lambda>s. (coll, sh_ShardID s))
       (filter (\<lambda>s. sh_PeerID s = target) (coll_shards colls coll))) (sort (map fst colls)))"

text \<open>
  An acceptable disposal: a move goes to a keeper that lacks the shard; a drop is of a shard that at
  least one other peer holds, and that every keeper holds.
\<close>

definition disposal_ok :: "Peer list \<Rightarrow> (string \<times> CollectionClusterInfo) list \<Rightarrow> u64 \<Rightarrow> plannedMove \<Rightarrow> bool" where
  "disposal_ok keepers colls target mv \<longleftrightarrow>
     (let hs = set (holders (coll_shards colls (pm_Collection mv)) (pm_ShardID mv)) in
      pm_From mv = target \<and> \<not> pm_Replicate mv \<and>
      (if pm_Drop mv then (\<exists>q \<in> hs. q \<noteq> target) \<and> peer_ID ` set keepers \<subseteq> hs
       else pm_To mv \<in> peer_ID ` set keepers \<and> pm_To mv \<notin> hs))"

lemma two_distinct: "distinct xs \<Longrightarrow> 2 \<le> length xs \<Longrightarrow> \<exists>q \<in> set xs. q \<noteq> t"
  by (cases xs; cases "tl xs") auto

lemma drainShard_step:
  assumes "drainShard keepers coll (coll_shards colls coll) target sid (load, plan) = (load', plan')"
  shows "dp_Wait plan' = dp_Wait plan" and
    "(\<exists>mv. dp_Moves plan' = dp_Moves plan @ [mv] \<and> move_key mv = (coll, sid) \<and>
        disposal_ok keepers colls target mv \<and> dp_Blocked plan' = dp_Blocked plan) \<or>
     (dp_Blocked plan' \<and> peer_ID ` set keepers \<subseteq> set (holders (coll_shards colls coll) sid) \<and>
      length (holders (coll_shards colls coll) sid) < 2)"
proof -
  let ?hs = "holders (coll_shards colls coll) sid"
  let ?free = "filter (\<lambda>k. peer_ID k \<notin> set ?hs) keepers"
  have other: "\<exists>q \<in> set ?hs. q \<noteq> target" if "2 \<le> length ?hs"
    using that by (intro two_distinct) (simp_all add: holders_def)
  show "dp_Wait plan' = dp_Wait plan"
    using assms by (auto simp: drainShard_def Let_def split: option.splits if_splits)
  show "(\<exists>mv. dp_Moves plan' = dp_Moves plan @ [mv] \<and> move_key mv = (coll, sid) \<and>
        disposal_ok keepers colls target mv \<and> dp_Blocked plan' = dp_Blocked plan) \<or>
     (dp_Blocked plan' \<and> peer_ID ` set keepers \<subseteq> set ?hs \<and> length ?hs < 2)"
  proof (cases "best_of (load_lt (get_or 0 load)) ?free")
    case (Some k)
    then have "k \<in> set ?free" by (rule best_of_mem)
    then show ?thesis
      using assms Some by (auto simp: drainShard_def Let_def drainMove_def move_key_def disposal_ok_def)
  next
    case None
    then have all: "peer_ID ` set keepers \<subseteq> set ?hs" by (auto simp: filter_empty_conv)
    then have "disposal_ok keepers colls target (drainDrop coll sid target)" if "2 \<le> length ?hs"
      using other [OF that] by (simp add: disposal_ok_def drainDrop_def)
    moreover have "move_key (drainDrop coll sid target) = (coll, sid)" by (simp add: move_key_def drainDrop_def)
    ultimately show ?thesis
      using assms None all by (auto simp: drainShard_def Let_def split: if_splits)
  qed
qed

text \<open>One collection, then all: nothing is skipped unless the plan is blocked.\<close>

lemma drainShards_fold:
  assumes "fold (\<lambda>s. drainShard keepers coll (coll_shards colls coll) target (sh_ShardID s)) ss (load, plan) = (load', plan')"
  shows "dp_Wait plan' = dp_Wait plan \<and> (dp_Blocked plan \<longrightarrow> dp_Blocked plan') \<and>
    (\<not> dp_Blocked plan' \<longrightarrow> (\<exists>ms. dp_Moves plan' = dp_Moves plan @ ms \<and>
       map move_key ms = map (\<lambda>s. (coll, sh_ShardID s)) ss \<and> (\<forall>mv \<in> set ms. disposal_ok keepers colls target mv)))"
  using assms
proof (induction ss arbitrary: load plan)
  case (Cons s ss)
  obtain l1 p1 where st: "drainShard keepers coll (coll_shards colls coll) target (sh_ShardID s) (load, plan) = (l1, p1)"
    by fastforce
  note step = drainShard_step [OF st]
  have rest: "fold (\<lambda>s. drainShard keepers coll (coll_shards colls coll) target (sh_ShardID s)) ss (l1, p1) = (load', plan')"
    using Cons.prems st by simp
  note IH = Cons.IH [OF rest]
  have mono: "dp_Blocked plan \<longrightarrow> dp_Blocked p1" using step(2) by auto
  show ?case
  proof (intro conjI impI)
    assume free: "\<not> dp_Blocked plan'"
    then have "\<not> dp_Blocked p1" using IH by blast
    then obtain mv where mv: "dp_Moves p1 = dp_Moves plan @ [mv]" "move_key mv = (coll, sh_ShardID s)"
        "disposal_ok keepers colls target mv" using step(2) by auto
    from IH free obtain ms where "dp_Moves plan' = dp_Moves p1 @ ms"
        "map move_key ms = map (\<lambda>s. (coll, sh_ShardID s)) ss" "\<forall>mv \<in> set ms. disposal_ok keepers colls target mv"
      by blast
    then show "\<exists>ms. dp_Moves plan' = dp_Moves plan @ ms \<and>
       map move_key ms = map (\<lambda>s. (coll, sh_ShardID s)) (s # ss) \<and> (\<forall>mv \<in> set ms. disposal_ok keepers colls target mv)"
      using mv by (intro exI [of _ "mv # ms"]) simp
  qed (use IH step(1) mono in auto)
qed simp

lemma drainCollections_fold:
  assumes "fold (drainCollection keepers colls target) cs (load, plan) = (load', plan')"
  shows "dp_Wait plan' = dp_Wait plan \<and> (dp_Blocked plan \<longrightarrow> dp_Blocked plan') \<and>
    (\<not> dp_Blocked plan' \<longrightarrow> (\<exists>ms. dp_Moves plan' = dp_Moves plan @ ms \<and>
       map move_key ms = concat (map (\<lambda>coll. map (\<lambda>s. (coll, sh_ShardID s))
         (filter (\<lambda>s. sh_PeerID s = target) (coll_shards colls coll))) cs) \<and>
       (\<forall>mv \<in> set ms. disposal_ok keepers colls target mv)))"
  using assms
proof (induction cs arbitrary: load plan)
  case (Cons c cs)
  obtain l1 p1 where st: "drainCollection keepers colls target c (load, plan) = (l1, p1)" by fastforce
  note step = drainShards_fold [OF st [unfolded drainCollection_def Let_def]]
  have rest: "fold (drainCollection keepers colls target) cs (l1, p1) = (load', plan')"
    using Cons.prems st by simp
  note IH = Cons.IH [OF rest]
  show ?case
  proof (intro conjI impI)
    assume free: "\<not> dp_Blocked plan'"
    then have "\<not> dp_Blocked p1" using IH by blast
    then obtain ms1 where "dp_Moves p1 = dp_Moves plan @ ms1"
        "map move_key ms1 = map (\<lambda>s. (c, sh_ShardID s)) (filter (\<lambda>s. sh_PeerID s = target) (coll_shards colls c))"
        "\<forall>mv \<in> set ms1. disposal_ok keepers colls target mv" using step by blast
    moreover from IH free obtain ms2 where "dp_Moves plan' = dp_Moves p1 @ ms2"
        "map move_key ms2 = concat (map (\<lambda>coll. map (\<lambda>s. (coll, sh_ShardID s))
          (filter (\<lambda>s. sh_PeerID s = target) (coll_shards colls coll))) cs)"
        "\<forall>mv \<in> set ms2. disposal_ok keepers colls target mv" by blast
    ultimately show "\<exists>ms. dp_Moves plan' = dp_Moves plan @ ms \<and>
       map move_key ms = concat (map (\<lambda>coll. map (\<lambda>s. (coll, sh_ShardID s))
         (filter (\<lambda>s. sh_PeerID s = target) (coll_shards colls coll))) (c # cs)) \<and>
       (\<forall>mv \<in> set ms. disposal_ok keepers colls target mv)"
      by (intro exI [of _ "ms1 @ ms2"]) auto
  qed (use IH step in auto)
qed simp

lemma planPeerDrain_unblocked:
  assumes "\<not> dp_Wait (planPeerDrain target keepers colls)" and "\<not> dp_Blocked (planPeerDrain target keepers colls)"
  shows "map move_key (dp_Moves (planPeerDrain target keepers colls)) = target_shards colls (peer_ID target)"
    and "mv \<in> set (dp_Moves (planPeerDrain target keepers colls)) \<Longrightarrow> disposal_ok keepers colls (peer_ID target) mv"
proof -
  have run: "\<not> list_ex (\<lambda>(_, cc). cc_Transfers cc \<noteq> []) colls"
    using assms(1) by (auto simp: planPeerDrain_def)
  obtain l p where f: "fold (drainCollection keepers colls (peer_ID target)) (sort (map fst colls))
      (keeperLoads keepers colls, emptyPlan) = (l, p)" by fastforce
  have p: "planPeerDrain target keepers colls = p" using run f by (simp add: planPeerDrain_def)
  show "map move_key (dp_Moves (planPeerDrain target keepers colls)) = target_shards colls (peer_ID target)"
    and "mv \<in> set (dp_Moves (planPeerDrain target keepers colls)) \<Longrightarrow> disposal_ok keepers colls (peer_ID target) mv"
    using drainCollections_fold [OF f] assms(2) unfolding p target_shards_def by (auto simp: emptyPlan_def)
qed

lemma drainShard_not_blocked:
  assumes "drainShard keepers coll (coll_shards colls coll) target sid (load, plan) = (load', plan')"
    and "target \<in> set (holders (coll_shards colls coll) sid)"
    and "keepers \<noteq> []" and "target \<notin> peer_ID ` set keepers"
  shows "dp_Blocked plan' = dp_Blocked plan"
proof -
  let ?hs = "holders (coll_shards colls coll) sid"
  have "2 \<le> length ?hs" if "peer_ID ` set keepers \<subseteq> set ?hs"
  proof -
    obtain k where "k \<in> set keepers" using assms(3) by (cases keepers) auto
    then have "{target, peer_ID k} \<subseteq> set ?hs" and "target \<noteq> peer_ID k" using that assms(2,4) by auto
    then have "card {target, peer_ID k} \<le> card (set ?hs)" by (intro card_mono) auto
    then show ?thesis using \<open>target \<noteq> peer_ID k\<close> card_length [of ?hs] by simp
  qed
  then show ?thesis using drainShard_step(2) [OF assms(1)] by auto
qed

lemma planPeerDrain_not_blocked:
  assumes "keepers \<noteq> []" and "peer_ID target \<notin> peer_ID ` set keepers"
  shows "\<not> dp_Blocked (planPeerDrain target keepers colls)"
proof -
  have shards: "dp_Blocked (snd (fold (\<lambda>s. drainShard keepers coll (coll_shards colls coll) (peer_ID target) (sh_ShardID s)) ss st))
      = dp_Blocked (snd st)" if "set ss \<subseteq> {s \<in> set (coll_shards colls coll). sh_PeerID s = peer_ID target}" for coll ss st
    using that
  proof (induction ss arbitrary: st)
    case (Cons s ss)
    have "peer_ID target \<in> set (holders (coll_shards colls coll) (sh_ShardID s))"
      using Cons.prems by (auto simp: set_holders)
    then have "dp_Blocked (snd (drainShard keepers coll (coll_shards colls coll) (peer_ID target) (sh_ShardID s) st))
        = dp_Blocked (snd st)"
      using drainShard_not_blocked [OF _ _ assms] by (metis prod.collapse)
    then show ?case using Cons by simp
  qed simp
  have "dp_Blocked (snd (fold (drainCollection keepers colls (peer_ID target)) cs st)) = dp_Blocked (snd st)" for cs st
    by (induction cs arbitrary: st) (auto simp: drainCollection_def Let_def shards)
  then show ?thesis by (simp add: planPeerDrain_def emptyPlan_def)
qed

text \<open>
  C5: the drain leaves no shard behind. With at least one keeper other than the target and no
  transfer in flight, the plan is neither blocked nor waiting and has exactly one entry for every
  shard replica the target holds, in every collection; each entry moves the replica to a keeper that
  lacks the shard, or drops it where another peer (and every keeper) holds it.
\<close>

theorem planPeerDrain_disposes:
  assumes "keepers \<noteq> []" and "peer_ID target \<notin> peer_ID ` set keepers"
    and "list_all (\<lambda>(_, cc). cc_Transfers cc = []) colls"
  shows "\<not> dp_Blocked (planPeerDrain target keepers colls) \<and> \<not> dp_Wait (planPeerDrain target keepers colls) \<and>
    map move_key (dp_Moves (planPeerDrain target keepers colls)) = target_shards colls (peer_ID target) \<and>
    list_all (disposal_ok keepers colls (peer_ID target)) (dp_Moves (planPeerDrain target keepers colls))"
proof -
  have b: "\<not> dp_Blocked (planPeerDrain target keepers colls)" by (rule planPeerDrain_not_blocked [OF assms(1,2)])
  have "dp_Wait (snd (fold (drainCollection keepers colls (peer_ID target)) cs (l, emptyPlan))) = False" for cs l
    using drainCollections_fold [of keepers colls "peer_ID target" cs l emptyPlan]
    by (metis drainPlan.select_convs(3) emptyPlan_def prod.collapse)
  moreover have "\<not> list_ex (\<lambda>(_, cc). cc_Transfers cc \<noteq> []) colls"
    using assms(3) by (auto simp: list_ex_iff list_all_iff)
  ultimately have w: "\<not> dp_Wait (planPeerDrain target keepers colls)" by (simp add: planPeerDrain_def)
  show ?thesis using b w planPeerDrain_unblocked [OF w b] by (simp add: list_all_iff)
qed

lemma planPeerDrain_empty:
  assumes "\<not> dp_Wait (planPeerDrain target keepers colls)" and "\<not> dp_Blocked (planPeerDrain target keepers colls)"
    and "dp_Moves (planPeerDrain target keepers colls) = []" and "s \<in> set (coll_shards colls coll)"
  shows "sh_PeerID s \<noteq> peer_ID target"
proof
  assume "sh_PeerID s = peer_ID target"
  moreover have "coll \<in> set (sort (map fst colls))"
    using assms(4) map_of_SomeD [of colls coll]
    by (cases "map_of colls coll") (auto simp: coll_shards_def intro: rev_image_eqI)
  ultimately have "(coll, sh_ShardID s) \<in> set (target_shards colls (peer_ID target))"
    using assms(4) by (force simp: target_shards_def)
  then show False using planPeerDrain_unblocked(1) [OF assms(1,2)] assms(3) by simp
qed

section \<open>A pass shrinks only what is empty\<close>

text \<open>Effects that neither change the replica count nor remove a peer.\<close>

fun is_remove :: "effect \<Rightarrow> bool" where
  "is_remove (Qdrant _ (QRemovePeer _ _) _) = True"
| "is_remove _ = False"

abbreviation harmless :: "effect \<Rightarrow> bool" where
  "harmless e \<equiv> \<not> is_scale e \<and> \<not> is_remove e"

lemma read_harmless: "is_read e \<Longrightarrow> harmless e"
  by (cases e rule: is_remove.cases) (auto elim: is_scale.elims)

lemma observe_harmless: "emits harmless (observe r qc)"
  using observe_reads read_harmless by (rule emits_mono)

lemma settle_harmless: "emits harmless (settleActiveMove r qc obs)"
  unfolding settleActiveMove_def k_defs shardOperationFailed_def event_defs Let_def
  by (intro emits_intros; simp)

lemma publish_harmless: "emits harmless (publishDrainStatus r qc cur tgt target plan msg)"
  unfolding publishDrainStatus_def k_defs Let_def by (intro emits_intros; simp)

lemma block_harmless: "emits harmless (blockDrain r qc msg)"
  unfolding blockDrain_def k_defs by (intro emits_intros; simp)

lemma reshard_harmless: "emits harmless (reshardActive r qc)"
  unfolding reshardActive_def k_defs by (intro emits_intros; simp)

lemma issue_harmless: "emits harmless (issueActiveMove r qc mv kind qcl)"
  unfolding issueActiveMove_def issueOp_def k_defs q_defs shardOperationFailed_def event_defs Let_def
  by (intro emits_intros; simp)

lemmas drain_harmless =
  observe_harmless settle_harmless publish_harmless block_harmless reshard_harmless issue_harmless

abbreviation shrinks :: "StatefulSet \<Rightarrow> int \<Rightarrow> bool \<Rightarrow> effect" where
  "shrinks live cur ok \<equiv> Kube (KScaleStatefulSet (sts_Name live) (i32 (cur - 1))) ok"

lemma shrinkAndReport_run:
  assumes "run_state (shrinkAndReport r live cur) s = (res, s')"
  obtains ok rest where "trace s' = trace s @ [shrinks live cur ok] @ rest" and "list_all harmless rest"
proof -
  have "\<exists>ok rest. trace s' = trace s @ [shrinks live cur ok] @ rest \<and> list_all harmless rest"
    using assms
    by (auto simp: shrinkAndReport_def shrinkOne_def k_defs event_defs split: prod.splits if_splits)
  then show thesis using that by blast
qed

lemma drainTarget_run:
  assumes run: "run_state (drainTarget r qcl qc live cur target plan) s = (res, s')"
  obtains (quiet) es where "trace s' = trace s @ es" and "list_all (\<lambda>e. \<not> is_scale e) es"
  | (shrunk) ev ok rest where "\<not> dp_Blocked plan" and "\<not> dp_Wait plan" and "dp_Moves plan = []"
      and "trace s' = trace s @ [Qdrant None (QRemovePeer (peer_ID target) False) True, ev, shrinks live cur ok] @ rest"
      and "harmless ev" and "list_all harmless rest"
proof (cases "dp_Blocked plan \<or> dp_Wait plan \<or> dp_Moves plan \<noteq> []")
  case True
  have "emits harmless (drainTarget r qcl qc live cur target plan)"
    using True unfolding drainTarget_def
    by (auto intro!: emits_intros drain_harmless split: list.split)
  then obtain es where "trace s' = trace s @ es" "list_all harmless es" using run by (rule emitsD)
  then show thesis by (intro quiet) (auto simp: list_all_iff)
next
  case False
  obtain e w where e: "RemovePeer qcl (peer_ID target) False (world s) = (e, w)" by fastforce
  let ?s1 = "s\<lparr>world := w, trace := trace s @ [Qdrant None (QRemovePeer (peer_ID target) False) (e = None)]\<rparr>"
  show thesis
  proof (cases e)
    case (Some msg)
    let ?qc = "upd_status (\<lambda>s. s\<lparr>st_MoveBackoff := i32 (st_MoveBackoff s + 1)\<rparr>) qc"
    obtain u s2 where b: "run_state (blockDrain r ?qc (Msg ''RemovePeer failed'' [ArgS msg])) ?s1 = (u, s2)" by (rule prod.exhaust)
    then obtain es where es: "trace s2 = trace ?s1 @ es" "list_all harmless es"
      by (rule emitsD [OF block_harmless])
    have "s' = s2" using run False e Some b by (auto simp: drainTarget_def q_defs Let_def)
    then show thesis using es Some by (intro quiet) (auto simp: list_all_iff)
  next
    case None
    let ?ev = "Event False ''DrainPeerRemoved'' (Text (FormatUint (peer_ID target)))"
    have "run_state (shrinkAndReport r live cur) (?s1\<lparr>trace := trace ?s1 @ [?ev]\<rparr>) = (res, s')"
      using run False e None by (auto simp: drainTarget_def q_defs event_defs)
    then obtain ok rest where "trace s' = trace ?s1 @ [?ev] @ [shrinks live cur ok] @ rest" "list_all harmless rest"
      by (rule shrinkAndReport_run) simp
    then show thesis using False None by (intro shrunk [of ?ev ok rest]) auto
  qed
qed

text \<open>What must hold of an observation, and what a pass must have done, for it to shrink.\<close>

definition shrink_justified :: "observation \<Rightarrow> StatefulSet \<Rightarrow> int \<Rightarrow> effect list \<Rightarrow> bool" where
  "shrink_justified obs live cur es \<longleftrightarrow>
     (\<exists>ords. peerOrdinals (o_Peers obs) = Some ords \<and>
       (case map_of ords (i32 (cur - 1)) of
          None \<Rightarrow> (\<exists>pre ok rest. es = pre @ [shrinks live cur ok] @ rest \<and> list_all harmless (pre @ rest))
        | Some target \<Rightarrow> allShardsActive obs \<and>
            (\<forall>coll. \<forall>s \<in> set (shards_of obs coll). sh_PeerID s \<noteq> peer_ID target) \<and>
            (\<exists>pre ev ok rest. es = pre @ [Qdrant None (QRemovePeer (peer_ID target) False) True, ev, shrinks live cur ok] @ rest \<and>
               list_all harmless (pre @ ev # rest))))"

lemma shrink_justified_removed:
  assumes "peerOrdinals (o_Peers obs) = Some ords" and "map_of ords (i32 (cur - 1)) = Some target"
    and "allShardsActive obs" and "\<forall>coll. \<forall>s \<in> set (shards_of obs coll). sh_PeerID s \<noteq> peer_ID target"
    and "list_all harmless (pre @ ev # rest)"
  shows "shrink_justified obs live cur
    (pre @ [Qdrant None (QRemovePeer (peer_ID target) False) True, ev, shrinks live cur ok] @ rest)"
  unfolding shrink_justified_def assms(1,2) option.inject
  by (rule exI [of _ ords], rule conjI [OF refl], simp only: assms(2) option.case)
     (intro conjI assms(3,4) exI [of _ pre] exI [of _ ev] exI [of _ ok] exI [of _ rest] refl assms(5))

lemma drainPlanned_run:
  assumes run: "run_state (drainPlanned r qc live cur obs) s = (res, s')"
  obtains es where "trace s' = trace s @ es" and "list_all (\<lambda>e. \<not> is_scale e) es \<or> shrink_justified obs live cur es"
proof (cases "peerOrdinals (o_Peers obs)")
  case None
  have "emits harmless (drainPlanned r qc live cur obs)"
    unfolding drainPlanned_def None Let_def by (auto intro!: emits_intros drain_harmless)
  then obtain es where "trace s' = trace s @ es" "list_all harmless es" using run by (rule emitsD)
  then show thesis by (intro that [of es]) (auto simp: list_all_iff)
next
  case ords: (Some ords)
  show thesis
  proof (cases "map_of ords (i32 (cur - 1))")
    case None
    then have "run_state (shrinkAndReport r live cur) s = (res, s')" using run ords by (simp add: drainPlanned_def)
    then obtain ok rest where "trace s' = trace s @ [shrinks live cur ok] @ rest" "list_all harmless rest"
      by (rule shrinkAndReport_run)
    moreover from this(2) have "shrink_justified obs live cur ([] @ [shrinks live cur ok] @ rest)"
      unfolding shrink_justified_def using ords None
      by (intro exI [of _ ords] conjI) (simp, simp only: option.case, intro exI [of _ "[]"] exI [of _ ok] exI [of _ rest], simp)
    ultimately show thesis using that by (metis append_Nil)
  next
    case (Some target)
    let ?plan = "planPeerDrain target (sort_func (\<lambda>a b. go_compare (peer_ID a) (peer_ID b))
      (map snd (filter (\<lambda>(ord, _). ord < spec_Replicas (qc_Spec qc)) ords))) (o_Collections obs)"
    let ?publish = "publishDrainStatus r qc cur (spec_Replicas (qc_Spec qc)) (Some target) (Some ?plan) (Msg ''draining'' [])"
    show thesis
    proof (cases "\<not> allShardsActive obs \<or> r_QdrantClientFor r = None")
      case True
      have "emits harmless (drainPlanned r qc live cur obs)"
        using True unfolding drainPlanned_def ords Some Let_def by (auto simp: Some intro!: emits_intros drain_harmless)
      then obtain es where "trace s' = trace s @ es" "list_all harmless es" using run by (rule emitsD)
      then show thesis by (intro that [of es]) (auto simp: list_all_iff)
    next
      case False
      then obtain mk where mk: "r_QdrantClientFor r = Some mk" by auto
      obtain qc1 s1 where pub: "run_state ?publish s = (qc1, s1)" by fastforce
      then obtain pre where pre: "trace s1 = trace s @ pre" "list_all harmless pre"
        by (rule emitsD [OF publish_harmless])
      have "run_state (drainTarget r (mk qc1) qc1 live cur target ?plan) s1 = (res, s')"
        using run ords Some False mk pub by (simp add: drainPlanned_def Let_def)
      then show thesis
      proof (cases rule: drainTarget_run)
        case (quiet es)
        then show thesis using pre by (intro that [of "pre @ es"]) (auto simp: list_all_iff)
      next
        case (shrunk ev ok rest)
        have "shards_of obs = coll_shards (o_Collections obs)" by (intro ext) (simp add: shards_of_def coll_shards_def)
        then have "\<forall>coll. \<forall>s \<in> set (shards_of obs coll). sh_PeerID s \<noteq> peer_ID target"
          using planPeerDrain_empty [OF shrunk(2,1,3)] by simp
        moreover have "list_all harmless (pre @ ev # rest)" using pre(2) shrunk(5,6) by simp
        ultimately have "shrink_justified obs live cur
            (pre @ [Qdrant None (QRemovePeer (peer_ID target) False) True, ev, shrinks live cur ok] @ rest)"
          using ords Some False by (intro shrink_justified_removed) auto
        moreover have "trace s' = trace s @
            (pre @ [Qdrant None (QRemovePeer (peer_ID target) False) True, ev, shrinks live cur ok] @ rest)"
          using pre(1) shrunk(4) by simp
        ultimately show thesis using that by blast
      qed
    qed
  qed
qed

text \<open>A pass is fine when it does not shrink, or shrinks after harmless effects with a justification.\<close>

definition drain_fine :: "observation \<Rightarrow> StatefulSet \<Rightarrow> int \<Rightarrow> effect list \<Rightarrow> bool" where
  "drain_fine obs live cur es \<longleftrightarrow> list_all (\<lambda>e. \<not> is_scale e) es \<or>
     (\<exists>pre post. es = pre @ post \<and> list_all harmless pre \<and> shrink_justified obs live cur post)"

lemma drain_fineI:
  "list_all (\<lambda>e. \<not> is_scale e) es \<or> shrink_justified obs live cur es \<Longrightarrow> drain_fine obs live cur es"
  unfolding drain_fine_def by (metis append_Nil list.pred_inject(1))

lemma drain_fine_append:
  assumes "list_all harmless pre" and "drain_fine obs live cur es"
  shows "drain_fine obs live cur (pre @ es)"
  using assms(2) unfolding drain_fine_def
proof
  assume "list_all (\<lambda>e. \<not> is_scale e) es"
  then show "list_all (\<lambda>e. \<not> is_scale e) (pre @ es) \<or>
     (\<exists>pre' post. pre @ es = pre' @ post \<and> list_all harmless pre' \<and> shrink_justified obs live cur post)"
    using assms(1) by (auto simp: list_all_iff)
next
  assume "\<exists>pre' post. es = pre' @ post \<and> list_all harmless pre' \<and> shrink_justified obs live cur post"
  then obtain pre' post where "pre @ es = (pre @ pre') @ post" "list_all harmless (pre @ pre')"
      "shrink_justified obs live cur post" using assms(1) by auto
  then show "list_all (\<lambda>e. \<not> is_scale e) (pre @ es) \<or>
     (\<exists>pre' post. pre @ es = pre' @ post \<and> list_all harmless pre' \<and> shrink_justified obs live cur post)"
    by metis
qed

lemma drain_wait_harmless:
  "emits harmless (do { _ \<leftarrow> publishDrainStatus r qc cur tgt None None msg;
     State_Monad.return (None :: kerr option, \<lparr>RequeueAfter = d\<rparr>) })"
  by (intro emits_intros drain_harmless)

lemma drainObserved_run:
  assumes run: "run_state (drainObserved r qc live cur obs) s = (res, s')"
  obtains es where "trace s' = trace s @ es" and "list_all harmless es"
  | es where "trace s' = trace s @ es" and "lane_free qc obs" and "drain_fine obs live cur es"
proof -
  let ?qc = "upd_status (\<lambda>s. s\<lparr>st_Replicas := sts_StatusReplicas live, st_ReadyReplicas := sts_ReadyReplicas live\<rparr>) qc"
  obtain st d qc2 s2 where settle: "run_state (settleActiveMove r ?qc obs) s = (((st, d), qc2), s2)"
    by (metis surj_pair)
  then obtain pre2 where pre2: "trace s2 = trace s @ pre2" "list_all harmless pre2"
    by (rule emitsD [OF settle_harmless])
  obtain rs s3 where rs: "run_state (reshardActive r qc2) s2 = (rs, s3)" by fastforce
  then obtain pre3 where pre3: "trace s3 = trace s2 @ pre3" "list_all harmless pre3"
    by (rule emitsD [OF reshard_harmless])
  consider (wait) msg d s0 pre where "run_state (do {
        _ \<leftarrow> publishDrainStatus r qc2 cur (spec_Replicas (qc_Spec qc)) None None msg;
        State_Monad.return (None, \<lparr>RequeueAfter = d\<rparr>) }) s0 = (res, s')"
      "trace s0 = trace s @ pre" "list_all harmless pre"
    | (plan) "st = settleSettled" "run_state (drainPlanned r qc2 live cur obs) s3 = (res, s')"
    using run settle rs pre2 pre3
    by (cases "st = settleSettled"; cases rs) (auto simp: drainObserved_def Let_def simp del: run_bind)
  then show thesis
  proof cases
    case wait
    then obtain es where "trace s' = trace s0 @ es" "list_all harmless es"
      using emitsD [OF drain_wait_harmless wait(1)] by blast
    then show thesis using wait(2,3) that(1) [of "pre @ es"] by simp
  next
    case plan
    from plan(2) obtain es where es: "trace s' = trace s3 @ es" "drain_fine obs live cur es"
      by (rule drainPlanned_run) (blast intro: drain_fineI)
    have "lane_free qc obs"
      using settle by (cases rule: settleActiveMove_run)
        (use plan(1) in \<open>auto simp: lane_free_def transfersInFlight_zero go_consts\<close>)
    then show thesis
      using that(2) [of "(pre2 @ pre3) @ es"] drain_fine_append [of "pre2 @ pre3"] pre2 pre3 es by simp
  qed
qed

lemma reconcileDrainCycle_run:
  assumes "run_state (reconcileDrainCycle r qc live cur) s = (res, s')"
  shows "\<exists>es. trace s' = trace s @ es \<and>
    (list_all (\<lambda>e. \<not> is_scale e) es \<or>
     (\<exists>obs qc1 s1 pre post. run_state (observe r qc) s = ((Some obs, qc1), s1) \<and> lane_free qc1 obs \<and>
        es = pre @ post \<and> list_all harmless pre \<and> shrink_justified obs live cur post))"
proof -
  obtain oobs qc1 s1 where ob: "run_state (observe r qc) s = ((oobs, qc1), s1)" by (metis surj_pair)
  then obtain pre where pre: "trace s1 = trace s @ pre" "list_all harmless pre"
    by (rule emitsD [OF observe_harmless])
  have quiet: ?thesis if "trace s' = trace s1 @ es" "list_all harmless es" for es
    using that pre by (intro exI [of _ "pre @ es"]) (auto simp: list_all_iff)
  show ?thesis
  proof (cases oobs)
    case None
    let ?stop = "do {
         qc \<leftarrow> publishDrainStatus r qc1 cur (spec_Replicas (qc_Spec qc1)) None None (Msg ''unobservable'' []);
         blockDrain r qc (Msg ''never shrink unobserved'' []);
         State_Monad.return (None :: kerr option, \<lparr>RequeueAfter = 30 * Second\<rparr>) }"
    have run: "run_state ?stop s1 = (res, s')" using assms ob None by (simp add: reconcileDrainCycle_def)
    have "emits harmless ?stop" by (intro emits_intros drain_harmless)
    then show ?thesis using run by (rule emitsD) (rule quiet)
  next
    case (Some obs)
    then have "run_state (drainObserved r qc1 live cur obs) s1 = (res, s')"
      using assms ob by (simp add: reconcileDrainCycle_def)
    then show ?thesis
    proof (cases rule: drainObserved_run)
      case (2 es)
      then have "trace s' = trace s @ (pre @ es)" "drain_fine obs live cur (pre @ es)"
        using pre drain_fine_append by auto
      then show ?thesis using 2(2) ob Some unfolding drain_fine_def by metis
    qed (rule quiet)
  qed
qed

text \<open>
  C2: a pass of the drain shrinks the StatefulSet by exactly one ordinal and at most once, and only
  after an observation succeeded, with nothing in flight and no unsettled move, when either the
  highest ordinal has already left the consensus, or every replica is active, no observed collection
  has a replica on its peer, and Qdrant has just accepted its removal without force.
\<close>

theorem reconcileDrainCycle_shrinks_safely:
  assumes "run_state (reconcileDrainCycle r qc live cur) s = (res, s')"
  shows "\<exists>es. trace s' = trace s @ es \<and>
    (list_all (\<lambda>e. \<not> is_scale e) es \<or>
     (\<exists>obs qc1 s1 pre post. run_state (observe r qc) s = ((Some obs, qc1), s1) \<and> lane_free qc1 obs \<and>
        es = pre @ post \<and> list_all harmless pre \<and> shrink_justified obs live cur post))"
  by (rule reconcileDrainCycle_run [OF assms])

text \<open>
  No pass of the drain ever removes a peer by force: Qdrant's own refusal to remove a peer that
  still holds shards stays in place.
\<close>

theorem reconcileDrainCycle_never_forces:
  "emits (\<lambda>e. \<forall>t p ok. e \<noteq> Qdrant t (QRemovePeer p True) ok) (reconcileDrainCycle r qc live cur)"
proof -
  have h: "emits (\<lambda>e. \<forall>t p ok. e \<noteq> Qdrant t (QRemovePeer p True) ok) m" if "emits harmless m" for m :: "('b, 'c) io"
    by (rule emits_mono [OF that]) auto
  have t: "emits (\<lambda>e. \<forall>t p ok. e \<noteq> Qdrant t (QRemovePeer p True) ok) (drainTarget r qcl qc live cur target plan)"
    for qcl qc target plan
    unfolding drainTarget_def shrinkAndReport_def shrinkOne_def k_defs q_defs event_defs Let_def
    by (intro emits_intros h [OF block_harmless] h [OF issue_harmless]; simp)
  show ?thesis
    unfolding reconcileDrainCycle_def drainObserved_def drainPlanned_def shrinkAndReport_def shrinkOne_def k_ScaleStatefulSet_def
      event_defs Let_def
    by (intro emits_intros t drain_harmless [THEN h]; simp)
qed

section \<open>Ordinals round-trip through the peer URI\<close>

definition peerURI :: "string \<Rightarrow> nat \<Rightarrow> string" where
  "peerURI name n = ''http://'' @ name @ ''-'' @ nat_digits n @ ''.'' @ name @ ''-headless:6335''"

lemma peerOrdinal_uri:
  assumes "list_all dns_char name" and "n < 2 ^ 31" and "tail = [] \<or> tail = ''/''"
  shows "peerOrdinal (peerURI name n @ tail) = Some (int n)"
proof -
  let ?label = "name @ ''-'' @ nat_digits n"
  let ?h = "?label @ ''.'' @ name @ ''-headless''"
  have nm: "list_all dns_char ?label" "list_all dns_char (name @ ''-headless'')"
    using assms(1) nat_digits_facts by (auto simp: dns_char_def)
  note f = dns_char_facts [OF nm(1)] dns_char_facts [OF nm(2)]
  have host: "url_hostname (peerURI name n @ tail) = Some ?h"
  proof -
    have "list_all (\<lambda>c. host_char c \<and> c \<noteq> CHR ''%'') ?h" using f(8) f(17) by (simp add: host_char_def)
    moreover have "\<not> list_ex is_ctl ?h" using f(9) f(18) by (simp add: is_ctl_def)
    moreover have "peerURI name n @ tail = ''http://'' @ ?h @ '':6335'' @ tail" by (simp add: peerURI_def)
    ultimately show ?thesis
      using url_hostname_plain [of ?h tail] assms(3) f(1-6) f(10-15) by simp
  qed
  have label: "fst (cut (CHR ''.'') ?h) = ?label"
    using cut_append [OF f(7), of "name @ ''-headless''"] by simp
  have idx: "LastIndex ?label (CHR ''-'') = int (length name)"
    using LastIndex_append [OF nat_digits_facts(2), of name n] by simp
  have len: "length name < length ?label - 1" using nat_digits_not_Nil [of n] by (cases "nat_digits n") auto
  have "drop (length name + 1) ?label = nat_digits n" by simp
  then show ?thesis
    unfolding peerOrdinal_def host option.case label Let_def idx
    using len ParseInt32_nat_digits [OF assms(2)] by (simp add: of_nat_diff)
qed

text \<open>
  The ordinal survives the round trip through the peer URI. For a cluster name made of the
  characters a Kubernetes name may have, \<open>peerOrdinal\<close> of the URI the init script announces for pod
  \<open>n\<close> (with or without the slash Qdrant may append) is \<open>n\<close>, for every \<open>n\<close> an \<open>int32\<close> can hold.
\<close>

lemma peerOrdinal_peerURI:
  assumes "list_all dns_char name" and "n < 2 ^ 31" and "tail = [] \<or> tail = ''/''"
  shows "peerOrdinal (peerURI name n @ tail) = Some (int n)"
  using peerOrdinal_uri [OF assms] .

section \<open>Two peers with one ordinal\<close>

text \<open>
  A pod that lost its volume joins the consensus under a new peer identifier with the URI of its
  predecessor.
\<close>

definition rejoined :: "Peer list" where
  "rejoined = [\<lparr>peer_ID = 1, peer_URI = peerURI ''q'' 0\<rparr>, \<lparr>peer_ID = 2, peer_URI = peerURI ''q'' 1\<rparr>,
     \<lparr>peer_ID = 3, peer_URI = peerURI ''q'' 1\<rparr>]"

definition orphan :: observation where
  "orphan = (placed [shardOn 0 1, shardOn 1 2])\<lparr>o_Peers := rejoined\<rparr>"


end
