(* ===== verification/Upgrade.thy ===== *)
theory Upgrade
  imports Move_Executor Cluster_Observe
begin

text \<open>
  The rolling-upgrade gate (\<open>internal/controller/upgrade.go\<close>, \<open>gateRollout\<close> of the cluster
  controller): while a rollout is under way the partition of the StatefulSet follows the progress, so
  that the next pod is released only after the last one is back in the consensus and in service.
\<close>

section \<open>Operations\<close>

definition rolloutInProgress :: "StatefulSet option \<Rightarrow> bool" where
  "rolloutInProgress live \<longleftrightarrow>
     (case live of None \<Rightarrow> False
      | Some l \<Rightarrow> sts_UpdateRevision l \<noteq> [] \<and> sts_UpdateRevision l \<noteq> sts_CurrentRevision l)"

definition upgradeReady :: "StatefulSet option \<Rightarrow> int \<Rightarrow> observation option \<Rightarrow> bool" where
  "upgradeReady live replicas obs \<longleftrightarrow>
     (case live of None \<Rightarrow> False
      | Some l \<Rightarrow> (case obs of None \<Rightarrow> False
          | Some ob \<Rightarrow> sts_ReadyReplicas l = replicas \<and> i32 (int (length (o_Peers ob))) = replicas \<and>
              \<not> transitioning ob \<and> transfersInFlight ob = 0))"

definition upgradePartition :: "StatefulSet option \<Rightarrow> int \<Rightarrow> observation option \<Rightarrow> int" where
  "upgradePartition live replicas obs =
     (case live of None \<Rightarrow> 0
      | Some l \<Rightarrow>
          if \<not> rolloutInProgress live then 0
          else
            let frozen = max (i32 (replicas - sts_UpdatedReplicas l)) 0 in
            if \<not> upgradeReady live replicas obs then frozen else max (i32 (frozen - 1)) 0)"

definition gateRollout ::
    "'w ClusterReconciler \<Rightarrow> QdrantCluster \<Rightarrow> StatefulSet option \<Rightarrow> StatefulSet \<Rightarrow>
     ('w, duration \<times> StatefulSet \<times> QdrantCluster) io" where
  "gateRollout r qc live desired = do {
     observed \<leftarrow> observe r qc;
     let (obs, qc) = observed;
     let part = upgradePartition live (spec_Replicas (qc_Spec qc)) obs;
     let desired = (case sts_RollingUpdate desired of None \<Rightarrow> desired
       | Some _ \<Rightarrow> desired\<lparr>sts_RollingUpdate := Some (Some part)\<rparr>);
     State_Monad.return (15 * Second, desired, qc)
   }"

section \<open>At most one pod at a time\<close>

text \<open>
  A StatefulSet updates its pods from the highest ordinal down and never below the partition: with
  \<open>updated\<close> pods done, the ordinals still to do are those below \<open>replicas - updated\<close>, and the
  partition releases the ones it does not exceed.
\<close>

definition released :: "int \<Rightarrow> int \<Rightarrow> int \<Rightarrow> int set" where
  "released replicas updated part = {ord. 0 \<le> ord \<and> ord < replicas - updated \<and> part \<le> ord}"

lemma upgradePartition_eq:
  assumes "rolloutInProgress (Some l)" and "0 \<le> sts_UpdatedReplicas l" and "sts_UpdatedReplicas l \<le> replicas"
    and "replicas < 2 ^ 31"
  shows "upgradePartition (Some l) replicas obs =
    (if upgradeReady (Some l) replicas obs then max (replicas - sts_UpdatedReplicas l - 1) 0
     else replicas - sts_UpdatedReplicas l)"
proof -
  have "is_i32 (replicas - sts_UpdatedReplicas l)" "is_i32 (replicas - sts_UpdatedReplicas l - 1)"
    using assms by (auto simp: is_i32_def)
  then show ?thesis using assms by (simp add: upgradePartition_def Let_def)
qed

text \<open>
  C12: during a rollout the gate releases no pod while the cluster is not ready (a pod down, a peer
  missing from the consensus, a replica between states, a transfer in flight, or no observation),
  and exactly the next one when it is; it never re-protects a pod that has been updated.
\<close>

theorem upgradePartition_one_at_a_time:
  assumes "rolloutInProgress (Some l)" and "0 \<le> sts_UpdatedReplicas l" and "sts_UpdatedReplicas l \<le> replicas"
    and "replicas < 2 ^ 31"
  shows "released replicas (sts_UpdatedReplicas l) (upgradePartition (Some l) replicas obs) =
      (if upgradeReady (Some l) replicas obs \<and> sts_UpdatedReplicas l < replicas
       then {replicas - sts_UpdatedReplicas l - 1} else {}) \<and>
    upgradePartition (Some l) replicas obs \<le> replicas - sts_UpdatedReplicas l \<and>
    0 \<le> upgradePartition (Some l) replicas obs"
  using assms by (auto simp: upgradePartition_eq released_def)

text \<open>One round of a healthy rollout: the released pod is updated and comes back.\<close>

definition rollout_step :: "int \<Rightarrow> observation \<Rightarrow> StatefulSet \<Rightarrow> StatefulSet" where
  "rollout_step replicas ob l =
     l\<lparr>sts_UpdatedReplicas := replicas - upgradePartition (Some l) replicas (Some ob)\<rparr>"

lemma rollout_step_props:
  assumes "rolloutInProgress (Some l)" and "upgradeReady (Some l) replicas (Some ob)"
    and "0 \<le> sts_UpdatedReplicas l" and "sts_UpdatedReplicas l \<le> replicas" and "replicas < 2 ^ 31"
  shows "rolloutInProgress (Some (rollout_step replicas ob l))"
    and "upgradeReady (Some (rollout_step replicas ob l)) replicas (Some ob)"
    and "sts_UpdatedReplicas (rollout_step replicas ob l) = min replicas (sts_UpdatedReplicas l + 1)"
  using assms
  by (auto simp: rollout_step_def rolloutInProgress_def upgradeReady_def)
     (auto simp: upgradePartition_eq rolloutInProgress_def upgradeReady_def)

text \<open>
  C13: a healthy rollout finishes. If after every round the cluster is ready again, then after as many
  rounds as pods are still to do, every pod has been updated and the gate is fully open.
\<close>

theorem upgrade_completes:
  assumes "rolloutInProgress (Some l)" and "0 \<le> sts_UpdatedReplicas l" and "sts_UpdatedReplicas l \<le> replicas"
    and "replicas < 2 ^ 31" and "upgradeReady (Some l) replicas (Some ob)"
  shows "sts_UpdatedReplicas ((rollout_step replicas ob ^^ nat (replicas - sts_UpdatedReplicas l)) l) = replicas \<and>
    upgradePartition (Some ((rollout_step replicas ob ^^ nat (replicas - sts_UpdatedReplicas l)) l)) replicas (Some ob) = 0"
proof -
  let ?n = "nat (replicas - sts_UpdatedReplicas l)"
  let ?it = "\<lambda>k. (rollout_step replicas ob ^^ k) l"
  have "rolloutInProgress (Some (?it k)) \<and> upgradeReady (Some (?it k)) replicas (Some ob) \<and>
      sts_UpdatedReplicas (?it k) = min replicas (sts_UpdatedReplicas l + int k)" for k
  proof (induction k)
    case 0
    then show ?case using assms by simp
  next
    case (Suc k)
    then show ?case using rollout_step_props [of "?it k" replicas ob] assms(2-4) by auto
  qed
  note it = this [of ?n]
  have "sts_UpdatedReplicas (?it ?n) = replicas" using it assms(3) by simp
  moreover have "0 \<le> replicas" using assms(2,3) by simp
  ultimately show ?thesis using it assms(4) by (simp add: upgradePartition_eq)
qed

end
