(* ===== verification/Resource_Names.thy ===== *)
theory Resource_Names
  imports Api_Types
begin

text \<open>
  Names, ports and labels of the managed objects (\<open>internal/resources/names.go\<close>), and the addresses
  and the scheme under which the operator reaches a cluster (\<open>internal/controller/tls.go\<close>).
\<close>

section \<open>Constants of names.go\<close>

definition RESTPort :: int where "RESTPort = 6333"
definition GRPCPort :: int where "GRPCPort = 6334"
definition P2PPort :: int where "P2PPort = 6335"

definition InitScriptFile :: string where "InitScriptFile = ''initialize.sh''"
definition ProdConfigFile :: string where "ProdConfigFile = ''production.yaml''"
definition ConfigMountDir :: string where "ConfigMountDir = ''/qdrant/config''"

definition ConfigVolumeName :: string where "ConfigVolumeName = ''qdrant-config''"
definition StorageVolumeName :: string where "StorageVolumeName = ''qdrant-storage''"
definition SnapshotsVolumeName :: string where "SnapshotsVolumeName = ''qdrant-snapshots''"
definition InitVolumeName :: string where "InitVolumeName = ''qdrant-init''"

definition DefaultAPIKeySecretKey :: string where "DefaultAPIKeySecretKey = ''api-key''"
definition DefaultTLSCertKey :: string where "DefaultTLSCertKey = ''tls.crt''"
definition DefaultTLSKeyKey :: string where "DefaultTLSKeyKey = ''tls.key''"
definition DefaultTLSCACertKey :: string where "DefaultTLSCACertKey = ''ca.crt''"
definition TLSCertFile :: string where "TLSCertFile = ''cert.pem''"
definition TLSKeyFile :: string where "TLSKeyFile = ''key.pem''"
definition TLSCACertFile :: string where "TLSCACertFile = ''cacert.pem''"
definition TLSVolumeName :: string where "TLSVolumeName = ''tls''"
definition DefaultCertTTLSeconds :: int where "DefaultCertTTLSeconds = 3600"
definition DefaultS3AccessKeyKey :: string where "DefaultS3AccessKeyKey = ''AWS_ACCESS_KEY_ID''"
definition DefaultS3SecretKeyKey :: string where "DefaultS3SecretKeyKey = ''AWS_SECRET_ACCESS_KEY''"
definition DefaultS3Region :: string where "DefaultS3Region = ''us-east-1''"

definition StorageMountDir :: string where "StorageMountDir = ''/qdrant/storage''"
definition SnapshotsMountDir :: string where "SnapshotsMountDir = ''/qdrant/snapshots''"
definition InitMountDir :: string where "InitMountDir = ''/qdrant/init''"
definition TLSMountDir :: string where "TLSMountDir = ''/qdrant/tls''"

definition RunAsGroup :: int where "RunAsGroup = 2000"
definition AppName :: string where "AppName = ''qdrant''"

declare RESTPort_def [go_consts] GRPCPort_def [go_consts] P2PPort_def [go_consts]
  InitScriptFile_def [go_consts] ProdConfigFile_def [go_consts] ConfigMountDir_def [go_consts]
  ConfigVolumeName_def [go_consts] StorageVolumeName_def [go_consts] SnapshotsVolumeName_def [go_consts]
  InitVolumeName_def [go_consts] DefaultAPIKeySecretKey_def [go_consts] DefaultTLSCertKey_def [go_consts]
  DefaultTLSKeyKey_def [go_consts] DefaultTLSCACertKey_def [go_consts] TLSCertFile_def [go_consts]
  TLSKeyFile_def [go_consts] TLSCACertFile_def [go_consts] TLSVolumeName_def [go_consts]
  DefaultCertTTLSeconds_def [go_consts] DefaultS3AccessKeyKey_def [go_consts]
  DefaultS3SecretKeyKey_def [go_consts] DefaultS3Region_def [go_consts] StorageMountDir_def [go_consts]
  SnapshotsMountDir_def [go_consts] InitMountDir_def [go_consts] TLSMountDir_def [go_consts]
  RunAsGroup_def [go_consts]

section \<open>Names and labels\<close>

definition ResName :: "QdrantCluster \<Rightarrow> string" where "ResName qc = qc_Name qc"
definition HeadlessName :: "QdrantCluster \<Rightarrow> string" where "HeadlessName qc = qc_Name qc @ ''-headless''"
definition ClientName :: "QdrantCluster \<Rightarrow> string" where "ClientName qc = qc_Name qc"
definition ConfigMapName :: "QdrantCluster \<Rightarrow> string" where "ConfigMapName qc = qc_Name qc"
definition SAName :: "QdrantCluster \<Rightarrow> string" where "SAName qc = qc_Name qc"
definition PDBName :: "QdrantCluster \<Rightarrow> string" where "PDBName qc = qc_Name qc"

lemmas name_defs = ResName_def HeadlessName_def ClientName_def ConfigMapName_def SAName_def PDBName_def

text \<open>A \<open>map[string]string\<close> literal is the list of its pairs; the keys are distinct.\<close>

definition SelectorLabels :: "QdrantCluster \<Rightarrow> (string \<times> string) list" where
  "SelectorLabels qc = [(''app'', AppName), (''app.kubernetes.io/name'', AppName),
     (''app.kubernetes.io/instance'', qc_Name qc)]"

definition Labels :: "QdrantCluster \<Rightarrow> (string \<times> string) list" where
  "Labels qc = SelectorLabels qc @ [(''app.kubernetes.io/managed-by'', ''qdrant-operator'')]"

section \<open>TLS and addresses\<close>

definition tlsEnabled :: "QdrantCluster \<Rightarrow> bool" where
  "tlsEnabled qc \<longleftrightarrow> cfg_TLSEnabled (spec_Config (qc_Spec qc)) \<and>
     (case cfg_TLS (spec_Config (qc_Spec qc)) of None \<Rightarrow> False | Some t \<Rightarrow> tls_SecretName t \<noteq> [])"

definition tlsMisconfigured :: "QdrantCluster \<Rightarrow> bool" where
  "tlsMisconfigured qc \<longleftrightarrow> cfg_TLSEnabled (spec_Config (qc_Spec qc)) \<and> \<not> tlsEnabled qc"

definition clusterScheme :: "QdrantCluster \<Rightarrow> string" where
  "clusterScheme qc = (if tlsEnabled qc then ''https'' else ''http'')"

definition clientBaseURL :: "QdrantCluster \<Rightarrow> string" where
  "clientBaseURL qc = clusterScheme qc @ ''://'' @ ClientName qc @ ''.'' @ qc_Namespace qc @ ''.svc:'' @
     FormatInt RESTPort"

definition peerBaseURL :: "QdrantCluster \<Rightarrow> int \<Rightarrow> string" where
  "peerBaseURL qc ordinal = clusterScheme qc @ ''://'' @ qc_Name qc @ ''-'' @ FormatInt ordinal @ ''.'' @
     HeadlessName qc @ ''.'' @ qc_Namespace qc @ ''.svc:'' @ FormatInt RESTPort"

end
