(* ===== verification/Node_Failure.thy ===== *)
theory Node_Failure
  imports Cluster_Env Resource_Names
begin

text \<open>
  Recovery from lost nodes (\<open>internal/controller/nodefailure.go\<close>): a pod whose node is gone or has not
  been ready for six minutes is deleted without grace, at most one per pass, so that the StatefulSet
  can replace it.
\<close>

section \<open>Operations\<close>

definition nodeFailureGrace :: duration where "nodeFailureGrace = 6 * Minute"

declare nodeFailureGrace_def [go_consts]

text \<open>What \<open>nodeDown\<close> concludes from the answer of the API server: down, and since when.\<close>

fun readyVerdict :: "Node \<Rightarrow> bool \<times> time" where
  "readyVerdict [] = (False, 0)"
| "readyVerdict (c # cs) =
     (if nc_Type c = ''Ready''
      then (if nc_Status c = ConditionTrue then (False, 0) else (True, nc_LastTransitionTime c))
      else readyVerdict cs)"

definition nodeVerdict :: "kerr + Node \<Rightarrow> bool \<times> time" where
  "nodeVerdict ans =
     (case ans of Inl KNotFound \<Rightarrow> (True, 0) | Inl _ \<Rightarrow> (False, 0) | Inr conds \<Rightarrow> readyVerdict conds)"

definition nodeDown :: "'w ClusterReconciler \<Rightarrow> string \<Rightarrow> ('w, bool \<times> time) io" where
  "nodeDown r nodeName = do { ans \<leftarrow> k_GetNode r nodeName; State_Monad.return (nodeVerdict ans) }"

fun stuckLoop :: "'w ClusterReconciler \<Rightarrow> QdrantCluster \<Rightarrow> Pod list \<Rightarrow> ('w, int) io" where
  "stuckLoop r qc [] = State_Monad.return 0"
| "stuckLoop r qc (pod # pods) =
     (if pod_NodeName pod = [] then stuckLoop r qc pods
      else do {
        ds \<leftarrow> nodeDown r (pod_NodeName pod);
        now \<leftarrow> k_Now r;
        if \<not> fst ds \<or> time_sub now (snd ds) < nodeFailureGrace then stuckLoop r qc pods
        else do {
          e \<leftarrow> k_DeletePod r (qc_Namespace qc) (pod_Name pod);
          if e \<noteq> None \<and> e \<noteq> Some KNotFound then State_Monad.return 0
          else do {
            EmitWarning ''StuckPodDeleted'' (Msg ''pod stuck on a dead node'' [ArgS (pod_Name pod), ArgS (pod_NodeName pod)]);
            State_Monad.return 1
          }
        }
      })"

definition reconcileStuckPods :: "'w ClusterReconciler \<Rightarrow> QdrantCluster \<Rightarrow> ('w, int) io" where
  "reconcileStuckPods r qc =
     (if spec_Replicas (qc_Spec qc) < 2 then State_Monad.return 0
      else do {
        pods \<leftarrow> k_ListPods r (qc_Namespace qc) (SelectorLabels qc);
        case pods of Inl _ \<Rightarrow> State_Monad.return 0 | Inr pods \<Rightarrow> stuckLoop r qc pods
      })"

section \<open>Only pods of dead nodes, one at a time\<close>

fun is_delete :: "effect \<Rightarrow> bool" where
  "is_delete (Kube (KDelete _ _) _) = True"
| "is_delete _ = False"

text \<open>
  A node that justifies a deletion: the API server does not know it, or its \<open>Ready\<close> condition is not
  true and has not been for the grace period.
\<close>

definition node_dead :: "time \<Rightarrow> kerr + Node \<Rightarrow> bool" where
  "node_dead now ans \<longleftrightarrow>
     (case ans of
        Inl e \<Rightarrow> e = KNotFound
      | Inr conds \<Rightarrow> (\<exists>pre c post. conds = pre @ c # post \<and> nc_Type c = ''Ready'' \<and>
          list_all (\<lambda>d. nc_Type d \<noteq> ''Ready'') pre \<and> nc_Status c \<noteq> ConditionTrue \<and>
          nodeFailureGrace \<le> now - nc_LastTransitionTime c))"

lemma readyVerdict_down:
  "readyVerdict conds = (True, t) \<Longrightarrow>
   \<exists>pre c post. conds = pre @ c # post \<and> nc_Type c = ''Ready'' \<and>
     list_all (\<lambda>d. nc_Type d \<noteq> ''Ready'') pre \<and> nc_Status c \<noteq> ConditionTrue \<and> nc_LastTransitionTime c = t"
proof (induction conds rule: readyVerdict.induct)
  case (2 c cs)
  show ?case
  proof (cases "nc_Type c = ''Ready''")
    case True
    then show ?thesis using 2 by (intro exI [of _ "[]"] exI [of _ c] exI [of _ cs]) (auto split: if_splits)
  next
    case False
    then obtain pre d post where "cs = pre @ d # post" "nc_Type d = ''Ready''"
        "list_all (\<lambda>d. nc_Type d \<noteq> ''Ready'') pre" "nc_Status d \<noteq> ConditionTrue" "nc_LastTransitionTime d = t"
      using 2 by auto
    then show ?thesis using False by (intro exI [of _ "c # pre"] exI [of _ d] exI [of _ post]) simp
  qed
qed simp

lemma nodeVerdict_dead:
  assumes "nodeVerdict ans = (True, t)" and "\<not> time_sub now t < nodeFailureGrace"
  shows "node_dead now ans"
proof (cases ans)
  case (Inl e)
  then show ?thesis using assms by (auto simp: nodeVerdict_def node_dead_def split: kerr.splits)
next
  case (Inr conds)
  then obtain pre c post where c: "conds = pre @ c # post" "nc_Type c = ''Ready''"
      "list_all (\<lambda>d. nc_Type d \<noteq> ''Ready'') pre" "nc_Status c \<noteq> ConditionTrue" "nc_LastTransitionTime c = t"
    using assms(1) readyVerdict_down [of conds t] by (auto simp: nodeVerdict_def)
  have "nodeFailureGrace \<le> now - t"
    using assms(2) time_sub_less_iff [of nodeFailureGrace now t]
    by (simp add: go_consts max_duration_def min_duration_def)
  then show ?thesis using c Inr by (auto simp: node_dead_def)
qed

text \<open>What one pass appends: reads, then at most one deletion, of a listed pod on a dead node.\<close>

definition one_justified_delete :: "'w ClusterReconciler \<Rightarrow> Pod list \<Rightarrow> effect list \<Rightarrow> bool" where
  "one_justified_delete r pods es \<longleftrightarrow>
     list_all (\<lambda>e. \<not> is_delete e) es \<or>
     (\<exists>pre pod w ok rest. es = pre @ [Kube (KDelete ''Pod'' (pod_Name pod)) ok] @ rest \<and>
        list_all (\<lambda>e. \<not> is_delete e) (pre @ rest) \<and> pod \<in> set pods \<and>
        node_dead (r_Now r (snd (r_GetNode r (pod_NodeName pod) w))) (fst (r_GetNode r (pod_NodeName pod) w)))"

lemma one_justified_delete_mono:
  "one_justified_delete r pods es \<Longrightarrow> set pods \<subseteq> set pods' \<Longrightarrow> one_justified_delete r pods' es"
  unfolding one_justified_delete_def by blast

lemma one_justified_delete_Cons:
  assumes "one_justified_delete r pods es" and "\<not> is_delete e" and "set pods \<subseteq> set pods'"
  shows "one_justified_delete r pods' (e # es)"
  using assms(1) unfolding one_justified_delete_def
proof
  assume "\<exists>pre pod w ok rest. es = pre @ [Kube (KDelete ''Pod'' (pod_Name pod)) ok] @ rest \<and>
        list_all (\<lambda>e. \<not> is_delete e) (pre @ rest) \<and> pod \<in> set pods \<and>
        node_dead (r_Now r (snd (r_GetNode r (pod_NodeName pod) w))) (fst (r_GetNode r (pod_NodeName pod) w))"
  then obtain pre pod w ok rest where "e # es = (e # pre) @ [Kube (KDelete ''Pod'' (pod_Name pod)) ok] @ rest"
        "list_all (\<lambda>e. \<not> is_delete e) ((e # pre) @ rest)" "pod \<in> set pods'"
        "node_dead (r_Now r (snd (r_GetNode r (pod_NodeName pod) w))) (fst (r_GetNode r (pod_NodeName pod) w))"
    using assms(2,3) by auto
  then show "list_all (\<lambda>e. \<not> is_delete e) (e # es) \<or>
     (\<exists>pre pod w ok rest. e # es = pre @ [Kube (KDelete ''Pod'' (pod_Name pod)) ok] @ rest \<and>
        list_all (\<lambda>e. \<not> is_delete e) (pre @ rest) \<and> pod \<in> set pods' \<and>
        node_dead (r_Now r (snd (r_GetNode r (pod_NodeName pod) w))) (fst (r_GetNode r (pod_NodeName pod) w)))"
    by blast
qed (use assms(2) in simp)

lemma stuckLoop_run:
  assumes "run_state (stuckLoop r qc pods) s = (n, s')"
  shows "\<exists>es. trace s' = trace s @ es \<and> one_justified_delete r pods es"
  using assms
proof (induction pods arbitrary: s)
  case Nil
  then show ?case by (simp add: one_justified_delete_def)
next
  case (Cons pod pods)
  show ?case
  proof (cases "pod_NodeName pod = []")
    case True
    then obtain es where "trace s' = trace s @ es" "one_justified_delete r pods es"
      using Cons by fastforce
    then show ?thesis using one_justified_delete_mono [of r pods es "pod # pods"] by auto
  next
    case node: False
    obtain ans w1 where g: "r_GetNode r (pod_NodeName pod) (world s) = (ans, w1)" by fastforce
    let ?get = "Kube (KGet ''Node'' [] (pod_NodeName pod)) (ok_ksum ans)"
    let ?s1 = "s\<lparr>world := w1, trace := trace s @ [?get]\<rparr>"
    obtain down since where v: "nodeVerdict ans = (down, since)" by fastforce
    show ?thesis
    proof (cases "\<not> down \<or> time_sub (r_Now r w1) since < nodeFailureGrace")
      case True
      then have "run_state (stuckLoop r qc pods) ?s1 = (n, s')"
        using Cons.prems node g v by (auto simp: nodeDown_def k_defs)
      then obtain es where "trace s' = trace ?s1 @ es" "one_justified_delete r pods es" using Cons.IH by blast
      then show ?thesis
        by (intro exI [of _ "?get # es"]) (auto intro: one_justified_delete_Cons)
    next
      case False
      then have dead: "node_dead (r_Now r w1) ans" using nodeVerdict_dead [of ans since "r_Now r w1"] v by simp
      obtain e w2 where d: "r_DeletePod r (qc_Namespace qc) (pod_Name pod) w1 = (e, w2)" by fastforce
      let ?del = "Kube (KDelete ''Pod'' (pod_Name pod)) (e = None)"
      obtain rest where rest: "trace s' = trace s @ [?get] @ [?del] @ rest" "list_all (\<lambda>e. \<not> is_delete e) rest"
      proof (cases "e \<noteq> None \<and> e \<noteq> Some KNotFound")
        case True
        then show thesis using that [of "[]"] Cons.prems node g v False d by (auto simp: nodeDown_def k_defs)
      next
        case ok: False
        show thesis
          by (rule that [of "[Event True ''StuckPodDeleted''
              (Msg ''pod stuck on a dead node'' [ArgS (pod_Name pod), ArgS (pod_NodeName pod)])]"])
             (use ok Cons.prems node g v False d in \<open>auto simp: nodeDown_def k_defs event_defs\<close>)
      qed
      have "one_justified_delete r (pod # pods) ([?get] @ [?del] @ rest)"
        unfolding one_justified_delete_def
        by (rule disjI2, intro exI [of _ "[?get]"] exI [of _ pod] exI [of _ "world s"] exI [of _ "e = None"]
            exI [of _ rest] conjI) (use g dead rest(2) in simp_all)
      then show ?thesis using rest(1) by blast
    qed
  qed
qed

text \<open>
  C14: a pass deletes at most one pod, and only one that the label selector returned and whose node
  the API server does not know or has reported as not ready for at least six minutes. A cluster of a
  single replica is never touched, and a failed read deletes nothing.
\<close>

theorem reconcileStuckPods_safe:
  assumes "run_state (reconcileStuckPods r qc) s = (n, s')"
  shows "\<exists>es. trace s' = trace s @ es \<and>
    (if spec_Replicas (qc_Spec qc) < 2 then es = []
     else case fst (r_ListPods r (qc_Namespace qc) (SelectorLabels qc) (world s)) of
       Inl _ \<Rightarrow> list_all is_read es
     | Inr pods \<Rightarrow> one_justified_delete r pods es)"
proof (cases "spec_Replicas (qc_Spec qc) < 2")
  case True
  then show ?thesis using assms by (simp add: reconcileStuckPods_def)
next
  case two: False
  obtain ans w where l: "r_ListPods r (qc_Namespace qc) (SelectorLabels qc) (world s) = (ans, w)" by fastforce
  let ?list = "Kube (KList ''Pod'' (qc_Namespace qc)) (ok_ksum ans)"
  show ?thesis
  proof (cases ans)
    case (Inl e)
    then show ?thesis using assms two l by (auto simp: reconcileStuckPods_def k_defs)
  next
    case (Inr pods)
    then have "run_state (stuckLoop r qc pods) (s\<lparr>world := w, trace := trace s @ [?list]\<rparr>) = (n, s')"
      using assms two l by (auto simp: reconcileStuckPods_def k_defs)
    then obtain es where "trace s' = (trace s @ [?list]) @ es" "one_justified_delete r pods es"
      using stuckLoop_run by fastforce
    then show ?thesis using two l Inr
      by (intro exI [of _ "?list # es"]) (auto intro: one_justified_delete_Cons)
  qed
qed

end
