(* ===== verification/Sha256.thy ===== *)
theory Sha256
  imports Prelude
begin

text \<open>
  SHA-256 (\<open>crypto/sha256.Sum256\<close>), as far as \<open>ConfigChecksum\<close> uses it: the digest of a string, in
  lower-case hexadecimal (\<open>fmt\<close> verb \<open>x\<close>). A string is the list of its bytes. The functions carry the names of
  FIPS 180-4.
\<close>

unbundle bit_operations_syntax

text \<open>The round constants, eight 32-bit words to a literal; \<open>words_of n x\<close> are the \<open>n\<close> low words of \<open>x\<close>, the highest first.\<close>

primrec words_of :: "nat \<Rightarrow> int \<Rightarrow> u32 list" where
  "words_of 0 x = []"
| "words_of (Suc n) x = words_of n (x div 2 ^ 32) @ [of_int x]"

definition sha_K :: "u32 list" where
  "sha_K = concat (map (words_of 8)
    [0x428a2f9871374491b5c0fbcfe9b5dba53956c25b59f111f1923f82a4ab1c5ed5,
     0xd807aa9812835b01243185be550c7dc372be5d7480deb1fe9bdc06a7c19bf174,
     0xe49b69c1efbe47860fc19dc6240ca1cc2de92c6f4a7484aa5cb0a9dc76f988da,
     0x983e5152a831c66db00327c8bf597fc7c6e00bf3d5a7914706ca635114292967,
     0x27b70a852e1b21384d2c6dfc53380d13650a7354766a0abb81c2c92e92722c85,
     0xa2bfe8a1a81a664bc24b8b70c76c51a3d192e819d6990624f40e3585106aa070,
     0x19a4c1161e376c082748774c34b0bcb5391c0cb34ed8aa4a5b9cca4f682e6ff3,
     0x748f82ee78a5636f84c878148cc7020890befffaa4506cebbef9a3f7c67178f2])"

type_synonym sha_state = "u32 \<times> u32 \<times> u32 \<times> u32 \<times> u32 \<times> u32 \<times> u32 \<times> u32"

definition sha_H0 :: sha_state where
  "sha_H0 = (0x6a09e667, 0xbb67ae85, 0x3c6ef372, 0xa54ff53a, 0x510e527f, 0x9b05688c, 0x1f83d9ab, 0x5be0cd19)"

definition Ch :: "u32 \<Rightarrow> u32 \<Rightarrow> u32 \<Rightarrow> u32" where
  "Ch x y z = (x AND y) XOR ((NOT x) AND z)"

definition Maj :: "u32 \<Rightarrow> u32 \<Rightarrow> u32 \<Rightarrow> u32" where
  "Maj x y z = (x AND y) XOR (x AND z) XOR (y AND z)"

definition Sigma0 :: "u32 \<Rightarrow> u32" where
  "Sigma0 x = word_rotr 2 x XOR word_rotr 13 x XOR word_rotr 22 x"

definition Sigma1 :: "u32 \<Rightarrow> u32" where
  "Sigma1 x = word_rotr 6 x XOR word_rotr 11 x XOR word_rotr 25 x"

definition sigma0 :: "u32 \<Rightarrow> u32" where
  "sigma0 x = word_rotr 7 x XOR word_rotr 18 x XOR drop_bit 3 x"

definition sigma1 :: "u32 \<Rightarrow> u32" where
  "sigma1 x = word_rotr 17 x XOR word_rotr 19 x XOR drop_bit 10 x"

text \<open>\<open>be_bytes n x\<close>: the \<open>n\<close> low bytes of \<open>x\<close>, the most significant first.\<close>

primrec be_bytes :: "nat \<Rightarrow> int \<Rightarrow> int list" where
  "be_bytes 0 x = []"
| "be_bytes (Suc n) x = be_bytes n (x div 256) @ [x mod 256]"

definition sha_pad :: "int list \<Rightarrow> int list" where
  "sha_pad m = m @ [128] @ replicate ((119 - length m mod 64) mod 64) 0 @ be_bytes 8 (8 * int (length m) mod 2 ^ 64)"

fun in_blocks :: "int list \<Rightarrow> int list list" where
  "in_blocks xs = (if xs = [] then [] else take 64 xs # in_blocks (drop 64 xs))"

declare in_blocks.simps [simp del]

fun be_words :: "int list \<Rightarrow> u32 list" where
  "be_words (a # b # c # d # xs) = of_int (((a * 256 + b) * 256 + c) * 256 + d) # be_words xs"
| "be_words _ = []"

definition sha_schedule :: "u32 list \<Rightarrow> u32 list" where
  "sha_schedule ws = fold (\<lambda>t w. w @ [sigma1 (w ! (t - 2)) + w ! (t - 7) + sigma0 (w ! (t - 15)) + w ! (t - 16)]) [16..<64] ws"

fun sha_round :: "u32 \<times> u32 \<Rightarrow> sha_state \<Rightarrow> sha_state" where
  "sha_round (k, w) (a, b, c, d, e, f, g, h) =
     (let t1 = h + Sigma1 e + Ch e f g + k + w; t2 = Sigma0 a + Maj a b c in
      (t1 + t2, a, b, c, d + t1, e, f, g))"

fun sha_add :: "sha_state \<Rightarrow> sha_state \<Rightarrow> sha_state" where
  "sha_add (a, b, c, d, e, f, g, h) (a', b', c', d', e', f', g', h') =
     (a + a', b + b', c + c', d + d', e + e', f + f', g + g', h + h')"

definition sha_block :: "int list \<Rightarrow> sha_state \<Rightarrow> sha_state" where
  "sha_block bs st = sha_add st (fold sha_round (zip sha_K (sha_schedule (be_words bs))) st)"

fun sha_bytes :: "sha_state \<Rightarrow> int list" where
  "sha_bytes (a, b, c, d, e, f, g, h) = concat (map (\<lambda>w. be_bytes 4 (uint w)) [a, b, c, d, e, f, g, h])"

definition Sum256 :: "string \<Rightarrow> int list" where
  "Sum256 s = sha_bytes (fold sha_block (in_blocks (sha_pad (map of_char s))) sha_H0)"

definition hex_digit :: "int \<Rightarrow> char" where
  "hex_digit d = (if d < 10 then char_of (48 + d) else char_of (87 + d))"

definition hex_bytes :: "int list \<Rightarrow> string" where
  "hex_bytes bs = concat (map (\<lambda>b. [hex_digit (b div 16), hex_digit (b mod 16)]) bs)"

section \<open>Shape of the padding and of the digest\<close>

lemma length_be_bytes [simp]: "length (be_bytes n x) = n"
  by (induction n arbitrary: x) simp_all

text \<open>The padded message is a whole number of blocks.\<close>

lemma sha_pad_blocks: "length (sha_pad m) mod 64 = 0"
proof -
  have "length (sha_pad m) = length m + 9 + (119 - length m mod 64) mod 64" by (simp add: sha_pad_def)
  moreover have "(length m mod 64 + 9 + (119 - length m mod 64) mod 64) mod 64 = 0"
  proof -
    have "(a + 9 + (119 - a) mod 64) mod 64 = 0" if "a < 64" for a :: nat
    proof -
      have "(a + 9 + (119 - a) mod 64) mod 64 = (a + 9 + (119 - a)) mod 64" by (simp add: mod_add_right_eq)
      also have "a + 9 + (119 - a) = 128" using that by simp
      finally show ?thesis by simp
    qed
    then show ?thesis by simp
  qed
  ultimately show ?thesis by (metis group_cancel.add1 mod_add_left_eq)
qed

lemma sha_bytes_length: "length (sha_bytes st) = 32"
  by (cases st rule: sha_bytes.cases) simp

lemma Sum256_length: "length (Sum256 s) = 32"
  by (simp add: Sum256_def sha_bytes_length)

text \<open>The known answer of FIPS 180-4 for a message of one block.\<close>

lemma Sum256_abc:
  "hex_bytes (Sum256 ''abc'') = ''ba7816bf8f01cfea414140de5dae2223b00361a396177a9cb410ff61f20015ad''"
  by code_simp

end
