(* ===== verification/Resource_Builders.thy ===== *)
theory Resource_Builders
  imports Resource_Names Kube_Objects Sha256
begin

text \<open>
  The manifests of the owned objects (\<open>internal/resources\<close>: \<open>configmap.go\<close>, \<open>service.go\<close>,
  \<open>serviceaccount.go\<close>, \<open>pdb.go\<close>, \<open>statefulset.go\<close>). Every builder is a function of the cluster resource.
  \<open>BuildStatefulSet\<close> dereferences the size of the volume; \<open>None\<close> is the panic of a nil pointer.
\<close>

section \<open>Text\<close>

definition newline :: char where "newline = CHR 0x0A"
definition squote :: string where "squote = [CHR 0x27]"
definition dquote :: string where "dquote = [CHR 0x22]"

definition unlines :: "string list \<Rightarrow> string" where
  "unlines ls = concat (map (\<lambda>l. l @ [newline]) ls)"

definition quoted :: "string \<Rightarrow> string" where "quoted s = squote @ s @ squote"

section \<open>configmap.go\<close>

definition seedURI :: "QdrantCluster \<Rightarrow> string" where
  "seedURI qc = ''http://'' @ ResName qc @ ''-0.'' @ HeadlessName qc @ '':'' @ FormatInt P2PPort"

definition initScript :: "QdrantCluster \<Rightarrow> string" where
  "initScript qc = unlines
    [''#!/bin/sh'',
     ''echo '' @ dquote @ ''Soft limits'' @ dquote,
     ''ulimit -a -S'',
     ''echo '' @ dquote @ ''Hard limits'' @ dquote,
     ''ulimit -a -H'',
     ''ulimit -n $(ulimit -Hn)'',
     ''SET_INDEX=${HOSTNAME##*-}'',
     ''echo '' @ dquote @ ''Starting initializing for pod $SET_INDEX'' @ dquote,
     ''if [ '' @ dquote @ ''$SET_INDEX'' @ dquote @ '' = '' @ dquote @ ''0'' @ dquote @ '' ]; then'',
     ''  exec ./entrypoint.sh --uri '' @ quoted (seedURI qc),
     ''else'',
     ''  exec ./entrypoint.sh --bootstrap '' @ quoted (seedURI qc) @ '' --uri '' @
       quoted (''http://'' @ ResName qc @ ''-'') @ dquote @ ''$SET_INDEX'' @ dquote @
       quoted (''.'' @ HeadlessName qc @ '':'' @ FormatInt P2PPort),
     ''fi'']"

text \<open>The S3 storage of the snapshots, when it is both chosen and described.\<close>

definition s3Storage :: "QdrantCluster \<Rightarrow> S3StorageSpec option" where
  "s3Storage qc =
     (case spec_Snapshots (qc_Spec qc) of
        None \<Rightarrow> None
      | Some sn \<Rightarrow> if snap_Storage sn \<noteq> SnapshotStorageS3 then None else snap_S3 sn)"

definition snapshotsYAML :: "QdrantCluster \<Rightarrow> string" where
  "snapshotsYAML qc =
     (case s3Storage qc of
        None \<Rightarrow> []
      | Some s3 \<Rightarrow> unlines
          [''storage:'',
           ''  snapshots_config:'',
           ''    snapshots_storage: s3'',
           ''    s3_config:'',
           ''      bucket: '' @ s3_Bucket s3,
           ''      region: '' @ (if s3_Region s3 = [] then DefaultS3Region else s3_Region s3)])"

text \<open>\<open>config.tls\<close>, when \<open>config.tlsEnabled\<close> is set.\<close>

definition tlsSpec :: "QdrantCluster \<Rightarrow> TLSSpec option" where
  "tlsSpec qc = (if cfg_TLSEnabled (spec_Config (qc_Spec qc)) then cfg_TLS (spec_Config (qc_Spec qc)) else None)"

definition tlsYAML :: "QdrantCluster \<Rightarrow> string" where
  "tlsYAML qc =
     (case tlsSpec qc of
        None \<Rightarrow> []
      | Some tls \<Rightarrow> unlines
          [''tls:'',
           ''  cert: '' @ TLSMountDir @ ''/'' @ TLSCertFile,
           ''  key: '' @ TLSMountDir @ ''/'' @ TLSKeyFile,
           ''  ca_cert: '' @ TLSMountDir @ ''/'' @ TLSCACertFile,
           ''  cert_ttl: '' @ FormatInt (if tls_CertTTLSeconds tls \<le> 0 then DefaultCertTTLSeconds else tls_CertTTLSeconds tls)])"

definition yamlBool :: "bool \<Rightarrow> string" where
  "yamlBool b = (if b then ''true'' else ''false'')"

definition productionYAML :: "QdrantCluster \<Rightarrow> string" where
  "productionYAML qc =
     (let tls = yamlBool (cfg_TLSEnabled (spec_Config (qc_Spec qc))) in
      tlsYAML qc @ snapshotsYAML qc @ unlines
        [''cluster:'',
         ''  consensus:'',
         ''    tick_period_ms: 100'',
         ''  enabled: '' @ yamlBool (cfg_ClusterEnabled (spec_Config (qc_Spec qc))),
         ''  p2p:'',
         ''    enable_tls: '' @ tls,
         ''    port: '' @ FormatInt P2PPort,
         ''service:'',
         ''  enable_tls: '' @ tls])"

definition ConfigChecksum :: "QdrantCluster \<Rightarrow> string" where
  "ConfigChecksum qc = hex_bytes (Sum256 (initScript qc @ productionYAML qc))"

definition BuildConfigMap :: "QdrantCluster \<Rightarrow> ConfigMap" where
  "BuildConfigMap qc = \<lparr>cm_Meta = plainMeta (ConfigMapName qc) (qc_Namespace qc) (Labels qc),
     cm_Data = [(InitScriptFile, initScript qc), (ProdConfigFile, productionYAML qc)]\<rparr>"

section \<open>service.go, serviceaccount.go, pdb.go\<close>

definition port :: "string \<Rightarrow> int \<Rightarrow> ServicePort" where
  "port name p = \<lparr>sp_Name = name, sp_Port = p, sp_Protocol = ''TCP'', sp_TargetPort = p\<rparr>"

definition servicePorts :: "ServicePort list" where
  "servicePorts = [port ''http'' RESTPort, port ''grpc'' GRPCPort, port ''p2p'' P2PPort]"

definition BuildHeadlessService :: "QdrantCluster \<Rightarrow> Service" where
  "BuildHeadlessService qc = \<lparr>svc_Meta = plainMeta (HeadlessName qc) (qc_Namespace qc) (Labels qc), svc_Type = [],
     svc_ClusterIP = ''None'', svc_PublishNotReadyAddresses = True, svc_Selector = SelectorLabels qc,
     svc_Ports = servicePorts\<rparr>"

definition BuildClientService :: "QdrantCluster \<Rightarrow> Service" where
  "BuildClientService qc = \<lparr>svc_Meta = (plainMeta (ClientName qc) (qc_Namespace qc) (Labels qc))
       \<lparr>om_Annotations := spec_ServiceAnnotations (qc_Spec qc)\<rparr>,
     svc_Type = (if spec_ServiceType (qc_Spec qc) = [] then ''ClusterIP'' else spec_ServiceType (qc_Spec qc)),
     svc_ClusterIP = [], svc_PublishNotReadyAddresses = False, svc_Selector = SelectorLabels qc,
     svc_Ports = servicePorts\<rparr>"

definition BuildServiceAccount :: "QdrantCluster \<Rightarrow> ServiceAccount" where
  "BuildServiceAccount qc = \<lparr>sa_Meta = plainMeta (SAName qc) (qc_Namespace qc) (Labels qc)\<rparr>"

definition BuildPodDisruptionBudget :: "QdrantCluster \<Rightarrow> PodDisruptionBudget option" where
  "BuildPodDisruptionBudget qc =
     (if spec_Replicas (qc_Spec qc) < 2 then None
      else Some \<lparr>pdb_Meta = plainMeta (PDBName qc) (qc_Namespace qc) (Labels qc), pdb_MinAvailable = Some 1,
        pdb_Selector = SelectorLabels qc\<rparr>)"

section \<open>statefulset.go\<close>

definition tlsSecretKeys :: "TLSSpec \<Rightarrow> string \<times> string \<times> string" where
  "tlsSecretKeys tls =
     (if tls_CertKey tls = [] then DefaultTLSCertKey else tls_CertKey tls,
      if tls_KeyKey tls = [] then DefaultTLSKeyKey else tls_KeyKey tls,
      if tls_CACertKey tls = [] then DefaultTLSCACertKey else tls_CACertKey tls)"

definition tlsVolume :: "QdrantCluster \<Rightarrow> Volume list" where
  "tlsVolume qc =
     (case tlsSpec qc of
        None \<Rightarrow> []
      | Some tls \<Rightarrow> (case tlsSecretKeys tls of (certKey, keyKey, caKey) \<Rightarrow>
          [\<lparr>vol_Name = TLSVolumeName, vol_Source = VolSecret (tls_SecretName tls)
             [(certKey, TLSCertFile), (keyKey, TLSKeyFile), (caKey, TLSCACertFile)]\<rparr>]))"

definition tlsMount :: "QdrantCluster \<Rightarrow> VolumeMount list" where
  "tlsMount qc =
     (if tlsSpec qc = None then []
      else [\<lparr>vm_Name = TLSVolumeName, vm_MountPath = TLSMountDir, vm_SubPath = [], vm_ReadOnly = True\<rparr>])"

definition secretEnv :: "string \<Rightarrow> SecretKeyRef \<Rightarrow> EnvVar" where
  "secretEnv name ref = \<lparr>env_Name = name,
     env_Source = EnvSecret (skr_Name ref) (if skr_Key ref = [] then DefaultAPIKeySecretKey else skr_Key ref)\<rparr>"

definition apiKeyEnv :: "QdrantCluster \<Rightarrow> EnvVar list" where
  "apiKeyEnv qc =
     (case spec_APIKey (qc_Spec qc) of None \<Rightarrow> [] | Some ref \<Rightarrow> [secretEnv ''QDRANT__SERVICE__API_KEY'' ref]) @
     (case spec_ReadOnlyAPIKey (qc_Spec qc) of None \<Rightarrow> [] | Some ref \<Rightarrow> [secretEnv ''QDRANT__SERVICE__READ_ONLY_API_KEY'' ref])"

definition s3Prefix :: string where
  "s3Prefix = ''QDRANT__STORAGE__SNAPSHOTS_CONFIG__S3_CONFIG__''"

definition snapshotS3Env :: "QdrantCluster \<Rightarrow> EnvVar list" where
  "snapshotS3Env qc =
     (case s3Storage qc of
        None \<Rightarrow> []
      | Some s3 \<Rightarrow>
          (let creds = s3_Credentials s3;
               accessKey = (if s3c_AccessKeyKey creds = [] then DefaultS3AccessKeyKey else s3c_AccessKeyKey creds);
               secretKey = (if s3c_SecretKeyKey creds = [] then DefaultS3SecretKeyKey else s3c_SecretKeyKey creds)
           in [\<lparr>env_Name = s3Prefix @ ''ENDPOINT_URL'', env_Source = EnvValue (s3_EndpointURL s3)\<rparr>,
               secretEnv (s3Prefix @ ''ACCESS_KEY'') \<lparr>skr_Name = s3c_Name creds, skr_Key = accessKey\<rparr>,
               secretEnv (s3Prefix @ ''SECRET_KEY'') \<lparr>skr_Name = s3c_Name creds, skr_Key = secretKey\<rparr>]))"

definition resolveAffinity :: "QdrantCluster \<Rightarrow> Affinity option" where
  "resolveAffinity qc =
     (if spec_Affinity (qc_Spec qc) \<noteq> None \<or> spec_Replicas (qc_Spec qc) < 2 then spec_Affinity (qc_Spec qc)
      else Some (PreferredPodAntiAffinity 100 (SelectorLabels qc) ''kubernetes.io/hostname''))"

definition defaultResources :: ResourceRequirements where
  "defaultResources = \<lparr>rr_Limits = Some [(''cpu'', K8sValue ''2''), (''memory'', K8sValue ''4Gi'')],
     rr_Requests = Some [(''cpu'', K8sValue ''250m''), (''memory'', K8sValue ''512Mi'')]\<rparr>"

text \<open>The parts of \<open>BuildStatefulSet\<close>: the probe, the container, the pod, the claim.\<close>

definition readinessProbe :: "QdrantCluster \<Rightarrow> Probe" where
  "readinessProbe qc = \<lparr>probe_Path = ''/readyz'', probe_Port = RESTPort,
     probe_Scheme = (if cfg_TLSEnabled (spec_Config (qc_Spec qc)) then ''HTTPS'' else []),
     probe_InitialDelaySeconds = 5, probe_PeriodSeconds = 5, probe_FailureThreshold = 6,
     probe_SuccessThreshold = 1, probe_TimeoutSeconds = 1\<rparr>"

definition containerMounts :: "QdrantCluster \<Rightarrow> VolumeMount list" where
  "containerMounts qc =
     [\<lparr>vm_Name = StorageVolumeName, vm_MountPath = StorageMountDir, vm_SubPath = [], vm_ReadOnly = False\<rparr>,
      \<lparr>vm_Name = ConfigVolumeName, vm_MountPath = ConfigMountDir @ ''/'' @ InitScriptFile, vm_SubPath = InitScriptFile, vm_ReadOnly = False\<rparr>,
      \<lparr>vm_Name = ConfigVolumeName, vm_MountPath = ConfigMountDir @ ''/'' @ ProdConfigFile, vm_SubPath = ProdConfigFile, vm_ReadOnly = False\<rparr>,
      \<lparr>vm_Name = SnapshotsVolumeName, vm_MountPath = SnapshotsMountDir, vm_SubPath = [], vm_ReadOnly = False\<rparr>,
      \<lparr>vm_Name = InitVolumeName, vm_MountPath = InitMountDir, vm_SubPath = [], vm_ReadOnly = False\<rparr>] @ tlsMount qc"

definition qdrantContainer :: "QdrantCluster \<Rightarrow> Container" where
  "qdrantContainer qc = \<lparr>ct_Name = AppName,
     ct_Image = img_Repository (spec_Image (qc_Spec qc)) @ '':'' @ img_Tag (spec_Image (qc_Spec qc)),
     ct_ImagePullPolicy = ''IfNotPresent'', ct_Command = [''/bin/bash'', ''-c''], ct_Args = [''./config/initialize.sh''],
     ct_Env = \<lparr>env_Name = ''QDRANT_INIT_FILE_PATH'', env_Source = EnvValue (InitMountDir @ ''/.qdrant-initialized'')\<rparr> #
       apiKeyEnv qc @ snapshotS3Env qc,
     ct_Resources = (let res = spec_Resources (qc_Spec qc) in
       if rr_Limits res = None \<and> rr_Requests res = None then defaultResources else res),
     ct_Ports = [\<lparr>cp_Name = ''http'', cp_ContainerPort = RESTPort, cp_Protocol = ''TCP''\<rparr>,
       \<lparr>cp_Name = ''grpc'', cp_ContainerPort = GRPCPort, cp_Protocol = ''TCP''\<rparr>,
       \<lparr>cp_Name = ''p2p'', cp_ContainerPort = P2PPort, cp_Protocol = ''TCP''\<rparr>],
     ct_ReadinessProbe = readinessProbe qc, ct_PreStop = [''sleep'', ''3''],
     ct_SecurityContext = \<lparr>sec_RunAsUser = spec_RunAsUser (qc_Spec qc), sec_RunAsGroup = RunAsGroup, sec_RunAsNonRoot = True,
       sec_AllowPrivilegeEscalation = False, sec_Privileged = False, sec_ReadOnlyRootFilesystem = True,
       sec_DropCapabilities = [''ALL''], sec_SeccompProfile = ''RuntimeDefault''\<rparr>,
     ct_VolumeMounts = containerMounts qc\<rparr>"

definition podVolumes :: "QdrantCluster \<Rightarrow> Volume list" where
  "podVolumes qc =
     [\<lparr>vol_Name = ConfigVolumeName, vol_Source = VolConfigMap (ConfigMapName qc) 493\<rparr>,
      \<lparr>vol_Name = SnapshotsVolumeName, vol_Source = VolEmptyDir\<rparr>,
      \<lparr>vol_Name = InitVolumeName, vol_Source = VolEmptyDir\<rparr>] @ tlsVolume qc"

definition podTemplate :: "QdrantCluster \<Rightarrow> PodTemplate" where
  "podTemplate qc = \<lparr>pt_Labels = SelectorLabels qc, pt_Annotations = [(''checksum/config'', ConfigChecksum qc)],
     pt_Spec = \<lparr>pod_ServiceAccountName = SAName qc, pod_FSGroup = spec_FSGroup (qc_Spec qc),
       pod_FSGroupChangePolicy = ''Always'', pod_SeccompProfile = ''RuntimeDefault'',
       pod_NodeSelector = spec_NodeSelector (qc_Spec qc), pod_Tolerations = spec_Tolerations (qc_Spec qc),
       pod_Affinity = resolveAffinity qc, pod_Containers = [qdrantContainer qc], pod_Volumes = podVolumes qc\<rparr>\<rparr>"

definition storageClaim :: "QdrantCluster \<Rightarrow> k8s_value \<Rightarrow> PersistentVolumeClaim" where
  "storageClaim qc sz = \<lparr>pvc_Name = StorageVolumeName, pvc_AccessModes = pers_AccessModes (spec_Persistence (qc_Spec qc)),
     pvc_StorageClassName = pers_StorageClassName (spec_Persistence (qc_Spec qc)), pvc_Requests = [(''storage'', sz)]\<rparr>"

definition BuildStatefulSet :: "QdrantCluster \<Rightarrow> StatefulSet option" where
  "BuildStatefulSet qc =
     (case pers_Size (spec_Persistence (qc_Spec qc)) of
        None \<Rightarrow> None
      | Some sz \<Rightarrow> Some (blankSts\<lparr>
          sts_Meta := plainMeta (ResName qc) (qc_Namespace qc) (Labels qc),
          sts_Replicas := Some (spec_Replicas (qc_Spec qc)),
          sts_ServiceName := HeadlessName qc,
          sts_PodManagementPolicy := ''Parallel'',
          sts_PVCRetention := (if pers_RetentionPolicy (spec_Persistence (qc_Spec qc)) = RetentionDelete
            then Some (''Delete'', ''Delete'') else None),
          sts_UpdateType := ''RollingUpdate'',
          sts_RollingUpdate := Some (Some 0),
          sts_Selector := SelectorLabels qc,
          sts_Template := podTemplate qc,
          sts_VolumeClaimTemplates := [storageClaim qc sz]\<rparr>))"

end
