(* ===== verification/Cluster_Reconcile.thy ===== *)
theory Cluster_Reconcile
  imports Drain Upgrade Node_Failure Resource_Builders
begin

text \<open>
  The top level of the cluster controller (\<open>Reconcile\<close>, \<open>applyOwned\<close>, \<open>reconcileStatus\<close> of
  \<open>internal/controller/qdrantcluster_controller.go\<close>, \<open>clusterMetrics\<close> and \<open>forgetCluster\<close> of \<open>metrics.go\<close>): it
  renders the children, recovers stuck pods, applies the children, guards the StatefulSet, and composes
  the drain, the upgrade gate, the observation and the executor.
\<close>

section \<open>Metrics\<close>

definition boolGauge :: "bool \<Rightarrow> int" where
  "boolGauge b = (if b then 1 else 0)"

definition deadCount :: "observation \<Rightarrow> int" where
  "deadCount obs = sum_list (map (\<lambda>(_, cc). int (length (filter (\<lambda>s. sh_State s = shardStateDead) (cc_Shards cc)))) (o_Collections obs))"

definition clusterMetrics :: "string \<Rightarrow> string \<Rightarrow> observation option \<Rightarrow> int \<Rightarrow> bool \<Rightarrow> ('w, unit) io" where
  "clusterMetrics ns n obs planned upgrading = do {
     emit (Metric ''planned_moves'' [ns, n] planned);
     emit (Metric ''upgrade_in_progress'' [ns, n] (boolGauge upgrading));
     case obs of
       None \<Rightarrow> State_Monad.return ()
     | Some obs \<Rightarrow> do {
         emit (Metric ''peers'' [ns, n] (int (length (o_Peers obs))));
         emit (Metric ''dead_replicas'' [ns, n] (deadCount obs))
       }
   }"

definition forgetCluster :: "string \<Rightarrow> string \<Rightarrow> ('w, unit) io" where
  "forgetCluster ns n = do {
     emit (Forget ''planned_moves'' [ns, n]);
     emit (Forget ''peers'' [ns, n]);
     emit (Forget ''dead_replicas'' [ns, n]);
     emit (Forget ''upgrade_in_progress'' [ns, n]);
     emit (Forget ''shard_operation_failures_total'' [ns, n]);
     emit (Forget ''shard_operations_total'' [ns, n])
   }"

section \<open>Pure functions\<close>

definition phaseUpgrading :: string where "phaseUpgrading = ''Upgrading''"

declare phaseUpgrading_def [go_consts]

definition authWithoutTLS :: "QdrantCluster \<Rightarrow> bool" where
  "authWithoutTLS qc \<longleftrightarrow> (spec_APIKey (qc_Spec qc) \<noteq> None \<or> spec_ReadOnlyAPIKey (qc_Spec qc) \<noteq> None) \<and>
     \<not> cfg_TLSEnabled (spec_Config (qc_Spec qc))"

text \<open>\<open>Requests.Storage()\<close>: the zero quantity when the key is absent. Selectors are compared as maps.\<close>

definition storageRequest :: "PersistentVolumeClaim \<Rightarrow> k8s_value" where
  "storageRequest pvc = get_or (K8sValue ''0'') (map_of (pvc_Requests pvc)) ''storage''"

definition stsImmutableChanged :: "'w ClusterReconciler \<Rightarrow> StatefulSet \<Rightarrow> StatefulSet \<Rightarrow> bool" where
  "stsImmutableChanged r existing desired \<longleftrightarrow>
     sts_ServiceName existing \<noteq> sts_ServiceName desired \<or>
     (case (sts_VolumeClaimTemplates existing, sts_VolumeClaimTemplates desired) of
        (e # _, d # _) \<Rightarrow> \<not> r_QuantityEqual r (storageRequest e) (storageRequest d)
      | _ \<Rightarrow> False) \<or>
     set (sts_Selector existing) \<noteq> set (sts_Selector desired)"

section \<open>Applying children\<close>

definition updateOwned :: "'w ClusterReconciler \<Rightarrow> object \<Rightarrow> string \<Rightarrow> ('w, kerr option) io" where
  "updateOwned r desired version = k_Update r (obj_setMeta (\<lambda>m. m\<lparr>om_ResourceVersion := version\<rparr>) desired)"

definition applyOwned :: "'w ClusterReconciler \<Rightarrow> QdrantCluster \<Rightarrow> object \<Rightarrow> ('w, kerr option) io" where
  "applyOwned r qc ob =
     (case r_SetControllerReference r qc ob of
        Inl k \<Rightarrow> State_Monad.return (Some k)
      | Inr desired \<Rightarrow> do {
          got \<leftarrow> k_GetVersion r desired;
          case got of
            Inr version \<Rightarrow> updateOwned r desired version
          | Inl k \<Rightarrow>
              if k \<noteq> KNotFound then State_Monad.return (Some k)
              else do {
                e \<leftarrow> k_Create r desired;
                if e \<noteq> Some KAlreadyExists then State_Monad.return e
                else do {
                  again \<leftarrow> k_GetVersion r desired;
                  case again of
                    Inl k \<Rightarrow> State_Monad.return (Some k)
                  | Inr version \<Rightarrow> updateOwned r desired version
                }
              }
        })"

fun applyChildren :: "'w ClusterReconciler \<Rightarrow> QdrantCluster \<Rightarrow> object list \<Rightarrow> ('w, kerr option) io" where
  "applyChildren r qc [] = State_Monad.return None"
| "applyChildren r qc (ob # obs) = do {
     e \<leftarrow> applyOwned r qc ob;
     case e of Some k \<Rightarrow> State_Monad.return (Some k) | None \<Rightarrow> applyChildren r qc obs
   }"

definition children :: "QdrantCluster \<Rightarrow> object list" where
  "children qc = [OServiceAccount (BuildServiceAccount qc), OConfigMap (BuildConfigMap qc),
     OService (BuildHeadlessService qc), OService (BuildClientService qc)] @
     (case BuildPodDisruptionBudget qc of None \<Rightarrow> [] | Some pdb \<Rightarrow> [OPodDisruptionBudget pdb])"

section \<open>Status\<close>

definition allReady :: "'w ClusterReconciler \<Rightarrow> QdrantCluster \<Rightarrow> QdrantCluster" where
  "allReady r qc = set_cond r condReady ConditionTrue ''AllReplicasReady'' (Msg ''all replicas ready'' []) qc"

definition set_phase :: "string \<Rightarrow> QdrantCluster \<Rightarrow> QdrantCluster" where
  "set_phase p qc = upd_status (\<lambda>s. s\<lparr>st_Phase := p\<rparr>) qc"

text \<open>
  The switch of \<open>reconcileStatus\<close>. In the last case the observation is not nil, so the client constructor
  is not nil either.
\<close>

definition statusSwitch ::
    "'w ClusterReconciler \<Rightarrow> QdrantCluster \<Rightarrow> StatefulSet \<Rightarrow> observation option \<Rightarrow> ('w, duration \<times> QdrantCluster) io" where
  "statusSwitch r qc live obs =
     (let replicas = spec_Replicas (qc_Spec qc); ready = (sts_ReadyReplicas live = replicas \<and> 0 < replicas) in
      if rolloutInProgress (Some live) then
        State_Monad.return (15 * Second, set_cond r condProgressing ConditionTrue ''Upgrading''
          (Msg ''rolling upgrade'' [ArgN (sts_UpdatedReplicas live), ArgN replicas]) (set_phase phaseUpgrading qc))
      else if \<not> ready then
        State_Monad.return (15 * Second, set_cond r condProgressing ConditionTrue ''Provisioning''
          (Msg ''reconciling children'' []) (set_phase ''Provisioning'' qc))
      else case (obs, r_QdrantClientFor r) of
        (Some ob, Some mk) \<Rightarrow>
          if int (length (o_Peers ob)) \<noteq> replicas then
            State_Monad.return (15 * Second, set_cond r condProgressing ConditionTrue ''PeersJoining''
              (Msg ''waiting for peers'' []) (allReady r (set_phase phaseRunning qc)))
          else do {
            out \<leftarrow> reconcileRebalance r qc ob (mk qc);
            let ((phase, d), qc) = out;
            let qc = allReady r (set_phase phase qc);
            State_Monad.return (d,
              if phase = phaseRebalancing
              then set_cond r condProgressing ConditionTrue ''Rebalancing'' (Msg ''rebalancing'' []) qc
              else set_cond r condProgressing ConditionFalse ''Stable'' (Msg ''stable'' []) qc)
          }
      | _ \<Rightarrow>
          State_Monad.return (15 * Second, set_cond r condProgressing ConditionTrue ''PeersJoining''
            (Msg ''waiting for peers'' []) (allReady r (set_phase phaseRunning qc))))"

text \<open>The switch, the metrics, and the commit of the status when it differs from \<open>prev\<close>.\<close>

definition switchAndCommit ::
    "'w ClusterReconciler \<Rightarrow> QdrantClusterStatus \<Rightarrow> QdrantCluster \<Rightarrow> StatefulSet \<Rightarrow> observation option \<Rightarrow> ('w, kerr + Result) io" where
  "switchAndCommit r prev qc live obs = do {
     out \<leftarrow> statusSwitch r qc live obs;
     let (requeue, qc) = out;
     clusterMetrics (qc_Namespace qc) (qc_Name qc) obs (int (length (st_PlannedMoves (qc_Status qc)))) (rolloutInProgress (Some live));
     if prev = qc_Status qc then State_Monad.return (Inr (requeueOrNothing requeue))
     else do {
       e \<leftarrow> k_StatusUpdate r qc;
       case e of
         Some k \<Rightarrow> State_Monad.return (Inl k)
       | None \<Rightarrow> State_Monad.return (Inr (requeueOrNothing requeue))
     }
   }"

text \<open>The part of \<open>reconcileStatus\<close> after the StatefulSet was read.\<close>

definition reportStatus :: "'w ClusterReconciler \<Rightarrow> QdrantCluster \<Rightarrow> StatefulSet \<Rightarrow> ('w, kerr + Result) io" where
  "reportStatus r qc live = do {
     let prev = qc_Status qc;
     let qc = upd_status (\<lambda>s. s\<lparr>st_Replicas := sts_StatusReplicas live, st_ReadyReplicas := sts_ReadyReplicas live,
       st_Selector := r_LabelsString r (SelectorLabels qc), st_ObservedGeneration := qc_Generation qc,
       st_DrainStatus := None\<rparr>) qc;
     observed \<leftarrow> observe r qc;
     let (obs, qc) = observed;
     switchAndCommit r prev qc live obs
   }"

definition reconcileStatus :: "'w ClusterReconciler \<Rightarrow> QdrantCluster \<Rightarrow> StatefulSet \<Rightarrow> ('w, kerr + Result) io" where
  "reconcileStatus r qc sts = do {
     got \<leftarrow> k_GetStatefulSet r (sts_Namespace sts) (sts_Name sts);
     case got of Inl k \<Rightarrow> State_Monad.return (Inl k) | Inr live \<Rightarrow> reportStatus r qc live
   }"

section \<open>Reconcile\<close>

text \<open>The refusal to touch the StatefulSet: observe, report, commit, return.\<close>

definition refuseImmutable :: "'w ClusterReconciler \<Rightarrow> QdrantCluster \<Rightarrow> ('w, kerr + Result) io" where
  "refuseImmutable r qc = do {
     observed \<leftarrow> observe r qc;
     let qc = set_cond r condDegraded ConditionTrue ''ImmutableFieldChanged'' (Msg ''immutable field changed'' []) (snd observed);
     EmitWarning ''ImmutableFieldChanged'' (Msg ''persistence, serviceName, selector'' []);
     let qc = (case st_DrainStatus (qc_Status qc) of
         None \<Rightarrow> qc
       | Some ds \<Rightarrow> upd_status (\<lambda>s. s\<lparr>st_DrainStatus := Some (ds\<lparr>ds_Message := Msg ''immutable drift, drain suspended'' []\<rparr>),
           st_Phase := phaseDraining\<rparr>) qc);
     _ \<leftarrow> k_StatusUpdate r qc;
     State_Monad.return (Inr \<lparr>RequeueAfter = 0\<rparr>)
   }"

definition refuseTLS :: "'w ClusterReconciler \<Rightarrow> QdrantCluster \<Rightarrow> ('w, kerr + Result) io" where
  "refuseTLS r qc = do {
     observed \<leftarrow> observe r qc;
     let qc = set_cond r condDegraded ConditionTrue ''TLSSecretMissing'' (Msg ''tlsEnabled without secretName'' []) (snd observed);
     EmitWarning ''TLSSecretMissing'' (Msg ''certificate secret needed'' []);
     _ \<leftarrow> k_StatusUpdate r qc;
     State_Monad.return (Inr \<lparr>RequeueAfter = 30 * Second\<rparr>)
   }"

text \<open>From the TLS guard to the end; \<open>live\<close> is the zero value when the StatefulSet could not be read.\<close>

definition reconcileApply :: "'w ClusterReconciler \<Rightarrow> QdrantCluster \<Rightarrow> StatefulSet \<Rightarrow> StatefulSet \<Rightarrow> ('w, kerr + Result) io" where
  "reconcileApply r qc live sts =
     (if tlsMisconfigured qc then refuseTLS r qc
      else do {
        _ \<leftarrow> (if authWithoutTLS qc then EmitWarning ''AuthWithoutTLS'' (Msg ''api key without TLS'' []) else State_Monad.return ());
        if rolloutInProgress (Some live) then do {
          gated \<leftarrow> gateRollout r qc (Some live) sts;
          let (requeue, sts, qc) = gated;
          e \<leftarrow> applyOwned r qc (OStatefulSet sts);
          case e of
            Some k \<Rightarrow> State_Monad.return (Inl k)
          | None \<Rightarrow> do {
              st \<leftarrow> reconcileStatus r qc sts;
              case st of
                Inl k \<Rightarrow> State_Monad.return (Inl k)
              | Inr _ \<Rightarrow> State_Monad.return (Inr (requeueOrNothing requeue))
            }
        }
        else do {
          e \<leftarrow> applyOwned r qc (OStatefulSet sts);
          case e of Some k \<Rightarrow> State_Monad.return (Inl k) | None \<Rightarrow> reconcileStatus r qc sts
        }
      })"

text \<open>From the answer to the read of the StatefulSet to the end.\<close>

definition reconcileSts ::
    "'w ClusterReconciler \<Rightarrow> QdrantCluster \<Rightarrow> kerr + StatefulSet \<Rightarrow> StatefulSet \<Rightarrow> ('w, kerr + Result) io" where
  "reconcileSts r qc got sts =
     (case got of
        Inl _ \<Rightarrow> reconcileApply r qc blankSts sts
      | Inr live \<Rightarrow>
          if stsImmutableChanged r live sts then refuseImmutable r qc
          else case sts_Replicas live of
            None \<Rightarrow> reconcileApply r qc live sts
          | Some cur \<Rightarrow>
              if spec_Replicas (qc_Spec qc) < cur then do {
                out \<leftarrow> reconcileDrainCycle r qc live cur;
                State_Monad.return (case fst out of Some k \<Rightarrow> Inl k | None \<Rightarrow> Inr (snd out))
              }
              else reconcileApply r qc live sts)"

text \<open>Stuck pods, the budget and the children other than the StatefulSet.\<close>

definition reconcileChildren :: "'w ClusterReconciler \<Rightarrow> QdrantCluster \<Rightarrow> ('w, kerr option) io" where
  "reconcileChildren r qc = do {
     _ \<leftarrow> reconcileStuckPods r qc;
     _ \<leftarrow> (if BuildPodDisruptionBudget qc = None then k_DeletePDB r (qc_Namespace qc) (PDBName qc)
          else State_Monad.return None);
     applyChildren r qc (children qc)
   }"

definition reconcileCluster :: "'w ClusterReconciler \<Rightarrow> QdrantCluster \<Rightarrow> ('w, kerr + Result) io" where
  "reconcileCluster r qc =
     (case BuildStatefulSet qc of
        None \<Rightarrow> State_Monad.return (Inl (KOther ''panic: nil Persistence.Size''))
      | Some sts \<Rightarrow> do {
          e \<leftarrow> reconcileChildren r qc;
          case e of
            Some k \<Rightarrow> State_Monad.return (Inl k)
          | None \<Rightarrow> do {
              got \<leftarrow> k_GetStatefulSet r (sts_Namespace sts) (sts_Name sts);
              reconcileSts r qc got sts
            }
        })"

definition cluster_Reconcile :: "'w ClusterReconciler \<Rightarrow> string \<Rightarrow> string \<Rightarrow> ('w, kerr + Result) io" where
  "cluster_Reconcile r ns n = do {
     got \<leftarrow> k_GetCluster r ns n;
     case got of
       Inl k \<Rightarrow>
         if k = KNotFound then do { forgetCluster ns n; State_Monad.return (Inr \<lparr>RequeueAfter = 0\<rparr>) }
         else State_Monad.return (Inl k)
     | Inr qc \<Rightarrow> reconcileCluster r qc
   }"

end
