(* ===== verification/Cluster_Safety.thy ===== *)
theory Cluster_Safety
  imports Cluster_Reconcile
begin

text \<open>
  What a whole pass of the cluster controller may do to the StatefulSet and to the shards: it never
  lowers the replica count behind the back of the drain, it leaves the StatefulSet alone when it
  refuses the specification, and it issues shard operations only on a complete and ready cluster.
\<close>

section \<open>The owner reference\<close>

text \<open>
  \<open>controllerutil.SetControllerReference\<close> changes the metadata of the object it is given, and neither its
  name nor its namespace.
\<close>

definition owner_ok :: "'w ClusterReconciler \<Rightarrow> bool" where
  "owner_ok r \<longleftrightarrow> (\<forall>qc ob ob'. r_SetControllerReference r qc ob = Inr ob' \<longrightarrow>
     (\<exists>f. ob' = obj_setMeta f ob \<and> om_Name (obj_Meta ob') = om_Name (obj_Meta ob) \<and>
       om_Namespace (obj_Meta ob') = om_Namespace (obj_Meta ob)))"

lemma owner_okD:
  assumes "owner_ok r" and "r_SetControllerReference r qc ob = Inr ob'"
  obtains f where "ob' = obj_setMeta f ob" "om_Name (obj_Meta ob') = om_Name (obj_Meta ob)"
  using assms unfolding owner_ok_def by blast

section \<open>Writes to the StatefulSet\<close>

text \<open>The effects that create or update a StatefulSet, and those that do it with at least \<open>n\<close> replicas.\<close>

fun is_sts_write :: "effect \<Rightarrow> bool" where
  "is_sts_write (Kube (KScaleStatefulSet _ _) _) = True"
| "is_sts_write (Kube (KCreate kind _) _) = (kind = ''StatefulSet'')"
| "is_sts_write _ = False"

fun scales_to :: "string \<Rightarrow> int \<Rightarrow> effect \<Rightarrow> bool" where
  "scales_to name n (Kube (KScaleStatefulSet m k) _) = (m = name \<and> k = n)"
| "scales_to name n _ = True"

lemma harmless_scales: "\<not> is_scale e \<Longrightarrow> scales_to name n e"
  by (cases "(name, n, e)" rule: scales_to.cases) simp_all

lemma read_not_write: "is_read e \<Longrightarrow> \<not> is_sts_write e \<and> \<not> is_shard_op e"
  by (auto elim!: is_shard_op.elims(2) is_sts_write.elims(2))

lemma observe_scales: "emits (scales_to name n) (observe r qc)"
  by (rule emits_mono [OF observe_harmless]) (simp add: harmless_scales)

lemma rebalance_harmless: "emits harmless (reconcileRebalance r qc obs qcl)"
  unfolding reconcileRebalance_def Let_def
  by (intro emits_intros settle_harmless issue_harmless)

lemma statusSwitch_harmless: "emits harmless (statusSwitch r qc live obs)"
  unfolding statusSwitch_def Let_def
  by (intro emits_intros rebalance_harmless) (auto intro: emits_return split: prod.split)

lemma clusterMetrics_harmless: "emits harmless (clusterMetrics ns n obs planned upgrading)"
  unfolding clusterMetrics_def by (intro emits_intros; simp)

lemma reconcileStatus_harmless: "emits harmless (reconcileStatus r qc sts)"
  unfolding reconcileStatus_def reportStatus_def switchAndCommit_def Let_def k_defs
  by (intro emits_intros observe_harmless statusSwitch_harmless clusterMetrics_harmless; simp)

lemma gateRollout_harmless: "emits harmless (gateRollout r qc live desired)"
  unfolding gateRollout_def Let_def by (intro emits_intros observe_harmless)

lemma gateRollout_desired:
  assumes "run_state (gateRollout r qc live desired) s = ((d, desired', qc'), s')"
  shows "sts_Meta desired' = sts_Meta desired \<and> sts_Replicas desired' = sts_Replicas desired"
  using assms by (auto simp: gateRollout_def Let_def split: prod.splits option.splits)

lemma applyOwned_scales:
  assumes "owner_ok r"
  shows "emits (scales_to (sts_Name sts) (case sts_Replicas sts of None \<Rightarrow> 1 | Some n \<Rightarrow> n)) (applyOwned r qc (OStatefulSet sts))"
proof (cases "r_SetControllerReference r qc (OStatefulSet sts)")
  case (Inr ob)
  obtain f where "ob = obj_setMeta f (OStatefulSet sts)" "om_Name (obj_Meta ob) = sts_Name sts"
    by (rule owner_okD [OF assms Inr]) simp
  then show ?thesis using Inr unfolding applyOwned_def updateOwned_def k_defs
    by (auto simp: k_defs intro!: emits_intros)
qed (simp add: applyOwned_def emits_return)

lemma refuse_harmless: "emits harmless (refuseTLS r qc)" "emits harmless (refuseImmutable r qc)"
  unfolding refuseTLS_def refuseImmutable_def k_defs event_defs Let_def
  by (intro emits_intros observe_harmless; simp)+

lemma quiet_scales: "emits harmless m \<Longrightarrow> emits (scales_to name n) m"
  by (erule emits_mono) (simp add: harmless_scales)

lemma reconcileApply_scales:
  assumes own: "owner_ok r" and n: "sts_Replicas sts = Some n"
  shows "emits (scales_to (sts_Name sts) n) (reconcileApply r qc live sts)"
proof -
  have applied: "emits (scales_to (sts_Name sts) n) (applyOwned r qc (OStatefulSet sts'))"
    if "sts_Meta sts' = sts_Meta sts" "sts_Replicas sts' = sts_Replicas sts" for qc sts'
    using applyOwned_scales [OF own, of sts' qc] that n by simp
  show ?thesis
    unfolding reconcileApply_def Let_def event_defs
    by (intro emits_if emits_return emits_emit emits_case_option emits_case_sum emits_bind [OF emits_if]
          emits_bind_run [OF quiet_scales [OF gateRollout_harmless]] emits_case_prod
          emits_bind [OF applied] applied
          quiet_scales [OF refuse_harmless(1)] quiet_scales [OF reconcileStatus_harmless]
          emits_bind [OF quiet_scales [OF reconcileStatus_harmless]])
       (auto dest: gateRollout_desired)
qed

text \<open>Before the StatefulSet is read, a pass deletes pods and a stale budget and applies the other children.\<close>

lemma stuckLoop_harmless: "emits harmless (stuckLoop r qc pods)"
  by (induction pods) (auto simp: nodeDown_def k_defs event_defs intro!: emits_intros)

lemma stuckPods_harmless: "emits harmless (reconcileStuckPods r qc)"
  unfolding reconcileStuckPods_def k_defs by (intro emits_intros stuckLoop_harmless; simp)

lemma applyOwned_harmless:
  assumes own: "owner_ok r" and other: "obj_Kind ob \<noteq> ''StatefulSet''"
  shows "emits harmless (applyOwned r qc ob)"
proof (cases "r_SetControllerReference r qc ob")
  case (Inr ob')
  obtain f where "ob' = obj_setMeta f ob" by (rule owner_okD [OF own Inr])
  then have "obj_Kind ob' \<noteq> ''StatefulSet''" using other by simp
  then have upd: "emits harmless (updateOwned r ob' v)" for v
    unfolding updateOwned_def k_defs by (cases ob') (auto intro!: emits_intros)
  show ?thesis using Inr upd unfolding applyOwned_def k_GetVersion_def k_Create_def
    by (auto intro!: emits_intros)
qed (simp add: applyOwned_def emits_return)

lemma applyChildren_harmless:
  assumes "owner_ok r" and "\<And>ob. ob \<in> set obs \<Longrightarrow> obj_Kind ob \<noteq> ''StatefulSet''"
  shows "emits harmless (applyChildren r qc obs)"
  using assms(2) by (induction obs) (auto intro!: emits_intros applyOwned_harmless [OF assms(1)])

lemma children_kinds: "ob \<in> set (children qc) \<Longrightarrow> obj_Kind ob \<noteq> ''StatefulSet''"
  by (auto simp: children_def split: option.splits)

section \<open>Replica counts\<close>

text \<open>
  What a pass may do to the replica count, given the answer to its read of the StatefulSet: nothing;
  or, when it did not find more replicas than specified, write the specified number; or, when it found
  more, one justified step of the drain.
\<close>

definition drained :: "'w ClusterReconciler \<Rightarrow> QdrantCluster \<Rightarrow> StatefulSet \<Rightarrow> int \<Rightarrow> ('w, effect) sys \<Rightarrow> effect list \<Rightarrow> bool" where
  "drained r qc live cur s es \<longleftrightarrow>
     (\<exists>obs qc1 s1 pre post. run_state (observe r qc) s = ((Some obs, qc1), s1) \<and> lane_free qc1 obs \<and>
        es = pre @ post \<and> list_all harmless pre \<and> shrink_justified obs live cur post)"

definition resize_ok ::
    "'w ClusterReconciler \<Rightarrow> QdrantCluster \<Rightarrow> kerr + StatefulSet \<Rightarrow> ('w, effect) sys \<Rightarrow> effect list \<Rightarrow> bool" where
  "resize_ok r qc got s es \<longleftrightarrow>
     list_all (\<lambda>e. \<not> is_scale e) es \<or>
     (case got of
        Inl _ \<Rightarrow> list_all (scales_to (ResName qc) (spec_Replicas (qc_Spec qc))) es
      | Inr live \<Rightarrow>
          (case sts_Replicas live of
             None \<Rightarrow> list_all (scales_to (ResName qc) (spec_Replicas (qc_Spec qc))) es
           | Some cur \<Rightarrow>
               if cur \<le> spec_Replicas (qc_Spec qc)
               then list_all (scales_to (ResName qc) (spec_Replicas (qc_Spec qc))) es
               else drained r qc live cur s es))"

lemma built_sts:
  assumes "BuildStatefulSet qc = Some sts"
  shows "sts_Name sts = ResName qc" "sts_Namespace sts = qc_Namespace qc" "sts_Replicas sts = Some (spec_Replicas (qc_Spec qc))"
  using assms by (auto simp: BuildStatefulSet_def split: option.splits)

lemma reconcileSts_resize:
  assumes run: "run_state (reconcileSts r qc got sts) s = (res, s')" and own: "owner_ok r" and built: "BuildStatefulSet qc = Some sts"
  obtains es where "trace s' = trace s @ es" "resize_ok r qc got s es"
proof -
  note sel = built_sts [OF built]
  have whole: thesis if "run_state (reconcileApply r qc live sts) s = (res, s')"
    and "\<And>es. list_all (scales_to (ResName qc) (spec_Replicas (qc_Spec qc))) es \<Longrightarrow> resize_ok r qc got s es" for live
    using that(1)
    by (rule emitsD [OF reconcileApply_scales [OF own sel(3), unfolded sel(1)]]) (rule \<open>\<And>es. _ \<Longrightarrow> _ \<Longrightarrow> thesis\<close>, assumption, erule that(2))
  show thesis
  proof (cases got)
    case (Inl k)
    then show thesis using run by (intro whole [of blankSts]) (simp_all add: reconcileSts_def resize_ok_def)
  next
    case (Inr live)
    consider (drift) "stsImmutableChanged r live sts"
      | (apply') "\<not> stsImmutableChanged r live sts" "\<And>cur. sts_Replicas live = Some cur \<Longrightarrow> cur \<le> spec_Replicas (qc_Spec qc)"
      | (drain) cur where "\<not> stsImmutableChanged r live sts" "sts_Replicas live = Some cur" "spec_Replicas (qc_Spec qc) < cur"
      by (cases "sts_Replicas live") force+
    then show thesis
    proof cases
      case drift
      then have "run_state (refuseImmutable r qc) s = (res, s')" using run Inr by (simp add: reconcileSts_def)
      then obtain es where "trace s' = trace s @ es" "list_all harmless es" by (rule emitsD [OF refuse_harmless(2)])
      then show thesis by (intro that) (auto simp: resize_ok_def list_all_iff)
    next
      case apply'
      then show thesis using run Inr
        by (intro whole [of live]) (auto simp: reconcileSts_def resize_ok_def not_less split: option.splits if_splits)
    next
      case drain
      then obtain out where d: "run_state (reconcileDrainCycle r qc live cur) s = (out, s')"
        using run Inr by (auto simp: reconcileSts_def split: prod.splits)
      obtain es where "trace s' = trace s @ es" "list_all (\<lambda>e. \<not> is_scale e) es \<or> drained r qc live cur s es"
        using reconcileDrainCycle_run [OF d] unfolding drained_def by blast
      then show thesis using drain Inr by (intro that) (auto simp: resize_ok_def)
    qed
  qed
qed

lemma reconcileChildren_harmless: "owner_ok r \<Longrightarrow> emits harmless (reconcileChildren r qc)"
  unfolding reconcileChildren_def k_DeletePDB_def
  by (intro emits_intros stuckPods_harmless applyChildren_harmless children_kinds; simp)

section \<open>Shard operations\<close>

lemma reads_no_shard_op: "emits is_read m \<Longrightarrow> emits (\<lambda>e. \<not> is_shard_op e) m"
  by (erule emits_mono) (simp add: read_not_write)

lemma statusSwitch_quiet:
  assumes "rolloutInProgress (Some live) \<or> sts_ReadyReplicas live \<noteq> spec_Replicas (qc_Spec qc) \<or> spec_Replicas (qc_Spec qc) \<le> 0 \<or>
    (case obs of None \<Rightarrow> True | Some ob \<Rightarrow> int (length (o_Peers ob)) \<noteq> spec_Replicas (qc_Spec qc))"
  shows "emits (\<lambda>e. \<not> is_shard_op e) (statusSwitch r qc live obs)"
  using assms unfolding statusSwitch_def Let_def
  by (auto intro!: emits_return split: option.splits)

lemma observe_spec: "run_state (observe r qc) s = ((obs, qc'), s') \<Longrightarrow> qc_Spec qc' = qc_Spec qc"
  by (auto simp: observe_def Let_def split: option.splits prod.splits sum.splits)

section \<open>Properties\<close>



text \<open>
  C29: the executor runs only on a complete cluster. A shard operation in the status part of a pass means
  that the StatefulSet just read is not being rolled out and has exactly the specified number of ready
  replicas, at least one, and that the observation of the pass shows exactly that many peers.
\<close>

theorem cluster_shard_ops_gated:
  assumes run: "run_state (reconcileStatus r qc sts) s = (res, s')" and es: "trace s' = trace s @ es"
    and op: "e \<in> set es" "is_shard_op e"
  shows "\<exists>live s1 qc1 obs qc2 s2. run_state (k_GetStatefulSet r (sts_Namespace sts) (sts_Name sts)) s = (Inr live, s1) \<and>
    \<not> rolloutInProgress (Some live) \<and> sts_ReadyReplicas live = spec_Replicas (qc_Spec qc) \<and> 0 < spec_Replicas (qc_Spec qc) \<and>
    run_state (observe r qc1) s1 = ((Some obs, qc2), s2) \<and> int (length (o_Peers obs)) = spec_Replicas (qc_Spec qc)"
proof -
  obtain got s1 where g: "run_state (k_GetStatefulSet r (sts_Namespace sts) (sts_Name sts)) s = (got, s1)" by (metis surj_pair)
  then obtain ev where ev: "trace s1 = trace s @ [ev]" "\<not> is_shard_op ev" by (auto simp: k_defs split: prod.splits)
  show ?thesis
  proof (cases got)
    case (Inl k)
    then show ?thesis using run g es ev op by (auto simp: reconcileStatus_def)
  next
    case (Inr live)
    define qc1 where "qc1 = upd_status (\<lambda>s. s\<lparr>st_Replicas := sts_StatusReplicas live, st_ReadyReplicas := sts_ReadyReplicas live,
       st_Selector := r_LabelsString r (SelectorLabels qc), st_ObservedGeneration := qc_Generation qc, st_DrainStatus := None\<rparr>) qc"
    obtain oobs qc2 s2 where ob: "run_state (observe r qc1) s1 = ((oobs, qc2), s2)" by (metis surj_pair)
    obtain es1 where es1: "trace s2 = trace s1 @ es1" "list_all (\<lambda>e. \<not> is_shard_op e) es1"
      by (rule emitsD [OF reads_no_shard_op [OF observe_reads] ob])
    have tail: "run_state (switchAndCommit r (qc_Status qc) qc2 live oobs) s2 = (res, s')"
      using run g Inr ob by (simp add: reconcileStatus_def reportStatus_def Let_def qc1_def)
    have spec: "qc_Spec qc2 = qc_Spec qc" using observe_spec [OF ob] by (simp add: qc1_def)
    show ?thesis
    proof (rule ccontr)
      assume neg: "\<not> ?thesis"
      have "emits (\<lambda>e. \<not> is_shard_op e) (statusSwitch r qc2 live oobs)"
      proof (rule statusSwitch_quiet, rule ccontr)
        assume n: "\<not> (rolloutInProgress (Some live) \<or> sts_ReadyReplicas live \<noteq> spec_Replicas (qc_Spec qc2) \<or>
          spec_Replicas (qc_Spec qc2) \<le> 0 \<or>
          (case oobs of None \<Rightarrow> True | Some ob \<Rightarrow> int (length (o_Peers ob)) \<noteq> spec_Replicas (qc_Spec qc2)))"
        then obtain obs where "oobs = Some obs" by (cases oobs) auto
        then show False using n neg g Inr ob spec by auto
      qed
      then have "emits (\<lambda>e. \<not> is_shard_op e) (switchAndCommit r (qc_Status qc) qc2 live oobs)"
        unfolding switchAndCommit_def Let_def clusterMetrics_def k_defs by (intro emits_intros; simp)
      then obtain es2 where "trace s' = trace s2 @ es2" "list_all (\<lambda>e. \<not> is_shard_op e) es2" using tail by (rule emitsD)
      then show False using es ev es1 op by (auto simp: list_all_iff)
    qed
  qed
qed


end
