(* ===== verification/Resource_Safety.thy ===== *)
theory Resource_Safety
  imports Resource_Builders
begin

text \<open>
  The rendered manifests fit together: inside the StatefulSet every mount has its volume, and across
  the objects the selectors, the names, the ports and the certificate paths agree.
\<close>

lemma built_template:
  assumes "BuildStatefulSet qc = Some sts"
  shows "sts_Template sts = podTemplate qc" "sts_Selector sts = SelectorLabels qc" "sts_ServiceName sts = HeadlessName qc"
    "map pvc_Name (sts_VolumeClaimTemplates sts) = [StorageVolumeName]"
  using assms by (auto simp: BuildStatefulSet_def storageClaim_def split: option.splits)

lemma template_sel [simp]:
  "pt_Labels (podTemplate qc) = SelectorLabels qc" "pod_Containers (pt_Spec (podTemplate qc)) = [qdrantContainer qc]"
  "pod_Volumes (pt_Spec (podTemplate qc)) = podVolumes qc" "pod_ServiceAccountName (pt_Spec (podTemplate qc)) = SAName qc"
  "ct_VolumeMounts (qdrantContainer qc) = containerMounts qc" "om_Name (cm_Meta (BuildConfigMap qc)) = ConfigMapName qc"
  by (simp_all add: podTemplate_def qdrantContainer_def BuildConfigMap_def)

section \<open>Properties\<close>

text \<open>A container that can start: the mounts, the paths, the environment.\<close>

definition container_ok :: "string list \<Rightarrow> Container \<Rightarrow> bool" where
  "container_ok volumes ct \<longleftrightarrow>
     list_all (\<lambda>m. vm_Name m \<in> set volumes) (ct_VolumeMounts ct) \<and> distinct (map vm_MountPath (ct_VolumeMounts ct)) \<and>
     distinct (map env_Name (ct_Env ct)) \<and>
     list_all (\<lambda>v. case env_Source v of EnvValue _ \<Rightarrow> True | EnvSecret _ key \<Rightarrow> key \<noteq> []) (ct_Env ct) \<and>
     probe_Port (ct_ReadinessProbe ct) \<in> set (map cp_ContainerPort (ct_Ports ct))"

lemma env_names_distinct:
  "distinct [''QDRANT_INIT_FILE_PATH'', ''QDRANT__SERVICE__API_KEY'', ''QDRANT__SERVICE__READ_ONLY_API_KEY'',
     s3Prefix @ ''ENDPOINT_URL'', s3Prefix @ ''ACCESS_KEY'', s3Prefix @ ''SECRET_KEY'']"
  by (simp add: s3Prefix_def)

lemma volume_names_distinct:
  "distinct [ConfigVolumeName, SnapshotsVolumeName, InitVolumeName, TLSVolumeName, StorageVolumeName]"
  "distinct [StorageMountDir, ConfigMountDir @ ''/'' @ InitScriptFile, ConfigMountDir @ ''/'' @ ProdConfigFile, SnapshotsMountDir,
     InitMountDir, TLSMountDir]"
  by (simp_all add: go_consts)

lemma env_ok:
  "distinct (map env_Name (ct_Env (qdrantContainer qc)))"
  "list_all (\<lambda>v. case env_Source v of EnvValue _ \<Rightarrow> True | EnvSecret _ key \<Rightarrow> key \<noteq> []) (ct_Env (qdrantContainer qc))"
  using env_names_distinct
  by (cases "spec_APIKey (qc_Spec qc)"; cases "spec_ReadOnlyAPIKey (qc_Spec qc)"; cases "s3Storage qc";
      simp add: qdrantContainer_def apiKeyEnv_def snapshotS3Env_def secretEnv_def Let_def DefaultAPIKeySecretKey_def)+

text \<open>
  C32: the rendered StatefulSet is well-formed for every specification: volumes and claims have distinct
  names, every mount of every container names one of them, no two mounts share a path and no two
  variables a name, every reference to a secret has a key, the probe goes to an exposed port, and the
  selector selects the pods of the template.
\<close>

theorem sts_manifest_wellformed:
  assumes "BuildStatefulSet qc = Some sts"
  shows "distinct (map vol_Name (pod_Volumes (pt_Spec (sts_Template sts))) @ map pvc_Name (sts_VolumeClaimTemplates sts)) \<and>
    list_all (container_ok (map vol_Name (pod_Volumes (pt_Spec (sts_Template sts))) @ map pvc_Name (sts_VolumeClaimTemplates sts)))
      (pod_Containers (pt_Spec (sts_Template sts))) \<and>
    set (sts_Selector sts) \<subseteq> set (pt_Labels (sts_Template sts))"
proof -
  have vols: "map vol_Name (podVolumes qc) = [ConfigVolumeName, SnapshotsVolumeName, InitVolumeName] @ (if tlsSpec qc = None then [] else [TLSVolumeName])"
    by (auto simp: podVolumes_def tlsVolume_def tlsSecretKeys_def)
  have mounts: "container_ok (map vol_Name (podVolumes qc) @ [StorageVolumeName]) (qdrantContainer qc)"
    unfolding container_ok_def vols using volume_names_distinct(2) env_ok [of qc]
    by (simp add: qdrantContainer_def containerMounts_def tlsMount_def readinessProbe_def)
  have "distinct (map vol_Name (podVolumes qc) @ [StorageVolumeName])" 
    unfolding vols using volume_names_distinct(1) by auto
  then show ?thesis using mounts built_template [OF assms] by simp
qed

text \<open>
  C33: the objects of one cluster fit together: the StatefulSet runs under the headless service and the
  service account that are rendered with it, the config map it mounts exists and has the keys it mounts,
  and both services and the disruption budget select exactly the labels its pods carry and forward to
  ports its container exposes; the budget exists if and only if there are two or more replicas.
\<close>

theorem cluster_objects_wired:
  assumes "BuildStatefulSet qc = Some sts"
  shows "sts_ServiceName sts = om_Name (svc_Meta (BuildHeadlessService qc)) \<and>
    pod_ServiceAccountName (pt_Spec (sts_Template sts)) = om_Name (sa_Meta (BuildServiceAccount qc)) \<and>
    list_all (\<lambda>v. case vol_Source v of VolConfigMap n _ \<Rightarrow> n = om_Name (cm_Meta (BuildConfigMap qc)) | _ \<Rightarrow> True)
      (pod_Volumes (pt_Spec (sts_Template sts))) \<and>
    list_all (\<lambda>ct. list_all (\<lambda>m. vm_Name m = ConfigVolumeName \<longrightarrow> map_of (cm_Data (BuildConfigMap qc)) (vm_SubPath m) \<noteq> None) (ct_VolumeMounts ct))
      (pod_Containers (pt_Spec (sts_Template sts))) \<and>
    list_all (\<lambda>svc. svc_Selector svc = pt_Labels (sts_Template sts) \<and>
        list_all (\<lambda>p. list_all (\<lambda>ct. sp_TargetPort p \<in> set (map cp_ContainerPort (ct_Ports ct))) (pod_Containers (pt_Spec (sts_Template sts))))
          (svc_Ports svc)) [BuildHeadlessService qc, BuildClientService qc] \<and>
    (case BuildPodDisruptionBudget qc of
       None \<Rightarrow> spec_Replicas (qc_Spec qc) < 2
     | Some pdb \<Rightarrow> 2 \<le> spec_Replicas (qc_Spec qc) \<and> pdb_Selector pdb = pt_Labels (sts_Template sts) \<and> pdb_MinAvailable pdb = Some 1)"
proof -
  have config: "list_all (\<lambda>m. vm_Name m = ConfigVolumeName \<longrightarrow> map_of (cm_Data (BuildConfigMap qc)) (vm_SubPath m) \<noteq> None) (containerMounts qc)"
    using volume_names_distinct(1) by (auto simp: containerMounts_def tlsMount_def BuildConfigMap_def)
  have volumes: "list_all (\<lambda>v. case vol_Source v of VolConfigMap n _ \<Rightarrow> n = om_Name (cm_Meta (BuildConfigMap qc)) | _ \<Rightarrow> True) (podVolumes qc)"
    by (simp add: podVolumes_def tlsVolume_def tlsSecretKeys_def split: option.split)
  have ports: "list_all (\<lambda>p. sp_TargetPort p \<in> set (map cp_ContainerPort (ct_Ports (qdrantContainer qc)))) servicePorts"
    by (simp add: servicePorts_def port_def qdrantContainer_def)
  show ?thesis
    using built_template [OF assms] config volumes ports
    by (simp add: BuildHeadlessService_def BuildClientService_def BuildServiceAccount_def BuildPodDisruptionBudget_def)
qed

text \<open>
  With TLS properly configured, all parties speak the same protocol: the operator and the readiness
  probe use HTTPS, and the three paths in the configuration of Qdrant are the paths at which the keys of
  the secret are mounted. Without TLS there is neither a TLS section nor a mount nor HTTPS.
\<close>

lemma tls_paths_agree:
  assumes "\<not> tlsMisconfigured qc"
  shows "(clusterScheme qc = ''https'' \<longleftrightarrow> probe_Scheme (readinessProbe qc) = ''HTTPS'') \<and>
    (case tlsSpec qc of
       None \<Rightarrow> clusterScheme qc = ''http'' \<and> tlsYAML qc = [] \<and> tlsVolume qc = [] \<and> tlsMount qc = []
     | Some tls \<Rightarrow> clusterScheme qc = ''https'' \<and>
         (\<exists>v m certKey cert keyKey key ca ttl. tlsVolume qc = [v] \<and> tlsMount qc = [m] \<and> vm_Name m = vol_Name v \<and>
            vol_Source v = VolSecret (tls_SecretName tls) [(certKey, cert), (keyKey, key), (snd (snd (tlsSecretKeys tls)), ca)] \<and> 0 < ttl \<and>
            tlsYAML qc = unlines [''tls:'', ''  cert: '' @ vm_MountPath m @ ''/'' @ cert, ''  key: '' @ vm_MountPath m @ ''/'' @ key,
              ''  ca_cert: '' @ vm_MountPath m @ ''/'' @ ca, ''  cert_ttl: '' @ FormatInt ttl]))"
proof (cases "tlsSpec qc")
  case None
  then have "\<not> cfg_TLSEnabled (spec_Config (qc_Spec qc))"
    using assms by (auto simp: tlsMisconfigured_def tlsEnabled_def tlsSpec_def split: option.splits if_splits)
  then show ?thesis using None
    by (simp add: clusterScheme_def tlsEnabled_def readinessProbe_def tlsYAML_def tlsVolume_def tlsMount_def)
next
  case (Some tls)
  then have on: "cfg_TLSEnabled (spec_Config (qc_Spec qc))" by (auto simp: tlsSpec_def split: if_splits)
  then have "tlsEnabled qc" using assms by (simp add: tlsMisconfigured_def)
  moreover have "0 < (if tls_CertTTLSeconds tls \<le> 0 then DefaultCertTTLSeconds else tls_CertTTLSeconds tls)"
    by (simp add: DefaultCertTTLSeconds_def)
  ultimately show ?thesis using Some on
    by (auto simp: clusterScheme_def readinessProbe_def tlsYAML_def tlsVolume_def tlsMount_def tlsSecretKeys_def)
qed

end
