(* ===== verification/Rebalance_Witnesses.thy ===== *)
theory Rebalance_Witnesses
  imports Rebalance_Convergence
begin

text \<open>
  The planner theorems applied to concrete placements: an under-replicated shard, a dead replica
  next to an active one, a skew of points, and a placement reported in two orders.
\<close>

definition withState :: "string \<Rightarrow> u32 \<Rightarrow> u64 \<Rightarrow> ShardInfo" where
  "withState st sid p = \<lparr>sh_ShardID = sid, sh_PeerID = p, sh_State = st, sh_PointsCount = 0\<rparr>"

definition degraded :: "u32 \<Rightarrow> ShardInfo list \<Rightarrow> observation" where
  "degraded rf shards = (placed shards)\<lparr>o_RF := [''c'' \<mapsto> rf]\<rparr>"

definition lone :: observation where
  "lone = degraded 2 [withState shardStateActive 0 1]"

definition corpse :: observation where
  "corpse = degraded 1 [withState shardStateActive 0 1, withState shardStateDead 0 2]"

definition heap :: observation where
  "heap = placed [shardOn 0 1, shardOn 1 1, shardOn 2 1, shardOn 3 1]"

lemmas sample2_defs = sample_defs degraded_def lone_def corpse_def heap_def withState_def

lemmas repair_defs =
  planReplications_def replicationOf_def activeOn_def load_lt_def planDeadDrops_def deadDropsOf_def
  deadHolders_def eligible_def under_replicated_def replicateMove_def dropMove_def

lemma lone_plan: "planReplications lone = [\<lparr>pm_Collection = ''c'', pm_ShardID = 0, pm_From = 1, pm_To = 2,
     pm_Drop = False, pm_Replicate = True, pm_fromCount = 0, pm_toCount = 0\<rparr>]"
  by (simp add: Let_def word_le_def sample2_defs repair_defs planner_defs go_consts del: set_filter set_map set_remdups)

theorem planReplications_repairs_witness:
  "under_replicated lone ''c'' 0 \<and> (2::u64) \<in> peer_ID ` set (eligible lone ''c'' 0) \<and>
   (\<exists>mv \<in> set (planReplications lone). pm_Collection mv = ''c'' \<and> pm_ShardID mv = 0)"
  using planReplications_repairs [of lone] by (auto simp: lone_plan)

lemma corpse_plan: "planDeadDrops corpse = [dropMove ''c'' 0 2]"
  by (simp add: sample2_defs repair_defs planner_defs go_consts del: set_filter set_map set_remdups)

theorem planDeadDrops_keep_durability_witness:
  "(2::u64) \<in> set (deadHolders corpse ''c'' 0) \<and>
   1 \<le> length (activeOn (drop_replica 0 2 (shards_of corpse ''c'')) 0)"
proof -
  have "wf_obs corpse" by (simp add: wf_obs_def sample2_defs shard_key_def)
  moreover have "length (shards_of corpse ''c'') < 2 ^ 32" by (simp add: sample2_defs shards_of_def)
  moreover have "dropMove ''c'' 0 2 \<in> set (planDeadDrops corpse)" by (simp add: corpse_plan)
  moreover have "pm_Collection (dropMove ''c'' 0 2) = ''c''" "pm_ShardID (dropMove ''c'' 0 2) = 0"
      "pm_From (dropMove ''c'' 0 2) = 2"
    by (simp_all add: dropMove_def)
  ultimately show ?thesis
    using planDeadDrops_keep_durability [of corpse "dropMove ''c'' 0 2"] by (metis max.boundedE)
qed

theorem planSizeRebalance_narrows_witness:
  "\<exists>mv. planSizeRebalance skewed = [mv] \<and> legal_move skewed mv \<and>
     spread (map peer_ID (o_Peers skewed)) (peerTotals (applyMove mv skewed))
       < spread (map peer_ID (o_Peers skewed)) (peerTotals skewed)"
proof -
  have "backForth 1 2 0 0 \<in> set (planSizeRebalance skewed)"
    by (simp add: sample_defs planner_defs go_consts backForth_def del: set_filter set_map set_remdups)
  then show ?thesis using planSizeRebalance_narrows [OF skewed_wf] by blast
qed

theorem plans_deterministic_witness:
  "planRebalance skewed = planRebalance (placed [shardOn 3 2, shardOn 1 1, shardOn 2 2, shardOn 0 1])"
proof -
  let ?b = "placed [shardOn 3 2, shardOn 1 1, shardOn 2 2, shardOn 0 1]"
  have "same_placement skewed ?b" by (simp add: same_placement_def sample_defs shards_of_def)
  moreover have "wf_obs ?b" by (simp add: wf_obs_def sample_defs shard_key_def)
  ultimately show ?thesis using plans_deterministic [OF _ skewed_wf] by blast
qed

lemma heap_wf: "wf_obs heap"
  by (simp add: wf_obs_def sample2_defs shard_key_def)

theorem count_run_balances_witness: "balanced (count_run 8 heap)"
proof -
  have "potential heap \<le> 2 * int 8"
    by (simp add: potential_def squares_def sample2_defs collNames_def shards_of_def replicas_on_def)
  then show ?thesis using count_run_balances [OF heap_wf] by blast
qed

end
