(* ===== verification/Executor_Witnesses.thy ===== *)
theory Executor_Witnesses
  imports Move_Executor Fake_Client Rebalance_Witnesses
begin

text \<open>
  The executor theorems applied to the fake Qdrant: a reconciler whose API server accepts every
  write, a cluster of two replicas, and the sample placements of the planner.
\<close>

definition fakeR :: "Fake ClusterReconciler" where
  "fakeR = \<lparr>r_Meta = list_meta, r_Now = \<lambda>_. 100 * Minute, r_StatusUpdate = \<lambda>_ f. (None, f),
     r_GetStatefulSet = \<lambda>_ _ f. (Inl KNotFound, f), r_UpdateStatefulSet = \<lambda>_ f. (None, f),
     r_ListCollections = \<lambda>_ f. (Inr [], f), r_ListPods = \<lambda>_ _ f. (Inr [], f),
     r_GetNode = \<lambda>_ f. (Inl KNotFound, f), r_DeletePod = \<lambda>_ _ f. (None, f),
     r_GetCluster = \<lambda>_ _ w. (Inl KNotFound, w), r_GetVersion = \<lambda>_ _ _ w. (Inl KNotFound, w),
     r_CreateObject = \<lambda>_ w. (None, w), r_UpdateObject = \<lambda>_ w. (None, w), r_DeletePDB = \<lambda>_ _ w. (None, w),
     r_SetControllerReference = \<lambda>_ ob. Inr ob, r_QuantityEqual = (=), r_LabelsString = \<lambda>_. [],
     r_QdrantClientFor = Some (\<lambda>_. fake_client ''now''),
     r_QdrantClientForPeer = Some (\<lambda>_ _. fake_client ''now'')\<rparr>"

definition blankSpec :: QdrantClusterSpec where
  "blankSpec = \<lparr>spec_Image = \<lparr>img_Repository = [], img_Tag = []\<rparr>, spec_Replicas = 2,
     spec_Resources = \<lparr>rr_Limits = None, rr_Requests = None\<rparr>, spec_Persistence = \<lparr>pers_Size = None, pers_StorageClassName = [],
       pers_AccessModes = [], pers_RetentionPolicy = RetentionRetain\<rparr>,
     spec_Config = \<lparr>cfg_ClusterEnabled = True, cfg_TLSEnabled = False, cfg_TLS = None, cfg_RawOverride = None\<rparr>,
     spec_ServiceType = [], spec_ServiceAnnotations = [], spec_APIKey = None, spec_ReadOnlyAPIKey = None,
     spec_RunAsUser = 0, spec_FSGroup = 0, spec_Rebalance = None, spec_Snapshots = None,
     spec_NodeSelector = [], spec_Tolerations = [], spec_Affinity = None\<rparr>"

definition blankStatus :: QdrantClusterStatus where
  "blankStatus = \<lparr>st_Phase = [], st_Replicas = 2, st_ReadyReplicas = 2, st_Peers = [],
     st_ObservedGeneration = 0, st_ShardDistribution = [], st_PlannedMoves = [], st_ActiveMove = None,
     st_MoveBackoff = 0, st_DrainStatus = None, st_Selector = [], st_Conditions = []\<rparr>"

definition sampleCluster :: QdrantCluster where
  "sampleCluster = \<lparr>qc_Name = ''q'', qc_Namespace = ''ns'', qc_Generation = 1, qc_Spec = blankSpec, qc_Status = blankStatus\<rparr>"

definition dryCluster :: QdrantCluster where
  "dryCluster = sampleCluster\<lparr>qc_Spec := blankSpec\<lparr>spec_Rebalance := Some \<lparr>reb_Enabled = Some False\<rparr>\<rparr>\<rparr>"

definition sys0 :: "(Fake, effect) sys" where
  "sys0 = \<lparr>world = NewFake, trace = []\<rparr>"

lemmas cluster_sample_defs =
  fakeR_def blankSpec_def blankStatus_def sampleCluster_def dryCluster_def sys0_def

lemma sys0_trace [simp]: "trace sys0 = []"
  by (simp add: sys0_def)

abbreviation pass :: "QdrantCluster \<Rightarrow> observation \<Rightarrow> ((string \<times> duration) \<times> QdrantCluster) \<times> (Fake, effect) sys" where
  "pass qc obs \<equiv> run_state (reconcileRebalance fakeR qc obs (fake_client ''now'')) sys0"

lemma corpse_choose: "choosePlan corpse = ([dropMove ''c'' 0 2], ''DeadRepair'')"
proof -
  have "planReplications corpse = []"
    by (simp add: sample2_defs repair_defs planner_defs go_consts del: set_filter set_map set_remdups)
  then show ?thesis by (simp add: choosePlan_def corpse_plan)
qed

lemma corpse_lane: "lane_free sampleCluster corpse" "\<not> transitioning corpse" "rebalanceEnabled sampleCluster"
  by (simp_all add: lane_free_def transitioning_def rebalanceEnabled_def sample2_defs cluster_sample_defs go_consts)

theorem backoff_exact_witness: "backoff 3 = 120 * Second"
  using backoff_exact [of 3] by (simp add: go_consts)

theorem reconcileRebalance_single_flight_witness:
  "\<exists>es. trace (snd (pass sampleCluster corpse)) = es \<and> length (filter is_shard_op es) \<le> 1"
  using reconcileRebalance_single_flight [of fakeR sampleCluster corpse "fake_client ''now''" sys0
      "fst (pass sampleCluster corpse)" "snd (pass sampleCluster corpse)"]
  by (auto simp: list_all_iff sys0_def filter_empty_conv)

theorem reconcileRebalance_progress_witness:
  "\<exists>ok. move_effect (dropMove ''c'' 0 2) ok \<in> set (trace (snd (pass sampleCluster corpse)))"
  using reconcileRebalance_progress [OF corpse_lane(1,2) corpse_choose corpse_lane(3), of fakeR sys0 "fake_client ''now''"]
  by (simp add: fakeR_def)

lemma corpse_pass_drops:
  "Qdrant None (QDropReplica ''c'' 0 2) False \<in> set (trace (snd (pass sampleCluster corpse)))"
proof -
  have idle: "st_ActiveMove (qc_Status sampleCluster) = None" by (simp add: sampleCluster_def blankStatus_def)
  have flight: "\<not> 0 < transfersInFlight corpse" by (simp add: transfersInFlight_def sample2_defs)
  have on: "rebalanceEnabled (upd_status f sampleCluster)" for f
    using corpse_lane(3) by (simp add: rebalanceEnabled_def)
  show ?thesis
    unfolding reconcileRebalance_def settleActiveMove_def
    using idle flight corpse_lane(2) on
    by (simp add: corpse_choose settleSettled_def settleBusy_def settleWaiting_def settleLost_def
        issueActiveMove_def issueOp_def k_defs q_defs fakeR_def dropMove_def fake_client_def
        fake_DropReplica_def guarded_err_def NewFake_def sys0_def Let_def shardOperationFailed_def event_defs)
qed

theorem reconcileRebalance_durability_first_witness:
  "planReplications corpse = [] \<and> (2::u64) \<in> set (deadHolders corpse ''c'' 0) \<and>
   max (get_or 0 (o_RF corpse) ''c'') 1 \<le> of_nat (length (activeOn (shards_of corpse ''c'') 0))"
proof -
  have "wf_obs corpse" by (simp add: wf_obs_def sample2_defs shard_key_def)
  moreover have "trace (snd (pass sampleCluster corpse)) = trace sys0 @ trace (snd (pass sampleCluster corpse))"
    by (simp add: sys0_def)
  ultimately show ?thesis
    using reconcileRebalance_durability_first [of corpse fakeR sampleCluster "fake_client ''now''" sys0
      "fst (pass sampleCluster corpse)" "snd (pass sampleCluster corpse)"] corpse_pass_drops
    by (metis prod.collapse)
qed

end
