(* ===== verification/Cluster_Witnesses.thy ===== *)
theory Cluster_Witnesses
  imports Drain Upgrade Node_Failure Executor_Witnesses
begin

text \<open>The theorems on observing, draining, upgrading and node failures at concrete inputs.\<close>

lemma newFake_ok: "fake_ok NewFake"
  by (simp add: fake_ok_def NewFake_def)

lemma fake_observes:
  "\<exists>obs qc' s'. run_state (observe fakeR sampleCluster) sys0 = ((Some obs, qc'), s')"
  by (simp add: observe_def q_defs k_defs Let_def fakeR_def fake_client_def fake_ClusterInfo_def
      fake_ListCollections_def guarded_def sys0_def NewFake_def collectSizes_def)


theorem planPeerDrain_disposes_witness:
  "map move_key (dp_Moves (planPeerDrain (twoPeers ! 1) [twoPeers ! 0] (o_Collections skewed)))
     = target_shards (o_Collections skewed) 2 \<and> target_shards (o_Collections skewed) 2 = [(''c'', 2), (''c'', 3)]"
proof -
  have "list_all (\<lambda>(_, cc). cc_Transfers cc = []) (o_Collections skewed)" by (simp add: sample_defs)
  moreover have "peer_ID (twoPeers ! 1) \<notin> peer_ID ` set [twoPeers ! 0]" by (simp add: twoPeers_def)
  moreover have "peer_ID (twoPeers ! 1) = 2" by (simp add: twoPeers_def)
  moreover have "target_shards (o_Collections skewed) 2 = [(''c'', 2), (''c'', 3)]"
    by (simp add: target_shards_def coll_shards_def sample_defs)
  ultimately show ?thesis
    using planPeerDrain_disposes [of "[twoPeers ! 0]" "twoPeers ! 1" "o_Collections skewed"] by simp
qed

definition liveSts :: StatefulSet where
  "liveSts = blankSts\<lparr>sts_Replicas := Some 3, sts_RollingUpdate := Some None, sts_StatusReplicas := 3,
     sts_ReadyReplicas := 2, sts_UpdatedReplicas := 0, sts_CurrentRevision := ''a'', sts_UpdateRevision := ''b''\<rparr>"

theorem reconcileDrainCycle_shrinks_safely_witness:
  "\<exists>es. trace (snd (run_state (reconcileDrainCycle fakeR sampleCluster liveSts 3) sys0)) = trace sys0 @ es \<and>
    (list_all (\<lambda>e. \<not> is_scale e) es \<or>
     (\<exists>obs qc1 s1 pre post. run_state (observe fakeR sampleCluster) sys0 = ((Some obs, qc1), s1) \<and> lane_free qc1 obs \<and>
        es = pre @ post \<and> list_all harmless pre \<and> shrink_justified obs liveSts 3 post))"
  by (rule reconcileDrainCycle_shrinks_safely) (rule prod.collapse [symmetric])

definition healthy :: observation where
  "healthy = placed [shardOn 0 1, shardOn 1 2]"

lemma live_rollout: "rolloutInProgress (Some liveSts)"
  by (simp add: rolloutInProgress_def liveSts_def)

lemma live_ready: "upgradeReady (Some liveSts) 2 (Some healthy)"
  by (simp add: upgradeReady_def liveSts_def healthy_def sample_defs transitioning_def transfersInFlight_def
      i32_def go_consts)

theorem upgradePartition_one_at_a_time_witness:
  "released 2 0 (upgradePartition (Some liveSts) 2 (Some healthy)) = {1} \<and>
   released 2 0 (upgradePartition (Some liveSts) 2 None) = {}"
proof -
  have u: "sts_UpdatedReplicas liveSts = 0" by (simp add: liveSts_def)
  have "\<not> upgradeReady (Some liveSts) 2 None" by (simp add: upgradeReady_def)
  then show ?thesis
    using upgradePartition_one_at_a_time [OF live_rollout, of 2 "Some healthy"]
      upgradePartition_one_at_a_time [OF live_rollout, of 2 None] live_ready by (simp add: u)
qed

theorem upgrade_completes_witness:
  "sts_UpdatedReplicas ((rollout_step 2 healthy ^^ 2) liveSts) = 2"
proof -
  have u: "sts_UpdatedReplicas liveSts = 0" by (simp add: liveSts_def)
  show ?thesis
    using upgrade_completes [OF live_rollout _ _ _ live_ready] by (simp add: u)
qed

definition podR :: "unit ClusterReconciler" where
  "podR = \<lparr>r_Meta = list_meta, r_Now = \<lambda>_. 100 * Minute, r_StatusUpdate = \<lambda>_ w. (None, w),
     r_GetStatefulSet = \<lambda>_ _ w. (Inl KNotFound, w), r_UpdateStatefulSet = \<lambda>_ w. (None, w),
     r_ListCollections = \<lambda>_ w. (Inr [], w),
     r_ListPods = \<lambda>_ _ w. (Inr [\<lparr>pod_Name = ''q-1'', pod_NodeName = ''gone''\<rparr>], w),
     r_GetNode = \<lambda>_ w. (Inl KNotFound, w), r_DeletePod = \<lambda>_ _ w. (None, w),
     r_GetCluster = \<lambda>_ _ w. (Inl KNotFound, w), r_GetVersion = \<lambda>_ _ _ w. (Inl KNotFound, w),
     r_CreateObject = \<lambda>_ w. (None, w), r_UpdateObject = \<lambda>_ w. (None, w), r_DeletePDB = \<lambda>_ _ w. (None, w),
     r_SetControllerReference = \<lambda>_ ob. Inr ob, r_QuantityEqual = (=), r_LabelsString = \<lambda>_. [],
     r_QdrantClientFor = None, r_QdrantClientForPeer = None\<rparr>"

theorem reconcileStuckPods_safe_witness:
  "\<exists>es. trace (snd (run_state (reconcileStuckPods podR sampleCluster) \<lparr>world = (), trace = []\<rparr>)) = es \<and>
     one_justified_delete podR [\<lparr>pod_Name = ''q-1'', pod_NodeName = ''gone''\<rparr>] es"
proof -
  let ?s = "\<lparr>world = (), trace = []\<rparr> :: (unit, effect) sys"
  have two: "\<not> spec_Replicas (qc_Spec sampleCluster) < 2" by (simp add: sampleCluster_def blankSpec_def)
  have pods: "fst (r_ListPods podR (qc_Namespace sampleCluster) (SelectorLabels sampleCluster) (world ?s))
      = Inr [\<lparr>pod_Name = ''q-1'', pod_NodeName = ''gone''\<rparr>]" by (simp add: podR_def)
  show ?thesis
    using reconcileStuckPods_safe [of podR sampleCluster ?s
        "fst (run_state (reconcileStuckPods podR sampleCluster) ?s)"
        "snd (run_state (reconcileStuckPods podR sampleCluster) ?s)"] two pods
    by simp
qed

end
