(* ===== verification/Json.thy ===== *)
theory Json
  imports Go_Strings
begin

text \<open>
  JSON as \<open>encoding/json\<close> reads it, as far as the REST client uses it: a parser of the grammar of RFC 8259
  and the rules by which \<open>Unmarshal\<close> fills a field. A value inside an array or an object carries the text
  it was read from, which is what a \<open>json.RawMessage\<close> receives.

  The recursion is bounded by fuel, twice the length of the text and one more; \<open>json_fuel\<close> shows that more
  makes no difference. Go's limit of 10000 nested levels is not reached by the replies of Qdrant and is
  left out. Keys are matched exactly (Go also accepts another case); \<open>Unmarshal\<close> uses the last of two equal keys.
\<close>

datatype json =
    JNull
  | JBool bool
  | JNum string
  | JStr string
  | JArr "(string \<times> json) list"
  | JObj "(string \<times> string \<times> json) list"

section \<open>Lexical structure\<close>

definition is_ws :: "char \<Rightarrow> bool" where
  "is_ws c \<longleftrightarrow> c = CHR '' '' \<or> c = CHR 0x09 \<or> c = CHR 0x0A \<or> c = CHR 0x0D"

definition skip_ws :: "string \<Rightarrow> string" where
  "skip_ws s = dropWhile is_ws s"

definition eat :: "char \<Rightarrow> string \<Rightarrow> string option" where
  "eat c s = (case s of [] \<Rightarrow> None | x # r \<Rightarrow> if x = c then Some r else None)"

text \<open>Each part of a number: the text read and the rest, \<open>None\<close> when it is malformed.\<close>

definition lex_digits :: "string \<Rightarrow> (string \<times> string) option" where
  "lex_digits s = (if takeWhile is_digit s = [] then None else Some (takeWhile is_digit s, dropWhile is_digit s))"

definition lex_int :: "string \<Rightarrow> (string \<times> string) option" where
  "lex_int s = (case eat (CHR ''0'') s of Some r \<Rightarrow> Some (''0'', r) | None \<Rightarrow> lex_digits s)"

definition lex_frac :: "string \<Rightarrow> (string \<times> string) option" where
  "lex_frac s = (case eat (CHR ''.'') s of
     Some r \<Rightarrow> map_option (\<lambda>(d, r). (CHR ''.'' # d, r)) (lex_digits r)
   | None \<Rightarrow> Some ([], s))"

definition lex_exp :: "string \<Rightarrow> (string \<times> string) option" where
  "lex_exp s = (case s of
     e # r \<Rightarrow>
       if e = CHR ''e'' \<or> e = CHR ''E'' then
         (let sgn = (case r of c # _ \<Rightarrow> if c = CHR ''+'' \<or> c = CHR ''-'' then [c] else [] | [] \<Rightarrow> []) in
          map_option (\<lambda>(d, r). (e # sgn @ d, r)) (lex_digits (drop (length sgn) r)))
       else Some ([], s)
   | [] \<Rightarrow> Some ([], s))"

definition lex_number :: "string \<Rightarrow> (string \<times> string) option" where
  "lex_number s =
     (let sgn = (if eat (CHR ''-'') s = None then [] else ''-'') in
      case lex_int (drop (length sgn) s) of
        None \<Rightarrow> None
      | Some (i, r) \<Rightarrow> (case lex_frac r of
          None \<Rightarrow> None
        | Some (f, r) \<Rightarrow> (case lex_exp r of
            None \<Rightarrow> None
          | Some (e, r) \<Rightarrow> Some (sgn @ i @ f @ e, r))))"

section \<open>Strings\<close>

definition utf8 :: "nat \<Rightarrow> string" where
  "utf8 n =
     (if n < 0x80 then [char_of n]
      else if n < 0x800 then [char_of (0xC0 + n div 64), char_of (0x80 + n mod 64)]
      else if n < 0x10000 then [char_of (0xE0 + n div 4096), char_of (0x80 + n div 64 mod 64), char_of (0x80 + n mod 64)]
      else [char_of (0xF0 + n div 262144), char_of (0x80 + n div 4096 mod 64), char_of (0x80 + n div 64 mod 64), char_of (0x80 + n mod 64)])"

definition hex4 :: "string \<Rightarrow> nat option" where
  "hex4 s = (if length s = 4 \<and> list_all is_hex s then Some (fold (\<lambda>c n. 16 * n + unhex c) s 0) else None)"

text \<open>A unit \<open>u\<close> of an escape \<open>\u\<close> and what follows: a surrogate pair is one code point, a lone surrogate the replacement character.\<close>

definition escape_u :: "nat \<Rightarrow> string \<Rightarrow> string \<times> nat" where
  "escape_u u rest =
     (if u < 0xD800 \<or> 0xDFFF < u then (utf8 u, 0)
      else case (take 2 rest, hex4 (take 4 (drop 2 rest))) of
        (esc, Some l) \<Rightarrow>
          if esc = [CHR 0x5C, CHR ''u''] \<and> u < 0xDC00 \<and> 0xDC00 \<le> l \<and> l \<le> 0xDFFF
          then (utf8 (0x10000 + (u - 0xD800) * 1024 + (l - 0xDC00)), 6) else (utf8 0xFFFD, 0)
      | _ \<Rightarrow> (utf8 0xFFFD, 0))"

definition escape_char :: "char \<Rightarrow> char option" where
  "escape_char c = map_of [(CHR 0x22, CHR 0x22), (CHR 0x5C, CHR 0x5C), (CHR ''/'', CHR ''/''), (CHR ''b'', CHR 0x08),
     (CHR ''f'', CHR 0x0C), (CHR ''n'', CHR 0x0A), (CHR ''r'', CHR 0x0D), (CHR ''t'', CHR 0x09)] c"

text \<open>The part of a string literal after its opening quote.\<close>

function lex_string :: "string \<Rightarrow> (string \<times> string) option" where
  "lex_string s =
     (case s of
        [] \<Rightarrow> None
      | c # cs \<Rightarrow>
          if c = CHR 0x22 then Some ([], cs)
          else if c = CHR 0x5C then
            (case cs of
               [] \<Rightarrow> None
             | e # r \<Rightarrow>
                 if e = CHR ''u'' then
                   (case hex4 (take 4 r) of
                      None \<Rightarrow> None
                    | Some u \<Rightarrow>
                        (let esc = escape_u u (drop 4 r) in
                         map_option (\<lambda>(t, r). (fst esc @ t, r)) (lex_string (drop (snd esc) (drop 4 r)))))
                 else
                   (case escape_char e of
                      None \<Rightarrow> None
                    | Some x \<Rightarrow> map_option (\<lambda>(t, r). (x # t, r)) (lex_string r)))
          else if (of_char c :: nat) < 32 then None
          else map_option (\<lambda>(t, r). (c # t, r)) (lex_string cs))"
  by pat_completeness auto
termination by (relation "measure length") auto

declare lex_string.simps [simp del]

section \<open>Values\<close>

definition consumed :: "string \<Rightarrow> string \<Rightarrow> string" where
  "consumed s rest = take (length s - length rest) s"

definition literal :: "string \<Rightarrow> json \<Rightarrow> string \<Rightarrow> (json \<times> string) option" where
  "literal word v s = (if take (length word) s = word then Some (v, drop (length word) s) else None)"

text \<open>After a value in a list: the end, or a comma and more.\<close>

definition j_sep :: "char \<Rightarrow> 'a \<Rightarrow> string \<Rightarrow> (string \<Rightarrow> ('a list \<times> string) option) \<Rightarrow> ('a list \<times> string) option" where
  "j_sep close x s cont =
     (case eat close (skip_ws s) of
        Some r \<Rightarrow> Some ([x], r)
      | None \<Rightarrow>
          (case eat (CHR '','') (skip_ws s) of
             None \<Rightarrow> None
           | Some r \<Rightarrow> map_option (\<lambda>(xs, rest). (x # xs, rest)) (cont (skip_ws r))))"

lemma j_sep_cong [fundef_cong]:
  assumes "s = s'" and "\<And>r. eat (CHR '','') (skip_ws s') = Some r \<Longrightarrow> cont (skip_ws r) = cont' (skip_ws r)"
  shows "j_sep c x s cont = j_sep c x s' cont'"
  using assms by (simp add: j_sep_def split: option.split)

text \<open>The key of a member, and the text after the colon.\<close>

definition j_key :: "string \<Rightarrow> (string \<times> string) option" where
  "j_key s =
     (case eat (CHR 0x22) s of
        None \<Rightarrow> None
      | Some k \<Rightarrow>
          (case lex_string k of
             None \<Rightarrow> None
           | Some (key, r) \<Rightarrow> map_option (\<lambda>v. (key, skip_ws v)) (eat (CHR '':'') (skip_ws r))))"

fun j_value :: "nat \<Rightarrow> string \<Rightarrow> (json \<times> string) option"
  and j_elems :: "nat \<Rightarrow> string \<Rightarrow> ((string \<times> json) list \<times> string) option"
  and j_members :: "nat \<Rightarrow> string \<Rightarrow> ((string \<times> string \<times> json) list \<times> string) option" where
  "j_value 0 s = None"
| "j_value (Suc n) s =
     (case s of
        [] \<Rightarrow> None
      | c # r \<Rightarrow>
          if c = CHR ''{'' then
            (case eat (CHR ''}'') (skip_ws r) of
               Some rest \<Rightarrow> Some (JObj [], rest)
             | None \<Rightarrow> map_option (\<lambda>(ms, rest). (JObj ms, rest)) (j_members n (skip_ws r)))
          else if c = CHR ''['' then
            (case eat (CHR '']'') (skip_ws r) of
               Some rest \<Rightarrow> Some (JArr [], rest)
             | None \<Rightarrow> map_option (\<lambda>(es, rest). (JArr es, rest)) (j_elems n (skip_ws r)))
          else if c = CHR 0x22 then map_option (\<lambda>(t, rest). (JStr t, rest)) (lex_string r)
          else if c = CHR ''n'' then literal ''null'' JNull s
          else if c = CHR ''t'' then literal ''true'' (JBool True) s
          else if c = CHR ''f'' then literal ''false'' (JBool False) s
          else map_option (\<lambda>(t, rest). (JNum t, rest)) (lex_number s))"
| "j_elems 0 s = None"
| "j_elems (Suc n) s =
     (case j_value n s of
        None \<Rightarrow> None
      | Some (v, r) \<Rightarrow> j_sep (CHR '']'') (consumed s r, v) r (j_elems n))"
| "j_members 0 s = None"
| "j_members (Suc n) s =
     (case j_key s of
        None \<Rightarrow> None
      | Some (key, t) \<Rightarrow>
          (case j_value n t of
             None \<Rightarrow> None
           | Some (v, r) \<Rightarrow> j_sep (CHR ''}'') (key, consumed t r, v) r (j_members n)))"

definition json_fuel :: "string \<Rightarrow> nat" where
  "json_fuel s = Suc (2 * length s)"

text \<open>\<open>json.Decoder.Decode\<close> reads one value and leaves the rest; \<open>json.Unmarshal\<close> and \<open>json.Valid\<close> want the whole text.\<close>

definition Decode :: "string \<Rightarrow> json option" where
  "Decode s = map_option fst (j_value (json_fuel s) (skip_ws s))"

definition json_parse :: "string \<Rightarrow> json option" where
  "json_parse s = (case j_value (json_fuel s) (skip_ws s) of
     None \<Rightarrow> None
   | Some (v, rest) \<Rightarrow> if skip_ws rest = [] then Some v else None)"

section \<open>Enough fuel\<close>

lemma skip_ws_le: "length (skip_ws s) \<le> length s"
  by (simp add: skip_ws_def length_dropWhile_le)

lemma eat_len: "eat c s = Some r \<Longrightarrow> length s = Suc (length r)"
  by (auto simp: eat_def split: list.splits if_splits)

lemma eat_ws_len: "eat c (skip_ws s) = Some r \<Longrightarrow> length (skip_ws r) < length s"
  using eat_len [of c "skip_ws s" r] skip_ws_le [of s] skip_ws_le [of r] by simp

lemma lex_string_len: "lex_string s = Some (t, r) \<Longrightarrow> length r < length s"
proof (induction s arbitrary: t r rule: measure_induct_rule [of length])
  case (less s)
  show ?case
  proof (cases s)
    case Nil
    then show ?thesis using less.prems by (simp add: lex_string.simps)
  next
    case (Cons c cs)
    have shorter: "length r < length s" if "lex_string s' = Some (u, r)" "length s' < length s" for s' u
      using less.IH [OF that(2,1)] that(2) by simp
    show ?thesis
      using less.prems Cons shorter
      by (subst (asm) lex_string.simps) (auto simp: Let_def split: if_splits list.splits option.splits)
  qed
qed

lemma j_key_len: "j_key s = Some (k, t) \<Longrightarrow> length t < length s"
  unfolding j_key_def
  using eat_len lex_string_len eat_ws_len by (fastforce split: option.splits)

lemma lex_digits_len: "lex_digits s = Some (t, r) \<Longrightarrow> length r < length s"
  by (cases s) (auto simp: lex_digits_def length_dropWhile_le less_Suc_eq_le split: if_splits)

lemma lex_number_len:
  assumes "lex_number s = Some (t, r)"
  shows "length r < length s"
proof -
  define sgn where "sgn = (if eat (CHR ''-'') s = None then [] else ''-'')"
  obtain i r1 f r2 e where parts: "lex_int (drop (length sgn) s) = Some (i, r1)" "lex_frac r1 = Some (f, r2)" "lex_exp r2 = Some (e, r)"
    using assms by (auto simp: lex_number_def Let_def sgn_def split: option.splits prod.splits)
  have "length r1 < length (drop (length sgn) s)"
    using parts(1) lex_digits_len eat_len by (fastforce simp: lex_int_def split: option.splits)
  moreover have "length r2 \<le> length r1"
    using parts(2) by (auto simp: lex_frac_def split: option.splits dest!: lex_digits_len eat_len)
  moreover have "length r \<le> length r2"
    using parts(3) by (auto simp: lex_exp_def Let_def split: list.splits if_splits dest!: lex_digits_len)
  ultimately show ?thesis by simp
qed

lemma literal_len: "literal word v s = Some (x, r) \<Longrightarrow> word \<noteq> [] \<Longrightarrow> length r < length s"
  by (cases s) (auto simp: literal_def split: if_splits)

lemma j_sep_len:
  assumes "j_sep c x s cont = Some (xs, rest)" 
    and "\<And>r xs rest. eat (CHR '','') (skip_ws s) = Some r \<Longrightarrow> cont (skip_ws r) = Some (xs, rest) \<Longrightarrow> length rest < length (skip_ws r)"
  shows "length rest < length s"
  using assms(1) assms(2) eat_ws_len eat_len skip_ws_le [of s]
  by (fastforce simp: j_sep_def split: option.splits)

lemma j_len:
  "j_value n s = Some (v, r) \<Longrightarrow> length r < length s"
  "j_elems n s = Some (es, r) \<Longrightarrow> length r < length s"
  "j_members n s = Some (ms, r) \<Longrightarrow> length r < length s"
proof (induction n s and n s and n s arbitrary: v r and es r and ms r rule: j_value_j_elems_j_members.induct)
  case (2 n s)
  then obtain c cs where s: "s = c # cs" by (cases s) auto
  have inner: "length r < length s" if "length r < length (skip_ws cs)"
    using that skip_ws_le [of cs] s by simp
  show ?case using 2 s inner eat_ws_len [of _ cs r] skip_ws_le [of r]
    by (auto split: if_splits option.splits dest!: lex_string_len lex_number_len literal_len eat_len)
next
  case (4 n s)
  then obtain v r1 where v: "j_value n s = Some (v, r1)" "j_sep (CHR '']'') (consumed s r1, v) r1 (j_elems n) = Some (es, r)"
    by (auto split: option.splits prod.splits)
  have "length r < length r1" by (rule j_sep_len [OF v(2)]) (rule 4(2) [OF v(1) refl])
  then show ?case using 4(1) v(1) by fastforce
next
  case (6 n s)
  then obtain k t v r1 where k: "j_key s = Some (k, t)" "j_value n t = Some (v, r1)"
      "j_sep (CHR ''}'') (k, consumed t r1, v) r1 (j_members n) = Some (ms, r)"
    by (auto split: option.splits prod.splits)
  have "length r < length r1" by (rule j_sep_len [OF k(3)]) (rule 6(2) [OF k(1) refl k(2) refl])
  moreover have "length r1 < length t" using 6(1) k by blast
  ultimately show ?case using j_key_len [OF k(1)] by simp
qed simp_all

text \<open>Above the bound the amount of fuel makes no difference: the parser never stops for lack of it.\<close>

lemma j_sep_fuel:
  assumes "\<And>t. length t < length s \<Longrightarrow> cont t = cont' t"
  shows "j_sep c x s cont = j_sep c x s cont'"
  using assms eat_ws_len by (auto simp: j_sep_def split: option.split)

lemma j_fuel_all:
  "(\<forall>n m. 2 * length s < n \<longrightarrow> 2 * length s < m \<longrightarrow> j_value n s = j_value m s) \<and>
   (\<forall>n m. 2 * length s + 1 < n \<longrightarrow> 2 * length s + 1 < m \<longrightarrow> j_elems n s = j_elems m s) \<and>
   (\<forall>n m. 2 * length s + 1 < n \<longrightarrow> 2 * length s + 1 < m \<longrightarrow> j_members n s = j_members m s)"
proof (induction s rule: measure_induct_rule [of length])
  case (less s)
  have V: "j_value n s = j_value m s" if fuel: "2 * length s < n" "2 * length s < m" for n m
  proof -
    obtain n' m' where nm: "n = Suc n'" "m = Suc m'" using fuel by (cases n; cases m) auto
    show ?thesis
    proof (cases s)
      case (Cons c cs)
      have "length (skip_ws cs) < length s" "2 * length (skip_ws cs) + 1 < n'" "2 * length (skip_ws cs) + 1 < m'"
        using skip_ws_le [of cs] fuel nm Cons by auto
      then have "j_elems n' (skip_ws cs) = j_elems m' (skip_ws cs)" "j_members n' (skip_ws cs) = j_members m' (skip_ws cs)"
        using less.IH by blast+
      then show ?thesis by (simp add: nm Cons split: option.split)
    qed (simp add: nm)
  qed
  have E: "j_elems n s = j_elems m s" if fuel: "2 * length s + 1 < n" "2 * length s + 1 < m" for n m
  proof -
    obtain n' m' where nm: "n = Suc n'" "m = Suc m'" using fuel by (cases n; cases m) auto
    have "j_value n' s = j_value m' s" using fuel nm by (intro V) auto
    moreover have "j_elems n' t = j_elems m' t" if "length t < length s" for t
      using less.IH [OF that] fuel nm that by auto
    ultimately show ?thesis unfolding nm using j_len(1) [of m' s]
      by (auto split: option.split intro!: j_sep_fuel)
  qed
  have M: "j_members n s = j_members m s" if fuel: "2 * length s + 1 < n" "2 * length s + 1 < m" for n m
  proof -
    obtain n' m' where nm: "n = Suc n'" "m = Suc m'" using fuel by (cases n; cases m) auto
    have val: "j_value n' t = j_value m' t" if "length t < length s" for t
      using less.IH [OF that] fuel nm that by auto
    have mem: "j_members n' t = j_members m' t" if "length t < length s" for t
      using less.IH [OF that] fuel nm that by auto
    show ?thesis
    proof (cases "j_key s")
      case (Some kt)
      then have shorter: "length (snd kt) < length s" using j_key_len by (metis prod.collapse)
      then show ?thesis unfolding nm using Some val [OF shorter] j_len(1) [of m' "snd kt"]
        by (auto split: option.split prod.split intro!: j_sep_fuel mem)
    qed (simp add: nm)
  qed
  show ?case using V E M by blast
qed

lemma j_value_fuel: "json_fuel s \<le> n \<Longrightarrow> length t \<le> length s \<Longrightarrow> j_value n t = j_value (json_fuel s) t"
proof -
  assume "json_fuel s \<le> n" and "length t \<le> length s"
  then have "2 * length t < n" "2 * length t < json_fuel s" by (simp_all add: json_fuel_def)
  then show ?thesis using j_fuel_all [of t] by blast
qed

end
