(* ===== verification/Json_Print.thy ===== *)
theory Json_Print
  imports Json
begin

text \<open>
  JSON as \<open>json.Marshal\<close> writes it, as far as the REST client uses it, and the round trip with the parser of
  theory Json: a printed string, number, object or array is read back as the value it was printed from.
  Strings are sequences of bytes; Go replaces ill-formed UTF-8 and escapes U+2028 and U+2029, which the model
  passes through.
\<close>

section \<open>Marshalling\<close>

definition hexLow :: "nat \<Rightarrow> char" where
  "hexLow d = (if d < 10 then char_of (48 + d) else char_of (87 + d))"

definition escape_html :: "char \<Rightarrow> bool" where
  "escape_html c \<longleftrightarrow> c \<in> set ''<>&''"

definition u00 :: "char \<Rightarrow> string" where
  "u00 c = [CHR 0x5C] @ ''u00'' @ [hexLow (of_char c div 16), hexLow (of_char c mod 16)]"

definition marshal_char :: "char \<Rightarrow> string" where
  "marshal_char c =
     (if c = CHR 0x22 \<or> c = CHR 0x5C then [CHR 0x5C, c]
      else if c = CHR 0x08 then [CHR 0x5C, CHR ''b''] else if c = CHR 0x0C then [CHR 0x5C, CHR ''f'']
      else if c = CHR 0x0A then [CHR 0x5C, CHR ''n''] else if c = CHR 0x0D then [CHR 0x5C, CHR ''r'']
      else if c = CHR 0x09 then [CHR 0x5C, CHR ''t'']
      else if (of_char c :: nat) < 32 \<or> escape_html c then u00 c
      else [c])"

definition mstr :: "string \<Rightarrow> string" where
  "mstr s = [CHR 0x22] @ concat (map marshal_char s) @ [CHR 0x22]"

primrec commas :: "string list \<Rightarrow> string" where
  "commas [] = []"
| "commas (x # xs) = (if xs = [] then x else x @ '','' @ commas xs)"

text \<open>An object literal; \<open>json.Marshal\<close> writes the keys of a Go map in ascending order, as they are given here.\<close>

definition mobj :: "(string \<times> string) list \<Rightarrow> string" where
  "mobj kvs = ''{'' @ commas (map (\<lambda>(k, v). mstr k @ '':'' @ v) kvs) @ ''}''"

definition marr :: "string list \<Rightarrow> string" where
  "marr xs = ''['' @ commas xs @ '']''"

definition mu32 :: "u32 \<Rightarrow> string" where "mu32 n = nat_digits (unat n)"
definition mu64 :: "u64 \<Rightarrow> string" where "mu64 n = FormatUint n"

text \<open>
  A \<open>json.RawMessage\<close> must be valid JSON; it is written without white space and with the HTML escapes.
  The first argument says whether the position is inside a string.
\<close>

fun compact :: "bool \<Rightarrow> string \<Rightarrow> string" where
  "compact str [] = []"
| "compact str (c # cs) =
     (if str then
        (if c = CHR 0x5C then (case cs of [] \<Rightarrow> [c] | d # ds \<Rightarrow> c # d # compact True ds)
         else if c = CHR 0x22 then c # compact False cs
         else (if escape_html c then u00 c else [c]) @ compact True cs)
      else if is_ws c then compact False cs
      else c # compact (c = CHR 0x22) cs)"

definition mraw :: "string \<Rightarrow> string option" where
  "mraw r = (if json_parse r = None then None else Some (compact False r))"

fun mraws :: "string list \<Rightarrow> string list option" where
  "mraws [] = Some []"
| "mraws (r # rs) =
     (case mraw r of None \<Rightarrow> None | Some t \<Rightarrow> map_option (\<lambda>ts. t # ts) (mraws rs))"

section \<open>Printed strings\<close>

lemma hexLow_hex: "d < 16 \<Longrightarrow> is_hex (hexLow d) \<and> unhex (hexLow d) = d"
  by (auto simp: hexLow_def is_hex_def unhex_def is_digit_def Let_def)

lemma is_hex_0: "is_hex (CHR ''0'')" "unhex (CHR ''0'') = 0"
  by (simp_all add: is_hex_def is_digit_def unhex_def)

lemma lex_string_quote: "lex_string (CHR 0x22 # r) = Some ([], r)"
  by (subst lex_string.simps) simp

lemma lex_string_plain:
  "32 \<le> (of_char c :: nat) \<Longrightarrow> c \<noteq> CHR 0x22 \<Longrightarrow> c \<noteq> CHR 0x5C \<Longrightarrow>
   lex_string (c # r) = map_option (\<lambda>(t, r). (c # t, r)) (lex_string r)"
  by (subst lex_string.simps) simp

lemma lex_string_esc:
  "escape_char e = Some x \<Longrightarrow> e \<noteq> CHR ''u'' \<Longrightarrow> lex_string (CHR 0x5C # e # r) = map_option (\<lambda>(t, r). (x # t, r)) (lex_string r)"
  by (subst lex_string.simps) simp

lemma char_less_256: "(of_char c :: nat) < 256"
proof -
  have "(of_char c :: nat) mod 256 < 256" by (rule mod_less_divisor) simp
  then show ?thesis by (simp only: of_char_mod_256)
qed

lemma char_div_16: "(of_char c :: nat) div 16 < 16"
  by (rule less_mult_imp_div_less) (simp add: char_less_256)

lemma hex4_byte: "hex4 [CHR ''0'', CHR ''0'', hexLow (of_char c div 16), hexLow (of_char c mod 16)] = Some (of_char c)"
  using hexLow_hex [OF char_div_16 [of c]] hexLow_hex [of "of_char c mod 16"] by (simp add: hex4_def is_hex_0)

lemma lex_string_u00:
  assumes "(of_char c :: nat) < 128"
  shows "lex_string (u00 c @ r) = map_option (\<lambda>(t, r). (c # t, r)) (lex_string r)"
proof -
  have "escape_u (of_char c) s = ([c], 0)" for s
    using assms by (simp add: escape_u_def utf8_def)
  then show ?thesis unfolding u00_def
    by (subst lex_string.simps) (simp add: Let_def hex4_byte)
qed

lemma lex_string_marshal:
  "lex_string (marshal_char c @ r) = map_option (\<lambda>(t, r). (c # t, r)) (lex_string r)"
proof -
  have "(of_char c :: nat) < 128" if "escape_html c" using that by (auto simp: escape_html_def)
  then show ?thesis
    by (simp add: marshal_char_def lex_string_u00 lex_string_esc lex_string_plain escape_char_def)
qed

lemma lex_string_mstr: "lex_string (concat (map marshal_char s) @ CHR 0x22 # r) = Some (s, r)"
  by (induction s) (simp_all add: lex_string_quote lex_string_marshal)


section \<open>Printed texts parse back\<close>

text \<open>\<open>parses t j\<close>: in front of anything that may follow a value, the text \<open>t\<close> is read as \<open>j\<close>, with the fuel of its own length.\<close>

definition follows :: "string \<Rightarrow> bool" where
  "follows r \<longleftrightarrow> r = [] \<or> hd r \<in> set '',}]''"

definition starts :: "string \<Rightarrow> bool" where
  "starts t \<longleftrightarrow> t \<noteq> [] \<and> \<not> is_ws (hd t) \<and> hd t \<notin> set ''}]''"

definition parses :: "string \<Rightarrow> json \<Rightarrow> bool" where
  "parses t j \<longleftrightarrow> starts t \<and> (\<forall>n rest. 2 * length t < n \<longrightarrow> follows rest \<longrightarrow> j_value n (t @ rest) = Some (j, rest))"

lemma follows_Cons [simp]: "follows (CHR '','' # r)" "follows (CHR ''}'' # r)" "follows (CHR '']'' # r)" "follows []"
  by (simp_all add: follows_def)

lemma skip_ws_follows: "follows r \<Longrightarrow> skip_ws r = r"
  by (cases r) (auto simp: follows_def skip_ws_def is_ws_def)

lemma starts_skip: "starts t \<Longrightarrow> skip_ws (t @ r) = t @ r"
  by (cases t) (auto simp: starts_def skip_ws_def)

lemma starts_eat: "starts t \<Longrightarrow> eat (CHR ''}'') (t @ r) = None \<and> eat (CHR '']'') (t @ r) = None"
  by (cases t) (auto simp: starts_def eat_def)

lemma consumed_append [simp]: "consumed (t @ r) r = t"
  by (simp add: consumed_def)

lemma parsesD: "parses t j \<Longrightarrow> 2 * length t < n \<Longrightarrow> follows rest \<Longrightarrow> j_value n (t @ rest) = Some (j, rest)"
  by (simp add: parses_def)

lemma parses_json: "parses t j \<Longrightarrow> json_parse t = Some j \<and> Decode t = Some j"
  using parsesD [of t j "json_fuel t" "[]"] starts_skip [of t "[]"]
  by (simp add: parses_def json_parse_def Decode_def json_fuel_def skip_ws_def)

lemma parses_mstr: "parses (mstr s) (JStr s)"
proof -
  have "j_value n (mstr s @ r) = Some (JStr s, r)" if "2 * length (mstr s) < n" for n r
    using that by (cases n) (simp_all add: mstr_def lex_string_mstr)
  then show ?thesis by (simp add: parses_def starts_def mstr_def is_ws_def)
qed

lemma digit_char_zero: "digit_char 0 = CHR ''0''"
  by code_simp

lemma digit_char_eq_zero: "d < 10 \<Longrightarrow> digit_char d = CHR ''0'' \<Longrightarrow> d = 0"
  using of_char_digit_char [of d] by simp

lemma nat_digits_zero: "hd (nat_digits n) = CHR ''0'' \<Longrightarrow> n = 0"
proof (induction n rule: nat_digits.induct)
  case (1 n)
  show ?case
  proof (cases "n < 10")
    case True
    then show ?thesis using 1(2) by (subst (asm) nat_digits.simps) (simp add: digit_char_eq_zero)
  next
    case False
    then have "hd (nat_digits (n div 10)) = CHR ''0''" using 1(2) by (subst (asm) nat_digits.simps) simp
    then show ?thesis using 1(1) False by simp
  qed
qed

lemma lex_int_digits:
  assumes "follows r"
  shows "lex_int (nat_digits n @ r) = Some (nat_digits n, r)"
proof (cases "hd (nat_digits n) = CHR ''0''")
  case True
  then have "n = 0" by (rule nat_digits_zero)
  then show ?thesis by (simp add: nat_digits.simps [of 0] digit_char_zero lex_int_def eat_def)
next
  case False
  have "r = [] \<or> \<not> is_digit (hd r)" using assms by (auto simp: follows_def is_digit_def)
  then have "takeWhile is_digit (nat_digits n @ r) = nat_digits n" "dropWhile is_digit (nat_digits n @ r) = r"
    using nat_digits_is_digit [of n] by (cases r; auto simp: list_all_iff takeWhile_append dropWhile_append)+
  then show ?thesis using False by (cases "nat_digits n") (auto simp: lex_int_def lex_digits_def eat_def)
qed

lemma lex_number_digits: "follows r \<Longrightarrow> lex_number (nat_digits n @ r) = Some (nat_digits n, r)"
proof -
  assume r: "follows r"
  have "eat (CHR ''-'') (nat_digits n @ r) = None"
    using nat_digits_hd_digit [of n] by (cases "nat_digits n") (auto simp: eat_def is_digit_def)
  moreover have "lex_frac r = Some ([], r)" "lex_exp r = Some ([], r)"
    using r by (cases r; auto simp: follows_def lex_frac_def lex_exp_def eat_def)+
  ultimately show ?thesis using lex_int_digits [OF r, of n] by (simp add: lex_number_def)
qed

lemma digit_other:
  "is_digit c \<Longrightarrow> c \<noteq> CHR ''{'' \<and> c \<noteq> CHR ''['' \<and> c \<noteq> CHR ''}'' \<and> c \<noteq> CHR '']'' \<and> c \<noteq> CHR 0x22 \<and> c \<noteq> CHR ''n'' \<and>
     c \<noteq> CHR ''t'' \<and> c \<noteq> CHR ''f'' \<and> c \<noteq> CHR '' '' \<and> c \<noteq> CHR 0x09 \<and> c \<noteq> CHR 0x0A \<and> c \<noteq> CHR 0x0D"
  by (auto simp: is_digit_def)

lemma parses_digits: "parses (nat_digits n) (JNum (nat_digits n))"
proof -
  obtain c cs where t: "nat_digits n = c # cs" and d: "is_digit c"
    using nat_digits_hd_digit [of n] nat_digits_not_Nil [of n] by (metis list.exhaust_sel)
  have "j_value m (nat_digits n @ r) = Some (JNum (nat_digits n), r)" if "2 * length (nat_digits n) < m" "follows r" for m r
    using that(1) digit_other [OF d] lex_number_digits [OF that(2), of n] by (cases m) (simp_all add: t)
  then show ?thesis using digit_other [OF d] by (simp add: parses_def starts_def is_ws_def t)
qed

text \<open>The text of a key: a string literal, not necessarily as \<open>mstr\<close> writes it.\<close>

definition key_text :: "string \<Rightarrow> string \<Rightarrow> bool" where
  "key_text kt k \<longleftrightarrow> (\<exists>b. kt = CHR 0x22 # b \<and> (\<forall>rest. lex_string (b @ rest) = Some (k, rest)))"

lemma key_text_mstr: "key_text (mstr k) k"
  by (simp add: key_text_def mstr_def lex_string_mstr)

lemma j_key_text: "key_text kt k \<Longrightarrow> j_key (kt @ CHR '':'' # r) = Some (k, skip_ws r)"
  by (auto simp: key_text_def j_key_def eat_def skip_ws_def is_ws_def)

lemma starts_key_text: "key_text kt k \<Longrightarrow> starts (kt @ r)"
  by (auto simp: key_text_def starts_def is_ws_def)

text \<open>The members and the elements of a container, each with its text.\<close>

definition member_text :: "string \<times> string \<times> string \<times> json \<Rightarrow> string" where
  "member_text = (\<lambda>(kt, k, v, j). kt @ '':'' @ v)"

lemma j_members_print:
  assumes "xs \<noteq> []" "\<forall>(kt, k, v, j)\<in>set xs. key_text kt k \<and> parses v j"
    and "2 * length (commas (map member_text xs)) + 1 < n"
  shows "j_members n (commas (map member_text xs) @ CHR ''}'' # rest) = Some (map snd xs, rest)"
  using assms
proof (induction xs arbitrary: n)
  case (Cons x xs)
  obtain kt k v j where x: "x = (kt, k, v, j)" by (cases x)
  obtain m where n: "n = Suc m" using Cons.prems(3) by (cases n) auto
  have kt: "key_text kt k" and v: "parses v j" and xs: "\<forall>(kt, k, v, j)\<in>set xs. key_text kt k \<and> parses v j"
    using Cons.prems(2) x by auto
  define tail_txt where "tail_txt = commas (map member_text xs)"
  define after where "after = (if xs = [] then CHR ''}'' # rest else CHR '','' # tail_txt @ CHR ''}'' # rest)"
  have txt_eq: "commas (map member_text (x # xs)) @ CHR ''}'' # rest = kt @ CHR '':'' # v @ after"
    by (simp add: x after_def tail_txt_def member_text_def)
  have "follows after" by (simp add: after_def)
  then have val: "j_value m (v @ after) = Some (j, after)"
    using Cons.prems(3) n x by (intro parsesD [OF v]) (auto simp: member_text_def split: if_splits)
  have "j_members m (tail_txt @ CHR ''}'' # rest) = Some (map snd xs, rest)" if "xs \<noteq> []"
    unfolding tail_txt_def using Cons.prems(3) n that by (intro Cons.IH [OF that xs]) simp
  moreover have "starts (tail_txt @ CHR ''}'' # rest)" if "xs \<noteq> []"
    using that xs starts_key_text by (cases xs) (auto simp: tail_txt_def member_text_def)
  moreover have "starts v" using v by (simp add: parses_def)
  ultimately show ?case
    unfolding txt_eq n
    using val starts_skip [of "tail_txt @ CHR ''}'' # rest" "[]"] starts_skip [of v after]
    by (auto simp: j_key_text [OF kt] x after_def j_sep_def eat_def skip_ws_def is_ws_def)
qed simp

lemma j_elems_print:
  assumes "tjs \<noteq> []" "\<forall>(t, j)\<in>set tjs. parses t j" and "2 * length (commas (map fst tjs)) + 1 < n"
  shows "j_elems n (commas (map fst tjs) @ CHR '']'' # rest) = Some (tjs, rest)"
  using assms
proof (induction tjs arbitrary: n)
  case (Cons x xs)
  obtain t j where x: "x = (t, j)" by (cases x)
  obtain m where n: "n = Suc m" using Cons.prems(3) by (cases n) auto
  have t: "parses t j" and xs: "\<forall>(t, j)\<in>set xs. parses t j" using Cons.prems(2) x by auto
  define tail_txt where "tail_txt = commas (map fst xs)"
  define after where "after = (if xs = [] then CHR '']'' # rest else CHR '','' # tail_txt @ CHR '']'' # rest)"
  have txt_eq: "commas (map fst (x # xs)) @ CHR '']'' # rest = t @ after"
    by (simp add: x after_def tail_txt_def)
  have "follows after" by (simp add: after_def)
  then have val: "j_value m (t @ after) = Some (j, after)"
    using Cons.prems(3) n x by (intro parsesD [OF t]) (auto split: if_splits)
  have "j_elems m (tail_txt @ CHR '']'' # rest) = Some (xs, rest)" if "xs \<noteq> []"
    unfolding tail_txt_def using Cons.prems(3) n that by (intro Cons.IH [OF that xs]) simp
  moreover have "starts (tail_txt @ CHR '']'' # rest)" if "xs \<noteq> []"
    using that xs by (cases xs) (auto simp: tail_txt_def parses_def starts_def)
  ultimately show ?case
    unfolding txt_eq n
    using val starts_skip [of "tail_txt @ CHR '']'' # rest" "[]"]
    by (auto simp: x after_def j_sep_def eat_def skip_ws_def is_ws_def)
qed simp

lemma parses_object:
  assumes "\<forall>(kt, k, v, j)\<in>set xs. key_text kt k \<and> parses v j"
  shows "parses (CHR ''{'' # commas (map member_text xs) @ ''}'') (JObj (map snd xs))"
proof -
  define body where "body = commas (map member_text xs)"
  have "starts (body @ r)" if "xs \<noteq> []" for r
    using that assms starts_key_text by (cases xs) (auto simp: body_def member_text_def)
  then have "j_value n (CHR ''{'' # body @ ''}'' @ rest) = Some (JObj (map snd xs), rest)" if "2 * length (CHR ''{'' # body @ ''}'') < n" for n rest
    using that j_members_print [OF _ assms, folded body_def, of "n - 1" rest]
      starts_skip [of "body @ ''}''" rest] starts_eat [of "body @ ''}''" rest]
    by (cases n; cases "xs = []") (auto simp: body_def eat_def skip_ws_def is_ws_def)
  then show ?thesis by (simp add: parses_def starts_def is_ws_def body_def)
qed

lemma parses_mobj:
  assumes "list_all2 (\<lambda>(k, v) (k', v', j). k = k' \<and> v = v' \<and> parses v j) kvs ms"
  shows "parses (mobj kvs) (JObj ms)"
proof -
  have kvs: "kvs = map (\<lambda>(k, v, j). (k, v)) ms" and ms: "\<forall>(k, v, j)\<in>set ms. parses v j"
    using assms by (induction rule: list_all2_induct) auto
  have "parses (CHR ''{'' # commas (map member_text (map (\<lambda>(k, v, j). (mstr k, k, v, j)) ms)) @ ''}'')
      (JObj (map snd (map (\<lambda>(k, v, j). (mstr k, k, v, j)) ms)))"
    using ms by (intro parses_object) (auto simp: key_text_mstr)
  then show ?thesis by (simp add: mobj_def kvs comp_def split_def member_text_def)
qed

lemma parses_array:
  assumes "\<forall>(t, j)\<in>set es. parses t j"
  shows "parses (CHR ''['' # commas (map fst es) @ '']'') (JArr es)"
proof -
  define body where "body = commas (map fst es)"
  have "starts (body @ r)" if "es \<noteq> []" for r
    using that assms by (cases es) (auto simp: body_def parses_def starts_def)
  then have "j_value n (CHR ''['' # body @ '']'' @ rest) = Some (JArr es, rest)" if "2 * length (CHR ''['' # body @ '']'') < n" for n rest
    using that j_elems_print [OF _ assms, folded body_def, of "n - 1" rest]
      starts_skip [of "body @ '']''" rest] starts_eat [of "body @ '']''" rest]
    by (cases n; cases "es = []") (auto simp: body_def eat_def skip_ws_def is_ws_def)
  then show ?thesis by (simp add: parses_def starts_def is_ws_def body_def)
qed

lemma parses_marr:
  assumes "list_all2 (\<lambda>t (t', j). t = t' \<and> parses t j) ts es"
  shows "parses (marr ts) (JArr es)"
proof -
  have "ts = map fst es" and "\<forall>(t, j)\<in>set es. parses t j"
    using assms by (induction rule: list_all2_induct) auto
  then show ?thesis using parses_array [of es] by (simp add: marr_def)
qed

end
