(* ===== verification/Http_Client.thy ===== *)
theory Http_Client
  imports Json_Print Qdrant_Client "HOL-Library.AList"
begin

text \<open>
  The REST client (\<open>internal/qdrant/http.go\<close>, \<open>points.go\<close>, and the methods of \<open>cluster.go\<close> and \<open>snapshot.go\<close>): how each
  method of the interface becomes one HTTP request, which answers it accepts and how it decodes them.
  \<open>hc_Do\<close> is \<open>http.Client.Do\<close>: it answers a request with an error (which may also be an error of
  \<open>http.NewRequestWithContext\<close>) or with a status and a body. The texts of JSON errors are one constant.
\<close>

record HttpRequest =
  rq_Method :: string
  rq_URL :: string
  rq_Body :: "string option"

record HttpResponse =
  hr_Code :: int
  hr_Status :: string
  hr_Body :: string

record 'w HTTPClient =
  hc_BaseURL :: string
  hc_Do :: "HttpRequest \<Rightarrow> 'w \<Rightarrow> (err + HttpResponse) \<times> 'w"

definition jsonError :: err where "jsonError = ''json''"

section \<open>Unmarshalling\<close>

definition ebind :: "err + 'a \<Rightarrow> ('a \<Rightarrow> err + 'b) \<Rightarrow> err + 'b" where
  "ebind x f = (case x of Inl e \<Rightarrow> Inl e | Inr v \<Rightarrow> f v)"

text \<open>The field of a struct: \<open>null\<close> and an absent key leave the zero value.\<close>

definition jraw :: "string \<Rightarrow> json \<Rightarrow> err + (string \<times> json) option" where
  "jraw k j = (case j of JObj ms \<Rightarrow> Inr (map_of (rev ms) k) | JNull \<Rightarrow> Inr None | _ \<Rightarrow> Inl jsonError)"

definition jget :: "string \<Rightarrow> json \<Rightarrow> err + json" where
  "jget k j = ebind (jraw k j) (\<lambda>x. Inr (case x of None \<Rightarrow> JNull | Some (_, v) \<Rightarrow> v))"

definition dec_str :: "json \<Rightarrow> err + string" where
  "dec_str j = (case j of JNull \<Rightarrow> Inr [] | JStr s \<Rightarrow> Inr s | _ \<Rightarrow> Inl jsonError)"

definition dec_uint :: "nat \<Rightarrow> json \<Rightarrow> err + nat" where
  "dec_uint mx j = (case j of
     JNull \<Rightarrow> Inr 0
   | JNum t \<Rightarrow> (case parse_uint mx t of (n, None) \<Rightarrow> Inr n | _ \<Rightarrow> Inl jsonError)
   | _ \<Rightarrow> Inl jsonError)"

definition dec_u64 :: "json \<Rightarrow> err + u64" where
  "dec_u64 j = ebind (dec_uint (2 ^ 64 - 1) j) (\<lambda>n. Inr (of_nat n))"

definition dec_u32 :: "json \<Rightarrow> err + u32" where
  "dec_u32 j = ebind (dec_uint (2 ^ 32 - 1) j) (\<lambda>n. Inr (of_nat n))"

definition dec_int :: "json \<Rightarrow> err + int" where
  "dec_int j = (case j of
     JNum (CHR ''-'' # t) \<Rightarrow> ebind (dec_uint (2 ^ 63) (JNum t)) (\<lambda>n. Inr (- int n))
   | _ \<Rightarrow> ebind (dec_uint (2 ^ 63 - 1) j) (\<lambda>n. Inr (int n)))"

fun emap :: "('a \<Rightarrow> err + 'b) \<Rightarrow> 'a list \<Rightarrow> err + 'b list" where
  "emap f [] = Inr []"
| "emap f (x # xs) = ebind (f x) (\<lambda>y. ebind (emap f xs) (\<lambda>ys. Inr (y # ys)))"

definition dec_list :: "(json \<Rightarrow> err + 'a) \<Rightarrow> json \<Rightarrow> err + 'a list" where
  "dec_list f j = (case j of JNull \<Rightarrow> Inr [] | JArr xs \<Rightarrow> emap (\<lambda>(_, v). f v) xs | _ \<Rightarrow> Inl jsonError)"

definition dec_raws :: "json \<Rightarrow> err + raw list" where
  "dec_raws j = (case j of JNull \<Rightarrow> Inr [] | JArr xs \<Rightarrow> Inr (map fst xs) | _ \<Rightarrow> Inl jsonError)"

definition fieldOf :: "string \<Rightarrow> (json \<Rightarrow> err + 'a) \<Rightarrow> json \<Rightarrow> err + 'a" where
  "fieldOf k f j = ebind (jget k j) f"

section \<open>Requests\<close>

datatype acceptPolicy = acceptOKOnly | acceptAny2xx

fun accept_ok :: "acceptPolicy \<Rightarrow> int \<Rightarrow> bool" where
  "accept_ok acceptAny2xx code \<longleftrightarrow> 200 \<le> code \<and> code < 300"
| "accept_ok acceptOKOnly code \<longleftrightarrow> code = 200"

definition statusError :: "string \<Rightarrow> string \<Rightarrow> HttpResponse \<Rightarrow> err" where
  "statusError method path resp = method @ '' '' @ path @ '': '' @ hr_Status resp @ '': '' @ take 512 (hr_Body resp)"

text \<open>A body is absent (\<open>None\<close>), could not be marshalled (\<open>Some None\<close>), or is a text.\<close>

type_synonym req_body = "string option option"

text \<open>\<open>doJSONAccept\<close> up to the test of the status; the accepted answer.\<close>

definition exchange ::
    "'w HTTPClient \<Rightarrow> string \<Rightarrow> string \<Rightarrow> req_body \<Rightarrow> (int \<Rightarrow> bool) \<Rightarrow> 'w \<Rightarrow> (err + HttpResponse) \<times> 'w" where
  "exchange c method path body accept w =
     (if body = Some None then (Inl jsonError, w)
      else case hc_Do c \<lparr>rq_Method = method, rq_URL = hc_BaseURL c @ path,
          rq_Body = (case body of None \<Rightarrow> None | Some b \<Rightarrow> b)\<rparr> w of
        (Inl e, w) \<Rightarrow> (Inl e, w)
      | (Inr resp, w) \<Rightarrow>
          (if accept (hr_Code resp) then Inr resp else Inl (statusError method path resp), w))"

text \<open>The two ends of \<open>doJSONAccept\<close>: without a result, and with one, in the envelope \<open>result\<close>.\<close>

definition doJSON_nil :: "'w HTTPClient \<Rightarrow> string \<Rightarrow> string \<Rightarrow> req_body \<Rightarrow> acceptPolicy \<Rightarrow> 'w \<Rightarrow> err option \<times> 'w" where
  "doJSON_nil c method path body accept w =
     (case exchange c method path body (accept_ok accept) w of
        (Inl e, w) \<Rightarrow> (Some e, w) | (Inr _, w) \<Rightarrow> (None, w))"

definition envelope :: "(json \<Rightarrow> err + 'a) \<Rightarrow> HttpResponse \<Rightarrow> err + 'a" where
  "envelope dec resp =
     (case Decode (hr_Body resp) of
        None \<Rightarrow> Inl jsonError
      | Some j \<Rightarrow> ebind (jraw ''result'' j) (\<lambda>x. case x of None \<Rightarrow> Inl jsonError | Some (_, v) \<Rightarrow> dec v))"

definition doJSON :: "'w HTTPClient \<Rightarrow> string \<Rightarrow> string \<Rightarrow> req_body \<Rightarrow> (json \<Rightarrow> err + 'a) \<Rightarrow> 'w \<Rightarrow> (err + 'a) \<times> 'w" where
  "doJSON c method path body dec w =
     (case exchange c method path body (accept_ok acceptOKOnly) w of
        (Inl e, w) \<Rightarrow> (Inl e, w) | (Inr resp, w) \<Rightarrow> (envelope dec resp, w))"

section \<open>Collections (http.go)\<close>

definition dec_collection :: "json \<Rightarrow> err + CollectionInfo" where
  "dec_collection j =
     ebind (fieldOf ''status'' dec_str j) (\<lambda>_.
     ebind (jget ''result'' j) (\<lambda>result.
     ebind (fieldOf ''points_count'' dec_u64 result) (\<lambda>points.
     ebind (jget ''config'' result) (\<lambda>config.
     ebind (jget ''params'' config) (\<lambda>params.
     ebind (jget ''vectors'' params) (\<lambda>vectors.
     ebind (fieldOf ''size'' dec_u64 vectors) (\<lambda>sz.
     ebind (fieldOf ''distance'' dec_str vectors) (\<lambda>distance.
     ebind (fieldOf ''shard_number'' dec_u32 params) (\<lambda>shards.
     ebind (fieldOf ''replication_factor'' dec_u32 params) (\<lambda>rf.
     Inr \<lparr>ci_Exists = True, ci_PointsCount = points, ci_VectorSize = sz, ci_Distance = distance,
       ci_ShardNumber = shards, ci_ReplicationFactor = rf\<rparr>))))))))))"

definition absentCollection :: CollectionInfo where
  "absentCollection = \<lparr>ci_Exists = False, ci_PointsCount = 0, ci_VectorSize = 0, ci_Distance = [],
     ci_ShardNumber = 0, ci_ReplicationFactor = 0\<rparr>"

definition http_GetCollection :: "'w HTTPClient \<Rightarrow> string \<Rightarrow> 'w \<Rightarrow> (err + CollectionInfo) \<times> 'w" where
  "http_GetCollection c name w =
     (case exchange c ''GET'' (''/collections/'' @ name) None (\<lambda>code. code = 404 \<or> code = 200) w of
        (Inl e, w) \<Rightarrow> (Inl e, w)
      | (Inr resp, w) \<Rightarrow>
          (if hr_Code resp = 404 then Inr absentCollection
           else case Decode (hr_Body resp) of None \<Rightarrow> Inl jsonError | Some j \<Rightarrow> dec_collection j, w))"

definition createBody :: "CollectionSpec \<Rightarrow> string" where
  "createBody spec = mobj [(''replication_factor'', mu32 (csp_ReplicationFactor spec)), (''shard_number'', mu32 (csp_ShardNumber spec)),
     (''vectors'', mobj [(''distance'', mstr (csp_Distance spec)), (''size'', mu64 (csp_VectorSize spec))])]"

definition http_CreateCollection :: "'w HTTPClient \<Rightarrow> string \<Rightarrow> CollectionSpec \<Rightarrow> 'w \<Rightarrow> err option \<times> 'w" where
  "http_CreateCollection c name spec = doJSON_nil c ''PUT'' (''/collections/'' @ name) (Some (Some (createBody spec))) acceptOKOnly"

definition http_DeleteCollection :: "'w HTTPClient \<Rightarrow> string \<Rightarrow> 'w \<Rightarrow> err option \<times> 'w" where
  "http_DeleteCollection c name w =
     (case exchange c ''DELETE'' (''/collections/'' @ name) None (\<lambda>code. code = 200 \<or> code = 404) w of
        (Inl e, w) \<Rightarrow> (Some e, w) | (Inr _, w) \<Rightarrow> (None, w))"

section \<open>Cluster (cluster.go)\<close>

definition http_ListCollections :: "'w HTTPClient \<Rightarrow> 'w \<Rightarrow> (err + string list) \<times> 'w" where
  "http_ListCollections c = doJSON c ''GET'' ''/collections'' None (\<lambda>j.
     ebind (fieldOf ''collections'' (dec_list (fieldOf ''name'' dec_str)) j) (\<lambda>names. Inr (sort names)))"

text \<open>A Go map has one entry per key, the last one of the text.\<close>

definition dec_peers :: "json \<Rightarrow> err + (string \<times> string) list" where
  "dec_peers j = (case j of
     JNull \<Rightarrow> Inr []
   | JObj ms \<Rightarrow> ebind (emap (\<lambda>(k, _, v). ebind (fieldOf ''uri'' dec_str v) (\<lambda>u. Inr (k, u))) ms)
       (\<lambda>kus. Inr (fold (\<lambda>(k, u) m. AList.update k u m) kus []))
   | _ \<Rightarrow> Inl jsonError)"

definition peerOf :: "string \<times> string \<Rightarrow> err + Peer" where
  "peerOf ku = (case ParseUint64 (fst ku) of
     (n, None) \<Rightarrow> Inr \<lparr>peer_ID = n, peer_URI = snd ku\<rparr>
   | _ \<Rightarrow> Inl (''peers key '' @ fst ku))"

definition dec_cluster :: "json \<Rightarrow> err + ClusterInfo" where
  "dec_cluster j =
     ebind (fieldOf ''status'' dec_str j) (\<lambda>status.
     ebind (fieldOf ''peer_id'' dec_u64 j) (\<lambda>self.
     ebind (fieldOf ''peers'' dec_peers j) (\<lambda>peers.
     ebind (jget ''raft_info'' j) (\<lambda>raft.
     ebind (fieldOf ''leader'' dec_u64 raft) (\<lambda>leader.
     ebind (fieldOf ''pending_operations'' dec_int raft) (\<lambda>pending.
     ebind (emap peerOf peers) (\<lambda>ps.
     Inr \<lparr>clu_Enabled = (status = ''enabled''), clu_PeerID = self,
       clu_Peers = sort_func (\<lambda>a b. go_compare (peer_ID a) (peer_ID b)) ps,
       clu_RaftLeader = leader, clu_PendingOperations = pending\<rparr>)))))))"

definition http_ClusterInfo :: "'w HTTPClient \<Rightarrow> 'w \<Rightarrow> (err + ClusterInfo) \<times> 'w" where
  "http_ClusterInfo c = doJSON c ''GET'' ''/cluster'' None dec_cluster"

definition dec_local :: "json \<Rightarrow> err + (u32 \<times> u64 \<times> string)" where
  "dec_local j =
     ebind (fieldOf ''shard_id'' dec_u32 j) (\<lambda>sid.
     ebind (fieldOf ''points_count'' dec_u64 j) (\<lambda>points.
     ebind (fieldOf ''state'' dec_str j) (\<lambda>state. Inr (sid, points, state))))"

definition dec_remote :: "json \<Rightarrow> err + ShardInfo" where
  "dec_remote j =
     ebind (fieldOf ''shard_id'' dec_u32 j) (\<lambda>sid.
     ebind (fieldOf ''peer_id'' dec_u64 j) (\<lambda>peer.
     ebind (fieldOf ''state'' dec_str j) (\<lambda>state.
     Inr \<lparr>sh_ShardID = sid, sh_PeerID = peer, sh_State = state, sh_PointsCount = 0\<rparr>)))"

definition dec_transfer :: "json \<Rightarrow> err + TransferInfo" where
  "dec_transfer j =
     ebind (fieldOf ''shard_id'' dec_u32 j) (\<lambda>sid.
     ebind (fieldOf ''from'' dec_u64 j) (\<lambda>from.
     ebind (fieldOf ''to'' dec_u64 j) (\<lambda>to.
     ebind (fieldOf ''method'' dec_str j) (\<lambda>method.
     Inr \<lparr>tr_ShardID = sid, tr_From = from, tr_To = to, tr_Method = method\<rparr>))))"

definition dec_collection_cluster :: "json \<Rightarrow> err + CollectionClusterInfo" where
  "dec_collection_cluster j =
     ebind (fieldOf ''peer_id'' dec_u64 j) (\<lambda>self.
     ebind (fieldOf ''shard_count'' dec_int j) (\<lambda>count.
     ebind (fieldOf ''local_shards'' (dec_list dec_local) j) (\<lambda>locals.
     ebind (fieldOf ''remote_shards'' (dec_list dec_remote) j) (\<lambda>remotes.
     ebind (fieldOf ''shard_transfers'' (dec_list dec_transfer) j) (\<lambda>transfers.
     Inr \<lparr>cc_PeerID = self, cc_ShardCount = count,
       cc_Shards = map (\<lambda>(sid, points, state). \<lparr>sh_ShardID = sid, sh_PeerID = self, sh_State = state, sh_PointsCount = points\<rparr>) locals @ remotes,
       cc_Transfers = transfers\<rparr>)))))"

definition http_CollectionCluster :: "'w HTTPClient \<Rightarrow> string \<Rightarrow> 'w \<Rightarrow> (err + CollectionClusterInfo) \<times> 'w" where
  "http_CollectionCluster c name = doJSON c ''GET'' (''/collections/'' @ name @ ''/cluster'') None dec_collection_cluster"

definition transferMethodStreamRecords :: string where "transferMethodStreamRecords = ''stream_records''"

definition transferBody :: "string \<Rightarrow> u32 \<Rightarrow> u64 \<Rightarrow> u64 \<Rightarrow> string" where
  "transferBody op sid from to = mobj [(op, mobj [(''from_peer_id'', mu64 from), (''method'', mstr transferMethodStreamRecords),
     (''shard_id'', mu32 sid), (''to_peer_id'', mu64 to)])]"

definition clusterOp :: "'w HTTPClient \<Rightarrow> string \<Rightarrow> string \<Rightarrow> 'w \<Rightarrow> err option \<times> 'w" where
  "clusterOp c coll body = doJSON_nil c ''POST'' (''/collections/'' @ coll @ ''/cluster'') (Some (Some body)) acceptOKOnly"

definition http_MoveShard :: "'w HTTPClient \<Rightarrow> string \<Rightarrow> u32 \<Rightarrow> u64 \<Rightarrow> u64 \<Rightarrow> 'w \<Rightarrow> err option \<times> 'w" where
  "http_MoveShard c coll sid from to = clusterOp c coll (transferBody ''move_shard'' sid from to)"

definition http_ReplicateShard :: "'w HTTPClient \<Rightarrow> string \<Rightarrow> u32 \<Rightarrow> u64 \<Rightarrow> u64 \<Rightarrow> 'w \<Rightarrow> err option \<times> 'w" where
  "http_ReplicateShard c coll sid from to = clusterOp c coll (transferBody ''replicate_shard'' sid from to)"

definition http_DropReplica :: "'w HTTPClient \<Rightarrow> string \<Rightarrow> u32 \<Rightarrow> u64 \<Rightarrow> 'w \<Rightarrow> err option \<times> 'w" where
  "http_DropReplica c coll sid peer =
     clusterOp c coll (mobj [(''drop_replica'', mobj [(''peer_id'', mu64 peer), (''shard_id'', mu32 sid)])])"

definition http_RemovePeer :: "'w HTTPClient \<Rightarrow> u64 \<Rightarrow> bool \<Rightarrow> 'w \<Rightarrow> err option \<times> 'w" where
  "http_RemovePeer c peer force =
     doJSON_nil c ''DELETE'' (''/cluster/peer/'' @ FormatUint peer @ (if force then ''?force=true'' else [])) None acceptOKOnly"

definition aliasBody :: "AliasAction \<Rightarrow> string" where
  "aliasBody a = mobj
     ((case aa_CreateAlias a of None \<Rightarrow> []
       | Some ca \<Rightarrow> [(''create_alias'', mobj [(''alias_name'', mstr (ca_AliasName ca)), (''collection_name'', mstr (ca_CollectionName ca))])]) @
      (case aa_DeleteAlias a of None \<Rightarrow> []
       | Some da \<Rightarrow> [(''delete_alias'', mobj [(''alias_name'', mstr (da_AliasName da))])]))"

definition http_UpdateAliases :: "'w HTTPClient \<Rightarrow> AliasAction list \<Rightarrow> 'w \<Rightarrow> err option \<times> 'w" where
  "http_UpdateAliases c acts =
     doJSON_nil c ''POST'' ''/collections/aliases'' (Some (Some (mobj [(''actions'', marr (map aliasBody acts))]))) acceptOKOnly"

section \<open>Points and aliases (points.go)\<close>

definition scrollBody :: "raw option \<Rightarrow> int \<Rightarrow> string option" where
  "scrollBody offset limit =
     (let rest = [(''with_payload'', ''true''), (''with_vector'', ''true'')]; lim = (''limit'', FormatInt limit) in
      case offset of
        None \<Rightarrow> Some (mobj (lim # rest))
      | Some off \<Rightarrow>
          if off = [] then Some (mobj (lim # rest))
          else map_option (\<lambda>t. mobj (lim # (''offset'', t) # rest)) (mraw off))"

definition dec_scroll :: "json \<Rightarrow> err + raw list \<times> raw option" where
  "dec_scroll j =
     ebind (fieldOf ''points'' dec_raws j) (\<lambda>points.
     ebind (jraw ''next_page_offset'' j) (\<lambda>next.
     Inr (points, case next of None \<Rightarrow> None | Some (t, _) \<Rightarrow> if t = ''null'' then None else Some t)))"

definition http_ScrollPoints :: "'w HTTPClient \<Rightarrow> string \<Rightarrow> raw option \<Rightarrow> int \<Rightarrow> 'w \<Rightarrow> (err + raw list \<times> raw option) \<times> 'w" where
  "http_ScrollPoints c coll offset limit =
     doJSON c ''POST'' (''/collections/'' @ coll @ ''/points/scroll'') (Some (scrollBody offset limit)) dec_scroll"

definition http_UpsertPoints :: "'w HTTPClient \<Rightarrow> string \<Rightarrow> raw list \<Rightarrow> 'w \<Rightarrow> err option \<times> 'w" where
  "http_UpsertPoints c coll points =
     doJSON_nil c ''PUT'' (''/collections/'' @ coll @ ''/points?wait=true'')
       (Some (map_option (\<lambda>ts. mobj [(''points'', marr ts)]) (mraws points))) acceptOKOnly"

definition dec_aliases :: "json \<Rightarrow> err + (string \<rightharpoonup> string)" where
  "dec_aliases j =
     ebind (fieldOf ''aliases'' (dec_list (\<lambda>a.
       ebind (fieldOf ''alias_name'' dec_str a) (\<lambda>n. ebind (fieldOf ''collection_name'' dec_str a) (\<lambda>t. Inr (n, t))))) j)
     (\<lambda>as. Inr (fold (\<lambda>(n, t) m. m(n \<mapsto> t)) as Map.empty))"

definition http_ListAliases :: "'w HTTPClient \<Rightarrow> 'w \<Rightarrow> (err + (string \<rightharpoonup> string)) \<times> 'w" where
  "http_ListAliases c = doJSON c ''GET'' ''/aliases'' None dec_aliases"

section \<open>Snapshots (snapshot.go)\<close>

text \<open>\<open>url.PathEscape\<close>.\<close>

definition path_plain :: "char \<Rightarrow> bool" where
  "path_plain c \<longleftrightarrow> is_alpha c \<or> is_digit c \<or> c \<in> set ''-_.~$&+=:@''"

definition hexUp :: "nat \<Rightarrow> char" where
  "hexUp d = (if d < 10 then char_of (48 + d) else char_of (55 + d))"

definition escape_byte :: "char \<Rightarrow> string" where
  "escape_byte c = (if path_plain c then [c] else [CHR ''%'', hexUp (of_char c div 16), hexUp (of_char c mod 16)])"

definition PathEscape :: "string \<Rightarrow> string" where
  "PathEscape s = concat (map escape_byte s)"

definition http_CreateSnapshot :: "'w HTTPClient \<Rightarrow> string \<Rightarrow> 'w \<Rightarrow> err option \<times> 'w" where
  "http_CreateSnapshot c coll = doJSON_nil c ''POST'' (''/collections/'' @ PathEscape coll @ ''/snapshots?wait=false'') None acceptAny2xx"

definition dec_snapshot :: "json \<Rightarrow> err + SnapshotInfo" where
  "dec_snapshot j =
     ebind (fieldOf ''name'' dec_str j) (\<lambda>n.
     ebind (fieldOf ''creation_time'' dec_str j) (\<lambda>t.
     ebind (fieldOf ''size'' dec_u64 j) (\<lambda>sz. Inr \<lparr>sn_Name = n, sn_CreationTime = t, sn_Size = sz\<rparr>)))"

definition http_ListSnapshots :: "'w HTTPClient \<Rightarrow> string \<Rightarrow> 'w \<Rightarrow> (err + SnapshotInfo list) \<times> 'w" where
  "http_ListSnapshots c coll = doJSON c ''GET'' (''/collections/'' @ PathEscape coll @ ''/snapshots'') None (dec_list dec_snapshot)"

definition http_DeleteSnapshot :: "'w HTTPClient \<Rightarrow> string \<Rightarrow> string \<Rightarrow> 'w \<Rightarrow> err option \<times> 'w" where
  "http_DeleteSnapshot c coll name =
     doJSON_nil c ''DELETE'' (''/collections/'' @ PathEscape coll @ ''/snapshots/'' @ PathEscape name) None acceptOKOnly"

definition recoverBody :: "string \<Rightarrow> string \<Rightarrow> string" where
  "recoverBody location priority =
     mobj ((''location'', mstr location) # (if priority = [] then [] else [(''priority'', mstr priority)]))"

definition http_RecoverSnapshot :: "'w HTTPClient \<Rightarrow> string \<Rightarrow> string \<Rightarrow> string \<Rightarrow> 'w \<Rightarrow> err option \<times> 'w" where
  "http_RecoverSnapshot c coll location priority =
     doJSON_nil c ''PUT'' (''/collections/'' @ PathEscape coll @ ''/snapshots/recover'') (Some (Some (recoverBody location priority))) acceptOKOnly"

section \<open>The client\<close>

definition http_client :: "'w HTTPClient \<Rightarrow> 'w Client" where
  "http_client c = \<lparr>GetCollection = http_GetCollection c, CreateCollection = http_CreateCollection c,
     DeleteCollection = http_DeleteCollection c, ListCollections = http_ListCollections c,
     GetClusterInfo = http_ClusterInfo c, CollectionCluster = http_CollectionCluster c,
     MoveShard = http_MoveShard c, ReplicateShard = http_ReplicateShard c, DropReplica = http_DropReplica c,
     RemovePeer = http_RemovePeer c, UpdateAliases = http_UpdateAliases c, ListAliases = http_ListAliases c,
     ScrollPoints = http_ScrollPoints c, UpsertPoints = http_UpsertPoints c,
     CreateSnapshot = http_CreateSnapshot c, ListSnapshots = http_ListSnapshots c,
     DeleteSnapshot = http_DeleteSnapshot c, RecoverSnapshot = http_RecoverSnapshot c\<rparr>"

end
