(* ===== verification/Tls_Client.thy ===== *)
theory Tls_Client
  imports Http_Client Cluster_Env Resource_Safety
begin

text \<open>
  How the controllers connect to a cluster (\<open>internal/controller/tls.go\<close>, \<open>internal/qdrant/tls.go\<close>, the defaults
  of \<open>SetupWithManager\<close>): the CA is read from the Secret of the server, and the client verifies the server with
  it. Parameters: \<open>net\<close> is the network under a transport, \<open>certs\<close> the certificates \<open>x509.AppendCertsFromPEM\<close> finds in
  a text (it reports success when there is one), \<open>get\<close> the direct reader of Secrets.
\<close>

text \<open>\<open>http.Client\<close> with its transport: the roots (\<open>None\<close> is the set of the host) and the lowest TLS version (\<open>None\<close> is Go's default).\<close>

record 'cert Transport =
  tp_Timeout :: time
  tp_RootCAs :: "'cert list option"
  tp_MinVersion :: "string option"

type_synonym ('w, 'cert) network = "'cert Transport \<Rightarrow> HttpRequest \<Rightarrow> 'w \<Rightarrow> (err + HttpResponse) \<times> 'w"
type_synonym 'w secret_reader = "string \<Rightarrow> string \<Rightarrow> 'w \<Rightarrow> (kerr + (string \<rightharpoonup> string)) \<times> 'w"

definition VersionTLS12 :: string where "VersionTLS12 = ''TLS 1.2''"

definition NewHTTPClient :: "('w, 'cert) network \<Rightarrow> string \<Rightarrow> 'w HTTPClient" where
  "NewHTTPClient net baseURL =
     \<lparr>hc_BaseURL = baseURL, hc_Do = net \<lparr>tp_Timeout = 15 * Second, tp_RootCAs = None, tp_MinVersion = None\<rparr>\<rparr>"

definition NewHTTPSClient :: "('w, 'cert) network \<Rightarrow> (string \<Rightarrow> 'cert list) \<Rightarrow> string \<Rightarrow> string \<Rightarrow> err + 'w HTTPClient" where
  "NewHTTPSClient net certs baseURL caPEM =
     (let pool = certs caPEM in
      if pool = [] then Inl ''CA is not PEM''
      else Inr \<lparr>hc_BaseURL = baseURL,
        hc_Do = net \<lparr>tp_Timeout = 15 * Second, tp_RootCAs = Some pool, tp_MinVersion = Some VersionTLS12\<rparr>\<rparr>)"

text \<open>The CA of the Secret; the errors carry no more than their kind.\<close>

datatype ca_error = SecretUnreadable kerr | NoCAKey string | NilTLS

definition readCACert :: "'w secret_reader \<Rightarrow> QdrantCluster \<Rightarrow> 'w \<Rightarrow> (ca_error + string) \<times> 'w" where
  "readCACert get qc w =
     (case cfg_TLS (spec_Config (qc_Spec qc)) of
        None \<Rightarrow> (Inl NilTLS, w)
      | Some tls \<Rightarrow>
          (case get (qc_Namespace qc) (tls_SecretName tls) w of
             (Inl e, w) \<Rightarrow> (Inl (SecretUnreadable e), w)
           | (Inr data, w) \<Rightarrow>
               (let caKey = (if tls_CACertKey tls = [] then DefaultTLSCACertKey else tls_CACertKey tls) in
                (case data caKey of
                   None \<Rightarrow> Inl (NoCAKey caKey)
                 | Some ca \<Rightarrow> if ca = [] then Inl (NoCAKey caKey) else Inr ca, w))))"

definition newClusterClient ::
    "('w, 'cert) network \<Rightarrow> (string \<Rightarrow> 'cert list) \<Rightarrow> 'w secret_reader \<Rightarrow> QdrantCluster \<Rightarrow> string \<Rightarrow> 'w \<Rightarrow> 'w HTTPClient \<times> 'w" where
  "newClusterClient net certs get qc baseURL w =
     (if \<not> tlsEnabled qc then (NewHTTPClient net baseURL, w)
      else case readCACert get qc w of
        (Inl _, w) \<Rightarrow> (NewHTTPClient net baseURL, w)
      | (Inr ca, w) \<Rightarrow>
          (case NewHTTPSClient net certs baseURL ca of Inl _ \<Rightarrow> NewHTTPClient net baseURL | Inr c \<Rightarrow> c, w))"

text \<open>The clients a controller uses by default: of the client Service, and of one peer.\<close>

definition defaultClientFor where
  "defaultClientFor net certs get qc = newClusterClient net certs get qc (clientBaseURL qc)"

definition defaultClientForPeer where
  "defaultClientForPeer net certs get qc ordinal = newClusterClient net certs get qc (peerBaseURL qc ordinal)"

section \<open>Whom the operator trusts\<close>

text \<open>The certificates under a key of a Secret, and the transport they make: with none of them, the host's roots.\<close>

definition secret_pool :: "(string \<Rightarrow> 'cert list) \<Rightarrow> kerr + (string \<rightharpoonup> string) \<Rightarrow> string \<Rightarrow> 'cert list" where
  "secret_pool certs secret key = (case secret of
     Inl _ \<Rightarrow> []
   | Inr data \<Rightarrow> (case data key of None \<Rightarrow> [] | Some ca \<Rightarrow> if ca = [] then [] else certs ca))"

definition verifying :: "'cert list \<Rightarrow> 'cert Transport" where
  "verifying pool = (if pool = [] then \<lparr>tp_Timeout = 15 * Second, tp_RootCAs = None, tp_MinVersion = None\<rparr>
     else \<lparr>tp_Timeout = 15 * Second, tp_RootCAs = Some pool, tp_MinVersion = Some VersionTLS12\<rparr>)"

lemma newClusterClient_tls:
  assumes "tlsEnabled qc" and "cfg_TLS (spec_Config (qc_Spec qc)) = Some tls"
  shows "newClusterClient net certs get qc base w =
    (case get (qc_Namespace qc) (tls_SecretName tls) w of (secret, w') \<Rightarrow>
      (\<lparr>hc_BaseURL = base, hc_Do = net (verifying (secret_pool certs secret (snd (snd (tlsSecretKeys tls)))))\<rparr>, w'))"
  using assms
  by (auto simp: newClusterClient_def readCACert_def NewHTTPSClient_def NewHTTPClient_def secret_pool_def verifying_def tlsSecretKeys_def Let_def
      split: prod.split sum.split option.split)


end
