(* ===== verification/Top_Witnesses.thy ===== *)
theory Top_Witnesses
  imports Cluster_Safety Resource_Safety Cluster_Witnesses Tls_Client
begin

text \<open>The theorems on the manifests and on the top level of the cluster controller, on concrete clusters.\<close>

section \<open>Manifests\<close>

definition tlsCluster :: QdrantCluster where
  "tlsCluster = sampleCluster\<lparr>qc_Spec := blankSpec\<lparr>
     spec_Persistence := (spec_Persistence blankSpec)\<lparr>pers_Size := Some (K8sValue ''10Gi'')\<rparr>,
     spec_Config := (spec_Config blankSpec)\<lparr>cfg_TLSEnabled := True, cfg_TLS := Some \<lparr>tls_SecretName = ''certs'', tls_CertKey = [],
       tls_KeyKey = [], tls_CACertKey = [], tls_CertTTLSeconds = 0\<rparr>\<rparr>\<rparr>\<rparr>"

definition tlsSts :: StatefulSet where
  "tlsSts = the (BuildStatefulSet tlsCluster)"

lemma tls_built: "BuildStatefulSet tlsCluster = Some tlsSts"
  by (simp add: tlsSts_def BuildStatefulSet_def tlsCluster_def)

theorem sts_manifest_wellformed_witness:
  "distinct (map vol_Name (podVolumes tlsCluster) @ [StorageVolumeName]) \<and>
   container_ok (map vol_Name (podVolumes tlsCluster) @ [StorageVolumeName]) (qdrantContainer tlsCluster)"
  using sts_manifest_wellformed [OF tls_built] built_template [OF tls_built] by simp

theorem cluster_objects_wired_witness:
  "svc_Selector (BuildClientService tlsCluster) = pt_Labels (sts_Template tlsSts) \<and> sts_ServiceName tlsSts = ''q-headless''"
  using cluster_objects_wired [OF tls_built]
  by (simp add: BuildHeadlessService_def HeadlessName_def tlsCluster_def sampleCluster_def)

definition offline :: "(unit, nat) network" where
  "offline tr rq w = (Inl ''unreachable'', w)"


section \<open>Passes\<close>

text \<open>A cluster of two replicas whose StatefulSet has three, and an API server that has every object.\<close>

definition sizedCluster :: QdrantCluster where
  "sizedCluster = sampleCluster\<lparr>qc_Spec := blankSpec\<lparr>
     spec_Persistence := (spec_Persistence blankSpec)\<lparr>pers_Size := Some (K8sValue ''10Gi'')\<rparr>\<rparr>\<rparr>"

definition sizedSts :: StatefulSet where
  "sizedSts = the (BuildStatefulSet sizedCluster)"

lemma sized_built: "BuildStatefulSet sizedCluster = Some sizedSts"
  by (simp add: sizedSts_def BuildStatefulSet_def sizedCluster_def)

definition topR :: "StatefulSet \<Rightarrow> Fake ClusterReconciler" where
  "topR live = fakeR\<lparr>r_GetStatefulSet := \<lambda>_ _ w. (Inr live, w), r_GetVersion := \<lambda>_ _ _ w. (Inr ''7'', w)\<rparr>"

lemma topR_owner: "owner_ok (topR live)"
  unfolding owner_ok_def
proof (intro allI impI)
  fix qc ob ob'
  assume "r_SetControllerReference (topR live) qc ob = Inr ob'"
  then have "ob' = ob" by (simp add: topR_def fakeR_def)
  moreover have "ob = obj_setMeta id ob" by (cases ob) simp_all
  ultimately have "ob' = obj_setMeta id ob" by simp
  then show "\<exists>f. ob' = obj_setMeta f ob \<and> om_Name (obj_Meta ob') = om_Name (obj_Meta ob) \<and>
      om_Namespace (obj_Meta ob') = om_Namespace (obj_Meta ob)" by (intro exI [of _ id]) simp
qed

definition topRun :: "(kerr + Result) \<times> (Fake, effect) sys" where
  "topRun = run_state (reconcileCluster (topR (sizedSts\<lparr>sts_Replicas := Some 1\<rparr>)) sizedCluster) sys0"




text \<open>Both shards of a collection on the first of two peers: the pass moves one.\<close>

definition lopsided :: "(Fake, effect) sys" where
  "lopsided = \<lparr>world = NewFake\<lparr>fk_PeersList := [\<lparr>peer_ID = 1, peer_URI = ''u''\<rparr>, \<lparr>peer_ID = 2, peer_URI = ''v''\<rparr>],
     fk_Collections := [(''c'', \<lparr>ci_Exists = True, ci_PointsCount = 0, ci_VectorSize = 4, ci_Distance = ''Dot'',
       ci_ShardNumber = 2, ci_ReplicationFactor = 1\<rparr>)],
     fk_Placement := [(''c'', [(0, 1), (1, 1)])]\<rparr>, trace = []\<rparr>"

definition readySts :: StatefulSet where
  "readySts = blankSts\<lparr>sts_Replicas := Some 2, sts_StatusReplicas := 2, sts_ReadyReplicas := 2\<rparr>"

definition gatedEnd :: "(kerr + Result) \<times> (Fake, effect) sys" where
  "gatedEnd = run_state (reconcileStatus (topR readySts) sampleCluster readySts) lopsided"

lemma gated_moves: "Qdrant None (QMoveShard ''c'' 0 1 2) True \<in> set (trace (snd gatedEnd))"
  by code_simp

theorem cluster_shard_ops_gated_witness:
  "\<exists>live s1 qc1 obs qc2 s2. run_state (k_GetStatefulSet (topR readySts) [] []) lopsided = (Inr live, s1) \<and>
    sts_ReadyReplicas live = 2 \<and> run_state (observe (topR readySts) qc1) s1 = ((Some obs, qc2), s2) \<and> int (length (o_Peers obs)) = 2"
proof -
  have run: "run_state (reconcileStatus (topR readySts) sampleCluster readySts) lopsided = (fst gatedEnd, snd gatedEnd)"
    by (simp add: gatedEnd_def)
  have tr: "trace (snd gatedEnd) = trace lopsided @ trace (snd gatedEnd)" by (simp add: lopsided_def)
  have "sts_Namespace readySts = []" "sts_Name readySts = []" "spec_Replicas (qc_Spec sampleCluster) = 2"
    by (simp_all add: readySts_def blankSts_def sampleCluster_def blankSpec_def)
  then show ?thesis using cluster_shard_ops_gated [OF run tr gated_moves] by (simp; blast)
qed

end
