(* ===== verification/Backup_Plan.thy ===== *)
theory Backup_Plan
  imports Qdrant_Client
begin

text \<open>
  The pure part of the backup controller (\<open>internal/controller/backup.go\<close>): which snapshots a
  generation consists of, how a new snapshot is recognised, what retention may delete, and when a
  generation is due. The cron library (\<open>github.com/robfig/cron/v3\<close>) is the parameter \<open>cron\<close>: it
  parses a schedule to the function that gives the next activation after a time, or fails.
\<close>

type_synonym cron_lib = "string \<Rightarrow> (time \<Rightarrow> time) option"

definition snapshotAppearDeadline :: duration where "snapshotAppearDeadline = 30 * Minute"

declare snapshotAppearDeadline_def [go_consts]

definition pendingOf :: "string \<Rightarrow> int \<Rightarrow> PendingSnapshot" where
  "pendingOf coll ord = \<lparr>pend_Collection = coll, pend_Peer = ord, pend_IssuedAt = None, pend_Known = []\<rparr>"

definition planGeneration :: "string list \<Rightarrow> int \<Rightarrow> PendingSnapshot list" where
  "planGeneration collections peers =
     (if peers < 1 then []
      else concat (map (\<lambda>coll. map (\<lambda>i. pendingOf coll (int i)) [0..<nat peers]) (sort collections)))"

definition newSnapshotName :: "string list \<Rightarrow> SnapshotInfo list \<Rightarrow> SnapshotInfo option" where
  "newSnapshotName prev now =
     (case sort_func (\<lambda>a b. go_compare (sn_Name a) (sn_Name b)) (filter (\<lambda>s. sn_Name s \<notin> set prev) now) of
        [] \<Rightarrow> None | s # _ \<Rightarrow> Some s)"

text \<open>Newest first; the creation time may be empty, the name breaks ties.\<close>

definition cmpSnapshots :: "SnapshotInfo \<Rightarrow> SnapshotInfo \<Rightarrow> int" where
  "cmpSnapshots a b =
     (if sn_CreationTime a \<noteq> sn_CreationTime b then go_compare (sn_CreationTime b) (sn_CreationTime a)
      else go_compare (sn_Name b) (sn_Name a))"

definition prunable :: "SnapshotInfo list \<Rightarrow> int \<Rightarrow> string list" where
  "prunable snapshots keepLast =
     (if keepLast < 1 \<or> i32 (int (length snapshots)) \<le> keepLast then []
      else map sn_Name (drop (nat keepLast) (sort_func cmpSnapshots snapshots)))"

definition nextRun :: "cron_lib \<Rightarrow> string \<Rightarrow> time \<Rightarrow> time option" where
  "nextRun cron schedule after =
     (if schedule = [] then None else map_option (\<lambda>next. next after) (cron schedule))"

definition dueNow :: "cron_lib \<Rightarrow> QdrantBackup \<Rightarrow> time \<Rightarrow> bool" where
  "dueNow cron bk now \<longleftrightarrow>
     \<not> (bks_Suspend (bk_Spec bk) \<or> bks_Schedule (bk_Spec bk) = []) \<and>
     (case bst_LastSuccessTime (bk_Status bk) of
        None \<Rightarrow> True
      | Some t \<Rightarrow> (case nextRun cron (bks_Schedule (bk_Spec bk)) t of None \<Rightarrow> False | Some next \<Rightarrow> next \<le> now))"

definition oneShotDue :: "QdrantBackup \<Rightarrow> bool" where
  "oneShotDue bk \<longleftrightarrow> bks_Schedule (bk_Spec bk) = [] \<and> bst_LastSuccessTime (bk_Status bk) = None \<and>
     \<not> bks_Suspend (bk_Spec bk)"

definition upd_bk :: "(QdrantBackupStatus \<Rightarrow> QdrantBackupStatus) \<Rightarrow> QdrantBackup \<Rightarrow> QdrantBackup" where
  "upd_bk f bk = bk\<lparr>bk_Status := f (bk_Status bk)\<rparr>"

lemma upd_bk_sel [simp]:
  "bk_Status (upd_bk f bk) = f (bk_Status bk)" "bk_Spec (upd_bk f bk) = bk_Spec bk"
  "bk_Name (upd_bk f bk) = bk_Name bk" "bk_Namespace (upd_bk f bk) = bk_Namespace bk"
  "bk_Generation (upd_bk f bk) = bk_Generation bk"
  by (simp_all add: upd_bk_def)

definition setNextSchedule :: "cron_lib \<Rightarrow> QdrantBackup \<Rightarrow> time \<Rightarrow> QdrantBackup" where
  "setNextSchedule cron bk now =
     (if bks_Schedule (bk_Spec bk) = [] \<or> bks_Suspend (bk_Spec bk)
      then upd_bk (\<lambda>s. s\<lparr>bst_NextScheduleTime := None\<rparr>) bk
      else case nextRun cron (bks_Schedule (bk_Spec bk)) now of
        None \<Rightarrow> bk
      | Some next \<Rightarrow> upd_bk (\<lambda>s. s\<lparr>bst_NextScheduleTime := Some next\<rparr>) bk)"

section \<open>Properties\<close>

definition pend_key :: "PendingSnapshot \<Rightarrow> string \<times> int" where
  "pend_key p = (pend_Collection p, pend_Peer p)"

definition snap_key :: "SnapshotRef \<Rightarrow> string \<times> int" where
  "snap_key s = (sr_Collection s, sr_Peer s)"

lemma count_row: "count (mset (map (\<lambda>i. (c', int i)) [0..<n])) (c, i) =
    (if c = c' \<and> 0 \<le> i \<and> i < int n then 1 else 0)"
  by (induction n) auto

lemma planGeneration_keys:
  "map pend_key (planGeneration collections peers) =
     concat (map (\<lambda>c. map (\<lambda>i. (c, int i)) [0..<nat peers]) (sort collections))"
  by (simp add: planGeneration_def map_concat comp_def pend_key_def pendingOf_def)

lemma count_plan:
  "count (mset (map pend_key (planGeneration collections peers))) (coll, ord) =
     (if 0 \<le> ord \<and> ord < peers then count (mset collections) coll else 0)"
proof -
  have rows: "count (mset (concat (map (\<lambda>c. map (\<lambda>i. (c, int i)) [0..<nat peers]) xs))) (coll, ord) =
      (if 0 \<le> ord \<and> ord < int (nat peers) then count (mset xs) coll else 0)" for xs
    by (induction xs) (simp_all add: count_row del: mset_map mset_upt)
  show ?thesis unfolding planGeneration_keys rows by auto
qed

section \<open>Recognising the new snapshot\<close>

lemma newSnapshotName_None: "newSnapshotName prev now = None \<longleftrightarrow> sn_Name ` set now \<subseteq> set prev"
proof -
  have hd_none: "(case l of [] \<Rightarrow> None | s # _ \<Rightarrow> Some s) = None \<longleftrightarrow> l = []" for l :: "SnapshotInfo list"
    by (cases l) simp_all
  have "newSnapshotName prev now = None \<longleftrightarrow> filter (\<lambda>s. sn_Name s \<notin> set prev) now = []"
    unfolding newSnapshotName_def hd_none sort_func_eq_Nil ..
  then show ?thesis by (auto simp: filter_empty_conv)
qed

lemma newSnapshotName_Some:
  assumes "newSnapshotName prev now = Some s"
  shows "s \<in> set now \<and> sn_Name s \<notin> set prev \<and>
    (\<forall>t. t \<in> set now \<and> sn_Name t \<notin> set prev \<longrightarrow> sn_Name s \<le> sn_Name t)"
proof -
  obtain rest where srt: "sort_func (\<lambda>a b. go_compare (sn_Name a) (sn_Name b))
      (filter (\<lambda>s. sn_Name s \<notin> set prev) now) = s # rest"
    using assms by (auto simp: newSnapshotName_def split: list.splits)
  have "s \<in> set (filter (\<lambda>s. sn_Name s \<notin> set prev) now)"
    using arg_cong [OF srt, of set] by auto
  moreover have "sn_Name s \<le> sn_Name t" if "t \<in> set now" "sn_Name t \<notin> set prev" for t
    using compare_by.sort_func_hd_least [OF srt, of t] that by (auto simp: go_compare_le)
  ultimately show ?thesis by auto
qed

text \<open>
  The snapshot a backup attributes to itself is one that is listed now and was not listed when
  the snapshot was issued, the least such by name; none is attributed exactly when every listed
  snapshot was there before.
\<close>

theorem newSnapshotName_spec:
  "case newSnapshotName prev now of
     None \<Rightarrow> sn_Name ` set now - set prev = {}
   | Some s \<Rightarrow> s \<in> set now \<and> sn_Name s = Min (sn_Name ` set now - set prev) \<and> sn_Name s \<notin> set prev"
proof (cases "newSnapshotName prev now")
  case None
  then show ?thesis using newSnapshotName_None [of prev now] by auto
next
  case (Some s)
  have "Min (sn_Name ` set now - set prev) = sn_Name s"
    by (rule Min_eqI) (use newSnapshotName_Some [OF Some] in auto)
  then show ?thesis using newSnapshotName_Some [OF Some] Some by simp
qed

section \<open>Retention\<close>

interpretation snapshot_order: go_cmp cmpSnapshots
  by unfold_locales (auto simp: cmpSnapshots_def go_compare_def split: if_splits)

lemma cmpSnapshots_le:
  "cmpSnapshots a b \<le> 0 \<longleftrightarrow>
     sn_CreationTime b < sn_CreationTime a \<or>
     sn_CreationTime a = sn_CreationTime b \<and> sn_Name b \<le> sn_Name a"
  by (auto simp: cmpSnapshots_def go_compare_def)

text \<open>
  Retention deletes exactly what is older than the newest \<open>keepLast\<close> snapshots: the listed
  snapshots split into the kept and the deleted ones, \<open>keepLast\<close> of them are kept, and each kept one
  was created later than each deleted one (at equal creation time the greater name is kept).
\<close>

theorem prunable_keeps_newest:
  assumes "1 \<le> keepLast" and "keepLast < int (length snapshots)" and "is_i32 (int (length snapshots))"
  shows "\<exists>kept gone. mset snapshots = mset kept + mset gone \<and> int (length kept) = keepLast \<and>
    prunable snapshots keepLast = map sn_Name gone \<and>
    list_all (\<lambda>k. list_all (\<lambda>g. cmpSnapshots k g \<le> 0) gone) kept"
proof -
  let ?l = "sort_func cmpSnapshots snapshots"
  let ?k = "take (nat keepLast) ?l" and ?g = "drop (nat keepLast) ?l"
  have "mset snapshots = mset ?k + mset ?g"
    by (metis append_take_drop_id mset_append mset_sort_func)
  moreover have "int (length ?k) = keepLast" using assms by simp
  moreover have "prunable snapshots keepLast = map sn_Name ?g" using assms by (simp add: prunable_def)
  moreover have "list_all (\<lambda>k. list_all (\<lambda>g. cmpSnapshots k g \<le> 0) ?g) ?k"
  proof -
    have "sorted_wrt (\<lambda>a b. cmpSnapshots a b \<le> 0) (?k @ ?g)"
      unfolding append_take_drop_id by (rule snapshot_order.sort_func_sorted)
    then show ?thesis unfolding sorted_wrt_append list_all_iff by blast
  qed
  ultimately show ?thesis by blast
qed

end
