(* ===== verification/Backup_Controller.thy ===== *)
theory Backup_Controller
  imports Backup_Plan Cluster_Env Go_Strings
begin

text \<open>
  The backup controller (\<open>internal/controller/qdrantbackup_controller.go\<close>): one handler, \<open>Reconcile\<close>,
  that moves a generation of snapshots one step per pass. A pass settles the snapshot in flight, or
  issues the next one, or, when the queue is empty, closes the generation and opens the next one when
  it is due. The status of the resource is the only memory between passes.

  \<open>settle\<close>, \<open>issue\<close>, \<open>idle\<close>, \<open>openGeneration\<close> and \<open>advance\<close> return a delay and an error that is
  always nil; the model returns the delay and the updated object. \<open>b_Now\<close> is the method \<open>now\<close> (the
  injected clock), \<open>b_Clock\<close> is \<open>time.Now\<close>, which \<open>time.Since\<close> and \<open>time.Until\<close> read.
\<close>

record 'w BackupReconciler =
  b_Meta :: meta_lib
  b_Cron :: cron_lib
  b_Now :: "'w \<Rightarrow> time"
  b_Clock :: "'w \<Rightarrow> time"
  b_GetBackup :: "string \<Rightarrow> string \<Rightarrow> 'w \<Rightarrow> (kerr + QdrantBackup) \<times> 'w"
  b_GetCluster :: "string \<Rightarrow> string \<Rightarrow> 'w \<Rightarrow> (kerr + QdrantCluster) \<times> 'w"
  b_StatusUpdate :: "QdrantBackup \<Rightarrow> 'w \<Rightarrow> kerr option \<times> 'w"
  b_QdrantClientFor :: "QdrantCluster \<Rightarrow> 'w Client"
  b_QdrantClientForPeer :: "QdrantCluster \<Rightarrow> int \<Rightarrow> 'w Client"

section \<open>Constants\<close>

definition phaseBackupCreating :: string where "phaseBackupCreating = ''Creating''"
definition phaseBackupReady :: string where "phaseBackupReady = ''Ready''"
definition phaseBackupIdle :: string where "phaseBackupIdle = ''Idle''"
definition phaseBackupDegraded :: string where "phaseBackupDegraded = ''Degraded''"
definition reasonSnapshotFailed :: string where "reasonSnapshotFailed = ''SnapshotFailed''"
definition reasonScheduleValid :: string where "reasonScheduleValid = ''ScheduleInvalid''"
definition reasonBackupDone :: string where "reasonBackupDone = ''BackupCompleted''"

declare phaseBackupCreating_def [go_consts] phaseBackupReady_def [go_consts]
  phaseBackupIdle_def [go_consts] phaseBackupDegraded_def [go_consts]
  reasonSnapshotFailed_def [go_consts] reasonScheduleValid_def [go_consts] reasonBackupDone_def [go_consts]

section \<open>Kubernetes calls\<close>

definition b_get :: "'w BackupReconciler \<Rightarrow> string \<Rightarrow> string \<Rightarrow> ('w, kerr + QdrantBackup) io" where
  "b_get r ns n = perform (\<lambda>e. Kube (KGet ''QdrantBackup'' ns n) (ok_ksum e)) (b_GetBackup r ns n)"

definition b_cluster :: "'w BackupReconciler \<Rightarrow> string \<Rightarrow> string \<Rightarrow> ('w, kerr + QdrantCluster) io" where
  "b_cluster r ns n = perform (\<lambda>e. Kube (KGet ''QdrantCluster'' ns n) (ok_ksum e)) (b_GetCluster r ns n)"

definition b_status_update :: "'w BackupReconciler \<Rightarrow> QdrantBackup \<Rightarrow> ('w, kerr option) io" where
  "b_status_update r bk = perform (\<lambda>e. Kube (KStatusBackup (bk_Status bk)) (e = None)) (b_StatusUpdate r bk)"

lemmas b_defs = b_get_def b_cluster_def b_status_update_def

section \<open>Conditions and metrics\<close>

definition set_bk_cond ::
    "'w BackupReconciler \<Rightarrow> string \<Rightarrow> ConditionStatus \<Rightarrow> string \<Rightarrow> message \<Rightarrow> QdrantBackup \<Rightarrow> QdrantBackup" where
  "set_bk_cond r t st reason msg bk =
     upd_bk (\<lambda>s. s\<lparr>bst_Conditions := SetStatusCondition (b_Meta r) (bst_Conditions s)
       (mk_cond t st reason msg (bk_Generation bk))\<rparr>) bk"

definition backup_degrade :: "'w BackupReconciler \<Rightarrow> string \<Rightarrow> message \<Rightarrow> QdrantBackup \<Rightarrow> QdrantBackup" where
  "backup_degrade r reason msg bk =
     set_bk_cond r condDegraded ConditionTrue reason msg
       (upd_bk (\<lambda>s. s\<lparr>bst_Phase := phaseBackupDegraded\<rparr>) bk)"

definition clearDegraded :: "'w BackupReconciler \<Rightarrow> QdrantBackup \<Rightarrow> QdrantBackup" where
  "clearDegraded r bk =
     (case FindStatusCondition (b_Meta r) (bst_Conditions (bk_Status bk)) condDegraded of
        None \<Rightarrow> bk
      | Some c \<Rightarrow>
          if cond_Status c \<noteq> ConditionTrue then bk
          else set_bk_cond r condDegraded ConditionFalse reasonBackupDone
            (Msg ''backup succeeded, earlier failure withdrawn'' []) bk)"

text \<open>\<open>Time.Unix\<close>: seconds since 1970, for a time counted from year 1.\<close>

definition Unix :: "time \<Rightarrow> int" where
  "Unix t = t div Second - 62135596800"

definition backupLastSuccess :: "QdrantBackup \<Rightarrow> int \<Rightarrow> ('w, unit) io" where
  "backupLastSuccess bk v =
     emit (Metric ''backup_last_success_timestamp_seconds'' [bk_Namespace bk, bk_Name bk] v)"

definition backupSnapshots :: "QdrantBackup \<Rightarrow> int \<Rightarrow> ('w, unit) io" where
  "backupSnapshots bk v = emit (Metric ''backup_snapshots'' [bk_Namespace bk, bk_Name bk] v)"

definition forgetBackup :: "string \<Rightarrow> string \<Rightarrow> ('w, unit) io" where
  "forgetBackup ns n = do {
     emit (Forget ''backup_last_success_timestamp_seconds'' [ns, n]);
     emit (Forget ''backup_snapshots'' [ns, n])
   }"

lemmas metric_defs = backupLastSuccess_def backupSnapshots_def forgetBackup_def

section \<open>The steps of a generation\<close>

definition backup_settle ::
    "'w BackupReconciler \<Rightarrow> QdrantBackup \<Rightarrow> PendingSnapshot \<Rightarrow> QdrantCluster \<Rightarrow> ('w, duration \<times> QdrantBackup) io" where
  "backup_settle r bk active cluster = do {
     let qcl = b_QdrantClientForPeer r cluster (pend_Peer active);
     list \<leftarrow> q_ListSnapshots (Some (pend_Peer active)) qcl (pend_Collection active);
     case list of
       Inl _ \<Rightarrow> State_Monad.return (30 * Second, bk)
     | Inr list \<Rightarrow>
         (case newSnapshotName (pend_Known active) list of
            Some snap \<Rightarrow> State_Monad.return (Second,
              upd_bk (\<lambda>s. s\<lparr>bst_Snapshots := bst_Snapshots s @ [\<lparr>sr_Collection = pend_Collection active,
                sr_Peer = pend_Peer active, sr_Name = sn_Name snap, sr_CreatedAt = sn_CreationTime snap\<rparr>],
                bst_Active := None\<rparr>) bk)
          | None \<Rightarrow> do {
              clock \<leftarrow> inspect (b_Clock r);
              if (case pend_IssuedAt active of None \<Rightarrow> False | Some t \<Rightarrow> time_sub clock t < snapshotAppearDeadline)
              then State_Monad.return (30 * Second, upd_bk (\<lambda>s. s\<lparr>bst_Phase := phaseBackupCreating\<rparr>) bk)
              else do {
                let msg = Msg ''snapshot did not appear'' [ArgS (pend_Collection active), ArgN (pend_Peer active), ArgN snapshotAppearDeadline];
                let bk = backup_degrade r reasonSnapshotFailed msg bk;
                EmitWarning reasonSnapshotFailed msg;
                State_Monad.return (Minute, upd_bk (\<lambda>s. s\<lparr>bst_Active := None, bst_Pending := []\<rparr>) bk)
              }
            })
   }"

definition backup_issue ::
    "'w BackupReconciler \<Rightarrow> QdrantBackup \<Rightarrow> PendingSnapshot \<Rightarrow> PendingSnapshot list \<Rightarrow> QdrantCluster \<Rightarrow> ('w, duration \<times> QdrantBackup) io" where
  "backup_issue r bk next rest cluster = do {
     let qcl = b_QdrantClientForPeer r cluster (pend_Peer next);
     prev \<leftarrow> q_ListSnapshots (Some (pend_Peer next)) qcl (pend_Collection next);
     case prev of
       Inl _ \<Rightarrow> State_Monad.return (30 * Second, bk)
     | Inr prev \<Rightarrow> do {
         let next = next\<lparr>pend_Known := pend_Known next @ map sn_Name prev\<rparr>;
         e \<leftarrow> q_CreateSnapshot (Some (pend_Peer next)) qcl (pend_Collection next);
         case e of
           Some m \<Rightarrow> do {
             let bk = backup_degrade r reasonSnapshotFailed
               (Msg ''snapshot could not be issued'' [ArgS (pend_Collection next), ArgN (pend_Peer next), ArgS m]) bk;
             EmitWarning reasonSnapshotFailed (Text m);
             State_Monad.return (Minute, upd_bk (\<lambda>s. s\<lparr>bst_Pending := []\<rparr>) bk)
           }
         | None \<Rightarrow> do {
             issued \<leftarrow> inspect (b_Now r);
             let bk = upd_bk (\<lambda>s. s\<lparr>bst_Active := Some (next\<lparr>pend_IssuedAt := Some issued\<rparr>),
               bst_Pending := rest, bst_Phase := phaseBackupCreating\<rparr>) bk;
             Emit ''SnapshotIssued'' (Msg ''snapshot'' [ArgS (pend_Collection next), ArgN (pend_Peer next)]);
             State_Monad.return (10 * Second, bk)
           }
       }
   }"

definition generationJustFinished :: "QdrantBackup \<Rightarrow> bool" where
  "generationJustFinished bk \<longleftrightarrow>
     bst_Phase (bk_Status bk) = phaseBackupCreating \<and> bst_Active (bk_Status bk) = None \<and>
     bst_Pending (bk_Status bk) = []"

text \<open>\<open>openGeneration\<close> in two parts: the plan of the selected collections, and their selection.\<close>

definition startGeneration ::
    "'w BackupReconciler \<Rightarrow> QdrantBackup \<Rightarrow> QdrantCluster \<Rightarrow> string list \<Rightarrow> ('w, duration \<times> QdrantBackup) io" where
  "startGeneration r bk cluster collections =
     (let plan = planGeneration collections (spec_Replicas (qc_Spec cluster)) in
      if plan = [] then do {
        done \<leftarrow> inspect (b_Now r);
        let bk = upd_bk (\<lambda>s. s\<lparr>bst_LastSuccessTime := Some done, bst_Phase := phaseBackupReady\<rparr>) bk;
        backupLastSuccess bk (Unix done);
        backupSnapshots bk 0;
        State_Monad.return (5 * Minute, bk)
      }
      else State_Monad.return (Second,
        upd_bk (\<lambda>s. s\<lparr>bst_Snapshots := [], bst_Pending := plan, bst_Phase := phaseBackupCreating\<rparr>) bk))"

definition openGeneration ::
    "'w BackupReconciler \<Rightarrow> QdrantBackup \<Rightarrow> QdrantCluster \<Rightarrow> ('w, duration \<times> QdrantBackup) io" where
  "openGeneration r bk cluster =
     (if bks_Collections (bk_Spec bk) = [] then do {
        listed \<leftarrow> q_ListCollections None (b_QdrantClientFor r cluster);
        case listed of
          Inl m \<Rightarrow> State_Monad.return (30 * Second, backup_degrade r ''QdrantUnreachable'' (Text m) bk)
        | Inr collections \<Rightarrow> startGeneration r bk cluster collections
      }
      else startGeneration r bk cluster (bks_Collections (bk_Spec bk)))"

text \<open>
  \<open>prune\<close>, from the inside: deleting the given snapshots of a collection on a peer, one pair of a
  collection and a peer, and the loop over the snapshots of the generation, which visits each pair once.
\<close>

definition deleteSnapshots :: "'w Client \<Rightarrow> string \<Rightarrow> int \<Rightarrow> string list \<Rightarrow> ('w, unit) io" where
  "deleteSnapshots qcl coll peer names =
     foreach (\<lambda>name _. do {
       e \<leftarrow> q_DeleteSnapshot (Some peer) qcl coll name;
       case e of
         Some m \<Rightarrow> EmitWarning ''PruneFailed'' (Text m)
       | None \<Rightarrow> Emit ''SnapshotPruned'' (Msg ''pruned'' [ArgS coll, ArgN peer, ArgS name])
     }) names ()"

definition pruneOne :: "'w Client \<Rightarrow> string \<Rightarrow> int \<Rightarrow> int \<Rightarrow> ('w, unit) io" where
  "pruneOne qcl coll peer keepLast = do {
     list \<leftarrow> q_ListSnapshots (Some peer) qcl coll;
     case list of
       Inl _ \<Rightarrow> State_Monad.return ()
     | Inr list \<Rightarrow> deleteSnapshots qcl coll peer (prunable list keepLast)
   }"

definition prune_key :: "SnapshotRef \<Rightarrow> string" where
  "prune_key s = sr_Collection s @ ''@'' @ FormatInt (sr_Peer s)"

definition prune :: "'w BackupReconciler \<Rightarrow> QdrantBackup \<Rightarrow> QdrantCluster \<Rightarrow> ('w, unit) io" where
  "prune r bk cluster =
     (case bks_Retention (bk_Spec bk) of
        None \<Rightarrow> State_Monad.return ()
      | Some ret \<Rightarrow>
          if ret_KeepLast ret < 1 then State_Monad.return ()
          else do {
            foreach (\<lambda>s seen.
              if prune_key s \<in> set seen then State_Monad.return seen
              else do {
                pruneOne (b_QdrantClientForPeer r cluster (sr_Peer s)) (sr_Collection s) (sr_Peer s) (ret_KeepLast ret);
                State_Monad.return (prune_key s # seen)
              }) (bst_Snapshots (bk_Status bk)) [];
            State_Monad.return ()
          })"

text \<open>The part of \<open>idle\<close> that closes a generation, then \<open>idle\<close>.\<close>

definition closeGeneration ::
    "'w BackupReconciler \<Rightarrow> QdrantBackup \<Rightarrow> QdrantCluster \<Rightarrow> time \<Rightarrow> ('w, QdrantBackup) io" where
  "closeGeneration r bk cluster now =
     (if bst_Snapshots (bk_Status bk) \<noteq> [] \<and> generationJustFinished bk then do {
        let n = int (length (bst_Snapshots (bk_Status bk)));
        let bk = upd_bk (\<lambda>s. s\<lparr>bst_LastSuccessTime := Some now\<rparr>) bk;
        let bk = set_bk_cond r condReady ConditionTrue reasonBackupDone (Msg ''snapshots created'' [ArgN n]) bk;
        let bk = clearDegraded r bk;
        backupLastSuccess bk (Unix now);
        backupSnapshots bk n;
        Emit reasonBackupDone (Msg ''snapshots'' [ArgN n]);
        prune r bk cluster;
        State_Monad.return bk
      }
      else State_Monad.return bk)"

definition backup_idle ::
    "'w BackupReconciler \<Rightarrow> QdrantBackup \<Rightarrow> QdrantCluster \<Rightarrow> ('w, duration \<times> QdrantBackup) io" where
  "backup_idle r bk cluster = do {
     now \<leftarrow> inspect (b_Now r);
     bk \<leftarrow> closeGeneration r bk cluster now;
     let bk = upd_bk (\<lambda>s. s\<lparr>bst_ObservedGeneration := bk_Generation bk\<rparr>) bk;
     let bk = setNextSchedule (b_Cron r) bk now;
     if oneShotDue bk \<or> dueNow (b_Cron r) bk now then openGeneration r bk cluster
     else do {
       let bk = upd_bk (\<lambda>s. s\<lparr>bst_Phase :=
         if bst_LastSuccessTime s = None then phaseBackupIdle else phaseBackupReady\<rparr>) bk;
       clock \<leftarrow> inspect (b_Clock r);
       State_Monad.return
         ((case bst_NextScheduleTime (bk_Status bk) of
             None \<Rightarrow> 5 * Minute
           | Some t \<Rightarrow> let wait = time_sub t clock in if 0 < wait then min wait (5 * Minute) else 5 * Minute), bk)
     }
   }"

definition backup_advance ::
    "'w BackupReconciler \<Rightarrow> QdrantBackup \<Rightarrow> QdrantCluster \<Rightarrow> ('w, duration \<times> QdrantBackup) io" where
  "backup_advance r bk cluster =
     (case bst_Active (bk_Status bk) of
        Some active \<Rightarrow> backup_settle r bk active cluster
      | None \<Rightarrow>
          (case bst_Pending (bk_Status bk) of
             next # rest \<Rightarrow> backup_issue r bk next rest cluster
           | [] \<Rightarrow> backup_idle r bk cluster))"

definition backup_commit ::
    "'w BackupReconciler \<Rightarrow> QdrantBackup \<Rightarrow> QdrantBackupStatus \<Rightarrow> duration \<Rightarrow> ('w, kerr + Result) io" where
  "backup_commit r bk prev requeue =
     (if prev \<noteq> bk_Status bk then do {
        e \<leftarrow> b_status_update r bk;
        case e of
          Some k \<Rightarrow> State_Monad.return (Inl k)
        | None \<Rightarrow> State_Monad.return (Inr (requeueOrNothing requeue))
      }
      else State_Monad.return (Inr (requeueOrNothing requeue)))"

definition scheduleInvalid :: "'w BackupReconciler \<Rightarrow> QdrantBackup \<Rightarrow> ('w, bool) io" where
  "scheduleInvalid r bk =
     (if bks_Schedule (bk_Spec bk) = [] then State_Monad.return False
      else do {
        now \<leftarrow> inspect (b_Now r);
        State_Monad.return (nextRun (b_Cron r) (bks_Schedule (bk_Spec bk)) now = None)
      })"

definition backup_Reconcile :: "'w BackupReconciler \<Rightarrow> string \<Rightarrow> string \<Rightarrow> ('w, kerr + Result) io" where
  "backup_Reconcile r ns n = do {
     got \<leftarrow> b_get r ns n;
     case got of
       Inl KNotFound \<Rightarrow> do { forgetBackup ns n; State_Monad.return (Inr \<lparr>RequeueAfter = 0\<rparr>) }
     | Inl k \<Rightarrow> State_Monad.return (Inl k)
     | Inr bk \<Rightarrow> do {
         let prev = bk_Status bk;
         got \<leftarrow> b_cluster r (bk_Namespace bk) (bks_ClusterRef (bk_Spec bk));
         case got of
           Inl KNotFound \<Rightarrow>
             backup_commit r (backup_degrade r ''ClusterNotFound''
               (Msg ''cluster not found'' [ArgS (bks_ClusterRef (bk_Spec bk)), ArgS (bk_Namespace bk)]) bk)
               prev (30 * Second)
         | Inl k \<Rightarrow> State_Monad.return (Inl k)
         | Inr cluster \<Rightarrow> do {
             invalid \<leftarrow> scheduleInvalid r bk;
             if invalid then
               backup_commit r (backup_degrade r reasonScheduleValid
                 (Msg ''cron not understood'' [ArgS (bks_Schedule (bk_Spec bk))]) bk) prev 0
             else do {
               step \<leftarrow> backup_advance r bk cluster;
               backup_commit r (snd step) prev (fst step)
             }
           }
       }
   }"

end
