(* ===== verification/Backup_Safety.thy ===== *)
theory Backup_Safety
  imports Backup_Controller
begin

text \<open>
  What the backup controller promises: one snapshot at a time, only what was planned, a success only
  for a whole plan, and deletions only under a declared retention. The first part describes the runs
  of each step; the properties follow from these descriptions.
\<close>

section \<open>Effects\<close>

fun is_create :: "effect \<Rightarrow> bool" where
  "is_create (Qdrant _ (QCreateSnapshot _) _) = True"
| "is_create _ = False"

fun is_delete :: "effect \<Rightarrow> bool" where
  "is_delete (Qdrant _ (QDeleteSnapshot _ _) _) = True"
| "is_delete _ = False"

fun written :: "effect \<Rightarrow> QdrantBackupStatus option" where
  "written (Kube (KStatusBackup st) True) = Some st"
| "written _ = None"

fun is_write :: "effect \<Rightarrow> bool" where
  "is_write (Kube (KStatusBackup _) _) = True"
| "is_write _ = False"

definition quiet :: "effect \<Rightarrow> bool" where
  "quiet e \<longleftrightarrow> \<not> is_create e \<and> \<not> is_delete e \<and> \<not> is_write e"

lemma quiet_simps [simp]:
  "quiet (Event b t m)" "quiet (Metric t l i)" "quiet (Forget t l)"
  "quiet (Kube (KGet k x y) ok)" "quiet (Qdrant p (QListSnapshots c) ok)" "quiet (Qdrant p QListCollections ok)"
  "\<not> quiet (Qdrant p (QCreateSnapshot c) ok)"
  by (simp_all add: quiet_def)

lemma write_only: "is_write e \<Longrightarrow> \<not> is_create e \<and> \<not> is_delete e"
  by (cases e rule: is_write.cases) auto

lemma no_write_written: "\<not> is_write e \<Longrightarrow> written e = None"
  by (cases e rule: written.cases) auto

section \<open>Runs of the steps\<close>

lemma backup_degrade_sel [simp]:
  "bst_Phase (bk_Status (backup_degrade r t m bk)) = phaseBackupDegraded"
  "bst_Active (bk_Status (backup_degrade r t m bk)) = bst_Active (bk_Status bk)"
  "bst_Pending (bk_Status (backup_degrade r t m bk)) = bst_Pending (bk_Status bk)"
  "bst_Snapshots (bk_Status (backup_degrade r t m bk)) = bst_Snapshots (bk_Status bk)"
  "bst_LastSuccessTime (bk_Status (backup_degrade r t m bk)) = bst_LastSuccessTime (bk_Status bk)"
  "bk_Spec (backup_degrade r t m bk) = bk_Spec bk"
  by (simp_all add: backup_degrade_def set_bk_cond_def)

lemma clearDegraded_sel [simp]:
  "bst_Phase (bk_Status (clearDegraded r bk)) = bst_Phase (bk_Status bk)"
  "bst_Active (bk_Status (clearDegraded r bk)) = bst_Active (bk_Status bk)"
  "bst_Pending (bk_Status (clearDegraded r bk)) = bst_Pending (bk_Status bk)"
  "bst_Snapshots (bk_Status (clearDegraded r bk)) = bst_Snapshots (bk_Status bk)"
  "bst_LastSuccessTime (bk_Status (clearDegraded r bk)) = bst_LastSuccessTime (bk_Status bk)"
  "bk_Spec (clearDegraded r bk) = bk_Spec bk"
  by (simp_all add: clearDegraded_def set_bk_cond_def split: option.split)

lemma set_bk_cond_sel [simp]:
  "bst_Phase (bk_Status (set_bk_cond r t st rs m bk)) = bst_Phase (bk_Status bk)"
  "bst_Active (bk_Status (set_bk_cond r t st rs m bk)) = bst_Active (bk_Status bk)"
  "bst_Pending (bk_Status (set_bk_cond r t st rs m bk)) = bst_Pending (bk_Status bk)"
  "bst_Snapshots (bk_Status (set_bk_cond r t st rs m bk)) = bst_Snapshots (bk_Status bk)"
  "bst_LastSuccessTime (bk_Status (set_bk_cond r t st rs m bk)) = bst_LastSuccessTime (bk_Status bk)"
  "bk_Spec (set_bk_cond r t st rs m bk) = bk_Spec bk"
  by (simp_all add: set_bk_cond_def)

lemma setNextSchedule_sel [simp]:
  "bst_Phase (bk_Status (setNextSchedule c bk t)) = bst_Phase (bk_Status bk)"
  "bst_Active (bk_Status (setNextSchedule c bk t)) = bst_Active (bk_Status bk)"
  "bst_Pending (bk_Status (setNextSchedule c bk t)) = bst_Pending (bk_Status bk)"
  "bst_Snapshots (bk_Status (setNextSchedule c bk t)) = bst_Snapshots (bk_Status bk)"
  "bst_LastSuccessTime (bk_Status (setNextSchedule c bk t)) = bst_LastSuccessTime (bk_Status bk)"
  "bk_Spec (setNextSchedule c bk t) = bk_Spec bk"
  by (simp_all add: setNextSchedule_def split: option.split)

lemma phases_differ [simp]:
  "phaseBackupDegraded \<noteq> phaseBackupCreating" "phaseBackupReady \<noteq> phaseBackupCreating"
  "phaseBackupIdle \<noteq> phaseBackupCreating" "phaseBackupCreating \<noteq> phaseBackupReady"
  by (simp_all add: go_consts)

lemma settle_quiet: "emits quiet (backup_settle r bk a cl)"
  unfolding backup_settle_def q_defs event_defs Let_def by (intro emits_intros) simp_all

lemma settle_run:
  assumes "run_state (backup_settle r bk a cl) s = ((d, bk'), s')"
  obtains (unknown) "bk' = bk"
  | (appeared) name at where "bk' = upd_bk (\<lambda>st. st\<lparr>bst_Snapshots := bst_Snapshots st @ [\<lparr>sr_Collection = pend_Collection a,
        sr_Peer = pend_Peer a, sr_Name = name, sr_CreatedAt = at\<rparr>], bst_Active := None\<rparr>) bk"
  | (waiting) "bk' = upd_bk (\<lambda>st. st\<lparr>bst_Phase := phaseBackupCreating\<rparr>) bk"
  | (abandoned) m where "bk' = upd_bk (\<lambda>st. st\<lparr>bst_Active := None, bst_Pending := []\<rparr>)
        (backup_degrade r reasonSnapshotFailed m bk)"
  using assms
  by (auto simp: backup_settle_def q_defs event_defs Let_def split: sum.splits option.splits if_splits prod.splits)

lemma issue_run:
  assumes "run_state (backup_issue r bk nx rest cl) s = ((d, bk'), s')"
  obtains (unknown) es where "bk' = bk" "trace s' = trace s @ es" "list_all quiet es"
  | (failed) es m where "bk' = upd_bk (\<lambda>st. st\<lparr>bst_Pending := []\<rparr>) (backup_degrade r reasonSnapshotFailed m bk)"
      "trace s' = trace s @ [Qdrant (Some (pend_Peer nx)) (QListSnapshots (pend_Collection nx)) True,
         Qdrant (Some (pend_Peer nx)) (QCreateSnapshot (pend_Collection nx)) False] @ es" "list_all quiet es"
  | (issued) es prev t where "bk' = upd_bk (\<lambda>st. st\<lparr>bst_Active := Some (nx\<lparr>pend_Known := pend_Known nx @ map sn_Name prev,
         pend_IssuedAt := Some t\<rparr>), bst_Pending := rest, bst_Phase := phaseBackupCreating\<rparr>) bk"
      "fst (ListSnapshots (b_QdrantClientForPeer r cl (pend_Peer nx)) (pend_Collection nx) (world s)) = Inr prev"
      "trace s' = trace s @ [Qdrant (Some (pend_Peer nx)) (QListSnapshots (pend_Collection nx)) True,
         Qdrant (Some (pend_Peer nx)) (QCreateSnapshot (pend_Collection nx)) True] @ es" "list_all quiet es"
proof -
  let ?c = "b_QdrantClientForPeer r cl (pend_Peer nx)"
  obtain l w where l: "ListSnapshots ?c (pend_Collection nx) (world s) = (l, w)" by fastforce
  obtain e w2 where e: "CreateSnapshot ?c (pend_Collection nx) w = (e, w2)" by fastforce
  show thesis
  proof (cases l)
    case (Inl x)
    then show thesis using assms l
      by (intro unknown) (auto simp: backup_issue_def q_defs Let_def)
  next
    case l2: (Inr prev)
    show thesis
    proof (cases e)
      case None
      then show thesis using assms l e l2
        by (intro issued) (auto simp: backup_issue_def q_defs Let_def event_defs)
    next
      case (Some m)
      then show thesis using assms l e l2
        by (intro failed) (auto simp: backup_issue_def q_defs Let_def event_defs)
    qed
  qed
qed

lemma open_quiet: "emits quiet (openGeneration r bk cl)"
  unfolding openGeneration_def startGeneration_def q_defs metric_defs Let_def by (intro emits_intros) simp_all

definition selected :: "'w BackupReconciler \<Rightarrow> QdrantBackup \<Rightarrow> QdrantCluster \<Rightarrow> 'w \<Rightarrow> string list \<Rightarrow> bool" where
  "selected r bk cl w cs \<longleftrightarrow>
     (if bks_Collections (bk_Spec bk) = [] then fst (ListCollections (b_QdrantClientFor r cl) w) = Inr cs
      else cs = bks_Collections (bk_Spec bk))"

lemma open_run:
  assumes "run_state (openGeneration r bk cl) s = ((d, bk'), s')"
  obtains (unreachable) m where "bk' = backup_degrade r ''QdrantUnreachable'' m bk"
  | (empty) cs t where "selected r bk cl (world s) cs" "planGeneration cs (spec_Replicas (qc_Spec cl)) = []"
      "bk' = upd_bk (\<lambda>st. st\<lparr>bst_LastSuccessTime := Some t, bst_Phase := phaseBackupReady\<rparr>) bk"
  | (opened) cs where "selected r bk cl (world s) cs" "planGeneration cs (spec_Replicas (qc_Spec cl)) \<noteq> []"
      "bk' = upd_bk (\<lambda>st. st\<lparr>bst_Snapshots := [], bst_Pending := planGeneration cs (spec_Replicas (qc_Spec cl)),
        bst_Phase := phaseBackupCreating\<rparr>) bk"
proof -
  have start: thesis
    if "selected r bk cl (world s) cs" and "run_state (startGeneration r bk cl cs) s0 = ((d, bk'), s')" for cs s0
    using that empty [of cs] opened [of cs] by (auto simp: startGeneration_def Let_def metric_defs split: if_splits)
  show thesis
  proof (cases "bks_Collections (bk_Spec bk) = []")
    case False
    then show thesis using assms start [of "bks_Collections (bk_Spec bk)" s]
      by (simp add: openGeneration_def selected_def)
  next
    case True
    obtain l w where l: "ListCollections (b_QdrantClientFor r cl) (world s) = (l, w)" by fastforce
    show thesis
    proof (cases l)
      case (Inl m)
      then show thesis using True assms l unreachable [of "Text m"] by (simp add: openGeneration_def q_defs)
    next
      case (Inr cs)
      then show thesis using True assms l start [of cs]
        by (simp add: openGeneration_def q_defs selected_def)
    qed
  qed
qed

text \<open>What retention may delete: a name \<open>prunable\<close> returns for a list the peer answered.\<close>

definition pruned :: "'w BackupReconciler \<Rightarrow> QdrantCluster \<Rightarrow> QdrantBackup \<Rightarrow> effect \<Rightarrow> bool" where
  "pruned r cl bk e \<longleftrightarrow> (\<exists>ret sr w list name ok.
     bks_Retention (bk_Spec bk) = Some ret \<and> 1 \<le> ret_KeepLast ret \<and> sr \<in> set (bst_Snapshots (bk_Status bk)) \<and>
     fst (ListSnapshots (b_QdrantClientForPeer r cl (sr_Peer sr)) (sr_Collection sr) w) = Inr list \<and>
     name \<in> set (prunable list (ret_KeepLast ret)) \<and>
     e = Qdrant (Some (sr_Peer sr)) (QDeleteSnapshot (sr_Collection sr) name) ok)"

lemma pruneOne_emits:
  assumes "bks_Retention (bk_Spec bk) = Some ret" and "1 \<le> ret_KeepLast ret" and "sr \<in> set (bst_Snapshots (bk_Status bk))"
  shows "emits (\<lambda>e. quiet e \<or> pruned r cl bk e)
    (pruneOne (b_QdrantClientForPeer r cl (sr_Peer sr)) (sr_Collection sr) (sr_Peer sr) (ret_KeepLast ret))"
  unfolding pruneOne_def
proof (rule emits_bind_run)
  let ?list = "q_ListSnapshots (Some (sr_Peer sr)) (b_QdrantClientForPeer r cl (sr_Peer sr)) (sr_Collection sr)"
  show "emits (\<lambda>e. quiet e \<or> pruned r cl bk e) ?list"
    unfolding q_defs by (intro emits_intros) simp
  fix s x s'
  assume "run_state ?list s = (x, s')"
  then have "fst (ListSnapshots (b_QdrantClientForPeer r cl (sr_Peer sr)) (sr_Collection sr) (world s)) = x"
    by (simp add: q_defs split: prod.splits)
  then show "emits (\<lambda>e. quiet e \<or> pruned r cl bk e) (case x of
        Inl _ \<Rightarrow> State_Monad.return ()
      | Inr list \<Rightarrow> deleteSnapshots (b_QdrantClientForPeer r cl (sr_Peer sr)) (sr_Collection sr) (sr_Peer sr)
          (prunable list (ret_KeepLast ret)))"
    unfolding deleteSnapshots_def q_defs event_defs
    using assms by (intro emits_case_sum emits_foreach_mem emits_intros) (auto simp: pruned_def)
qed

lemma prune_emits: "emits (\<lambda>e. quiet e \<or> pruned r cl bk e) (prune r bk cl)"
  unfolding prune_def
  by (intro emits_case_option emits_if emits_bind emits_return emits_foreach_mem pruneOne_emits) simp_all

lemma close_emits: "emits (\<lambda>e. quiet e \<or> generationJustFinished bk \<and> pruned r cl bk e) (closeGeneration r bk cl now)"
proof -
  define bk1 where "bk1 = clearDegraded r (set_bk_cond r condReady ConditionTrue reasonBackupDone
      (Msg ''snapshots created'' [ArgN (int (length (bst_Snapshots (bk_Status bk))))])
      (upd_bk (\<lambda>s. s\<lparr>bst_LastSuccessTime := Some now\<rparr>) bk))"
  have "pruned r cl bk1 = pruned r cl bk" by (simp add: bk1_def pruned_def fun_eq_iff)
  then have "emits (\<lambda>e. quiet e \<or> pruned r cl bk e) (prune r bk1 cl)"
    using prune_emits [of r cl bk1] by (simp only:)
  then have "emits (\<lambda>e. quiet e \<or> generationJustFinished bk \<and> pruned r cl bk e) (prune r bk1 cl)"
    if "generationJustFinished bk" by (rule emits_mono) (use that in blast)
  then show ?thesis
    unfolding closeGeneration_def metric_defs event_defs Let_def bk1_def [symmetric]
    by (intro emits_if emits_bind emits_emit emits_return) simp_all
qed

lemma close_run:
  assumes "run_state (closeGeneration r bk cl now) s = (bk', s')"
  obtains (closed) "generationJustFinished bk" "bst_Snapshots (bk_Status bk) \<noteq> []"
      "bst_LastSuccessTime (bk_Status bk') = Some now"
      "bst_Snapshots (bk_Status bk') = bst_Snapshots (bk_Status bk)" "bk_Spec bk' = bk_Spec bk"
      "bst_Active (bk_Status bk') = bst_Active (bk_Status bk)" "bst_Pending (bk_Status bk') = bst_Pending (bk_Status bk)"
  | (unfinished) "bk' = bk" "s' = s" "\<not> (generationJustFinished bk \<and> bst_Snapshots (bk_Status bk) \<noteq> [])"
proof (cases "generationJustFinished bk \<and> bst_Snapshots (bk_Status bk) \<noteq> []")
  case True
  then have "bk' = clearDegraded r (set_bk_cond r condReady ConditionTrue reasonBackupDone
      (Msg ''snapshots created'' [ArgN (int (length (bst_Snapshots (bk_Status bk))))])
      (upd_bk (\<lambda>s. s\<lparr>bst_LastSuccessTime := Some now\<rparr>) bk))"
    using assms by (simp add: closeGeneration_def Let_def split: prod.splits)
  then show thesis using True by (intro closed) simp_all
next
  case False
  then show thesis using assms by (intro unfinished) (auto simp: closeGeneration_def split: if_splits)
qed

lemma idle_emits: "emits (\<lambda>e. quiet e \<or> generationJustFinished bk \<and> pruned r cl bk e) (backup_idle r bk cl)"
  unfolding backup_idle_def Let_def
  by (intro emits_bind emits_if emits_inspect emits_return close_emits emits_mono [OF open_quiet]) simp

text \<open>
  How an idle pass ends: the generation is closed or was not finished, and then a new one is opened,
  found empty or not selectable, or the resource rests until the next date.
\<close>

lemma idle_run:
  assumes run: "run_state (backup_idle r bk cl) s = ((d, bk'), s')"
    and lane: "bst_Active (bk_Status bk) = None" "bst_Pending (bk_Status bk) = []"
  obtains (opened) w cs where "selected r bk cl w cs" "planGeneration cs (spec_Replicas (qc_Spec cl)) \<noteq> []"
      "bst_Pending (bk_Status bk') = planGeneration cs (spec_Replicas (qc_Spec cl))"
      "bst_Active (bk_Status bk') = None" "bst_Snapshots (bk_Status bk') = []"
      "bst_LastSuccessTime (bk_Status bk') \<noteq> bst_LastSuccessTime (bk_Status bk) \<Longrightarrow>
        generationJustFinished bk \<and> bst_Snapshots (bk_Status bk) \<noteq> []"
  | (empty) w cs where "selected r bk cl w cs" "planGeneration cs (spec_Replicas (qc_Spec cl)) = []"
      "bst_Active (bk_Status bk') = None" "bst_Pending (bk_Status bk') = []"
      "bst_Phase (bk_Status bk') \<noteq> phaseBackupCreating"
  | (rests) "bst_Active (bk_Status bk') = None" "bst_Pending (bk_Status bk') = []"
      "bst_Phase (bk_Status bk') \<noteq> phaseBackupCreating"
      "bst_Snapshots (bk_Status bk') = bst_Snapshots (bk_Status bk)"
      "bst_LastSuccessTime (bk_Status bk') \<noteq> bst_LastSuccessTime (bk_Status bk) \<Longrightarrow>
        generationJustFinished bk \<and> bst_Snapshots (bk_Status bk) \<noteq> []"
proof -
  define now where "now = b_Now r (world s)"
  obtain bk1 s1 where cl: "run_state (closeGeneration r bk cl now) s = (bk1, s1)" by fastforce
  have c: "bst_Active (bk_Status bk1) = None" "bst_Pending (bk_Status bk1) = []" "bk_Spec bk1 = bk_Spec bk"
    "bst_Snapshots (bk_Status bk1) = bst_Snapshots (bk_Status bk)"
    "bst_LastSuccessTime (bk_Status bk1) \<noteq> bst_LastSuccessTime (bk_Status bk) \<Longrightarrow>
       generationJustFinished bk \<and> bst_Snapshots (bk_Status bk) \<noteq> []"
    using cl lane by (cases rule: close_run; simp)+
  define bk2 where "bk2 = setNextSchedule (b_Cron r) (upd_bk (\<lambda>s. s\<lparr>bst_ObservedGeneration := bk_Generation bk1\<rparr>) bk1) now"
  show thesis
  proof (cases "oneShotDue bk2 \<or> dueNow (b_Cron r) bk2 now")
    case True
    then have "run_state (openGeneration r bk2 cl) s1 = ((d, bk'), s')"
      using run cl by (simp add: backup_idle_def now_def bk2_def)
    then show thesis
    proof (cases rule: open_run)
      case (unreachable m)
      then show thesis using c by (intro rests) (simp_all add: bk2_def)
    next
      case (empty cs t)
      then show thesis using c by (intro that(2) [of "world s1" cs]) (simp_all add: bk2_def selected_def)
    next
      case (opened cs)
      then show thesis using c by (intro that(1) [of "world s1" cs]) (simp_all add: bk2_def selected_def)
    qed
  next
    case False
    then have "bk' = upd_bk (\<lambda>s. s\<lparr>bst_Phase :=
        if bst_LastSuccessTime s = None then phaseBackupIdle else phaseBackupReady\<rparr>) bk2"
      using run cl by (auto simp: backup_idle_def now_def bk2_def Let_def split: if_splits)
    then show thesis using c by (intro rests) (simp_all add: bk2_def)
  qed
qed

section \<open>Runs of a pass\<close>

lemma commit_run:
  assumes "run_state (backup_commit r bk' prev d) s = (res, s')"
  obtains (wrote) ok where "trace s' = trace s @ [Kube (KStatusBackup (bk_Status bk')) ok]"
  | (same) "trace s' = trace s" "bk_Status bk' = prev"
  using assms by (auto simp: backup_commit_def b_defs split: if_splits option.splits prod.splits)

text \<open>
  A pass on a stored object \<open>bk\<close> degrades it or advances it to \<open>bk'\<close>, issuing the effects \<open>es\<close>, and
  writes the new status at the end when it differs. \<open>backup_moves\<close> names the step.
\<close>

definition backup_moves ::
    "'w BackupReconciler \<Rightarrow> QdrantBackup \<Rightarrow> effect list \<Rightarrow> QdrantBackup \<Rightarrow> bool" where
  "backup_moves r bk es bk' \<longleftrightarrow>
     bk' = bk \<and> list_all quiet es \<or>
     (\<exists>t m. bk' = backup_degrade r t m bk \<and> list_all quiet es) \<or>
     (\<exists>cl w s0 d s1 es0 es1. run_state (backup_advance r bk cl) s0 = ((d, bk'), s1) \<and>
        fst (b_GetCluster r (bk_Namespace bk) (bks_ClusterRef (bk_Spec bk)) w) = Inr cl \<and> trace s1 = trace s0 @ es1 \<and> es = es0 @ es1 \<and> list_all quiet es0)"

lemma advance_emits: "emits (\<lambda>e. \<not> is_write e) (backup_advance r bk cl)"
proof -
  have "emits (\<lambda>e. \<not> is_write e) (backup_settle r bk a cl)" for a
    by (rule emits_mono [OF settle_quiet]) (simp add: quiet_def)
  moreover have "emits (\<lambda>e. \<not> is_write e) (backup_idle r bk cl)"
    by (rule emits_mono [OF idle_emits]) (auto simp: quiet_def pruned_def)
  moreover have "emits (\<lambda>e. \<not> is_write e) (backup_issue r bk nx rest cl)" for nx rest
    unfolding backup_issue_def q_defs event_defs Let_def by (intro emits_intros) simp_all
  ultimately show ?thesis
    unfolding backup_advance_def by (intro emits_case_option emits_case_list) simp_all
qed

lemma Reconcile_run:
  assumes run: "run_state (backup_Reconcile r ns n) s = (res, s')"
    and got: "fst (b_GetBackup r ns n (world s)) = Inr bk"
  obtains (silent) es bk' where "trace s' = trace s @ es" "backup_moves r bk es bk'" "bk_Status bk' = bk_Status bk"
      "list_all (\<lambda>e. \<not> is_write e) es"
  | (writes) es bk' ok where "trace s' = trace s @ es @ [Kube (KStatusBackup (bk_Status bk')) ok]"
      "backup_moves r bk es bk'" "list_all (\<lambda>e. \<not> is_write e) es"
proof -
  let ?g1 = "Kube (KGet ''QdrantBackup'' ns n) True"
  let ?g2 = "\<lambda>ok. Kube (KGet ''QdrantCluster'' (bk_Namespace bk) (bks_ClusterRef (bk_Spec bk))) ok"
  obtain w1 where w1: "b_GetBackup r ns n (world s) = (Inr bk, w1)" using got by (metis prod.collapse)
  obtain c w2 where c: "b_GetCluster r (bk_Namespace bk) (bks_ClusterRef (bk_Spec bk)) w1 = (c, w2)" by fastforce
  let ?s2 = "\<lambda>ok. s\<lparr>world := w2, trace := trace s @ [?g1, ?g2 ok]\<rparr>"
  have fin: thesis if "run_state (backup_commit r bk' (bk_Status bk) d) s1 = (res, s')"
    and "trace s1 = trace s @ es" and "backup_moves r bk es bk'" and "list_all (\<lambda>e. \<not> is_write e) es" for bk' d s1 es
    using that(1)
  proof (cases rule: commit_run)
    case (wrote ok)
    then show thesis using that writes [of es bk' ok] by simp
  next
    case same
    then show thesis using that silent [of es bk'] by simp
  qed
  show thesis
  proof (cases c)
    case (Inl k)
    show thesis
    proof (cases "k = KNotFound")
      case True
      then show thesis using run w1 c Inl
        by (intro fin [of "backup_degrade r ''ClusterNotFound'' (Msg ''cluster not found''
              [ArgS (bks_ClusterRef (bk_Spec bk)), ArgS (bk_Namespace bk)]) bk" "30 * Second" "?s2 False" "[?g1, ?g2 False]"])
           (auto simp: backup_Reconcile_def Let_def b_defs backup_moves_def)
    next
      case False
      then show thesis using run w1 c Inl
        by (intro silent [of "[?g1, ?g2 False]" bk])
           (auto simp: backup_Reconcile_def Let_def b_defs backup_moves_def split: kerr.splits)
    qed
  next
    case (Inr cl)
    show thesis
    proof (cases "bks_Schedule (bk_Spec bk) \<noteq> [] \<and> nextRun (b_Cron r) (bks_Schedule (bk_Spec bk)) (b_Now r w2) = None")
      case True
      then show thesis using run w1 c Inr
        by (intro fin [of "backup_degrade r reasonScheduleValid (Msg ''cron not understood''
              [ArgS (bks_Schedule (bk_Spec bk))]) bk" 0 "?s2 True" "[?g1, ?g2 True]"])
           (auto simp: backup_Reconcile_def Let_def b_defs backup_moves_def scheduleInvalid_def)
    next
      case False
      obtain d bk' s1 where adv: "run_state (backup_advance r bk cl) (?s2 True) = ((d, bk'), s1)" by (metis surj_pair)
      obtain es1 where es1: "trace s1 = trace (?s2 True) @ es1" "list_all (\<lambda>e. \<not> is_write e) es1"
        by (rule emitsD [OF advance_emits adv])
      have "backup_moves r bk ([?g1, ?g2 True] @ es1) bk'"
        unfolding backup_moves_def using adv es1(1) c Inr
        by (intro disjI2) (rule exI [of _ cl], rule exI [of _ w1], rule exI [of _ "?s2 True"], auto)
      then show thesis using run w1 c Inr False adv es1
        by (intro fin [of bk' d s1 "[?g1, ?g2 True] @ es1"])
           (auto simp: backup_Reconcile_def Let_def b_defs scheduleInvalid_def split: if_splits)
    qed
  qed
qed

section \<open>Properties\<close>

lemma quiet_filters: "list_all quiet es \<Longrightarrow> filter is_create es = [] \<and> filter is_delete es = []"
  by (auto simp: list_all_iff quiet_def filter_empty_conv)

lemma advance_cases:
  assumes "run_state (backup_advance r bk cl) s = ((d, bk'), s')"
  obtains (settle) a where "bst_Active (bk_Status bk) = Some a" "run_state (backup_settle r bk a cl) s = ((d, bk'), s')"
  | (issue) nx rest where "bst_Active (bk_Status bk) = None" "bst_Pending (bk_Status bk) = nx # rest"
      "run_state (backup_issue r bk nx rest cl) s = ((d, bk'), s')"
  | (idle) "bst_Active (bk_Status bk) = None" "bst_Pending (bk_Status bk) = []"
      "run_state (backup_idle r bk cl) s = ((d, bk'), s')"
  using assms by (auto simp: backup_advance_def split: option.splits list.splits)

lemma advance_effects:
  assumes "run_state (backup_advance r bk cl) s = ((d, bk'), s')" and "trace s' = trace s @ es"
  obtains (none) "filter is_create es = []" "filter is_delete es = []"
  | (create) nx rest ok where "bst_Active (bk_Status bk) = None" "bst_Pending (bk_Status bk) = nx # rest"
      "filter is_create es = [Qdrant (Some (pend_Peer nx)) (QCreateSnapshot (pend_Collection nx)) ok]"
      "filter is_delete es = []"
  | (prunes) "filter is_create es = []" "generationJustFinished bk" "list_all (\<lambda>e. quiet e \<or> pruned r cl bk e) es"
  using assms(1)
proof (cases rule: advance_cases)
  case (settle a)
  obtain es' where "trace s' = trace s @ es'" "list_all quiet es'" by (rule emitsD [OF settle_quiet settle(2)])
  then show thesis using none assms(2) quiet_filters by simp
next
  case (issue nx rest)
  from issue(3) show thesis
  proof (cases rule: issue_run)
    case (unknown es')
    then show thesis using none assms(2) quiet_filters by simp
  next
    case (failed es' m)
    then show thesis using create [of nx rest False] issue assms(2) quiet_filters [of es'] by simp
  next
    case (issued es' prev t)
    then show thesis using create [of nx rest True] issue assms(2) quiet_filters [of es'] by simp
  qed
next
  case idle
  obtain es' where es': "trace s' = trace s @ es'" "list_all (\<lambda>e. quiet e \<or> generationJustFinished bk \<and> pruned r cl bk e) es'"
    by (rule emitsD [OF idle_emits idle(3)])
  show thesis
  proof (cases "generationJustFinished bk")
    case True
    moreover have "filter is_create es' = []"
      using es'(2) by (auto simp: list_all_iff quiet_def pruned_def filter_empty_conv)
    ultimately show thesis using prunes es' assms(2) by simp
  next
    case False
    then show thesis using none es' assms(2) quiet_filters [of es'] by simp
  qed
qed

lemma moves_effects:
  assumes "backup_moves r bk es bk'"
  obtains (none) "filter is_create es = []" "filter is_delete es = []"
  | (create) nx rest ok where "bst_Active (bk_Status bk) = None" "bst_Pending (bk_Status bk) = nx # rest"
      "filter is_create es = [Qdrant (Some (pend_Peer nx)) (QCreateSnapshot (pend_Collection nx)) ok]"
      "filter is_delete es = []"
  | (prunes) cl w where "filter is_create es = []" "generationJustFinished bk" "list_all (\<lambda>e. quiet e \<or> pruned r cl bk e) es"
      "fst (b_GetCluster r (bk_Namespace bk) (bks_ClusterRef (bk_Spec bk)) w) = Inr cl"
  using assms unfolding backup_moves_def
proof (elim disjE exE conjE)
  fix cl w s0 d s1 es0 es1
  assume a: "run_state (backup_advance r bk cl) s0 = ((d, bk'), s1)" "trace s1 = trace s0 @ es1"
    "es = es0 @ es1" "list_all quiet es0" "fst (b_GetCluster r (bk_Namespace bk) (bks_ClusterRef (bk_Spec bk)) w) = Inr cl"
  have q: "filter is_create es = filter is_create es1" "filter is_delete es = filter is_delete es1"
    using a(3,4) quiet_filters by simp_all
  from a(1,2) show thesis
  proof (cases rule: advance_effects)
    case prunes
    then show thesis using q a that(3) [of cl w] by (auto simp: list_all_iff)
  qed (use q that(1,2) in auto)
qed (use quiet_filters that(1) in auto)

text \<open>
  C19: a pass creates at most one snapshot, and only when no snapshot is in flight: it is the one at the
  head of the queue, sent to the peer it is planned for, and the pass deletes nothing.
\<close>

theorem backup_issues_one:
  assumes "run_state (backup_Reconcile r ns n) s = (res, s')" and "fst (b_GetBackup r ns n (world s)) = Inr bk"
    and "trace s' = trace s @ es" and "Qdrant t (QCreateSnapshot c) ok \<in> set es"
  shows "filter is_create es = [Qdrant t (QCreateSnapshot c) ok] \<and> filter is_delete es = [] \<and>
    bst_Active (bk_Status bk) = None \<and>
    (\<exists>nx rest. bst_Pending (bk_Status bk) = nx # rest \<and> pend_Collection nx = c \<and> t = Some (pend_Peer nx))"
proof -
  obtain es1 ws bk' where es: "es = es1 @ ws" "backup_moves r bk es1 bk'" "list_all is_write ws"
    using assms(1,2)
  proof (cases rule: Reconcile_run)
    case (silent es2 bk2)
    then show thesis using assms(3) that [of es2 "[]"] by simp
  next
    case (writes es2 bk2 ok2)
    then show thesis using assms(3) that [of es2 "[Kube (KStatusBackup (bk_Status bk2)) ok2]"] by simp
  qed
  have ws: "filter is_create ws = []" "filter is_delete ws = []"
    using es(3) write_only by (auto simp: list_all_iff filter_empty_conv)
  have here: "Qdrant t (QCreateSnapshot c) ok \<in> set (filter is_create es1)"
    using assms(4) es(1) ws by (auto simp: filter_empty_conv)
  from es(2) show ?thesis
  proof (cases rule: moves_effects)
    case (create nx rest ok2)
    then show ?thesis using here es(1) ws by auto
  qed (use here in auto)
qed

text \<open>
  C20: snapshots are deleted only when a generation has just been completed and a retention of at least
  one is declared: only in a collection and on a peer this generation has a snapshot of, and only a
  name that retention does not keep of the list that peer answered.
\<close>

theorem backup_deletes_only_retention:
  assumes "run_state (backup_Reconcile r ns n) s = (res, s')" and "fst (b_GetBackup r ns n (world s)) = Inr bk"
    and "trace s' = trace s @ es" and "e \<in> set es" and "is_delete e"
  shows "generationJustFinished bk \<and> (\<exists>cl w. fst (b_GetCluster r (bk_Namespace bk) (bks_ClusterRef (bk_Spec bk)) w) = Inr cl \<and>
    pruned r cl bk e)"
proof -
  obtain es1 bk' where es: "e \<in> set es1" "backup_moves r bk es1 bk'"
    using assms(1,2)
  proof (cases rule: Reconcile_run)
    case (writes es2 bk2 ok2)
    then show thesis using assms(3-5) that [of es2] by auto
  qed (use assms in auto)
  have here: "e \<in> set (filter is_delete es1)" using es(1) assms(5) by simp
  from es(2) show ?thesis
  proof (cases rule: moves_effects)
    case (prunes cl w)
    then show ?thesis using es(1) assms(5) by (auto simp: list_all_iff quiet_def)
  qed (use here in auto)
qed

section \<open>Whole generations\<close>

text \<open>
  A ghost value read off the trace: the plan of the generation at hand, as the last status that opened
  one published it. \<open>stored\<close> is the status the API server holds after the effects \<open>es\<close>.
\<close>

definition opened :: "QdrantBackupStatus \<Rightarrow> bool" where
  "opened st \<longleftrightarrow> bst_Active st = None \<and> bst_Snapshots st = [] \<and> bst_Pending st \<noteq> []"

definition plan_step :: "effect \<Rightarrow> (string \<times> int) list \<Rightarrow> (string \<times> int) list" where
  "plan_step e p = (case written e of None \<Rightarrow> p | Some st \<Rightarrow> if opened st then map pend_key (bst_Pending st) else p)"

definition plan_of :: "effect list \<Rightarrow> (string \<times> int) list" where
  "plan_of tr = fold plan_step tr []"

definition stored :: "QdrantBackupStatus \<Rightarrow> effect list \<Rightarrow> QdrantBackupStatus" where
  "stored st es = fold (\<lambda>e st. case written e of None \<Rightarrow> st | Some st' \<Rightarrow> st') es st"

text \<open>
  The states of a backup resource: it starts fresh; a pass reads it and the status it writes, if any,
  is stored; a pass that reads anything (a stale copy) but whose write is refused changes nothing
  stored; a user may edit the specification; and the world changes at will.
\<close>

inductive backup_reach :: "'w BackupReconciler \<Rightarrow> QdrantBackup \<Rightarrow> ('w, effect) sys \<Rightarrow> bool"
  for r :: "'w BackupReconciler" where
  fresh: "bst_Active (bk_Status bk) = None \<Longrightarrow> bst_Pending (bk_Status bk) = [] \<Longrightarrow> bst_Phase (bk_Status bk) = [] \<Longrightarrow>
    backup_reach r bk s"
| pass: "backup_reach r bk s \<Longrightarrow> fst (b_GetBackup r ns n (world s)) = Inr bk \<Longrightarrow>
    run_state (backup_Reconcile r ns n) s = (res, s') \<Longrightarrow> trace s' = trace s @ es \<Longrightarrow>
    backup_reach r (bk\<lparr>bk_Status := stored (bk_Status bk) es\<rparr>) s'"
| refused: "backup_reach r bk s \<Longrightarrow> run_state (backup_Reconcile r ns n) s = (res, s') \<Longrightarrow> trace s' = trace s @ es \<Longrightarrow>
    list_all (\<lambda>e. written e = None) es \<Longrightarrow> backup_reach r bk s'"
| edit: "backup_reach r bk s \<Longrightarrow> backup_reach r (bk\<lparr>bk_Spec := sp, bk_Generation := g\<rparr>) (s\<lparr>world := w\<rparr>)"

definition busy :: "QdrantBackupStatus \<Rightarrow> bool" where
  "busy st \<longleftrightarrow> bst_Phase st = phaseBackupCreating \<or> bst_Active st \<noteq> None \<or> bst_Pending st \<noteq> []"

definition generation_keys :: "QdrantBackupStatus \<Rightarrow> (string \<times> int) multiset" where
  "generation_keys st = mset (map snap_key (bst_Snapshots st)) +
     (case bst_Active st of None \<Rightarrow> {#} | Some a \<Rightarrow> {#pend_key a#}) + mset (map pend_key (bst_Pending st))"

lemma advance_keys:
  assumes "run_state (backup_advance r bk cl) s = ((d, bk'), s')" and "busy (bk_Status bk')"
  shows "opened (bk_Status bk') \<or> busy (bk_Status bk) \<and> generation_keys (bk_Status bk') = generation_keys (bk_Status bk)"
  using assms(1)
proof (cases rule: advance_cases)
  case (settle a)
  from settle(2) show ?thesis
    by (cases rule: settle_run) (use settle(1) assms(2) in
      \<open>auto simp: busy_def generation_keys_def snap_key_def pend_key_def\<close>)
next
  case (issue nx rest)
  from issue(3) show ?thesis
    by (cases rule: issue_run) (use issue(1,2) assms(2) in
      \<open>auto simp: busy_def generation_keys_def pend_key_def\<close>)
next
  case idle
  from idle(3,1,2) show ?thesis
    by (cases rule: idle_run) (use assms(2) in \<open>auto simp: busy_def opened_def\<close>)
qed

lemma moves_keys:
  assumes "backup_moves r bk es bk'" and "busy (bk_Status bk')"
  shows "opened (bk_Status bk') \<or> busy (bk_Status bk) \<and> generation_keys (bk_Status bk') = generation_keys (bk_Status bk)"
  using assms(1) unfolding backup_moves_def
proof (elim disjE exE conjE)
  fix t m
  assume "bk' = backup_degrade r t m bk"
  then show ?thesis using assms(2) by (auto simp: busy_def generation_keys_def)
next
  fix cl s0 d s1
  assume "run_state (backup_advance r bk cl) s0 = ((d, bk'), s1)"
  then show ?thesis by (rule advance_keys [OF _ assms(2)])
qed (use assms(2) in auto)

lemma plan_of_unwritten: "list_all (\<lambda>e. written e = None) es \<Longrightarrow> plan_of (tr @ es) = plan_of tr"
proof -
  have "list_all (\<lambda>e. written e = None) es \<Longrightarrow> fold plan_step es p = p" for p
    by (induction es arbitrary: p) (auto simp: plan_step_def)
  then show "list_all (\<lambda>e. written e = None) es \<Longrightarrow> plan_of (tr @ es) = plan_of tr" by (simp add: plan_of_def)
qed

lemma stored_unwritten: "list_all (\<lambda>e. written e = None) es \<Longrightarrow> stored st es = st"
  by (induction es arbitrary: st) (auto simp: stored_def)

lemma unwritten: "list_all (\<lambda>e. \<not> is_write e) es \<Longrightarrow> list_all (\<lambda>e. written e = None) es"
  by (auto simp: list_all_iff no_write_written)

lemma backup_reach_keys:
  assumes "backup_reach r bk s" and "busy (bk_Status bk)"
  shows "generation_keys (bk_Status bk) = mset (plan_of (trace s))"
  using assms
proof (induction rule: backup_reach.induct)
  case (fresh bk s)
  then show ?case by (simp add: busy_def go_consts)
next
  case (pass bk s ns n res s' es)
  from pass.hyps(3,2) show ?case
  proof (cases rule: Reconcile_run)
    case (silent es' bk')
    then show ?thesis using pass plan_of_unwritten stored_unwritten unwritten by (metis QdrantBackup.surjective
      QdrantBackup.update_convs(5) append_same_eq same_append_eq)
  next
    case (writes es' bk' ok)
    have es: "es = es' @ [Kube (KStatusBackup (bk_Status bk')) ok]" using writes(1) pass.hyps(4) by simp
    have st: "stored (bk_Status bk) es = (if ok then bk_Status bk' else bk_Status bk)"
      using stored_unwritten [OF unwritten [OF writes(3)], of "bk_Status bk"] by (cases ok) (simp_all add: es stored_def)
    have pl: "plan_of (trace s') = (if ok \<and> opened (bk_Status bk') then map pend_key (bst_Pending (bk_Status bk')) else plan_of (trace s))"
      using plan_of_unwritten [OF unwritten [OF writes(3)], of "trace s"]
      by (cases ok) (simp_all add: pass.hyps(4) es plan_of_def plan_step_def)
    show ?thesis
      using pass.prems pass.IH moves_keys [OF writes(2)] by (auto simp: st pl opened_def generation_keys_def split: if_splits)
  qed
next
  case (refused bk s ns n res s' es)
  then show ?case by (simp add: plan_of_unwritten)
next
  case (edit bk s sp g w)
  then show ?case by simp
qed

lemma advance_success:
  assumes "run_state (backup_advance r bk cl) s = ((d, bk'), s')"
    and "bst_LastSuccessTime (bk_Status bk') \<noteq> bst_LastSuccessTime (bk_Status bk)"
  shows "generationJustFinished bk \<and> bst_Snapshots (bk_Status bk) \<noteq> [] \<or>
    (\<exists>w cs. selected r bk cl w cs \<and> planGeneration cs (spec_Replicas (qc_Spec cl)) = [])"
  using assms(1)
proof (cases rule: advance_cases)
  case (settle a)
  from settle(2) show ?thesis by (cases rule: settle_run) (use assms(2) in auto)
next
  case (issue nx rest)
  from issue(3) show ?thesis by (cases rule: issue_run) (use assms(2) in auto)
next
  case idle
  from idle(3,1,2) show ?thesis by (cases rule: idle_run) (use assms(2) in auto)
qed

text \<open>
  C18: a success is recorded only for a whole generation. Whatever happened before (failures, refused
  status updates, stale passes, edits of the specification), when a pass changes the time of the last
  success then either the snapshots of the status are exactly the plan the generation was opened with,
  each pair of a collection and a peer once per mention, with nothing in flight and nothing pending;
  or there was nothing to back up.
\<close>

theorem backup_success_covers_plan:
  assumes "backup_reach r bk s" and "fst (b_GetBackup r ns n (world s)) = Inr bk"
    and "run_state (backup_Reconcile r ns n) s = (res, s')" and "trace s' = trace s @ es"
    and "bst_LastSuccessTime (stored (bk_Status bk) es) \<noteq> bst_LastSuccessTime (bk_Status bk)"
  shows "mset (map snap_key (bst_Snapshots (bk_Status bk))) = mset (plan_of (trace s)) \<and>
      bst_Snapshots (bk_Status bk) \<noteq> [] \<and> bst_Active (bk_Status bk) = None \<and> bst_Pending (bk_Status bk) = [] \<or>
    (\<exists>cl w v cs. fst (b_GetCluster r (bk_Namespace bk) (bks_ClusterRef (bk_Spec bk)) w) = Inr cl \<and>
      selected r bk cl v cs \<and> planGeneration cs (spec_Replicas (qc_Spec cl)) = [])"
proof -
  obtain es' bk' where mv: "backup_moves r bk es' bk'"
    "bst_LastSuccessTime (bk_Status bk') \<noteq> bst_LastSuccessTime (bk_Status bk)"
    using assms(3,2)
  proof (cases rule: Reconcile_run)
    case (silent es' bk')
    then show thesis using assms(4,5) stored_unwritten [OF unwritten [OF silent(4)]] by simp
  next
    case (writes es' bk' ok)
    then show thesis
      using assms(4,5) stored_unwritten [OF unwritten [OF writes(3)], of "bk_Status bk"] that
      by (cases ok) (auto simp: stored_def)
  qed
  have whole: ?thesis if "generationJustFinished bk" "bst_Snapshots (bk_Status bk) \<noteq> []"
    using that backup_reach_keys [OF assms(1)] by (simp add: generationJustFinished_def busy_def generation_keys_def)
  from mv(1) show ?thesis
    unfolding backup_moves_def
  proof (elim disjE exE conjE)
    fix cl w s0 d s1
    assume "run_state (backup_advance r bk cl) s0 = ((d, bk'), s1)"
      and cl: "fst (b_GetCluster r (bk_Namespace bk) (bks_ClusterRef (bk_Spec bk)) w) = Inr cl"
    from advance_success [OF this(1) mv(2)] show ?thesis
    proof (elim disjE conjE exE)
      fix v cs
      assume "selected r bk cl v cs" "planGeneration cs (spec_Replicas (qc_Spec cl)) = []"
      then show ?thesis using cl by blast
    qed (rule whole)
  qed (use mv(2) in auto)
qed

text \<open>
  C24: an unsatisfiable schedule never rests. The cron library answers the zero time when a schedule
  that parses never matches (30 February). Such a schedule counts as due at every instant: a pass with
  an empty lane, also the one that closes a generation, opens the next generation at once.
\<close>

theorem backup_unsatisfiable_schedule_never_rests:
  assumes "b_Cron r (bks_Schedule (bk_Spec bk)) = Some (\<lambda>_. 0)" and "bks_Schedule (bk_Spec bk) \<noteq> []"
    and "\<not> bks_Suspend (bk_Spec bk)" and "0 \<le> b_Now r (world s)"
    and "bks_Collections (bk_Spec bk) \<noteq> []" and "1 \<le> spec_Replicas (qc_Spec cl)"
    and "bst_Active (bk_Status bk) = None" and "bst_Pending (bk_Status bk) = []"
    and run: "run_state (backup_advance r bk cl) s = ((d, bk'), s')"
  shows "bst_Pending (bk_Status bk') = planGeneration (bks_Collections (bk_Spec bk)) (spec_Replicas (qc_Spec cl)) \<and>
    opened (bk_Status bk')"
proof -
  define now where "now = b_Now r (world s)"
  obtain bk1 s1 where cl: "run_state (closeGeneration r bk cl now) s = (bk1, s1)" by fastforce
  have c: "bk_Spec bk1 = bk_Spec bk" "bst_Active (bk_Status bk1) = None"
    using cl assms(7) by (cases rule: close_run; simp)+
  define bk2 where "bk2 = setNextSchedule (b_Cron r) (upd_bk (\<lambda>s. s\<lparr>bst_ObservedGeneration := bk_Generation bk1\<rparr>) bk1) now"
  have b2: "bk_Spec bk2 = bk_Spec bk" "bst_Active (bk_Status bk2) = None" using c by (simp_all add: bk2_def)
  have "dueNow (b_Cron r) bk2 now"
    using assms(1-4) b2 by (simp add: dueNow_def nextRun_def now_def split: option.split)
  then have "run_state (startGeneration r bk2 cl (bks_Collections (bk_Spec bk))) s1 = ((d, bk'), s')"
    using run cl assms(5,7,8) b2 by (simp add: backup_advance_def backup_idle_def now_def bk2_def openGeneration_def Let_def)
  moreover have "planGeneration (bks_Collections (bk_Spec bk)) (spec_Replicas (qc_Spec cl)) \<noteq> []"
  proof -
    obtain c where "c \<in> set (bks_Collections (bk_Spec bk))" using assms(5) by (meson list.set_sel(1))
    then show ?thesis using assms(6) by (auto simp: planGeneration_def)
  qed
  ultimately show ?thesis using b2 by (auto simp: startGeneration_def opened_def)
qed

end
