(* ===== verification/Backup_Retention.thy ===== *)
theory Backup_Retention
  imports Backup_Safety Fake_Client
begin

text \<open>
  Retention end to end. The client side of it is stated once, for any Qdrant whose list and delete
  behave as a store of snapshots (\<open>locale snapshot_store\<close>), and the in-memory Qdrant of the repository
  is such a store.
\<close>

lemma deleteSnapshots_Cons:
  "deleteSnapshots cl c p (n # ns) = do {
     e \<leftarrow> q_DeleteSnapshot (Some p) cl c n;
     _ \<leftarrow> (case e of
        Some m \<Rightarrow> EmitWarning ''PruneFailed'' (Text m)
      | None \<Rightarrow> Emit ''SnapshotPruned'' (Msg ''pruned'' [ArgS c, ArgN p, ArgS n]));
     deleteSnapshots cl c p ns
   }"
  by (simp add: deleteSnapshots_def)

locale snapshot_store =
  fixes cl :: "'w Client" and snaps :: "'w \<Rightarrow> string \<Rightarrow> SnapshotInfo list" and up :: "'w \<Rightarrow> bool"
  assumes list_snapshots: "up w \<Longrightarrow> ListSnapshots cl c w = (Inr (snaps w c), w)"
    and delete_up: "up w \<Longrightarrow> DeleteSnapshot cl c n w = (e, w') \<Longrightarrow> up w'"
    and delete_snapshot: "up w \<Longrightarrow> DeleteSnapshot cl c n w = (e, w') \<Longrightarrow>
      snaps w' = (snaps w)(c := filter (\<lambda>s. sn_Name s \<noteq> n) (snaps w c))"
begin

lemma deleteSnapshots_run:
  assumes "run_state (deleteSnapshots cl c p names) s = (u, s')" and "up (world s)"
  shows "up (world s') \<and> snaps (world s') = (snaps (world s))(c := filter (\<lambda>s. sn_Name s \<notin> set names) (snaps (world s) c))"
  using assms
proof (induction names arbitrary: s)
  case Nil
  then show ?case by (simp add: deleteSnapshots_def)
next
  case (Cons n names)
  obtain e w where e: "DeleteSnapshot cl c n (world s) = (e, w)" by fastforce
  obtain s1 where s1: "run_state (deleteSnapshots cl c p names) s1 = (u, s')" "world s1 = w"
    using Cons.prems(1) e by (cases e) (auto simp: deleteSnapshots_Cons q_defs event_defs)
  have "up (world s1)" using delete_up [OF Cons.prems(2) e] s1(2) by simp
  from Cons.IH [OF s1(1) this] show ?case
    using delete_snapshot [OF Cons.prems(2) e] s1(2) by (auto simp: fun_eq_iff intro: filter_cong)
qed

lemma pruneOne_run:
  assumes "run_state (pruneOne cl c p k) s = (u, s')" and "up (world s)"
  shows "snaps (world s') = (snaps (world s))(c := filter (\<lambda>s'. sn_Name s' \<notin> set (prunable (snaps (world s) c) k)) (snaps (world s) c))"
proof -
  let ?s1 = "s\<lparr>trace := trace s @ [Qdrant (Some p) (QListSnapshots c) True]\<rparr>"
  have "run_state (deleteSnapshots cl c p (prunable (snaps (world s) c) k)) ?s1 = (u, s')"
    using assms list_snapshots by (simp add: pruneOne_def q_defs)
  from deleteSnapshots_run [OF this] show ?thesis using assms(2) by simp
qed

end

interpretation fake_snapshots: snapshot_store "fake_client now" "\<lambda>f. get_or [] (fk_Snapshots f)" "\<lambda>f. fk_ErrOn f = Map.empty"
  for now
  by unfold_locales
     (auto simp: fake_client_def fake_ListSnapshots_def fake_DeleteSnapshot_def guarded_def guarded_err_def Let_def fun_eq_iff)

lemma kept_filter:
  assumes "distinct (map sn_Name l)" and "1 \<le> k" and "is_i32 (int (length l))"
  shows "filter (\<lambda>s. sn_Name s \<notin> set (prunable l k)) l = filter (\<lambda>s. s \<in> set (take (nat k) (sort_func cmpSnapshots l))) l"
proof (cases "int (length l) \<le> k")
  case True
  then have "prunable l k = []" and "take (nat k) (sort_func cmpSnapshots l) = sort_func cmpSnapshots l"
    using assms by (simp_all add: prunable_def)
  then show ?thesis by simp
next
  case False
  let ?l = "sort_func cmpSnapshots l"
  have p: "prunable l k = map sn_Name (drop (nat k) ?l)" using False assms by (simp add: prunable_def)
  have "mset (map sn_Name ?l) = mset (map sn_Name l)" by simp
  then have d: "distinct (map sn_Name (take (nat k) ?l @ drop (nat k) ?l))"
    using assms(1) mset_eq_imp_distinct_iff by (metis append_take_drop_id)
  have disj: "sn_Name ` set (take (nat k) ?l) \<inter> sn_Name ` set (drop (nat k) ?l) = {}"
    using d by (simp only: map_append distinct_append set_map)
  have "set l = set (take (nat k) ?l) \<union> set (drop (nat k) ?l)"
    by (metis append_take_drop_id set_append set_sort_func)
  then have "sn_Name s \<notin> set (prunable l k) \<longleftrightarrow> s \<in> set (take (nat k) ?l)" if "s \<in> set l" for s
    using that disj unfolding p by auto
  then show ?thesis by (intro filter_cong) auto
qed

end
