(* ===== verification/Restore_Controller.thy ===== *)
theory Restore_Controller
  imports Backup_Controller Resource_Names
begin

text \<open>
  The restore controller (\<open>internal/controller/qdrantrestore_controller.go\<close>): it fixes the list of
  sources once, issues one recovery per pass, each to the peer that holds the snapshot, and is done for
  good when the list is empty. \<open>metav1.Now\<close> is \<open>s_Clock\<close>.
\<close>

record 'w RestoreReconciler =
  s_Meta :: meta_lib
  s_Clock :: "'w \<Rightarrow> time"
  s_GetRestore :: "string \<Rightarrow> string \<Rightarrow> 'w \<Rightarrow> (kerr + QdrantRestore) \<times> 'w"
  s_GetCluster :: "string \<Rightarrow> string \<Rightarrow> 'w \<Rightarrow> (kerr + QdrantCluster) \<times> 'w"
  s_GetBackup :: "string \<Rightarrow> string \<Rightarrow> 'w \<Rightarrow> (kerr + QdrantBackup) \<times> 'w"
  s_StatusUpdate :: "QdrantRestore \<Rightarrow> 'w \<Rightarrow> kerr option \<times> 'w"
  s_QdrantClientForPeer :: "QdrantCluster \<Rightarrow> int \<Rightarrow> 'w Client"

section \<open>Constants and calls\<close>

definition phaseRestoring :: string where "phaseRestoring = ''Restoring''"
definition phaseRestoreDone :: string where "phaseRestoreDone = ''Ready''"
definition reasonRestoreDone :: string where "reasonRestoreDone = ''RestoreCompleted''"
definition reasonRestoreFailed :: string where "reasonRestoreFailed = ''RestoreFailed''"
definition reasonNoSnapshotRefs :: string where "reasonNoSnapshotRefs = ''NoSnapshotSources''"
definition SnapshotPrioritySnapshot :: string where "SnapshotPrioritySnapshot = ''snapshot''"

declare phaseRestoring_def [go_consts] phaseRestoreDone_def [go_consts] reasonRestoreDone_def [go_consts]
  reasonRestoreFailed_def [go_consts] reasonNoSnapshotRefs_def [go_consts] SnapshotPrioritySnapshot_def [go_consts]

definition s_get :: "'w RestoreReconciler \<Rightarrow> string \<Rightarrow> string \<Rightarrow> ('w, kerr + QdrantRestore) io" where
  "s_get r ns n = perform (\<lambda>e. Kube (KGet ''QdrantRestore'' ns n) (ok_ksum e)) (s_GetRestore r ns n)"

definition s_cluster :: "'w RestoreReconciler \<Rightarrow> string \<Rightarrow> string \<Rightarrow> ('w, kerr + QdrantCluster) io" where
  "s_cluster r ns n = perform (\<lambda>e. Kube (KGet ''QdrantCluster'' ns n) (ok_ksum e)) (s_GetCluster r ns n)"

definition s_backup :: "'w RestoreReconciler \<Rightarrow> string \<Rightarrow> string \<Rightarrow> ('w, kerr + QdrantBackup) io" where
  "s_backup r ns n = perform (\<lambda>e. Kube (KGet ''QdrantBackup'' ns n) (ok_ksum e)) (s_GetBackup r ns n)"

definition s_status_update :: "'w RestoreReconciler \<Rightarrow> QdrantRestore \<Rightarrow> ('w, kerr option) io" where
  "s_status_update r rs = perform (\<lambda>e. Kube (KStatusRestore (res_Status rs)) (e = None)) (s_StatusUpdate r rs)"

lemmas s_defs = s_get_def s_cluster_def s_backup_def s_status_update_def

definition upd_rs :: "(QdrantRestoreStatus \<Rightarrow> QdrantRestoreStatus) \<Rightarrow> QdrantRestore \<Rightarrow> QdrantRestore" where
  "upd_rs f rs = rs\<lparr>res_Status := f (res_Status rs)\<rparr>"

lemma upd_rs_sel [simp]:
  "res_Status (upd_rs f rs) = f (res_Status rs)" "res_Spec (upd_rs f rs) = res_Spec rs"
  "res_Name (upd_rs f rs) = res_Name rs" "res_Namespace (upd_rs f rs) = res_Namespace rs"
  "res_Generation (upd_rs f rs) = res_Generation rs"
  by (simp_all add: upd_rs_def)

definition set_rs_cond ::
    "'w RestoreReconciler \<Rightarrow> string \<Rightarrow> ConditionStatus \<Rightarrow> string \<Rightarrow> message \<Rightarrow> QdrantRestore \<Rightarrow> QdrantRestore" where
  "set_rs_cond r t st reason msg rs =
     upd_rs (\<lambda>s. s\<lparr>rst_Conditions := SetStatusCondition (s_Meta r) (rst_Conditions s)
       (mk_cond t st reason msg (res_Generation rs))\<rparr>) rs"

section \<open>Operations\<close>

definition degradeRestore :: "'w RestoreReconciler \<Rightarrow> string \<Rightarrow> message \<Rightarrow> QdrantRestore \<Rightarrow> QdrantRestore" where
  "degradeRestore r reason msg rs =
     set_rs_cond r condDegraded ConditionTrue reason msg
       (upd_rs (\<lambda>s. s\<lparr>rst_Phase := phaseBackupDegraded\<rparr>) rs)"

definition commitRestore ::
    "'w RestoreReconciler \<Rightarrow> QdrantRestore \<Rightarrow> QdrantRestoreStatus \<Rightarrow> duration \<Rightarrow> ('w, kerr + Result) io" where
  "commitRestore r rs prev requeue =
     (if prev \<noteq> res_Status rs then do {
        e \<leftarrow> s_status_update r rs;
        case e of
          Some k \<Rightarrow> State_Monad.return (Inl k)
        | None \<Rightarrow> State_Monad.return (Inr (requeueOrNothing requeue))
      }
      else State_Monad.return (Inr (requeueOrNothing requeue)))"

definition peerSnapshotURL :: "QdrantCluster \<Rightarrow> int \<Rightarrow> string \<Rightarrow> string \<Rightarrow> string" where
  "peerSnapshotURL cluster ordinal collection snapshot =
     ''http://'' @ qc_Name cluster @ ''-'' @ FormatInt ordinal @ ''.'' @ HeadlessName cluster @ ''.'' @
     qc_Namespace cluster @ ''.svc:'' @ FormatInt RESTPort @ ''/collections/'' @ collection @
     ''/snapshots/'' @ snapshot"

text \<open>The loop of \<open>resolveSources\<close> over the snapshots of the backup.\<close>

definition backupSources :: "QdrantCluster \<Rightarrow> string \<Rightarrow> SnapshotRef list \<Rightarrow> RestoreSource list" where
  "backupSources cluster coll snaps =
     map (\<lambda>s. \<lparr>src_Peer = sr_Peer s, src_Location = peerSnapshotURL cluster (sr_Peer s) (sr_Collection s) (sr_Name s)\<rparr>)
       (filter (\<lambda>s. sr_Collection s = coll) snaps)"

definition resolveSources ::
    "'w RestoreReconciler \<Rightarrow> QdrantRestore \<Rightarrow> QdrantCluster \<Rightarrow> ('w, message + RestoreSource list) io" where
  "resolveSources r rs cluster =
     (if rss_Sources (res_Spec rs) \<noteq> [] then State_Monad.return (Inr (rss_Sources (res_Spec rs)))
      else if rss_FromBackup (res_Spec rs) = [] then
        State_Monad.return (Inl (Msg ''sources or fromBackup is needed'' []))
      else if (case spec_Snapshots (qc_Spec cluster) of None \<Rightarrow> False | Some sn \<Rightarrow> snap_Storage sn = SnapshotStorageS3)
      then State_Monad.return (Inl (Msg ''snapshots are in S3, give sources'' []))
      else do {
        got \<leftarrow> s_backup r (res_Namespace rs) (rss_FromBackup (res_Spec rs));
        case got of
          Inl _ \<Rightarrow> State_Monad.return (Inl (Msg ''backup cannot be read'' [ArgS (rss_FromBackup (res_Spec rs))]))
        | Inr backup \<Rightarrow>
            (let out = backupSources cluster (rss_Collection (res_Spec rs)) (bst_Snapshots (bk_Status backup)) in
             if out = [] then State_Monad.return (Inl (Msg ''backup has no snapshot of the collection''
               [ArgS (rss_FromBackup (res_Spec rs)), ArgS (rss_Collection (res_Spec rs))]))
             else State_Monad.return (Inr out))
      })"

definition restoreNext ::
    "'w RestoreReconciler \<Rightarrow> QdrantRestore \<Rightarrow> RestoreSource \<Rightarrow> RestoreSource list \<Rightarrow> QdrantCluster \<Rightarrow> QdrantRestoreStatus \<Rightarrow>
     ('w, kerr + Result) io" where
  "restoreNext r rs next rest cluster prev = do {
     let priority = (if rss_Priority (res_Spec rs) = [] then SnapshotPrioritySnapshot else rss_Priority (res_Spec rs));
     e \<leftarrow> q_RecoverSnapshot (Some (src_Peer next)) (s_QdrantClientForPeer r cluster (src_Peer next))
       (rss_Collection (res_Spec rs)) (src_Location next) priority;
     case e of
       Some m \<Rightarrow> do {
         let rs = degradeRestore r reasonRestoreFailed (Msg ''restore failed'' [ArgN (src_Peer next), ArgS m]) rs;
         EmitWarning reasonRestoreFailed (Text m);
         commitRestore r rs prev Minute
       }
     | None \<Rightarrow> do {
         let rs = upd_rs (\<lambda>s. s\<lparr>rst_Restored := rst_Restored s @ [next], rst_Pending := rest,
           rst_Phase := phaseRestoring\<rparr>) rs;
         Emit ''RestoreIssued'' (Msg ''restore'' [ArgS (rss_Collection (res_Spec rs)), ArgN (src_Peer next)]);
         commitRestore r rs prev Second
       }
   }"

text \<open>The rest of \<open>Reconcile\<close> once the sources are fixed: the next one, or the end.\<close>

definition finishRestore ::
    "'w RestoreReconciler \<Rightarrow> QdrantRestore \<Rightarrow> QdrantRestoreStatus \<Rightarrow> ('w, kerr + Result) io" where
  "finishRestore r rs prev = do {
     done \<leftarrow> inspect (s_Clock r);
     let rs = upd_rs (\<lambda>s. s\<lparr>rst_CompletionTime := Some done, rst_Phase := phaseRestoreDone,
       rst_ObservedGeneration := res_Generation rs\<rparr>) rs;
     let rs = set_rs_cond r condReady ConditionTrue reasonRestoreDone
       (Msg ''restores issued'' [ArgN (int (length (rst_Restored (res_Status rs))))]) rs;
     Emit reasonRestoreDone (Text (rss_Collection (res_Spec rs)));
     commitRestore r rs prev 0
   }"

definition restoreStep ::
    "'w RestoreReconciler \<Rightarrow> QdrantRestore \<Rightarrow> QdrantCluster \<Rightarrow> QdrantRestoreStatus \<Rightarrow> ('w, kerr + Result) io" where
  "restoreStep r rs cluster prev =
     (case rst_Pending (res_Status rs) of
        next # rest \<Rightarrow> restoreNext r rs next rest cluster prev
      | [] \<Rightarrow> finishRestore r rs prev)"

definition restore_Reconcile :: "'w RestoreReconciler \<Rightarrow> string \<Rightarrow> string \<Rightarrow> ('w, kerr + Result) io" where
  "restore_Reconcile r ns n = do {
     got \<leftarrow> s_get r ns n;
     case got of
       Inl KNotFound \<Rightarrow> State_Monad.return (Inr \<lparr>RequeueAfter = 0\<rparr>)
     | Inl k \<Rightarrow> State_Monad.return (Inl k)
     | Inr rs \<Rightarrow>
         if rst_CompletionTime (res_Status rs) \<noteq> None then State_Monad.return (Inr \<lparr>RequeueAfter = 0\<rparr>)
         else do {
           let prev = res_Status rs;
           got \<leftarrow> s_cluster r (res_Namespace rs) (rss_ClusterRef (res_Spec rs));
           case got of
             Inl KNotFound \<Rightarrow>
               commitRestore r (degradeRestore r ''ClusterNotFound''
                 (Msg ''cluster not found'' [ArgS (rss_ClusterRef (res_Spec rs)), ArgS (res_Namespace rs)]) rs)
                 prev (30 * Second)
           | Inl k \<Rightarrow> State_Monad.return (Inl k)
           | Inr cluster \<Rightarrow>
               if rst_Pending prev = [] \<and> rst_Restored prev = [] then do {
                 sources \<leftarrow> resolveSources r rs cluster;
                 case sources of
                   Inl m \<Rightarrow> commitRestore r (degradeRestore r reasonNoSnapshotRefs m rs) prev Minute
                 | Inr sources \<Rightarrow>
                     restoreStep r (upd_rs (\<lambda>s. s\<lparr>rst_Pending := sources, rst_Phase := phaseRestoring\<rparr>) rs) cluster prev
               }
               else restoreStep r rs cluster prev
         }
   }"

end
