(* ===== verification/Restore_Safety.thy ===== *)
theory Restore_Safety
  imports Restore_Controller
begin

text \<open>
  What the restore controller promises: one recovery per pass, each source at the peer it belongs to, a
  completion only after every source was recovered, and nothing after the completion.
\<close>

section \<open>Effects\<close>

fun is_recover :: "effect \<Rightarrow> bool" where
  "is_recover (Qdrant _ (QRecoverSnapshot _ _ _) _) = True"
| "is_recover _ = False"

fun rs_written :: "effect \<Rightarrow> QdrantRestoreStatus option" where
  "rs_written (Kube (KStatusRestore st) True) = Some st"
| "rs_written _ = None"

fun is_rs_write :: "effect \<Rightarrow> bool" where
  "is_rs_write (Kube (KStatusRestore _) _) = True"
| "is_rs_write _ = False"

definition calm :: "effect \<Rightarrow> bool" where
  "calm e \<longleftrightarrow> \<not> is_recover e \<and> \<not> is_rs_write e"

lemma calm_simps [simp]:
  "calm (Event b t m)" "calm (Kube (KGet k x y) ok)" "\<not> calm (Kube (KStatusRestore st) ok)"
  "\<not> calm (Qdrant p (QRecoverSnapshot c l q) ok)"
  by (simp_all add: calm_def)

lemma calm_unwritten: "calm e \<Longrightarrow> rs_written e = None"
  by (cases e rule: rs_written.cases) (auto simp: calm_def)

section \<open>Runs of a pass\<close>

lemma degradeRestore_sel [simp]:
  "rst_Pending (res_Status (degradeRestore r t m rs)) = rst_Pending (res_Status rs)"
  "rst_Restored (res_Status (degradeRestore r t m rs)) = rst_Restored (res_Status rs)"
  "rst_CompletionTime (res_Status (degradeRestore r t m rs)) = rst_CompletionTime (res_Status rs)"
  "res_Spec (degradeRestore r t m rs) = res_Spec rs"
  by (simp_all add: degradeRestore_def set_rs_cond_def)

lemma set_rs_cond_sel [simp]:
  "rst_Pending (res_Status (set_rs_cond r a b c m rs)) = rst_Pending (res_Status rs)"
  "rst_Restored (res_Status (set_rs_cond r a b c m rs)) = rst_Restored (res_Status rs)"
  "rst_CompletionTime (res_Status (set_rs_cond r a b c m rs)) = rst_CompletionTime (res_Status rs)"
  "res_Spec (set_rs_cond r a b c m rs) = res_Spec rs"
  by (simp_all add: set_rs_cond_def)

definition rs_writes :: "effect list \<Rightarrow> QdrantRestoreStatus \<Rightarrow> bool" where
  "rs_writes ws st \<longleftrightarrow> ws \<in> {[], [Kube (KStatusRestore st) True], [Kube (KStatusRestore st) False]}"

lemma commitRestore_run:
  assumes "run_state (commitRestore r rs' prev d) s = (res, s')"
  obtains ws where "trace s' = trace s @ ws" "rs_writes ws (res_Status rs')"
  using assms by (auto simp: commitRestore_def s_defs rs_writes_def split: if_splits option.splits prod.splits)

text \<open>The recovery of a source, sent to the peer it belongs to.\<close>

definition recovery :: "QdrantRestore \<Rightarrow> RestoreSource \<Rightarrow> bool \<Rightarrow> effect" where
  "recovery rs x ok = Qdrant (Some (src_Peer x)) (QRecoverSnapshot (rss_Collection (res_Spec rs)) (src_Location x)
     (if rss_Priority (res_Spec rs) = [] then SnapshotPrioritySnapshot else rss_Priority (res_Spec rs))) ok"

text \<open>
  \<open>restore_moves rs es st\<close>: the effects \<open>es\<close> of a step lead from \<open>rs\<close> to the status \<open>st\<close>: nothing but
  reporting, the recovery of the first pending source (failed or not), or the end.
\<close>

inductive restore_moves :: "QdrantRestore \<Rightarrow> effect list \<Rightarrow> QdrantRestoreStatus \<Rightarrow> bool" where
  report: "list_all calm es \<Longrightarrow> rst_Restored st = rst_Restored (res_Status rs) \<Longrightarrow> rst_Pending st = rst_Pending (res_Status rs) \<Longrightarrow>
    rst_CompletionTime st = rst_CompletionTime (res_Status rs) \<Longrightarrow> restore_moves rs es st"
| failed: "rst_Pending (res_Status rs) = x # rest \<Longrightarrow> list_all calm es0 \<Longrightarrow> list_all calm es \<Longrightarrow>
    rst_Restored st = rst_Restored (res_Status rs) \<Longrightarrow> rst_Pending st = x # rest \<Longrightarrow>
    rst_CompletionTime st = rst_CompletionTime (res_Status rs) \<Longrightarrow> restore_moves rs (es0 @ recovery rs x False # es) st"
| recovered: "rst_Pending (res_Status rs) = x # rest \<Longrightarrow> list_all calm es0 \<Longrightarrow> list_all calm es \<Longrightarrow>
    rst_Restored st = rst_Restored (res_Status rs) @ [x] \<Longrightarrow> rst_Pending st = rest \<Longrightarrow>
    rst_CompletionTime st = rst_CompletionTime (res_Status rs) \<Longrightarrow> restore_moves rs (es0 @ recovery rs x True # es) st"
| finished: "rst_Pending (res_Status rs) = [] \<Longrightarrow> rst_Restored (res_Status rs) \<noteq> [] \<Longrightarrow> list_all calm es \<Longrightarrow>
    rst_Restored st = rst_Restored (res_Status rs) \<Longrightarrow> rst_Pending st = [] \<Longrightarrow> restore_moves rs es st"

lemma restore_moves_after: "restore_moves rs es st \<Longrightarrow> list_all calm es0 \<Longrightarrow> restore_moves rs (es0 @ es) st"
proof (induction rule: restore_moves.induct)
  case (failed rs x rest es1 es st)
  then show ?case using restore_moves.failed [of rs x rest "es0 @ es1"] by simp
next
  case (recovered rs x rest es1 es st)
  then show ?case using restore_moves.recovered [of rs x rest "es0 @ es1"] by simp
qed (simp_all add: restore_moves.report restore_moves.finished)

lemma restoreStep_run:
  assumes run: "run_state (restoreStep r rs cl prev) s = (res, s')"
    and some: "rst_Restored (res_Status rs) @ rst_Pending (res_Status rs) \<noteq> []"
  obtains es ws st where "trace s' = trace s @ es @ ws" "restore_moves rs es st" "rs_writes ws st"
proof -
  note goal = that
  have fin: thesis if cm: "run_state (commitRestore r rs' prev d) s1 = (res, s')" and t1: "trace s1 = trace s @ es"
    and mv: "restore_moves rs es (res_Status rs')" for rs' d s1 es
  proof -
    obtain ws where "trace s' = trace s1 @ ws" "rs_writes ws (res_Status rs')" by (rule commitRestore_run [OF cm])
    then show thesis using t1 by (intro goal [OF _ mv]) simp_all
  qed
  show thesis
  proof (cases "rst_Pending (res_Status rs)")
    case Nil
    let ?rs = "set_rs_cond r condReady ConditionTrue reasonRestoreDone
       (Msg ''restores issued'' [ArgN (int (length (rst_Restored (res_Status rs))))])
       (upd_rs (\<lambda>st. st\<lparr>rst_CompletionTime := Some (s_Clock r (world s)), rst_Phase := phaseRestoreDone,
         rst_ObservedGeneration := res_Generation rs\<rparr>) rs)"
    let ?e = "Event False reasonRestoreDone (Text (rss_Collection (res_Spec rs)))"
    have "run_state (commitRestore r ?rs prev 0) (s\<lparr>trace := trace s @ [?e]\<rparr>) = (res, s')"
      using run Nil by (simp add: restoreStep_def finishRestore_def Let_def event_defs)
    then show thesis
      by (rule fin [where es = "[?e]"])
         (use Nil some in \<open>auto intro: restore_moves.finished\<close>)
  next
    case (Cons x rest)
    obtain e s1 where e: "run_state (q_RecoverSnapshot (Some (src_Peer x)) (s_QdrantClientForPeer r cl (src_Peer x))
        (rss_Collection (res_Spec rs)) (src_Location x) (if rss_Priority (res_Spec rs) = [] then SnapshotPrioritySnapshot
          else rss_Priority (res_Spec rs))) s = (e, s1)" by fastforce
    have t1: "trace s1 = trace s @ [recovery rs x (e = None)]"
      using e by (auto simp: q_defs recovery_def split: prod.splits)
    show thesis
    proof (cases e)
      case None
      let ?e = "Event False ''RestoreIssued'' (Msg ''restore'' [ArgS (rss_Collection (res_Spec rs)), ArgN (src_Peer x)])"
      have "run_state (commitRestore r (upd_rs (\<lambda>st. st\<lparr>rst_Restored := rst_Restored st @ [x], rst_Pending := rest,
          rst_Phase := phaseRestoring\<rparr>) rs) prev Second) (s1\<lparr>trace := trace s1 @ [?e]\<rparr>) = (res, s')"
        using run Cons e None by (simp add: restoreStep_def restoreNext_def Let_def event_defs)
      then show thesis
        by (rule fin [where es = "[recovery rs x True, ?e]"])
           (use Cons t1 None restore_moves.recovered [of rs x rest "[]" "[?e]"] in auto)
    next
      case (Some m)
      let ?e = "Event True reasonRestoreFailed (Text m)"
      have "run_state (commitRestore r (degradeRestore r reasonRestoreFailed (Msg ''restore failed''
          [ArgN (src_Peer x), ArgS m]) rs) prev Minute) (s1\<lparr>trace := trace s1 @ [?e]\<rparr>) = (res, s')"
        using run Cons e Some by (simp add: restoreStep_def restoreNext_def Let_def event_defs)
      then show thesis
        by (rule fin [where es = "[recovery rs x False, ?e]"])
           (use Cons t1 Some restore_moves.failed [of rs x rest "[]" "[?e]"] in auto)
    qed
  qed
qed

text \<open>What a step starts from: the stored object, or, when it has no sources yet, the resolved ones.\<close>

definition restore_begins :: "QdrantRestore \<Rightarrow> QdrantRestore \<Rightarrow> bool" where
  "restore_begins rs rs0 \<longleftrightarrow> rs0 = rs \<or>
     rst_Restored (res_Status rs) @ rst_Pending (res_Status rs) = [] \<and>
     (\<exists>srcs. srcs \<noteq> [] \<and> rs0 = upd_rs (\<lambda>s. s\<lparr>rst_Pending := srcs, rst_Phase := phaseRestoring\<rparr>) rs)"

lemma resolveSources_run:
  assumes "run_state (resolveSources r rs cl) s = (x, s')"
  obtains es where "trace s' = trace s @ es" "list_all calm es" "x \<noteq> Inr []"
  using assms by (auto simp: resolveSources_def s_defs Let_def split: if_splits sum.splits prod.splits option.splits)

lemma restore_Reconcile_run:
  assumes run: "run_state (restore_Reconcile r ns n) s = (res, s')"
    and got: "fst (s_GetRestore r ns n (world s)) = Inr rs" and undone: "rst_CompletionTime (res_Status rs) = None"
  obtains es ws st rs0 where "trace s' = trace s @ es @ ws" "restore_begins rs rs0" "restore_moves rs0 es st" "rs_writes ws st"
proof -
  note goal = that
  let ?g1 = "Kube (KGet ''QdrantRestore'' ns n) True"
  let ?g2 = "\<lambda>ok. Kube (KGet ''QdrantCluster'' (res_Namespace rs) (rss_ClusterRef (res_Spec rs))) ok"
  obtain w1 where w1: "s_GetRestore r ns n (world s) = (Inr rs, w1)" using got by (metis prod.collapse)
  obtain c w2 where c: "s_GetCluster r (res_Namespace rs) (rss_ClusterRef (res_Spec rs)) w1 = (c, w2)" by fastforce
  let ?s2 = "\<lambda>ok. s\<lparr>world := w2, trace := trace s @ [?g1, ?g2 ok]\<rparr>"
  have report: thesis if cm: "run_state (commitRestore r (degradeRestore r t m rs) prev d) s1 = (res, s')"
    and t1: "trace s1 = trace s @ es" and calm: "list_all calm es" for t m prev d s1 es
  proof -
    obtain ws where "trace s' = trace s1 @ ws" "rs_writes ws (res_Status (degradeRestore r t m rs))"
      by (rule commitRestore_run [OF cm])
    then show thesis using t1 calm
      by (intro goal [of es ws rs "res_Status (degradeRestore r t m rs)"]) (auto simp: restore_begins_def intro: restore_moves.report)
  qed
  have step: thesis if st: "run_state (restoreStep r rs0 cl prev) s1 = (res, s')" and b: "restore_begins rs rs0"
    and some: "rst_Restored (res_Status rs0) @ rst_Pending (res_Status rs0) \<noteq> []"
    and t1: "trace s1 = trace s @ es0" and calm: "list_all calm es0" for rs0 cl prev s1 es0
  proof -
    obtain es ws st where "trace s' = trace s1 @ es @ ws" and mv: "restore_moves rs0 es st" and "rs_writes ws st"
      by (rule restoreStep_run [OF st some])
    then show thesis using t1 by (intro goal [OF _ b restore_moves_after [OF mv calm]]) simp_all
  qed
  show thesis
  proof (cases c)
    case (Inl k)
    show thesis
    proof (cases "k = KNotFound")
      case True
      then show thesis using run w1 c Inl undone
        by (intro report [of "''ClusterNotFound''" "Msg ''cluster not found'' [ArgS (rss_ClusterRef (res_Spec rs)),
            ArgS (res_Namespace rs)]" "res_Status rs" "30 * Second" "?s2 False" "[?g1, ?g2 False]"])
           (auto simp: restore_Reconcile_def Let_def s_defs)
    next
      case False
      then have "trace s' = trace s @ [?g1, ?g2 False] @ []" using run w1 c Inl undone
        by (auto simp: restore_Reconcile_def Let_def s_defs split: kerr.splits)
      then show thesis
        by (rule goal [where st = "res_Status rs" and ?rs0.0 = rs])
           (auto simp: restore_begins_def rs_writes_def intro: restore_moves.report)
    qed
  next
    case (Inr cl)
    show thesis
    proof (cases "rst_Pending (res_Status rs) = [] \<and> rst_Restored (res_Status rs) = []")
      case False
      then show thesis using run w1 c Inr undone
        by (intro step [of rs cl "res_Status rs" "?s2 True" "[?g1, ?g2 True]"])
           (auto simp: restore_Reconcile_def Let_def s_defs restore_begins_def)
    next
      case True
      obtain x s3 where x: "run_state (resolveSources r rs cl) (?s2 True) = (x, s3)" by fastforce
      obtain es where es: "trace s3 = trace (?s2 True) @ es" "list_all calm es" "x \<noteq> Inr []"
        by (rule resolveSources_run [OF x])
      show thesis
      proof (cases x)
        case i: (Inl m)
        then show thesis using run w1 c Inr undone True x es
          by (intro report [of reasonNoSnapshotRefs m "res_Status rs" Minute s3 "[?g1, ?g2 True] @ es"])
             (auto simp: restore_Reconcile_def Let_def s_defs)
      next
        case i: (Inr srcs)
        then show thesis using run w1 c Inr undone True x es
          by (intro step [of "upd_rs (\<lambda>s. s\<lparr>rst_Pending := srcs, rst_Phase := phaseRestoring\<rparr>) rs" cl "res_Status rs" s3
              "[?g1, ?g2 True] @ es"])
             (auto simp: restore_Reconcile_def Let_def s_defs restore_begins_def)
      qed
    qed
  qed
qed

section \<open>Properties\<close>

lemma calm_no_recover: "list_all calm es \<Longrightarrow> filter is_recover es = []"
  by (auto simp: list_all_iff calm_def filter_empty_conv)

lemma recover_recovery [simp]: "is_recover (recovery rs x ok)" "rs_written (recovery rs x ok) = None"
  by (simp_all add: recovery_def)

lemma moves_recover:
  assumes "restore_moves rs es st" and "filter is_recover es \<noteq> []"
  obtains x rest ok where "rst_Pending (res_Status rs) = x # rest" "filter is_recover es = [recovery rs x ok]"
  using assms by (cases rule: restore_moves.cases) (auto simp: calm_no_recover)

lemma writes_no_recover: "rs_writes ws st \<Longrightarrow> filter is_recover ws = []"
  by (auto simp: rs_writes_def)

text \<open>
  C23: a pass issues at most one recovery, and a completed restore issues none: whatever the sources are,
  the recovery a pass issues is the one of the first source still to do, sent to the peer the source
  names, with the declared priority or \<open>snapshot\<close>; once a completion time is stored, a pass only reads
  the resource.
\<close>

theorem restore_issues_one:
  assumes "run_state (restore_Reconcile r ns n) s = (res, s')" and "fst (s_GetRestore r ns n (world s)) = Inr rs"
    and "trace s' = trace s @ es"
  shows "if rst_CompletionTime (res_Status rs) \<noteq> None
    then es = [Kube (KGet ''QdrantRestore'' ns n) True] \<and> res = Inr \<lparr>RequeueAfter = 0\<rparr>
    else filter is_recover es = [] \<or>
      (\<exists>rs0 x rest ok. restore_begins rs rs0 \<and> rst_Pending (res_Status rs0) = x # rest \<and>
         filter is_recover es = [recovery rs x ok])"
proof (cases "rst_CompletionTime (res_Status rs) \<noteq> None")
  case True
  obtain w1 where "s_GetRestore r ns n (world s) = (Inr rs, w1)" using assms(2) by (metis prod.collapse)
  then show ?thesis using True assms(1,3) by (auto simp: restore_Reconcile_def s_defs)
next
  case False
  then have undone: "rst_CompletionTime (res_Status rs) = None" by simp
  obtain es1 ws st rs0 where e: "trace s' = trace s @ es1 @ ws" "restore_begins rs rs0" "restore_moves rs0 es1 st" "rs_writes ws st"
    by (rule restore_Reconcile_run [OF assms(1,2) undone])
  have f: "filter is_recover es = filter is_recover es1" using e(1,4) assms(3) writes_no_recover by simp
  have same: "recovery rs0 = recovery rs" using e(2) by (auto simp: restore_begins_def recovery_def fun_eq_iff)
  show ?thesis
  proof (cases "filter is_recover es1 = []")
    case True
    then show ?thesis using f undone by simp
  next
    case False
    then obtain x rest ok where "rst_Pending (res_Status rs0) = x # rest" "filter is_recover es1 = [recovery rs0 x ok]"
      using moves_recover [OF e(3)] by metis
    then show ?thesis using f e(2) same undone by auto
  qed
qed

text \<open>
  The states of a restore resource: a fresh one; a pass that reads the stored object and whose write,
  if any succeeded, is stored; a pass on any copy whose write is refused; a change of the world.
\<close>

definition rs_stored :: "QdrantRestoreStatus \<Rightarrow> effect list \<Rightarrow> QdrantRestoreStatus" where
  "rs_stored st es = fold (\<lambda>e st. case rs_written e of None \<Rightarrow> st | Some st' \<Rightarrow> st') es st"

inductive restore_reach :: "'w RestoreReconciler \<Rightarrow> QdrantRestore \<Rightarrow> ('w, effect) sys \<Rightarrow> bool"
  for r :: "'w RestoreReconciler" where
  fresh: "rst_Pending (res_Status rs) = [] \<Longrightarrow> rst_Restored (res_Status rs) = [] \<Longrightarrow>
    rst_CompletionTime (res_Status rs) = None \<Longrightarrow> list_all (\<lambda>e. rs_written e = None) (trace s) \<Longrightarrow> restore_reach r rs s"
| pass: "restore_reach r rs s \<Longrightarrow> fst (s_GetRestore r ns n (world s)) = Inr rs \<Longrightarrow>
    run_state (restore_Reconcile r ns n) s = (res, s') \<Longrightarrow> trace s' = trace s @ es \<Longrightarrow>
    restore_reach r (rs\<lparr>res_Status := rs_stored (res_Status rs) es\<rparr>) s'"
| refused: "restore_reach r rs s \<Longrightarrow> run_state (restore_Reconcile r ns n) s = (res, s') \<Longrightarrow> trace s' = trace s @ es \<Longrightarrow>
    list_all (\<lambda>e. rs_written e = None) es \<Longrightarrow> restore_reach r rs s'"
| world: "restore_reach r rs s \<Longrightarrow> restore_reach r rs (s\<lparr>world := w\<rparr>)"

definition rs_sources :: "QdrantRestoreStatus \<Rightarrow> RestoreSource list" where
  "rs_sources st = rst_Restored st @ rst_Pending st"

text \<open>Every restored source was recovered; a completed restore has nothing left; the list never changes.\<close>

definition restore_inv :: "QdrantRestore \<Rightarrow> effect list \<Rightarrow> bool" where
  "restore_inv rs tr \<longleftrightarrow>
     list_all (\<lambda>x. recovery rs x True \<in> set tr) (rst_Restored (res_Status rs)) \<and>
     (rst_CompletionTime (res_Status rs) \<noteq> None \<longrightarrow> rst_Pending (res_Status rs) = [] \<and> rst_Restored (res_Status rs) \<noteq> []) \<and>
     (\<forall>e st. e \<in> set tr \<and> rs_written e = Some st \<and> rs_sources st \<noteq> [] \<longrightarrow> rs_sources st = rs_sources (res_Status rs))"

lemma restore_inv_moves:
  assumes inv: "restore_inv rs tr" and undone: "rst_CompletionTime (res_Status rs) = None"
    and "restore_begins rs rs0" and mv: "restore_moves rs0 es st"
  shows "restore_inv (rs\<lparr>res_Status := st\<rparr>) (tr @ es @ [Kube (KStatusRestore st) True]) \<and> list_all (\<lambda>e. rs_written e = None) es"
proof -
  have b: "recovery rs0 = recovery rs" "rst_Restored (res_Status rs0) = rst_Restored (res_Status rs)"
    "rst_CompletionTime (res_Status rs0) = None"
    "rs_sources (res_Status rs) \<noteq> [] \<Longrightarrow> rs_sources (res_Status rs0) = rs_sources (res_Status rs)"
    using assms(3) undone by (auto simp: restore_begins_def recovery_def fun_eq_iff rs_sources_def)
  have keep: "recovery (rs\<lparr>res_Status := st\<rparr>) = recovery rs" by (simp add: recovery_def fun_eq_iff)
  have unw: "list_all (\<lambda>e. rs_written e = None) es"
    using mv by (cases rule: restore_moves.cases) (auto simp: list_all_iff calm_unwritten)
  have src: "rs_sources st = rs_sources (res_Status rs0)"
    using mv by (cases rule: restore_moves.cases) (auto simp: rs_sources_def)
  have rec: "list_all (\<lambda>x. recovery rs x True \<in> set (tr @ es)) (rst_Restored st)"
    using mv by (cases rule: restore_moves.cases) (use inv b in \<open>auto simp: restore_inv_def list_all_iff\<close>)
  have fin: "rst_CompletionTime st \<noteq> None \<longrightarrow> rst_Pending st = [] \<and> rst_Restored st \<noteq> []"
    using mv by (cases rule: restore_moves.cases) (use b in auto)
  have old: "rs_sources st' = rs_sources st"
    if "e \<in> set tr" "rs_written e = Some st'" "rs_sources st' \<noteq> []" for e st'
    using that inv b(4) src unfolding restore_inv_def by metis
  show ?thesis
    using rec fin old unw by (auto simp: restore_inv_def keep list_all_iff)
qed

lemma restore_inv_unwritten:
  "restore_inv rs tr \<Longrightarrow> list_all (\<lambda>e. rs_written e = None) es \<Longrightarrow> restore_inv rs (tr @ es)"
  by (auto simp: restore_inv_def list_all_iff)

lemma rs_stored_unwritten: "list_all (\<lambda>e. rs_written e = None) es \<Longrightarrow> rs_stored st es = st"
  by (induction es arbitrary: st) (auto simp: rs_stored_def)

lemma restore_reach_inv: "restore_reach r rs s \<Longrightarrow> restore_inv rs (trace s)"
proof (induction rule: restore_reach.induct)
  case (fresh rs s)
  then show ?case by (auto simp: restore_inv_def list_all_iff)
next
  case (pass rs s ns n res s' es)
  show ?case
  proof (cases "rst_CompletionTime (res_Status rs) = None")
    case False
    obtain w1 where "s_GetRestore r ns n (world s) = (Inr rs, w1)" using pass.hyps(2) by (metis prod.collapse)
    then have "es = [Kube (KGet ''QdrantRestore'' ns n) True]"
      using False pass.hyps(3,4) by (auto simp: restore_Reconcile_def s_defs)
    then show ?thesis using pass.IH pass.hyps(4) by (simp add: rs_stored_def restore_inv_unwritten)
  next
    case True
    obtain es1 ws st rs0 where e: "trace s' = trace s @ es1 @ ws" "restore_begins rs rs0" "restore_moves rs0 es1 st" "rs_writes ws st"
      by (rule restore_Reconcile_run [OF pass.hyps(3,2) True])
    note inv = restore_inv_moves [OF pass.IH True e(2,3)]
    have es: "es = es1 @ ws" using e(1) pass.hyps(4) by simp
    show ?thesis
    proof (cases "ws = [Kube (KStatusRestore st) True]")
      case True
      then have "rs_stored (res_Status rs) es = st"
        using rs_stored_unwritten [OF conjunct2 [OF inv]] by (simp add: es rs_stored_def)
      then show ?thesis using inv True by (simp add: e(1))
    next
      case False
      then have "list_all (\<lambda>e. rs_written e = None) es" using e(4) inv by (auto simp: es rs_writes_def)
      then show ?thesis using pass.IH pass.hyps(4) by (simp add: rs_stored_unwritten restore_inv_unwritten)
    qed
  qed
next
  case (refused rs s ns n res s' es)
  then show ?case by (simp add: restore_inv_unwritten)
qed simp

text \<open>
  C22: a restore is complete only when all of it is done. Whatever failed, was refused or was read stale
  before: if a completion time is stored, nothing is pending, the restored sources are the whole list
  that was published when the sources were resolved, there is at least one, and for each of them a
  recovery into the declared collection was sent to its peer and accepted.
\<close>

theorem restore_complete_covers_sources:
  assumes "restore_reach r rs s" and "rst_CompletionTime (res_Status rs) \<noteq> None"
    and "Kube (KStatusRestore st) True \<in> set (trace s)" and "rst_Restored st @ rst_Pending st \<noteq> []"
  shows "rst_Pending (res_Status rs) = [] \<and> rst_Restored (res_Status rs) = rst_Restored st @ rst_Pending st \<and>
    list_all (\<lambda>x. recovery rs x True \<in> set (trace s)) (rst_Restored (res_Status rs))"
proof -
  have "rs_written (Kube (KStatusRestore st) True) = Some st" by simp
  then show ?thesis
    using restore_reach_inv [OF assms(1)] assms(2-4) unfolding restore_inv_def rs_sources_def by (metis append_Nil2)
qed

text \<open>
  The sources drawn from a backup are its snapshots of the collection: one per snapshot, in order,
  each at its own peer, with the address under which that peer serves it; a backup that recorded a
  whole generation yields every ordinal exactly as often as the collection was planned.
\<close>

theorem backupSources_of_generation:
  assumes "mset (map snap_key snaps) = mset (map pend_key (planGeneration colls replicas))"
  shows "count (mset (map src_Peer (backupSources cl c snaps))) ord =
      (if 0 \<le> ord \<and> ord < replicas then count (mset colls) c else 0) \<and>
    list_all (\<lambda>x. \<exists>sn. sn \<in> set snaps \<and> src_Peer x = sr_Peer sn \<and>
      src_Location x = peerSnapshotURL cl (sr_Peer sn) c (sr_Name sn)) (backupSources cl c snaps)"
proof -
  have "mset (map src_Peer (backupSources cl c snaps)) = image_mset snd (filter_mset (\<lambda>k. fst k = c) (mset (map snap_key snaps)))"
    by (induction snaps) (auto simp: backupSources_def snap_key_def)
  moreover have "count (image_mset snd (filter_mset (\<lambda>k. fst k = c) M)) ord = count M (c, ord)" for M :: "(string \<times> int) multiset"
    by (induction M) auto
  ultimately have "count (mset (map src_Peer (backupSources cl c snaps))) ord =
      count (mset (map pend_key (planGeneration colls replicas))) (c, ord)" using assms by simp
  moreover have "list_all (\<lambda>x. \<exists>sn. sn \<in> set snaps \<and> src_Peer x = sr_Peer sn \<and>
      src_Location x = peerSnapshotURL cl (sr_Peer sn) c (sr_Name sn)) (backupSources cl c snaps)"
    by (auto simp: backupSources_def list_all_iff)
  ultimately show ?thesis unfolding count_plan by blast
qed

end
