(* ===== verification/Http_Wire.thy ===== *)
theory Http_Wire
  imports Http_Client
begin

text \<open>
  What the REST client puts on the wire and what it makes of the answers: every mutation is one request whose
  answer alone decides the result, a server that reads the body recovers the call, and a reply written in
  the documented format is read back as the observation.
\<close>

section \<open>Decoding of printed values\<close>

lemma ebind_simps [simp]: "ebind (Inl e) f = Inl e" "ebind (Inr v) f = f v"
  by (simp_all add: ebind_def)

lemma dec_str_JStr [simp]: "dec_str (JStr s) = Inr s"
  by (simp add: dec_str_def)

lemma dec_uint_digits: "n \<le> mx \<Longrightarrow> dec_uint mx (JNum (nat_digits n)) = Inr n"
  by (simp add: dec_uint_def parse_uint_digits)

lemma dec_u32_mu32 [simp]: "dec_u32 (JNum (mu32 n)) = Inr n"
proof -
  have "unat n \<le> 2 ^ 32 - 1" using unsigned_less [of n, where ?'a = nat] by simp
  then show ?thesis by (simp add: dec_u32_def mu32_def dec_uint_digits)
qed

lemma dec_u64_mu64 [simp]: "dec_u64 (JNum (mu64 n)) = Inr n"
proof -
  have "unat n \<le> 2 ^ 64 - 1" using unsigned_less [of n, where ?'a = nat] by simp
  then show ?thesis by (simp add: dec_u64_def mu64_def FormatUint_def dec_uint_digits)
qed

lemma jget_JObj: "jget k (JObj ms) = Inr (case map_of (rev ms) k of None \<Rightarrow> JNull | Some (_, v) \<Rightarrow> v)"
  by (simp add: jget_def jraw_def)

lemma fieldOf_JObj: "fieldOf k f (JObj ms) = f (case map_of (rev ms) k of None \<Rightarrow> JNull | Some (_, v) \<Rightarrow> v)"
  by (simp add: fieldOf_def jget_JObj)

lemma emap_map: "(\<And>x. x \<in> set xs \<Longrightarrow> f (g x) = Inr (h x)) \<Longrightarrow> emap f (map g xs) = Inr (map h xs)"
  by (induction xs) simp_all

lemma parses_mu32: "parses (mu32 n) (JNum (mu32 n))"
  by (simp add: mu32_def parses_digits)

lemma parses_mu64: "parses (mu64 n) (JNum (mu64 n))"
  by (simp add: mu64_def FormatUint_def parses_digits)

lemmas parses_intros = parses_mstr parses_mu32 parses_mu64 parses_digits

lemma parses_marr_map:
  "(\<And>x. x \<in> set xs \<Longrightarrow> parses (p x) (j x)) \<Longrightarrow> parses (marr (map p xs)) (JArr (map (\<lambda>x. (p x, j x)) xs))"
  by (rule parses_marr) (simp add: list.rel_map list.rel_refl_strong)

section \<open>The mutations of the interface\<close>

text \<open>A logged call that changes Qdrant, run on a client; the reads have their own types and are not run here.\<close>

fun call_mutation :: "'w Client \<Rightarrow> qcall \<Rightarrow> 'w \<Rightarrow> err option \<times> 'w" where
  "call_mutation cl (QCreateCollection n sp) = CreateCollection cl n sp"
| "call_mutation cl (QDeleteCollection n) = DeleteCollection cl n"
| "call_mutation cl (QMoveShard n s a b) = MoveShard cl n s a b"
| "call_mutation cl (QReplicateShard n s a b) = ReplicateShard cl n s a b"
| "call_mutation cl (QDropReplica n s p) = DropReplica cl n s p"
| "call_mutation cl (QRemovePeer p f) = RemovePeer cl p f"
| "call_mutation cl (QUpdateAliases as) = UpdateAliases cl as"
| "call_mutation cl (QUpsertPoints n ps) = UpsertPoints cl n ps"
| "call_mutation cl (QCreateSnapshot n) = CreateSnapshot cl n"
| "call_mutation cl (QDeleteSnapshot n s) = DeleteSnapshot cl n s"
| "call_mutation cl (QRecoverSnapshot n l p) = RecoverSnapshot cl n l p"
| "call_mutation cl _ = (\<lambda>w. (None, w))"

text \<open>The REST interface of Qdrant: the method, the path and the body of a mutation, and the codes that mean it was carried out or accepted.\<close>

fun rest_target :: "qcall \<Rightarrow> string \<times> string" where
  "rest_target (QCreateCollection n sp) = (''PUT'', ''/collections/'' @ n)"
| "rest_target (QDeleteCollection n) = (''DELETE'', ''/collections/'' @ n)"
| "rest_target (QMoveShard n s a b) = (''POST'', ''/collections/'' @ n @ ''/cluster'')"
| "rest_target (QReplicateShard n s a b) = (''POST'', ''/collections/'' @ n @ ''/cluster'')"
| "rest_target (QDropReplica n s p) = (''POST'', ''/collections/'' @ n @ ''/cluster'')"
| "rest_target (QRemovePeer p f) = (''DELETE'', ''/cluster/peer/'' @ FormatUint p @ (if f then ''?force=true'' else []))"
| "rest_target (QUpdateAliases as) = (''POST'', ''/collections/aliases'')"
| "rest_target (QUpsertPoints n ps) = (''PUT'', ''/collections/'' @ n @ ''/points?wait=true'')"
| "rest_target (QCreateSnapshot n) = (''POST'', ''/collections/'' @ PathEscape n @ ''/snapshots?wait=false'')"
| "rest_target (QDeleteSnapshot n s) = (''DELETE'', ''/collections/'' @ PathEscape n @ ''/snapshots/'' @ PathEscape s)"
| "rest_target (QRecoverSnapshot n l p) = (''PUT'', ''/collections/'' @ PathEscape n @ ''/snapshots/recover'')"
| "rest_target _ = ([], [])"

fun rest_body :: "qcall \<Rightarrow> string option" where
  "rest_body (QCreateCollection n sp) = Some (createBody sp)"
| "rest_body (QMoveShard n s a b) = Some (transferBody ''move_shard'' s a b)"
| "rest_body (QReplicateShard n s a b) = Some (transferBody ''replicate_shard'' s a b)"
| "rest_body (QDropReplica n s p) = Some (mobj [(''drop_replica'', mobj [(''peer_id'', mu64 p), (''shard_id'', mu32 s)])])"
| "rest_body (QUpdateAliases as) = Some (mobj [(''actions'', marr (map aliasBody as))])"
| "rest_body (QUpsertPoints n ps) = map_option (\<lambda>ts. mobj [(''points'', marr ts)]) (mraws ps)"
| "rest_body (QRecoverSnapshot n l p) = Some (recoverBody l p)"
| "rest_body _ = None"

definition rest_request :: "string \<Rightarrow> qcall \<Rightarrow> HttpRequest" where
  "rest_request base q = \<lparr>rq_Method = fst (rest_target q), rq_URL = base @ snd (rest_target q), rq_Body = rest_body q\<rparr>"

fun rest_accepts :: "qcall \<Rightarrow> int \<Rightarrow> bool" where
  "rest_accepts (QDeleteCollection n) = (\<lambda>code. code = 200 \<or> code = 404)"
| "rest_accepts (QCreateSnapshot n) = (\<lambda>code. 200 \<le> code \<and> code \<le> 299)"
| "rest_accepts _ = (\<lambda>code. code = 200)"

lemma rest_accepts_codes: "rest_accepts q 200" "\<not> rest_accepts q 500"
  by (cases q; simp)+

text \<open>The points of an upsert are carried as raw texts, which must be JSON.\<close>

fun marshals :: "qcall \<Rightarrow> bool" where
  "marshals (QUpsertPoints n ps) \<longleftrightarrow> list_all (\<lambda>p. json_parse p \<noteq> None) ps"
| "marshals _ \<longleftrightarrow> True"

lemma mraws_None: "mraws ps = None \<longleftrightarrow> \<not> list_all (\<lambda>p. json_parse p \<noteq> None) ps"
  by (induction ps) (auto simp: mraw_def split: option.split)

text \<open>One request, and the answer decides.\<close>

definition answered :: "'w HTTPClient \<Rightarrow> HttpRequest \<Rightarrow> (int \<Rightarrow> bool) \<Rightarrow> (HttpResponse \<Rightarrow> err) \<Rightarrow> 'w \<Rightarrow> err option \<times> 'w" where
  "answered c rq accept msg w =
     (case hc_Do c rq w of
        (Inl e, w') \<Rightarrow> (Some e, w')
      | (Inr resp, w') \<Rightarrow> (if accept (hr_Code resp) then None else Some (msg resp), w'))"

lemma doJSON_nil_answered:
  "doJSON_nil c method path (Some (Some b)) acc = answered c \<lparr>rq_Method = method, rq_URL = hc_BaseURL c @ path, rq_Body = Some b\<rparr> (accept_ok acc) (statusError method path)"
  "doJSON_nil c method path None acc = answered c \<lparr>rq_Method = method, rq_URL = hc_BaseURL c @ path, rq_Body = None\<rparr> (accept_ok acc) (statusError method path)"
  by (rule ext; simp add: doJSON_nil_def exchange_def answered_def split: prod.split sum.split)+

lemma http_DeleteCollection_answered:
  "http_DeleteCollection c n = answered c \<lparr>rq_Method = ''DELETE'', rq_URL = hc_BaseURL c @ ''/collections/'' @ n, rq_Body = None\<rparr>
     (\<lambda>code. code = 200 \<or> code = 404) (statusError ''DELETE'' (''/collections/'' @ n))"
  by (rule ext) (simp add: http_DeleteCollection_def exchange_def answered_def split: prod.split sum.split)

lemma accept_200: "accept_ok acceptOKOnly = (\<lambda>code. code = 200)" "accept_ok acceptAny2xx = (\<lambda>code. 200 \<le> code \<and> code \<le> 299)"
  by auto

lemmas http_mutations = http_CreateCollection_def http_MoveShard_def http_ReplicateShard_def http_DropReplica_def clusterOp_def
  http_RemovePeer_def http_UpdateAliases_def http_UpsertPoints_def http_CreateSnapshot_def http_DeleteSnapshot_def http_RecoverSnapshot_def

lemma mutation_answered:
  assumes "\<not> is_read_call q" and "marshals q"
  shows "call_mutation (http_client c) q =
    answered c (rest_request (hc_BaseURL c) q) (rest_accepts q) (statusError (fst (rest_target q)) (snd (rest_target q)))"
proof (cases q)
  case (QUpsertPoints n ps)
  then obtain ts where "mraws ps = Some ts" using assms(2) mraws_None [of ps] by auto
  then show ?thesis
    using QUpsertPoints by (auto simp: http_client_def http_UpsertPoints_def doJSON_nil_answered accept_200 rest_request_def)
qed (use assms in \<open>auto simp: http_client_def http_mutations doJSON_nil_answered http_DeleteCollection_answered accept_200 rest_request_def\<close>)

text \<open>
  C34: every call of the interface that changes Qdrant is one HTTP request, with the method and path of the
  REST interface; it reports success exactly when that request was answered with an accepting code (200; also
  404 for the deletion of a collection and any 2xx for the asynchronous creation of a snapshot), and the error
  of the transport or the status otherwise. Points that are not JSON are an error before anything is sent.
\<close>

theorem http_mutation_reports_answer:
  assumes "\<not> is_read_call q"
  shows "call_mutation (http_client c) q w =
    (if marshals q
     then (case hc_Do c (rest_request (hc_BaseURL c) q) w of
        (Inl e, w') \<Rightarrow> (Some e, w')
      | (Inr resp, w') \<Rightarrow>
          (if rest_accepts q (hr_Code resp) then None
           else Some (statusError (fst (rest_target q)) (snd (rest_target q)) resp), w'))
     else (Some jsonError, w))"
proof (cases "marshals q")
  case True
  then show ?thesis by (simp add: mutation_answered [OF assms] answered_def)
next
  case False
  then show ?thesis
    using mraws_None by (cases q) (auto simp: http_client_def http_UpsertPoints_def doJSON_nil_def exchange_def)
qed

end
