(* ===== verification/Json_Compact.thy ===== *)
theory Json_Compact
  imports Json_Print
begin

text \<open>
  A \<open>json.RawMessage\<close> that is written esc loses its white space and has three characters escaped
  (\<open>compact\<close>), but remains the same JSON value. This is what makes the copy of points by a reshard a
  pipe that does not interpret them.
\<close>

section \<open>Values without their texts\<close>

primrec erase :: "json \<Rightarrow> json" where
  "erase JNull = JNull"
| "erase (JBool b) = JBool b"
| "erase (JNum t) = JNum t"
| "erase (JStr t) = JStr t"
| "erase (JArr es) = JArr (map (\<lambda>e. ([], snd e)) (map (map_prod id erase) es))"
| "erase (JObj ms) = JObj (map (\<lambda>m. (fst m, [], snd (snd m))) (map (map_prod id (map_prod id erase)) ms))"

definition same_value :: "string \<Rightarrow> string \<Rightarrow> bool" where
  "same_value p p' \<longleftrightarrow> (\<exists>j j'. json_parse p = Some j \<and> json_parse p' = Some j' \<and> erase j = erase j')"

section \<open>Strings\<close>

text \<open>The low surrogate an escape may continue with.\<close>

definition low :: "string \<Rightarrow> nat option" where
  "low s = (if take 2 s = [CHR 0x5C, CHR ''u''] then
      (case hex4 (take 4 (drop 2 s)) of Some l \<Rightarrow> if 0xDC00 \<le> l \<and> l \<le> 0xDFFF then Some l else None | None \<Rightarrow> None) else None)"

lemma escape_u_low:
  "escape_u u s =
     (if u < 0xD800 \<or> 0xDFFF < u then (utf8 u, 0)
      else case low s of
        Some l \<Rightarrow> if u < 0xDC00 then (utf8 (0x10000 + (u - 0xD800) * 1024 + (l - 0xDC00)), 6) else (utf8 0xFFFD, 0)
      | None \<Rightarrow> (utf8 0xFFFD, 0))"
  by (auto simp: escape_u_def low_def split: option.split)

lemma hex_plain: "is_hex c \<Longrightarrow> c \<noteq> CHR 0x5C \<and> c \<noteq> CHR 0x22 \<and> \<not> escape_html c"
  by (auto simp: is_hex_def is_digit_def escape_html_def)

lemma compact_hex: "list_all is_hex h \<Longrightarrow> compact True (h @ s) = h @ compact True s"
  using hex_plain by (induction h) simp_all

lemma compact_special:
  assumes "c = CHR 0x5C \<or> c = CHR 0x22 \<or> escape_html c"
  shows "\<exists>x xs. compact True (c # cs) = x # xs \<and> \<not> is_hex x"
proof -
  have bs: "\<not> is_hex (CHR 0x5C)" "\<not> is_hex (CHR 0x22)" using hex_plain by blast+
  consider "c = CHR 0x5C" | "c = CHR 0x22" | "c \<noteq> CHR 0x5C" "c \<noteq> CHR 0x22" "escape_html c" using assms by blast
  then show ?thesis
  proof cases
    case 1 then show ?thesis using bs by (cases cs) simp_all
  next
    case 2 then show ?thesis using bs by simp
  next
    case 3 then show ?thesis using bs by (simp add: u00_def)
  qed
qed

lemma compact_hex_take:
  "length (take n s) = n \<and> list_all is_hex (take n s) \<longleftrightarrow>
     length (take n (compact True s)) = n \<and> list_all is_hex (take n (compact True s))"
proof (induction n arbitrary: s)
  case (Suc n)
  show ?case
  proof (cases s)
    case (Cons c cs)
    show ?thesis
    proof (cases "c = CHR 0x5C \<or> c = CHR 0x22 \<or> escape_html c")
      case True
      then have "\<not> is_hex c" using hex_plain by blast
      moreover obtain x xs where "compact True s = x # xs" "\<not> is_hex x"
        using compact_special [OF True, of cs] Cons by blast
      ultimately show ?thesis using Cons by (simp del: compact.simps)
    next
      case False
      then show ?thesis using Cons Suc [of cs] by auto
    qed
  qed simp
qed simp

lemma hex4_compact: "hex4 (take 4 (compact True s)) = hex4 (take 4 s)"
proof (cases "length (take 4 s) = 4 \<and> list_all is_hex (take 4 s)")
  case True
  then have "compact True s = take 4 s @ compact True (drop 4 s)"
    using compact_hex [of "take 4 s" "drop 4 s"] by simp
  then show ?thesis using True by simp
next
  case False
  then show ?thesis using compact_hex_take [of 4 s] by (auto simp: hex4_def)
qed

lemma low_compact: "low (compact True s) = low s"
proof (cases s)
  case (Cons c cs)
  show ?thesis
  proof (cases "c = CHR 0x5C")
    case True
    then show ?thesis using Cons by (cases cs) (simp_all add: low_def hex4_compact)
  next
    case False
    moreover have "\<not> 56320 \<le> (of_char c :: nat)" using char_less_256 [of c] by linarith
    ultimately show ?thesis using Cons hex4_byte [of c] by (simp add: low_def u00_def)
  qed
qed (simp add: low_def)

lemma hex4_quote: "hex4 (take 4 (b @ CHR 0x22 # r)) = hex4 (take 4 (b @ CHR 0x22 # r'))"
proof (cases "4 \<le> length b")
  case False
  then obtain k where "4 - length b = Suc k" by (cases "4 - length b") auto
  then have "CHR 0x22 \<in> set (take 4 (b @ CHR 0x22 # x))" for x by simp
  then have "\<not> list_all is_hex (take 4 (b @ CHR 0x22 # x))" for x
    using hex_plain [of "CHR 0x22"] unfolding list_all_iff by blast
  then show ?thesis by (simp only: hex4_def if_False simp_thms)
qed simp

lemma low_quote: "low (b @ CHR 0x22 # r) = low (b @ CHR 0x22 # r')"
proof (cases b rule: remdups_adj.cases)
  case (3 x y zs)
  then show ?thesis using hex4_quote [of zs r r'] by (simp add: low_def)
qed (simp_all add: low_def)

text \<open>A string literal is closed by its quote, and compacted it is the same string.\<close>

definition reads_string :: "string \<Rightarrow> string \<Rightarrow> bool" where
  "reads_string c t \<longleftrightarrow> (\<exists>b. c = b @ [CHR 0x22]) \<and> (\<forall>rest. lex_string (c @ rest) = Some (t, rest))"

lemma reads_stringI: "c = b @ [CHR 0x22] \<Longrightarrow> (\<And>rest. lex_string (c @ rest) = Some (t, rest)) \<Longrightarrow> reads_string c t"
  by (auto simp: reads_string_def)

lemma reads_string_cons:
  "reads_string c t \<Longrightarrow> (\<And>rest. lex_string (p @ c @ rest) = map_option (\<lambda>(t, r). (x @ t, r)) (lex_string (c @ rest))) \<Longrightarrow> reads_string (p @ c) (x @ t)"
  by (auto simp: reads_string_def)

lemma lex_string_u:
  assumes "hex4 (take 4 r) = Some u"
  shows "lex_string (CHR 0x5C # CHR ''u'' # r) =
    map_option (\<lambda>(t, rest). (fst (escape_u u (drop 4 r)) @ t, rest)) (lex_string (drop (snd (escape_u u (drop 4 r))) (drop 4 r)))"
  using assms by (subst lex_string.simps) (simp add: Let_def)

lemma hex4_SomeD: "hex4 h = Some u \<Longrightarrow> length h = 4 \<and> list_all is_hex h"
  by (auto simp: hex4_def split: if_splits)

lemma low_SomeD:
  assumes "low s = Some l"
  obtains h s' where "s = CHR 0x5C # CHR ''u'' # h @ s'" "length h = 4" "list_all is_hex h"
proof -
  have e: "take 2 s = [CHR 0x5C, CHR ''u'']" and h: "hex4 (take 4 (drop 2 s)) = Some l"
    using assms by (auto simp: low_def split: if_splits option.splits)
  have "s = take 2 s @ take 4 (drop 2 s) @ drop 4 (drop 2 s)" by (metis append_take_drop_id)
  then show thesis using that [of "take 4 (drop 2 s)" "drop 4 (drop 2 s)"] e hex4_SomeD [OF h] by simp
qed

lemma escape_u_step: "snd (escape_u u s) = 0 \<or> snd (escape_u u s) = 6 \<and> (\<exists>l. low s = Some l)"
  by (auto simp: escape_u_low split: option.split)

lemma lex_string_compact:
  "lex_string s = Some (t, r) \<Longrightarrow> \<exists>c. compact True s = c @ compact False r \<and> reads_string c t"
proof (induction s arbitrary: t rule: measure_induct_rule [of length])
  case (less s)
  obtain a cs where s: "s = a # cs" using less.prems by (cases s) (simp_all add: lex_string.simps)
  consider (quote) "a = CHR 0x22" | (esc) "a = CHR 0x5C" | (plain) "a \<noteq> CHR 0x22" "a \<noteq> CHR 0x5C" "32 \<le> (of_char a :: nat)"
    using less.prems s by (subst (asm) lex_string.simps) (auto split: if_splits)
  then show ?case
  proof cases
    case quote
    then have "t = []" "r = cs" using less.prems s by (simp_all add: lex_string_quote)
    moreover have "reads_string [CHR 0x22] []" by (rule reads_stringI [of _ "[]"]) (simp_all add: lex_string_quote)
    ultimately show ?thesis using quote s by (intro exI [of _ "[CHR 0x22]"]) simp
  next
    case plain
    then obtain t' where t': "lex_string cs = Some (t', r)" "t = a # t'"
      using less.prems s by (auto simp: lex_string_plain)
    then obtain c where c: "compact True cs = c @ compact False r" "reads_string c t'" using less.IH [of cs] s by auto
    have "(of_char a :: nat) < 128" if "escape_html a" using that by (auto simp: escape_html_def)
    then have "reads_string ((if escape_html a then u00 a else [a]) @ c) ([a] @ t')"
      using plain by (intro reads_string_cons [OF c(2)]) (auto simp: lex_string_u00 lex_string_plain)
    then show ?thesis using plain s c(1) t'(2) by (intro exI [of _ "(if escape_html a then u00 a else [a]) @ c"]) simp
  next
    case esc
    obtain e r0 where cs: "cs = e # r0" using less.prems s esc by (cases cs) (simp_all add: lex_string.simps [of "[CHR 0x5C]"])
    show ?thesis
    proof (cases "e = CHR ''u''")
      case False
      then obtain x t' where t': "escape_char e = Some x" "lex_string r0 = Some (t', r)" "t = x # t'"
        using less.prems s esc cs by (subst (asm) lex_string.simps) (auto split: option.splits)
      then obtain c where c: "compact True r0 = c @ compact False r" "reads_string c t'" using less.IH [of r0] s cs by auto
      have "reads_string ([CHR 0x5C, e] @ c) ([x] @ t')"
        using False t'(1) by (intro reads_string_cons [OF c(2)]) (simp add: lex_string_esc)
      then show ?thesis using s esc cs c(1) t'(3) by (intro exI [of _ "[CHR 0x5C, e] @ c"]) simp
    next
      case True
      then obtain u where u: "hex4 (take 4 r0) = Some u"
        using less.prems s esc cs by (subst (asm) lex_string.simps) (auto split: option.splits)
      define h s1 k x where defs: "h = take 4 r0" "s1 = drop 4 r0" "k = snd (escape_u u s1)" "x = fst (escape_u u s1)"
      have h: "length h = 4" "list_all is_hex h" "r0 = h @ s1" using hex4_SomeD [OF u] defs by simp_all
      have hu: "hex4 h = Some u" using u defs by simp
      obtain t' where t': "lex_string (drop k s1) = Some (t', r)" "t = x @ t'"
        using less.prems s esc cs True lex_string_u [OF u] defs by auto
      have len: "length (drop k s1) < length s" using s cs h(3) by simp
      obtain c where c: "compact True (drop k s1) = c @ compact False r" "reads_string c t'"
        using less.IH [OF len t'(1)] by blast
      obtain b where b: "c = b @ [CHR 0x22]" using c(2) by (auto simp: reads_string_def)
      define g where "g = take k s1"
      have g: "compact True s1 = g @ c @ compact False r \<and> length g = k"
      proof (cases "k = 0")
        case False
        then obtain l where "low s1 = Some l" and k: "k = 6" using escape_u_step [of u s1] defs(3) by auto
        then obtain h' s2 where "s1 = CHR 0x5C # CHR ''u'' # h' @ s2" "length h' = 4" "list_all is_hex h'" by (elim low_SomeD)
        then show ?thesis using c(1) k by (simp add: g_def compact_hex)
      qed (use c(1) g_def in simp)
      then have "low (g @ c @ rest) = low s1" for rest
        using low_quote [of "g @ b" rest "compact False r"] low_compact [of s1] b by simp
      then have "escape_u u (g @ c @ rest) = escape_u u s1" for rest by (simp only: escape_u_low)
      then have "lex_string (([CHR 0x5C, CHR ''u''] @ h @ g) @ c @ rest) = map_option (\<lambda>(t, r). (x @ t, r)) (lex_string (c @ rest))" for rest
        using lex_string_u [of "h @ g @ c @ rest" u] h(1) hu g defs(3,4) by simp
      then have "reads_string (([CHR 0x5C, CHR ''u''] @ h @ g) @ c) (x @ t')" by (rule reads_string_cons [OF c(2)])
      then show ?thesis
        using s esc cs True h(2,3) g t'(2) by (intro exI [of _ "([CHR 0x5C, CHR ''u''] @ h @ g) @ c"]) (simp add: compact_hex)
    qed
  qed
qed

section \<open>Numbers and literals\<close>

definition number_char :: "char \<Rightarrow> bool" where
  "number_char c \<longleftrightarrow> is_digit c \<or> c \<in> set ''+-.eE''"

text \<open>What may follow a number without being read as part of it.\<close>

definition ends_number :: "string \<Rightarrow> bool" where
  "ends_number r \<longleftrightarrow> r = [] \<or> \<not> number_char (hd r)"

lemma follows_ends_number: "follows r \<Longrightarrow> ends_number r"
  by (auto simp: follows_def ends_number_def number_char_def is_digit_def)

lemma ends_number_not: "ends_number (c # r) \<Longrightarrow> \<not> is_digit c \<and> c \<noteq> CHR ''.'' \<and> c \<noteq> CHR ''e'' \<and> c \<noteq> CHR ''E''"
  by (auto simp: ends_number_def number_char_def)

lemma lex_digits_again:
  assumes "lex_digits s = Some (d, r)"
  shows "s = d @ r" "list_all is_digit d" "d \<noteq> []" "r' = [] \<or> \<not> is_digit (hd r') \<Longrightarrow> lex_digits (d @ r') = Some (d, r')"
proof -
  have d: "d = takeWhile is_digit s" "r = dropWhile is_digit s" "d \<noteq> []" using assms by (auto simp: lex_digits_def split: if_splits)
  then show "s = d @ r" "list_all is_digit d" "d \<noteq> []" by (auto simp: list_all_iff dest: set_takeWhileD)
  then have "takeWhile is_digit (d @ r') = d" "dropWhile is_digit (d @ r') = r'" if "r' = [] \<or> \<not> is_digit (hd r')"
    using that by (cases r'; auto simp: list_all_iff takeWhile_append dropWhile_append)+
  then show "lex_digits (d @ r') = Some (d, r')" if "r' = [] \<or> \<not> is_digit (hd r')" using that d(3) by (simp add: lex_digits_def)
qed

lemma lex_int_again:
  assumes "lex_int s = Some (i, r)"
  shows "s = i @ r" "list_all is_digit i" "i \<noteq> []" "r' = [] \<or> \<not> is_digit (hd r') \<Longrightarrow> lex_int (i @ r') = Some (i, r')"
proof -
  show "s = i @ r" "list_all is_digit i" "i \<noteq> []"
    using assms lex_digits_again [of s i r]
    by (auto simp: lex_int_def eat_def is_digit_def split: option.splits list.splits if_splits)
  show "lex_int (i @ r') = Some (i, r')" if "r' = [] \<or> \<not> is_digit (hd r')"
  proof (cases "eat (CHR ''0'') s")
    case None
    then have d: "lex_digits s = Some (i, r)" using assms by (simp add: lex_int_def)
    obtain x xs where "i = x # xs" using lex_digits_again(3) [OF d] by (cases i) auto
    then have "eat (CHR ''0'') (i @ r') = None" using None lex_digits_again(1) [OF d] by (simp add: eat_def split: if_splits)
    then show ?thesis using lex_digits_again(4) [OF d that] by (simp add: lex_int_def)
  next
    case (Some r0)
    then have "i = ''0''" using assms by (simp add: lex_int_def)
    then show ?thesis by (simp add: lex_int_def eat_def)
  qed
qed

lemma lex_frac_again:
  assumes "lex_frac s = Some (f, r)"
  shows "s = f @ r" "list_all number_char f" "f = [] \<or> hd f = CHR ''.''"
    "r' = [] \<or> \<not> is_digit (hd r') \<and> hd r' \<noteq> CHR ''.'' \<Longrightarrow> lex_frac (f @ r') = Some (f, r')"
proof -
  consider (none) "eat (CHR ''.'') s = None" "f = []" "r = s"
    | (frac) d s' where "s = CHR ''.'' # s'" "f = CHR ''.'' # d" "lex_digits s' = Some (d, r)"
    using assms by (cases s) (auto simp: lex_frac_def eat_def split: option.splits if_splits)
  note cases = this
  show "s = f @ r" "list_all number_char f" "f = [] \<or> hd f = CHR ''.''"
    using cases by (cases; auto simp: number_char_def list_all_iff dest: lex_digits_again(1,2))+
  show "lex_frac (f @ r') = Some (f, r')" if "r' = [] \<or> \<not> is_digit (hd r') \<and> hd r' \<noteq> CHR ''.''"
    using cases
  proof cases
    case none
    then show ?thesis using that by (cases r') (auto simp: lex_frac_def eat_def)
  next
    case (frac d s')
    have "lex_digits (d @ r') = Some (d, r')" by (rule lex_digits_again(4) [OF frac(3)]) (use that in blast)
    then show ?thesis using frac(2) by (simp add: lex_frac_def eat_def)
  qed
qed

lemma lex_exp_cases:
  assumes "lex_exp s = Some (e, r)"
  obtains (none) "s = [] \<or> hd s \<noteq> CHR ''e'' \<and> hd s \<noteq> CHR ''E''" "e = []" "r = s"
    | (exp) x g d where "s = x # g @ d @ r" "x = CHR ''e'' \<or> x = CHR ''E''" "g = [] \<or> g = ''+'' \<or> g = ''-''" "e = x # g @ d"
        "lex_digits (d @ r) = Some (d, r)"
proof (cases "s = [] \<or> hd s \<noteq> CHR ''e'' \<and> hd s \<noteq> CHR ''E''")
  case True
  then have "lex_exp s = Some ([], s)" by (cases s) (simp_all add: lex_exp_def)
  then show ?thesis using assms none True by simp
next
  case False
  then obtain x s' where s: "s = x # s'" and x: "x = CHR ''e'' \<or> x = CHR ''E''" by (cases s) auto
  define g where "g = (case s' of c # _ \<Rightarrow> if c = CHR ''+'' \<or> c = CHR ''-'' then [c] else [] | [] \<Rightarrow> [])"
  have g: "(g = [] \<or> g = ''+'' \<or> g = ''-'') \<and> g @ drop (length g) s' = s'" by (cases s') (simp_all add: g_def)
  have "lex_exp s = map_option (\<lambda>(d, r). (x # g @ d, r)) (lex_digits (drop (length g) s'))"
    using x by (simp add: s lex_exp_def Let_def g_def)
  then obtain d where d: "lex_digits (drop (length g) s') = Some (d, r)" "e = x # g @ d"
    using assms by (cases "lex_digits (drop (length g) s')") auto
  have dr: "drop (length g) s' = d @ r" by (rule lex_digits_again(1) [OF d(1)])
  show ?thesis
  proof (rule exp)
    show "s = x # g @ d @ r" using g s dr by metis
    show "lex_digits (d @ r) = Some (d, r)" using d(1) dr by simp
  qed (use x g d(2) in blast)+
qed

lemma lex_exp_signed:
  assumes "x = CHR ''e'' \<or> x = CHR ''E''" and "g = [] \<or> g = ''+'' \<or> g = ''-''" and "d = y # ys" and "is_digit y"
  shows "lex_exp (x # g @ d @ r) = map_option (\<lambda>(d', r). (x # g @ d', r)) (lex_digits (d @ r))"
proof -
  have "y \<noteq> CHR ''+''" "y \<noteq> CHR ''-''" using assms(4) by (auto simp: is_digit_def)
  then have "(case g @ d @ r of c # _ \<Rightarrow> if c = CHR ''+'' \<or> c = CHR ''-'' then [c] else [] | [] \<Rightarrow> []) = g"
    using assms(2,3) by (elim disjE) simp_all
  then show ?thesis using assms(1) by (simp add: lex_exp_def Let_def)
qed

lemma lex_exp_again:
  assumes "lex_exp s = Some (e, r)"
  shows "s = e @ r" "list_all number_char e" "e = [] \<or> hd e = CHR ''e'' \<or> hd e = CHR ''E''"
    "ends_number r' \<Longrightarrow> lex_exp (e @ r') = Some (e, r')"
proof -
  show "s = e @ r" using assms by (cases rule: lex_exp_cases) simp_all
  show "e = [] \<or> hd e = CHR ''e'' \<or> hd e = CHR ''E''" using assms by (cases rule: lex_exp_cases) simp_all
  show "list_all number_char e" using assms
  proof (cases rule: lex_exp_cases)
    case (exp x g d)
    have "list_all number_char d" using lex_digits_again(2) [OF exp(5)] by (simp add: list_all_iff number_char_def)
    moreover have "number_char x" using exp(2) by (auto simp: number_char_def)
    moreover have "list_all number_char g" using exp(3) by (auto simp: number_char_def)
    ultimately show ?thesis using exp(4) by simp
  qed simp
  show "lex_exp (e @ r') = Some (e, r')" if r': "ends_number r'"
    using assms
  proof (cases rule: lex_exp_cases)
    case none
    then show ?thesis using ends_number_not r' by (cases r') (simp_all add: lex_exp_def)
  next
    case (exp x g d)
    have "r' = [] \<or> \<not> is_digit (hd r')" using r' by (auto simp: ends_number_def number_char_def)
    then have d: "lex_digits (d @ r') = Some (d, r')" by (rule lex_digits_again(4) [OF exp(5)])
    obtain y ys where "d = y # ys" "is_digit y" using lex_digits_again(2,3) [OF exp(5)] by (cases d) auto
    from lex_exp_signed [OF exp(2,3) this, of r'] show ?thesis by (simp add: exp(4) d)
  qed
qed

lemma lex_number_again:
  assumes "lex_number s = Some (t, r)"
  shows "s = t @ r" "list_all number_char t" "t \<noteq> []" "\<And>rest. ends_number rest \<Longrightarrow> lex_number (t @ rest) = Some (t, rest)"
proof -
  define sgn where "sgn = (if eat (CHR ''-'') s = None then [] else ''-'')"
  have s0: "s = sgn @ drop (length sgn) s" by (cases s) (auto simp: sgn_def eat_def)
  obtain i r1 f r2 e where i: "lex_int (drop (length sgn) s) = Some (i, r1)" and f: "lex_frac r1 = Some (f, r2)"
      and e: "lex_exp r2 = Some (e, r)" and t: "t = sgn @ i @ f @ e"
    using assms by (auto simp: lex_number_def Let_def sgn_def split: option.splits prod.splits)
  show "s = t @ r"
    using s0 lex_int_again(1) [OF i] lex_frac_again(1) [OF f] lex_exp_again(1) [OF e] t by (metis append_assoc)
  have "list_all number_char i" using lex_int_again(2) [OF i] by (simp add: list_all_iff number_char_def)
  then show "list_all number_char t"
    using lex_frac_again(2) [OF f] lex_exp_again(2) [OF e] t by (simp add: sgn_def number_char_def)
  obtain x xs where x: "i = x # xs" "is_digit x" using lex_int_again(2,3) [OF i] by (cases i) auto
  then show "t \<noteq> []" using t by simp
  fix rest assume rest: "ends_number rest"
  have er: "hd (e @ rest) \<noteq> CHR ''.'' \<and> \<not> is_digit (hd (e @ rest))" if "e @ rest \<noteq> []"
    using lex_exp_again(3) [OF e] rest that ends_number_not [of "hd rest" "tl rest"]
    by (cases "e = []") (auto simp: is_digit_def)
  have fr: "f @ e @ rest = [] \<or> \<not> is_digit (hd (f @ e @ rest))"
    using lex_frac_again(3) [OF f] er by (cases "f = []") (auto simp: is_digit_def)
  have "drop (length sgn) (t @ rest) = i @ f @ e @ rest" using t by simp
  moreover have "(if eat (CHR ''-'') (t @ rest) = None then [] else ''-'') = sgn"
    using x t by (auto simp: sgn_def eat_def is_digit_def)
  moreover have "lex_frac (f @ e @ rest) = Some (f, e @ rest)"
    by (rule lex_frac_again(4) [OF f]) (use er in blast)
  ultimately show "lex_number (t @ rest) = Some (t, rest)"
    using lex_int_again(4) [OF i fr] lex_exp_again(4) [OF e rest] t by (simp add: lex_number_def Let_def)
qed

lemma compact_number: "list_all number_char t \<Longrightarrow> compact False (t @ r) = t @ compact False r"
proof (induction t)
  case (Cons c t)
  then have "number_char c" by simp
  then have "\<not> is_ws c" "c \<noteq> CHR 0x22" by (auto simp: number_char_def is_digit_def is_ws_def)
  then show ?case using Cons by simp
qed simp

lemma literal_again:
  assumes "literal word v s = Some (x, r)" and "list_all (\<lambda>c. \<not> is_ws c \<and> c \<noteq> CHR 0x22) word"
  shows "x = v" "compact False s = word @ compact False r" "literal word v (word @ rest) = Some (v, rest)"
proof -
  have s: "s = word @ r" and "x = v" using assms(1) by (auto simp: literal_def split: if_splits) (metis append_take_drop_id)
  then show "x = v" by simp
  have "compact False (word @ r) = word @ compact False r" using assms(2) by (induction word) simp_all
  then show "compact False s = word @ compact False r" using s by simp
  show "literal word v (word @ rest) = Some (v, rest)" by (simp add: literal_def)
qed

section \<open>Values\<close>

lemma compact_ws [simp]: "compact False (skip_ws s) = compact False s"
  by (induction s) (simp_all add: skip_ws_def)

lemma compact_eat: "eat c (skip_ws s) = Some r \<Longrightarrow> \<not> is_ws c \<Longrightarrow> c \<noteq> CHR 0x22 \<Longrightarrow> compact False s = c # compact False r"
proof -
  assume e: "eat c (skip_ws s) = Some r" and c: "\<not> is_ws c" "c \<noteq> CHR 0x22"
  have "skip_ws s = c # r" using e by (auto simp: eat_def split: list.splits if_splits)
  then have "compact False (skip_ws s) = c # compact False r" using c by simp
  then show ?thesis by simp
qed

lemma parses_compact_string:
  assumes "lex_string s = Some (t, r)"
  shows "\<exists>c. compact False (CHR 0x22 # s) = c @ compact False r \<and> key_text c t \<and> parses c (JStr t)"
proof -
  obtain c where c: "compact True s = c @ compact False r" "reads_string c t" using lex_string_compact [OF assms] by blast
  then have "key_text (CHR 0x22 # c) t" by (auto simp: key_text_def reads_string_def)
  moreover have "j_value n ((CHR 0x22 # c) @ rest) = Some (JStr t, rest)" if "2 * length (CHR 0x22 # c) < n" for n rest
    using that c(2) by (cases n) (simp_all add: reads_string_def)
  then have "parses (CHR 0x22 # c) (JStr t)" by (simp add: parses_def starts_def is_ws_def)
  ultimately show ?thesis using c(1) by (intro exI [of _ "CHR 0x22 # c"]) (simp add: is_ws_def)
qed

lemma parses_number:
  assumes "lex_number s = Some (t, r)" and "s = x # xs"
    and "x \<noteq> CHR ''{''" "x \<noteq> CHR ''[''" "x \<noteq> CHR 0x22" "x \<noteq> CHR ''n''" "x \<noteq> CHR ''t''" "x \<noteq> CHR ''f''"
  shows "compact False s = t @ compact False r \<and> parses t (JNum t)"
proof -
  have t: "s = t @ r" "list_all number_char t" "t \<noteq> []" by (rule lex_number_again [OF assms(1)])+
  then obtain ts where x: "t = x # ts" using assms(2) by (cases t) auto
  then have "number_char x" using t(2) by simp
  then have "starts t" by (auto simp: x starts_def number_char_def is_digit_def is_ws_def)
  moreover have "j_value n (t @ rest) = Some (JNum t, rest)" if "2 * length t < n" "follows rest" for n rest
    using that(1) assms(3-8) lex_number_again(4) [OF assms(1) follows_ends_number [OF that(2)]] by (cases n) (simp_all add: x)
  ultimately show ?thesis using compact_number [OF t(2), of r] t(1) by (simp add: parses_def)
qed

lemma parses_literal:
  assumes "literal word v s = Some (x, r)" and "(word, v) = (''null'', JNull) \<or> (word, v) = (''true'', JBool True) \<or> (word, v) = (''false'', JBool False)"
  shows "x = v \<and> compact False s = word @ compact False r \<and> parses word v"
proof -
  have w: "list_all (\<lambda>c. \<not> is_ws c \<and> c \<noteq> CHR 0x22) word" using assms(2) by (auto simp: is_ws_def)
  have "parses word v"
  proof -
    have "j_value n (word @ rest) = Some (v, rest)" if "2 * length word < n" for n rest
      using that literal_again(3) [OF assms(1) w, of rest] assms(2) by (cases n) auto
    then show ?thesis using assms(2) by (auto simp: parses_def starts_def is_ws_def)
  qed
  then show ?thesis using literal_again(1,2) [OF assms(1) w] by simp
qed

text \<open>A value, the elements of an array and the members of an object, compacted.\<close>

definition elems_again :: "string \<Rightarrow> (string \<times> json) list \<Rightarrow> string \<Rightarrow> bool" where
  "elems_again s es r \<longleftrightarrow> (\<exists>tjs. tjs \<noteq> [] \<and> compact False s = commas (map fst tjs) @ CHR '']'' # compact False r \<and>
     (\<forall>(t, j)\<in>set tjs. parses t j) \<and> map (\<lambda>e. erase (snd e)) tjs = map (\<lambda>e. erase (snd e)) es)"

definition members_again :: "string \<Rightarrow> (string \<times> string \<times> json) list \<Rightarrow> string \<Rightarrow> bool" where
  "members_again s ms r \<longleftrightarrow> (\<exists>xs. xs \<noteq> [] \<and> compact False s = commas (map member_text xs) @ CHR ''}'' # compact False r \<and>
     (\<forall>(kt, k, v, j)\<in>set xs. key_text kt k \<and> parses v j) \<and>
     map (\<lambda>x. (fst (snd x), erase (snd (snd (snd x))))) xs = map (\<lambda>m. (fst m, erase (snd (snd m)))) ms)"

definition value_again :: "string \<Rightarrow> json \<Rightarrow> string \<Rightarrow> bool" where
  "value_again s v r \<longleftrightarrow> (\<exists>c v'. compact False s = c @ compact False r \<and> parses c v' \<and> erase v' = erase v)"

lemma elems_again_sep:
  assumes v: "value_again s v r" and sep: "j_sep (CHR '']'') (t, v) r cont = Some (es, rest)"
    and IH: "\<And>r' es' rest'. eat (CHR '','') (skip_ws r) = Some r' \<Longrightarrow> cont (skip_ws r') = Some (es', rest') \<Longrightarrow> elems_again (skip_ws r') es' rest'"
  shows "elems_again s es rest"
proof -
  obtain c v' where c: "compact False s = c @ compact False r" "parses c v'" "erase v' = erase v" using v by (auto simp: value_again_def)
  show ?thesis
  proof (cases "eat (CHR '']'') (skip_ws r)")
    case (Some r0)
    then have "es = [(t, v)]" "rest = r0" using sep by (simp_all add: j_sep_def)
    moreover have "compact False r = CHR '']'' # compact False r0" by (rule compact_eat [OF Some]) (simp_all add: is_ws_def)
    ultimately show ?thesis using c by (auto simp: elems_again_def intro!: exI [of _ "[(c, v')]"])
  next
    case None
    then obtain r' es' where r': "eat (CHR '','') (skip_ws r) = Some r'" "cont (skip_ws r') = Some (es', rest)" "es = (t, v) # es'"
      using sep by (auto simp: j_sep_def split: option.splits)
    obtain tjs where tjs: "tjs \<noteq> []" "compact False r' = commas (map fst tjs) @ CHR '']'' # compact False rest"
        "\<forall>(t, j)\<in>set tjs. parses t j" "map (\<lambda>e. erase (snd e)) tjs = map (\<lambda>e. erase (snd e)) es'"
      using IH [OF r'(1,2)] by (auto simp: elems_again_def)
    have "compact False r = CHR '','' # compact False r'" by (rule compact_eat [OF r'(1)]) (simp_all add: is_ws_def)
    then show ?thesis using c tjs r'(3) by (auto simp: elems_again_def intro!: exI [of _ "(c, v') # tjs"])
  qed
qed

lemma members_again_sep:
  assumes key: "compact False s = kt @ CHR '':'' # compact False u" "key_text kt k"
    and v: "value_again u v r" and sep: "j_sep (CHR ''}'') (k, t, v) r cont = Some (ms, rest)"
    and IH: "\<And>r' ms' rest'. eat (CHR '','') (skip_ws r) = Some r' \<Longrightarrow> cont (skip_ws r') = Some (ms', rest') \<Longrightarrow> members_again (skip_ws r') ms' rest'"
  shows "members_again s ms rest"
proof -
  obtain c v' where c: "compact False u = c @ compact False r" "parses c v'" "erase v' = erase v" using v by (auto simp: value_again_def)
  show ?thesis
  proof (cases "eat (CHR ''}'') (skip_ws r)")
    case (Some r0)
    then have "ms = [(k, t, v)]" "rest = r0" using sep by (simp_all add: j_sep_def)
    moreover have "compact False r = CHR ''}'' # compact False r0" by (rule compact_eat [OF Some]) (simp_all add: is_ws_def)
    ultimately show ?thesis using c key by (auto simp: members_again_def member_text_def intro!: exI [of _ "[(kt, k, c, v')]"])
  next
    case None
    then obtain r' ms' where r': "eat (CHR '','') (skip_ws r) = Some r'" "cont (skip_ws r') = Some (ms', rest)" "ms = (k, t, v) # ms'"
      using sep by (auto simp: j_sep_def split: option.splits)
    obtain xs where xs: "xs \<noteq> []" "compact False r' = commas (map member_text xs) @ CHR ''}'' # compact False rest"
        "\<forall>(kt, k, v, j)\<in>set xs. key_text kt k \<and> parses v j"
        "map (\<lambda>x. (fst (snd x), erase (snd (snd (snd x))))) xs = map (\<lambda>m. (fst m, erase (snd (snd m)))) ms'"
      using IH [OF r'(1,2)] by (auto simp: members_again_def)
    have "compact False r = CHR '','' # compact False r'" by (rule compact_eat [OF r'(1)]) (simp_all add: is_ws_def)
    then show ?thesis using c key xs r'(3) by (auto simp: members_again_def member_text_def intro!: exI [of _ "(kt, k, c, v') # xs"])
  qed
qed

lemma key_again:
  assumes "j_key s = Some (k, u)"
  obtains kt where "compact False s = kt @ CHR '':'' # compact False u" "key_text kt k"
proof -
  obtain b r w where b: "eat (CHR 0x22) s = Some b" "lex_string b = Some (k, r)" "eat (CHR '':'') (skip_ws r) = Some w" "u = skip_ws w"
    using assms by (auto simp: j_key_def split: option.splits)
  have "s = CHR 0x22 # b" using b(1) by (auto simp: eat_def split: list.splits if_splits)
  moreover obtain c where "compact False (CHR 0x22 # b) = c @ compact False r" "key_text c k"
    using parses_compact_string [OF b(2)] by blast
  moreover have "compact False r = CHR '':'' # compact False w" by (rule compact_eat [OF b(3)]) (simp_all add: is_ws_def)
  ultimately show thesis using that [of c] b(4) by simp
qed

lemma value_again_array: "elems_again (skip_ws s) es r \<Longrightarrow> value_again (CHR ''['' # s) (JArr es) r"
proof -
  assume "elems_again (skip_ws s) es r"
  then obtain tjs where tjs: "compact False s = commas (map fst tjs) @ CHR '']'' # compact False r"
      "\<forall>(t, j)\<in>set tjs. parses t j" "map (\<lambda>e. erase (snd e)) tjs = map (\<lambda>e. erase (snd e)) es"
    by (auto simp: elems_again_def)
  have "erase (JArr tjs) = JArr (map (Pair []) (map (\<lambda>e. erase (snd e)) tjs))" for tjs by (simp add: comp_def)
  then have "erase (JArr tjs) = erase (JArr es)" using tjs(3) by metis
  then show ?thesis unfolding value_again_def
    using parses_array [OF tjs(2)] tjs(1) by (intro exI [of _ "CHR ''['' # commas (map fst tjs) @ '']''"] exI [of _ "JArr tjs"]) (simp add: is_ws_def)
qed

lemma value_again_object: "members_again (skip_ws s) ms r \<Longrightarrow> value_again (CHR ''{'' # s) (JObj ms) r"
proof -
  assume "members_again (skip_ws s) ms r"
  then obtain xs where xs: "compact False s = commas (map member_text xs) @ CHR ''}'' # compact False r"
      "\<forall>(kt, k, v, j)\<in>set xs. key_text kt k \<and> parses v j"
      "map (\<lambda>x. (fst (snd x), erase (snd (snd (snd x))))) xs = map (\<lambda>m. (fst m, erase (snd (snd m)))) ms"
    by (auto simp: members_again_def)
  have e: "erase (JObj ms) = JObj (map (\<lambda>(k, v). (k, [], v)) (map (\<lambda>m. (fst m, erase (snd (snd m)))) ms))" for ms
    by (simp add: comp_def split_def)
  have "erase (JObj (map snd xs)) = erase (JObj ms)" unfolding e using xs(3) by (simp add: comp_def)
  then show ?thesis unfolding value_again_def
    using parses_object [OF xs(2)] xs(1)
    by (intro exI [of _ "CHR ''{'' # commas (map member_text xs) @ ''}''"] exI [of _ "JObj (map snd xs)"]) (simp add: is_ws_def)
qed

lemma value_again_empty:
  "eat (CHR '']'') (skip_ws s) = Some r \<Longrightarrow> value_again (CHR ''['' # s) (JArr []) r"
  "eat (CHR ''}'') (skip_ws s) = Some r \<Longrightarrow> value_again (CHR ''{'' # s) (JObj []) r"
  using compact_eat [of "CHR '']''" s r] compact_eat [of "CHR ''}''" s r] parses_array [of "[]"] parses_object [of "[]"]
  by (auto simp: value_again_def is_ws_def intro!: exI [of _ "''[]''"] exI [of _ "''{}''"])

lemma j_value_compact:
  "j_value n s = Some (v, r) \<Longrightarrow> value_again s v r"
  "j_elems n s = Some (es, r) \<Longrightarrow> elems_again s es r"
  "j_members n s = Some (ms, r) \<Longrightarrow> members_again s ms r"
proof (induction n s and n s and n s arbitrary: v r and es r and ms r rule: j_value_j_elems_j_members.induct)
  case (2 n s)
  then obtain c cs where s: "s = c # cs" by (cases s) auto
  consider (obj) "c = CHR ''{''" | (arr) "c = CHR ''[''" | (str) "c = CHR 0x22" | (lit) "c = CHR ''n'' \<or> c = CHR ''t'' \<or> c = CHR ''f''"
    | (num) "c \<noteq> CHR ''{''" "c \<noteq> CHR ''[''" "c \<noteq> CHR 0x22" "c \<noteq> CHR ''n''" "c \<noteq> CHR ''t''" "c \<noteq> CHR ''f''" by blast
  then show ?case
  proof cases
    case obj
    show ?thesis
    proof (cases "eat (CHR ''}'') (skip_ws cs)")
      case None
      then obtain ms where "v = JObj ms" "j_members n (skip_ws cs) = Some (ms, r)" using "2.prems" s obj by auto
      then show ?thesis using 2(1) [OF s obj None] s obj value_again_object by blast
    qed (use "2.prems" s obj value_again_empty in auto)
  next
    case arr
    show ?thesis
    proof (cases "eat (CHR '']'') (skip_ws cs)")
      case None
      then obtain es where es: "v = JArr es" "j_elems n (skip_ws cs) = Some (es, r)" using "2.prems" s arr by auto
      have "c \<noteq> CHR ''{''" using arr by simp
      then show ?thesis using 2(2) [OF s _ arr None] es s arr value_again_array by blast
    qed (use "2.prems" s arr value_again_empty in auto)
  next
    case str
    then obtain t where "v = JStr t" "lex_string cs = Some (t, r)" using "2.prems" s by auto
    then show ?thesis using parses_compact_string [of cs t r] s str unfolding value_again_def by metis
  next
    case lit
    then obtain word x where "literal word x s = Some (v, r)"
        "(word, x) = (''null'', JNull) \<or> (word, x) = (''true'', JBool True) \<or> (word, x) = (''false'', JBool False)"
      using "2.prems" s by (elim disjE) simp_all
    from parses_literal [OF this] show ?thesis unfolding value_again_def by metis
  next
    case num
    then obtain t where "v = JNum t" "lex_number s = Some (t, r)" using "2.prems" s by auto
    then show ?thesis using parses_number [of s t r c cs] s num by (auto simp: value_again_def)
  qed
next
  case (4 n s)
  then obtain v r1 where v: "j_value n s = Some (v, r1)" "j_sep (CHR '']'') (consumed s r1, v) r1 (j_elems n) = Some (es, r)"
    by (auto split: option.splits prod.splits)
  show ?case by (rule elems_again_sep [OF 4(1) [OF v(1)] v(2)]) (rule 4(2) [OF v(1) refl])
next
  case (6 n s)
  then obtain k t v r1 where k: "j_key s = Some (k, t)" "j_value n t = Some (v, r1)"
      "j_sep (CHR ''}'') (k, consumed t r1, v) r1 (j_members n) = Some (ms, r)"
    by (auto split: option.splits prod.splits)
  obtain kt where kt: "compact False s = kt @ CHR '':'' # compact False t" "key_text kt k" by (rule key_again [OF k(1)])
  show ?case by (rule members_again_sep [OF kt 6(1) [OF k(1) refl k(2)] k(3)]) (rule 6(2) [OF k(1) refl k(2) refl])
qed simp_all

text \<open>A raw message is written as a text that stands for the same value.\<close>

lemma compact_ws_only: "skip_ws s = [] \<Longrightarrow> compact False s = []"
  using compact_ws [of s] by simp

lemma mraw_value:
  assumes "mraw p = Some t"
  shows "\<exists>j j'. json_parse p = Some j \<and> parses t j' \<and> erase j' = erase j"
proof -
  have t: "t = compact False p" using assms by (auto simp: mraw_def split: if_splits)
  obtain j where j: "json_parse p = Some j" using assms by (auto simp: mraw_def split: if_splits)
  then obtain rest where "j_value (json_fuel p) (skip_ws p) = Some (j, rest)" and ws: "skip_ws rest = []"
    by (auto simp: json_parse_def split: option.splits prod.splits if_splits)
  then have "value_again (skip_ws p) j rest" by (intro j_value_compact(1))
  then obtain c v' where "compact False p = c" "parses c v'" "erase v' = erase j"
    using compact_ws_only [OF ws] by (auto simp: value_again_def)
  then show ?thesis using j t by blast
qed

lemma mraw_same_value: "mraw p = Some t \<Longrightarrow> same_value p t"
  using mraw_value [of p t] parses_json by (fastforce simp: same_value_def)

end
