(* ===== verification/Http_Roundtrip.thy ===== *)
theory Http_Roundtrip
  imports Http_Wire Json_Compact
begin

section \<open>A reader of the requests\<close>

text \<open>
  The other end of the wire, as the REST interface documents it: the path is split at the slashes, its
  segments are unescaped, and the body is read as JSON.
\<close>

fun unescape_path :: "string \<Rightarrow> string" where
  "unescape_path [] = []"
| "unescape_path (c # cs) =
     (if c = CHR ''%'' then
        (case cs of a # b # rest \<Rightarrow> char_of (unhex a * 16 + unhex b) # unescape_path rest | _ \<Rightarrow> c # cs)
      else c # unescape_path cs)"

function segments :: "string \<Rightarrow> string list" where
  "segments s = (if CHR ''/'' \<in> set s
     then takeWhile (\<lambda>x. x \<noteq> CHR ''/'') s # segments (tl (dropWhile (\<lambda>x. x \<noteq> CHR ''/'') s)) else [s])"
  by pat_completeness auto
termination
proof (relation "measure length")
  fix s :: string assume "CHR ''/'' \<in> set s"
  then have "dropWhile (\<lambda>x. x \<noteq> CHR ''/'') s \<noteq> []" by (simp add: dropWhile_eq_Nil_conv)
  then have "length (tl (dropWhile (\<lambda>x. x \<noteq> CHR ''/'') s)) < length s"
    using length_dropWhile_le [of "\<lambda>x. x \<noteq> CHR ''/''" s] by (cases "dropWhile (\<lambda>x. x \<noteq> CHR ''/'') s") auto
  then show "(tl (dropWhile (\<lambda>x. x \<noteq> CHR ''/'') s), s) \<in> measure length" by simp
qed simp

declare segments.simps [simp del]

lemma segments_slash: "CHR ''/'' \<notin> set a \<Longrightarrow> segments (a @ CHR ''/'' # b) = a # segments b"
  using cut_append [of "CHR ''/''" a b] by (subst segments.simps) (simp add: cut_def)

lemma segments_last: "CHR ''/'' \<notin> set a \<Longrightarrow> segments a = [a]"
  by (subst segments.simps) simp

lemma hexUp_hex: "d < 16 \<Longrightarrow> unhex (hexUp d) = d"
  by (auto simp: hexUp_def unhex_def is_digit_def Let_def)

lemma path_plain_other: "path_plain c \<Longrightarrow> c \<noteq> CHR ''/'' \<and> c \<noteq> CHR ''?'' \<and> c \<noteq> CHR ''%''"
  by (auto simp: path_plain_def is_alpha_def is_digit_def)

lemma hexUp_other: "d < 16 \<Longrightarrow> hexUp d \<noteq> CHR ''/'' \<and> hexUp d \<noteq> CHR ''?''"
proof -
  have "list_all (\<lambda>d. hexUp d \<noteq> CHR ''/'' \<and> hexUp d \<noteq> CHR ''?'') [0..<16]" by code_simp
  then show "d < 16 \<Longrightarrow> ?thesis" by (simp add: list_all_iff)
qed

lemma unescape_escape: "unescape_path (escape_byte c @ r) = c # unescape_path r"
  using char_div_16 [of c] path_plain_other [of c] by (simp add: escape_byte_def hexUp_hex)

lemma unescape_PathEscape: "unescape_path (PathEscape s) = s"
  by (induction s) (simp_all add: PathEscape_def unescape_escape)

lemma escape_byte_set: "CHR ''/'' \<notin> set (escape_byte c) \<and> CHR ''?'' \<notin> set (escape_byte c)"
  using hexUp_other [of "of_char c div 16"] hexUp_other [of "of_char c mod 16"] char_div_16 [of c] path_plain_other [of c]
  by (auto simp: escape_byte_def)

lemma PathEscape_set: "CHR ''/'' \<notin> set (PathEscape s)" "CHR ''?'' \<notin> set (PathEscape s)"
  using escape_byte_set by (auto simp: PathEscape_def)

lemma PathEscape_plain: "list_all path_plain s \<Longrightarrow> PathEscape s = s"
  by (induction s) (simp_all add: PathEscape_def escape_byte_def)


definition read_transfer :: "json \<Rightarrow> err + u32 \<times> u64 \<times> u64" where
  "read_transfer j =
     ebind (fieldOf ''shard_id'' dec_u32 j) (\<lambda>sid.
     ebind (fieldOf ''from_peer_id'' dec_u64 j) (\<lambda>from.
     ebind (fieldOf ''to_peer_id'' dec_u64 j) (\<lambda>to.
     ebind (fieldOf ''method'' dec_str j) (\<lambda>method.
     if method = ''stream_records'' then Inr (sid, from, to) else Inl method))))"

definition read_drop :: "json \<Rightarrow> err + u32 \<times> u64" where
  "read_drop j =
     ebind (fieldOf ''shard_id'' dec_u32 j) (\<lambda>sid. ebind (fieldOf ''peer_id'' dec_u64 j) (\<lambda>peer. Inr (sid, peer)))"

text \<open>A cluster operation is an object with one member, its name.\<close>

definition read_cluster_op :: "string \<Rightarrow> json \<Rightarrow> err + qcall" where
  "read_cluster_op coll j = (case j of
     JObj [(op, _, args)] \<Rightarrow>
       if op = ''move_shard'' then ebind (read_transfer args) (\<lambda>(s, a, b). Inr (QMoveShard coll s a b))
       else if op = ''replicate_shard'' then ebind (read_transfer args) (\<lambda>(s, a, b). Inr (QReplicateShard coll s a b))
       else if op = ''drop_replica'' then ebind (read_drop args) (\<lambda>(s, p). Inr (QDropReplica coll s p))
       else Inl op
   | _ \<Rightarrow> Inl jsonError)"

definition read_spec :: "json \<Rightarrow> err + CollectionSpec" where
  "read_spec j =
     ebind (jget ''vectors'' j) (\<lambda>v.
     ebind (fieldOf ''size'' dec_u64 v) (\<lambda>sz.
     ebind (fieldOf ''distance'' dec_str v) (\<lambda>d.
     ebind (fieldOf ''shard_number'' dec_u32 j) (\<lambda>sn.
     ebind (fieldOf ''replication_factor'' dec_u32 j) (\<lambda>rf.
     Inr \<lparr>csp_VectorSize = sz, csp_Distance = d, csp_ShardNumber = sn, csp_ReplicationFactor = rf\<rparr>)))))"

definition read_opt :: "(json \<Rightarrow> err + 'a) \<Rightarrow> json \<Rightarrow> err + 'a option" where
  "read_opt f j = (if j = JNull then Inr None else ebind (f j) (\<lambda>x. Inr (Some x)))"

definition read_action :: "json \<Rightarrow> err + AliasAction" where
  "read_action j =
     ebind (fieldOf ''create_alias'' (read_opt (\<lambda>c.
       ebind (fieldOf ''alias_name'' dec_str c) (\<lambda>a. ebind (fieldOf ''collection_name'' dec_str c) (\<lambda>t.
         Inr \<lparr>ca_AliasName = a, ca_CollectionName = t\<rparr>)))) j) (\<lambda>create.
     ebind (fieldOf ''delete_alias'' (read_opt (\<lambda>d.
       ebind (fieldOf ''alias_name'' dec_str d) (\<lambda>a. Inr \<lparr>da_AliasName = a\<rparr>))) j) (\<lambda>delete.
     Inr \<lparr>aa_CreateAlias = create, aa_DeleteAlias = delete\<rparr>))"

definition read_recover :: "string \<Rightarrow> json \<Rightarrow> err + qcall" where
  "read_recover coll j =
     ebind (fieldOf ''location'' dec_str j) (\<lambda>l. ebind (fieldOf ''priority'' dec_str j) (\<lambda>p. Inr (QRecoverSnapshot coll l p)))"

definition with_body :: "string option \<Rightarrow> (json \<Rightarrow> err + qcall) \<Rightarrow> err + qcall" where
  "with_body body f = (case body of
     None \<Rightarrow> Inl jsonError
   | Some b \<Rightarrow> (case json_parse b of None \<Rightarrow> Inl jsonError | Some j \<Rightarrow> f j))"

text \<open>The routes of the mutations.\<close>

definition route :: "string \<Rightarrow> string list \<Rightarrow> string \<Rightarrow> string option \<Rightarrow> err + qcall" where
  "route method segs query body = (case segs of
     [a, n] \<Rightarrow>
       if a \<noteq> ''collections'' then Inl method
       else if method = ''PUT'' then with_body body (\<lambda>j. ebind (read_spec j) (\<lambda>sp. Inr (QCreateCollection n sp)))
       else if method = ''DELETE'' then Inr (QDeleteCollection n)
       else if method = ''POST'' \<and> n = ''aliases''
       then with_body body (\<lambda>j. ebind (fieldOf ''actions'' (dec_list read_action) j) (\<lambda>as. Inr (QUpdateAliases as)))
       else Inl method
   | [a, n, x] \<Rightarrow>
       if a = ''cluster'' \<and> n = ''peer'' \<and> method = ''DELETE''
       then Inr (QRemovePeer (fst (ParseUint64 x)) (query = ''force=true''))
       else if a = ''collections'' \<and> x = ''cluster'' \<and> method = ''POST'' then with_body body (read_cluster_op n)
       else if a = ''collections'' \<and> x = ''points'' \<and> method = ''PUT'' \<and> query = ''wait=true''
       then with_body body (\<lambda>j. ebind (fieldOf ''points'' dec_raws j) (\<lambda>ps. Inr (QUpsertPoints n ps)))
       else if a = ''collections'' \<and> x = ''snapshots'' \<and> method = ''POST'' \<and> query = ''wait=false'' then Inr (QCreateSnapshot n)
       else Inl method
   | [a, n, x, y] \<Rightarrow>
       if a \<noteq> ''collections'' \<or> x \<noteq> ''snapshots'' then Inl method
       else if method = ''DELETE'' then Inr (QDeleteSnapshot n y)
       else if method = ''PUT'' \<and> y = ''recover'' then with_body body (read_recover n)
       else Inl method
   | _ \<Rightarrow> Inl method)"

definition serve :: "string \<Rightarrow> HttpRequest \<Rightarrow> err + qcall" where
  "serve base rq =
     (case cut (CHR ''?'') (drop (length base) (rq_URL rq)) of
        (path, query, _) \<Rightarrow> route (rq_Method rq) (map unescape_path (segments (tl path))) query (rq_Body rq))"


section \<open>Printed bodies are read back\<close>

lemma with_body_parses: "parses b j \<Longrightarrow> with_body (Some b) f = f j"
  by (simp add: with_body_def parses_json)

lemma parses_transferBody:
  "parses (transferBody op s a b) (JObj [(op, mobj [(''from_peer_id'', mu64 a), (''method'', mstr ''stream_records''),
     (''shard_id'', mu32 s), (''to_peer_id'', mu64 b)], JObj [(''from_peer_id'', mu64 a, JNum (mu64 a)),
       (''method'', mstr ''stream_records'', JStr ''stream_records''), (''shard_id'', mu32 s, JNum (mu32 s)), (''to_peer_id'', mu64 b, JNum (mu64 b))])])"
  unfolding transferBody_def transferMethodStreamRecords_def by (intro parses_mobj) (simp add: parses_intros parses_mobj)

lemma read_transferBody:
  "with_body (Some (transferBody ''move_shard'' s a b)) (read_cluster_op n) = Inr (QMoveShard n s a b)"
  "with_body (Some (transferBody ''replicate_shard'' s a b)) (read_cluster_op n) = Inr (QReplicateShard n s a b)"
  by (simp_all add: with_body_parses [OF parses_transferBody] read_cluster_op_def read_transfer_def fieldOf_JObj)

lemma read_dropBody:
  "with_body (Some (mobj [(''drop_replica'', mobj [(''peer_id'', mu64 p), (''shard_id'', mu32 s)])])) (read_cluster_op n) = Inr (QDropReplica n s p)"
proof -
  have "parses (mobj [(''drop_replica'', mobj [(''peer_id'', mu64 p), (''shard_id'', mu32 s)])])
      (JObj [(''drop_replica'', mobj [(''peer_id'', mu64 p), (''shard_id'', mu32 s)], JObj [(''peer_id'', mu64 p, JNum (mu64 p)), (''shard_id'', mu32 s, JNum (mu32 s))])])"
    by (intro parses_mobj) (simp add: parses_intros parses_mobj)
  then show ?thesis by (simp add: with_body_parses read_cluster_op_def read_drop_def fieldOf_JObj)
qed

lemma read_createBody:
  "with_body (Some (createBody sp)) (\<lambda>j. ebind (read_spec j) (\<lambda>sp. Inr (QCreateCollection n sp))) = Inr (QCreateCollection n sp)"
proof -
  define v where "v = mobj [(''distance'', mstr (csp_Distance sp)), (''size'', mu64 (csp_VectorSize sp))]"
  have "parses v (JObj [(''distance'', mstr (csp_Distance sp), JStr (csp_Distance sp)), (''size'', mu64 (csp_VectorSize sp), JNum (mu64 (csp_VectorSize sp)))])"
    unfolding v_def by (intro parses_mobj) (simp add: parses_intros)
  then have "parses (createBody sp) (JObj [(''replication_factor'', mu32 (csp_ReplicationFactor sp), JNum (mu32 (csp_ReplicationFactor sp))),
      (''shard_number'', mu32 (csp_ShardNumber sp), JNum (mu32 (csp_ShardNumber sp))),
      (''vectors'', v, JObj [(''distance'', mstr (csp_Distance sp), JStr (csp_Distance sp)), (''size'', mu64 (csp_VectorSize sp), JNum (mu64 (csp_VectorSize sp)))])])"
    unfolding createBody_def v_def [symmetric] by (intro parses_mobj) (simp add: parses_intros)
  then show ?thesis by (simp add: with_body_parses read_spec_def fieldOf_JObj jget_JObj)
qed

lemma read_recoverBody:
  "with_body (Some (recoverBody l p)) (read_recover n) = Inr (QRecoverSnapshot n l p)"
proof -
  have "parses (recoverBody l p) (JObj ((''location'', mstr l, JStr l) # (if p = [] then [] else [(''priority'', mstr p, JStr p)])))"
    unfolding recoverBody_def by (intro parses_mobj) (simp add: parses_intros)
  then show ?thesis by (simp add: with_body_parses read_recover_def fieldOf_JObj dec_str_def)
qed

definition json_of_action :: "AliasAction \<Rightarrow> json" where
  "json_of_action a = JObj
     ((case aa_CreateAlias a of None \<Rightarrow> []
       | Some ca \<Rightarrow> [(''create_alias'', mobj [(''alias_name'', mstr (ca_AliasName ca)), (''collection_name'', mstr (ca_CollectionName ca))],
           JObj [(''alias_name'', mstr (ca_AliasName ca), JStr (ca_AliasName ca)), (''collection_name'', mstr (ca_CollectionName ca), JStr (ca_CollectionName ca))])]) @
      (case aa_DeleteAlias a of None \<Rightarrow> []
       | Some da \<Rightarrow> [(''delete_alias'', mobj [(''alias_name'', mstr (da_AliasName da))], JObj [(''alias_name'', mstr (da_AliasName da), JStr (da_AliasName da))])]))"

lemma parses_aliasBody: "parses (aliasBody a) (json_of_action a)"
  unfolding aliasBody_def json_of_action_def
  by (intro parses_mobj; cases "aa_CreateAlias a"; cases "aa_DeleteAlias a"; simp add: parses_intros parses_mobj)

lemma read_action_json: "read_action (json_of_action a) = Inr a"
  by (cases "aa_CreateAlias a"; cases "aa_DeleteAlias a") (simp_all add: json_of_action_def read_action_def fieldOf_JObj read_opt_def)

lemma read_aliasesBody:
  "with_body (Some (mobj [(''actions'', marr (map aliasBody as))]))
     (\<lambda>j. ebind (fieldOf ''actions'' (dec_list read_action) j) (\<lambda>as. Inr (QUpdateAliases as))) = Inr (QUpdateAliases as)"
proof -
  have "parses (mobj [(''actions'', marr (map aliasBody as))])
      (JObj [(''actions'', marr (map aliasBody as), JArr (map (\<lambda>a. (aliasBody a, json_of_action a)) as))])"
    by (intro parses_mobj) (simp add: parses_marr_map parses_aliasBody)
  moreover have "emap (\<lambda>(_, v). read_action v) (map (\<lambda>a. (aliasBody a, json_of_action a)) as) = Inr as"
    using emap_map [of as "\<lambda>(_, v). read_action v" "\<lambda>a. (aliasBody a, json_of_action a)" id] by (simp add: read_action_json)
  ultimately show ?thesis by (simp add: with_body_parses fieldOf_JObj dec_list_def)
qed


text \<open>Points are read back as texts of the same values.\<close>

lemma mraws_parses:
  assumes "mraws ps = Some ts"
  shows "\<exists>es. list_all2 (\<lambda>t (t', j). t = t' \<and> parses t j) ts es \<and> map fst es = ts \<and> list_all2 same_value ps ts"
  using assms
proof (induction ps arbitrary: ts)
  case (Cons p ps)
  obtain t ts' where t: "mraw p = Some t" "mraws ps = Some ts'" "ts = t # ts'" using Cons.prems by (auto split: option.splits)
  obtain es where es: "list_all2 (\<lambda>t (t', j). t = t' \<and> parses t j) ts' es" "map fst es = ts'" "list_all2 same_value ps ts'"
    using Cons.IH [OF t(2)] by blast
  obtain j where "parses t j" using mraw_value [OF t(1)] by blast
  then show ?case using es t(3) mraw_same_value [OF t(1)] by (intro exI [of _ "(t, j) # es"]) simp
qed simp

lemma read_pointsBody:
  assumes "mraws ps = Some ts"
  shows "list_all2 same_value ps ts \<and> with_body (Some (mobj [(''points'', marr ts)]))
    (\<lambda>j. ebind (fieldOf ''points'' dec_raws j) (\<lambda>ps. Inr (QUpsertPoints n ps))) = Inr (QUpsertPoints n ts)"
proof -
  obtain es where es: "list_all2 (\<lambda>t (t', j). t = t' \<and> parses t j) ts es" "map fst es = ts" "list_all2 same_value ps ts"
    using mraws_parses [OF assms] by blast
  have "parses (mobj [(''points'', marr ts)]) (JObj [(''points'', marr ts, JArr es)])"
    by (intro parses_mobj) (simp add: parses_marr [OF es(1)])
  then show ?thesis using es(2,3) by (simp add: with_body_parses fieldOf_JObj dec_raws_def)
qed

section \<open>Requests are read back\<close>

lemma mraws_compact: "mraws ps = Some ts \<Longrightarrow> ts = map (compact False) ps"
  by (induction ps arbitrary: ts) (auto simp: mraw_def split: option.splits if_splits)

text \<open>The call as it arrives: points are compacted on the way.\<close>

fun arrives :: "qcall \<Rightarrow> qcall" where
  "arrives (QUpsertPoints n ps) = QUpsertPoints n (map (compact False) ps)"
| "arrives q = q"

text \<open>The same call, up to the spelling of points.\<close>

fun same_call :: "qcall \<Rightarrow> qcall \<Rightarrow> bool" where
  "same_call (QUpsertPoints n ps) q' \<longleftrightarrow> (case q' of QUpsertPoints n' ps' \<Rightarrow> n' = n \<and> list_all2 same_value ps ps' | _ \<Rightarrow> False)"
| "same_call q q' \<longleftrightarrow> q' = q"

text \<open>A transport that answers 200 and keeps the requests.\<close>

definition recorder :: "string \<Rightarrow> HttpRequest list HTTPClient" where
  "recorder base = \<lparr>hc_BaseURL = base, hc_Do = \<lambda>rq sent. (Inr \<lparr>hr_Code = 200, hr_Status = ''200 OK'', hr_Body = ''{}''\<rparr>, sent @ [rq])\<rparr>"

text \<open>The names that are put into the path as they are.\<close>

fun raw_name :: "qcall \<Rightarrow> string" where
  "raw_name (QCreateCollection n sp) = n"
| "raw_name (QDeleteCollection n) = n"
| "raw_name (QMoveShard n s a b) = n"
| "raw_name (QReplicateShard n s a b) = n"
| "raw_name (QDropReplica n s p) = n"
| "raw_name (QUpsertPoints n ps) = n"
| "raw_name _ = []"

lemma plain_name:
  assumes "list_all path_plain n"
  shows "CHR ''/'' \<notin> set n" "CHR ''?'' \<notin> set n" "unescape_path n = n"
  using PathEscape_set [of n] unescape_PathEscape [of n] PathEscape_plain [OF assms] by simp_all

lemma FormatUint_path: "CHR ''/'' \<notin> set (FormatUint p)" "CHR ''?'' \<notin> set (FormatUint p)" "unescape_path (FormatUint p) = FormatUint p"
proof -
  have "list_all path_plain (FormatUint p)"
    using nat_digits_is_digit [of "unat p"] by (auto simp: FormatUint_def path_plain_def list_all_iff)
  from plain_name [OF this]
  show "CHR ''/'' \<notin> set (FormatUint p)" "CHR ''?'' \<notin> set (FormatUint p)" "unescape_path (FormatUint p) = FormatUint p" .
qed

lemma seg_words:
  "unescape_path ''collections'' = ''collections''" "unescape_path ''cluster'' = ''cluster''" "unescape_path ''peer'' = ''peer''"
  "unescape_path ''snapshots'' = ''snapshots''" "unescape_path ''recover'' = ''recover''" "unescape_path ''aliases'' = ''aliases''"
  by simp_all

text \<open>The path of a request, as the reader splits it.\<close>

lemma segments_join:
  assumes "segs \<noteq> []" and "list_all (\<lambda>s. CHR ''/'' \<notin> set s \<and> CHR ''?'' \<notin> set s) segs"
  shows "segments (tl (concat (map ((#) (CHR ''/'')) segs))) = segs"
  using assms
proof (induction segs rule: list_nonempty_induct)
  case (single x)
  then show ?case by (simp add: segments_last)
next
  case (cons x xs)
  then obtain y ys where "xs = y # ys" by (cases xs) auto
  then have "concat (map ((#) (CHR ''/'')) xs) = CHR ''/'' # tl (concat (map ((#) (CHR ''/'')) xs))" by simp
  moreover have slash: "CHR ''/'' \<notin> set x" using cons.prems by simp
  ultimately have "tl (concat (map ((#) (CHR ''/'')) (x # xs))) = x @ CHR ''/'' # tl (concat (map ((#) (CHR ''/'')) xs))" by simp
  then have "segments (tl (concat (map ((#) (CHR ''/'')) (x # xs)))) = x # segments (tl (concat (map ((#) (CHR ''/'')) xs)))"
    by (simp only: segments_slash [OF slash])
  then show ?case using cons by simp
qed

lemma serve_path:
  assumes "list_all (\<lambda>s. CHR ''/'' \<notin> set s \<and> CHR ''?'' \<notin> set s) segs" and "segs \<noteq> []"
  shows "serve base \<lparr>rq_Method = method, rq_URL = base @ concat (map ((#) (CHR ''/'')) segs), rq_Body = body\<rparr> =
      route method (map unescape_path segs) [] body"
    and "serve base \<lparr>rq_Method = method, rq_URL = base @ concat (map ((#) (CHR ''/'')) segs) @ CHR ''?'' # query, rq_Body = body\<rparr> =
      route method (map unescape_path segs) query body"
proof -
  have nq: "CHR ''?'' \<notin> set (concat (map ((#) (CHR ''/'')) segs))" using assms(1) by (auto simp: list_all_iff)
  show "serve base \<lparr>rq_Method = method, rq_URL = base @ concat (map ((#) (CHR ''/'')) segs), rq_Body = body\<rparr> =
      route method (map unescape_path segs) [] body"
    by (simp add: serve_def cut_notin [OF nq] segments_join [OF assms(2,1)])
  show "serve base \<lparr>rq_Method = method, rq_URL = base @ concat (map ((#) (CHR ''/'')) segs) @ CHR ''?'' # query, rq_Body = body\<rparr> =
      route method (map unescape_path segs) query body"
    by (simp add: serve_def cut_append [OF nq] segments_join [OF assms(2,1)])
qed

lemmas reads_back = rest_request_def route_def plain_name FormatUint_path PathEscape_set unescape_PathEscape
  read_transferBody read_dropBody read_createBody read_recoverBody read_aliasesBody

lemma arrives_same:
  assumes "marshals q"
  shows "same_call q (arrives q)"
proof (cases q)
  case (QUpsertPoints n ps)
  then obtain ts where "mraws ps = Some ts" using assms mraws_None [of ps] by auto
  then show ?thesis using mraws_parses [of ps ts] mraws_compact [of ps ts] QUpsertPoints by auto
qed simp_all

lemma serve_rest_request:
  assumes "\<not> is_read_call q" and "marshals q" and "list_all path_plain (raw_name q)"
  shows "serve base (rest_request base q) = Inr (arrives q)"
proof (cases q)
  case (QUpsertPoints n ps)
  then obtain ts where ts: "mraws ps = Some ts" using assms(2) mraws_None [of ps] by auto
  then show ?thesis
    using QUpsertPoints assms(3) serve_path [of "[''collections'', n, ''points'']" base] read_pointsBody [OF ts, of n] mraws_compact [OF ts]
    by (auto simp: reads_back)
next
  case (QCreateCollection n sp)
  then show ?thesis
    using assms(3) serve_path [of "[''collections'', n]" base]
    by (auto simp: reads_back)
next
  case (QDeleteCollection n)
  then show ?thesis
    using assms(3) serve_path [of "[''collections'', n]" base]
    by (auto simp: reads_back)
next
  case (QMoveShard n s a b)
  then show ?thesis
    using assms(3) serve_path [of "[''collections'', n, ''cluster'']" base]
    by (auto simp: reads_back)
next
  case (QReplicateShard n s a b)
  then show ?thesis
    using assms(3) serve_path [of "[''collections'', n, ''cluster'']" base]
    by (auto simp: reads_back)
next
  case (QDropReplica n s p)
  then show ?thesis
    using assms(3) serve_path [of "[''collections'', n, ''cluster'']" base]
    by (auto simp: reads_back)
next
  case (QRemovePeer p f)
  then show ?thesis
    using assms(3) serve_path [of "[''cluster'', ''peer'', FormatUint p]" base]
    by (auto simp: reads_back)
next
  case (QUpdateAliases as)
  then show ?thesis
    using assms(3) serve_path [of "[''collections'', ''aliases'']" base]
    by (auto simp: reads_back)
next
  case (QCreateSnapshot n)
  then show ?thesis
    using assms(3) serve_path [of "[''collections'', PathEscape n, ''snapshots'']" base]
    by (auto simp: reads_back)
next
  case (QDeleteSnapshot n s)
  then show ?thesis
    using assms(3) serve_path [of "[''collections'', PathEscape n, ''snapshots'', PathEscape s]" base]
    by (auto simp: reads_back)
next
  case (QRecoverSnapshot n l p)
  then show ?thesis
    using assms(3) serve_path [of "[''collections'', PathEscape n, ''snapshots'', ''recover'']" base]
    by (auto simp: reads_back)
qed (use assms in auto)


end
