(* ===== verification/Http_Server.thy ===== *)
theory Http_Server
  imports Http_Roundtrip
begin

text \<open>
  A REST server over any implementation of the client interface, written from the documented format of
  Qdrant: it reads a request, runs the operation and prints the reply. The REST client in front of it
  behaves as the implementation behind it.
\<close>

section \<open>Replies\<close>

definition reply :: "string \<Rightarrow> HttpResponse" where
  "reply result = \<lparr>hr_Code = 200, hr_Status = ''200 OK'',
     hr_Body = mobj [(''result'', result), (''status'', mstr ''ok''), (''time'', nat_digits 0)]\<rparr>"

definition failure :: "err \<Rightarrow> HttpResponse" where
  "failure e = \<lparr>hr_Code = 500, hr_Status = ''500 Internal Server Error'', hr_Body = mobj [(''status'', mstr e)]\<rparr>"

definition missing :: "string \<Rightarrow> HttpResponse" where
  "missing n = \<lparr>hr_Code = 404, hr_Status = ''404 Not Found'', hr_Body = mobj [(''status'', mstr n)]\<rparr>"

definition print_local :: "ShardInfo \<Rightarrow> string" where
  "print_local s = mobj [(''shard_id'', mu32 (sh_ShardID s)), (''points_count'', mu64 (sh_PointsCount s)), (''state'', mstr (sh_State s))]"

definition print_remote :: "ShardInfo \<Rightarrow> string" where
  "print_remote s = mobj [(''shard_id'', mu32 (sh_ShardID s)), (''peer_id'', mu64 (sh_PeerID s)), (''state'', mstr (sh_State s))]"

definition print_transfer :: "TransferInfo \<Rightarrow> string" where
  "print_transfer t = mobj [(''shard_id'', mu32 (tr_ShardID t)), (''from'', mu64 (tr_From t)), (''to'', mu64 (tr_To t)), (''method'', mstr (tr_Method t))]"

definition local_shards :: "CollectionClusterInfo \<Rightarrow> ShardInfo list" where
  "local_shards cc = filter (\<lambda>s. sh_PeerID s = cc_PeerID cc) (cc_Shards cc)"

definition remote_shards :: "CollectionClusterInfo \<Rightarrow> ShardInfo list" where
  "remote_shards cc = filter (\<lambda>s. sh_PeerID s \<noteq> cc_PeerID cc) (cc_Shards cc)"

definition print_collection_cluster :: "CollectionClusterInfo \<Rightarrow> string" where
  "print_collection_cluster cc = mobj [(''peer_id'', mu64 (cc_PeerID cc)), (''shard_count'', nat_digits (nat (cc_ShardCount cc))),
     (''local_shards'', marr (map print_local (local_shards cc))),
     (''remote_shards'', marr (map print_remote (remote_shards cc))),
     (''shard_transfers'', marr (map print_transfer (cc_Transfers cc)))]"

definition print_peer :: "Peer \<Rightarrow> string \<times> string" where
  "print_peer p = (FormatUint (peer_ID p), mobj [(''uri'', mstr (peer_URI p))])"

definition print_cluster :: "ClusterInfo \<Rightarrow> string" where
  "print_cluster ci = mobj [(''status'', mstr (if clu_Enabled ci then ''enabled'' else ''disabled'')),
     (''peer_id'', mu64 (clu_PeerID ci)), (''peers'', mobj (map print_peer (clu_Peers ci))),
     (''raft_info'', mobj [(''leader'', mu64 (clu_RaftLeader ci)), (''pending_operations'', nat_digits (nat (clu_PendingOperations ci)))])]"

definition print_collections :: "string list \<Rightarrow> string" where
  "print_collections ns = mobj [(''collections'', marr (map (\<lambda>n. mobj [(''name'', mstr n)]) ns))]"

definition print_collection :: "CollectionInfo \<Rightarrow> string" where
  "print_collection ci = mobj [(''points_count'', mu64 (ci_PointsCount ci)),
     (''config'', mobj [(''params'', mobj [
        (''vectors'', mobj [(''size'', mu64 (ci_VectorSize ci)), (''distance'', mstr (ci_Distance ci))]),
        (''shard_number'', mu32 (ci_ShardNumber ci)), (''replication_factor'', mu32 (ci_ReplicationFactor ci))])])]"

definition print_snapshot :: "SnapshotInfo \<Rightarrow> string" where
  "print_snapshot sn = mobj [(''name'', mstr (sn_Name sn)), (''creation_time'', mstr (sn_CreationTime sn)), (''size'', mu64 (sn_Size sn))]"

definition print_page :: "raw list \<times> raw option \<Rightarrow> string" where
  "print_page pg = mobj [(''points'', marr (fst pg)), (''next_page_offset'', case snd pg of None \<Rightarrow> ''null'' | Some t \<Rightarrow> t)]"

definition print_aliases :: "(string \<rightharpoonup> string) \<Rightarrow> string" where
  "print_aliases m = mobj [(''aliases'', marr (map (\<lambda>a. mobj [(''alias_name'', mstr a), (''collection_name'', mstr (the (m a)))])
     (sorted_list_of_set (dom m))))]"

section \<open>The server\<close>

definition answer :: "('a \<Rightarrow> string) \<Rightarrow> (err + 'a) \<times> 'w \<Rightarrow> (err + HttpResponse) \<times> 'w" where
  "answer print r = (Inr (case fst r of Inl e \<Rightarrow> failure e | Inr x \<Rightarrow> reply (print x)), snd r)"

definition serve_read :: "'w Client \<Rightarrow> string list \<Rightarrow> 'w \<Rightarrow> (err + HttpResponse) \<times> 'w" where
  "serve_read cl segs w = (case segs of
     [a] \<Rightarrow>
       if a = ''cluster'' then answer print_cluster (GetClusterInfo cl w)
       else if a = ''collections'' then answer print_collections (ListCollections cl w)
       else if a = ''aliases'' then answer print_aliases (ListAliases cl w)
       else (Inr (failure a), w)
   | [a, n, b] \<Rightarrow>
       if a = ''collections'' \<and> b = ''cluster'' then answer print_collection_cluster (CollectionCluster cl n w)
       else if a = ''collections'' \<and> b = ''snapshots'' then answer (\<lambda>sns. marr (map print_snapshot sns)) (ListSnapshots cl n w)
       else (Inr (failure a), w)
   | [a, n] \<Rightarrow>
       if a \<noteq> ''collections'' then (Inr (failure a), w)
       else (case GetCollection cl n w of
          (Inl e, w') \<Rightarrow> (Inr (failure e), w')
        | (Inr ci, w') \<Rightarrow> (Inr (if ci_Exists ci then reply (print_collection ci) else missing n), w'))
   | _ \<Rightarrow> (Inr (failure []), w))"

definition serve_write :: "'w Client \<Rightarrow> qcall \<Rightarrow> 'w \<Rightarrow> (err + HttpResponse) \<times> 'w" where
  "serve_write cl q w = (case call_mutation cl q w of
     (None, w') \<Rightarrow> (Inr (reply ''true''), w')
   | (Some e, w') \<Rightarrow> (Inr (failure e), w'))"

text \<open>The body of a page request: the offset, absent for the first page, and the limit.\<close>

definition read_scroll :: "json \<Rightarrow> err + raw option \<times> int" where
  "read_scroll j = ebind (jraw ''offset'' j) (\<lambda>off. ebind (fieldOf ''limit'' dec_int j) (\<lambda>limit. Inr (map_option fst off, limit)))"

definition serve_scroll :: "'w Client \<Rightarrow> string \<Rightarrow> string option \<Rightarrow> 'w \<Rightarrow> (err + HttpResponse) \<times> 'w" where
  "serve_scroll cl n body w = (case body of
     None \<Rightarrow> (Inr (failure n), w)
   | Some b \<Rightarrow> (case json_parse b of
       None \<Rightarrow> (Inr (failure b), w)
     | Some j \<Rightarrow> (case read_scroll j of
         Inl e \<Rightarrow> (Inr (failure e), w)
       | Inr (off, limit) \<Rightarrow> answer print_page (ScrollPoints cl n off limit w))))"

definition request_segments :: "string \<Rightarrow> HttpRequest \<Rightarrow> string list" where
  "request_segments base rq = map unescape_path (segments (tl (fst (cut (CHR ''?'') (drop (length base) (rq_URL rq))))))"

definition rest_server :: "'w Client \<Rightarrow> string \<Rightarrow> HttpRequest \<Rightarrow> 'w \<Rightarrow> (err + HttpResponse) \<times> 'w" where
  "rest_server cl base rq w =
     (case serve base rq of
        Inr q \<Rightarrow> serve_write cl q w
      | Inl e \<Rightarrow>
          if rq_Method rq = ''GET'' then serve_read cl (request_segments base rq) w
          else (case request_segments base rq of
             [a, n, b, c] \<Rightarrow>
               if a = ''collections'' \<and> b = ''points'' \<and> c = ''scroll'' then serve_scroll cl n (rq_Body rq) w
               else (Inr (failure e), w)
           | _ \<Rightarrow> (Inr (failure e), w)))"

definition over_http :: "string \<Rightarrow> 'w Client \<Rightarrow> 'w Client" where
  "over_http base cl = http_client \<lparr>hc_BaseURL = base, hc_Do = rest_server cl base\<rparr>"

section \<open>Replies are read back\<close>

lemma dec_int_digits: "n \<le> 2 ^ 63 - 1 \<Longrightarrow> dec_int (JNum (nat_digits n)) = Inr (int n)"
proof -
  assume n: "n \<le> 2 ^ 63 - 1"
  obtain c cs where t: "nat_digits n = c # cs" and d: "is_digit c"
    using nat_digits_hd_digit [of n] nat_digits_not_Nil [of n] by (metis list.exhaust_sel)
  have "c \<noteq> CHR ''-''" using d by (auto simp: is_digit_def)
  then have "dec_int (JNum (nat_digits n)) = ebind (dec_uint (2 ^ 63 - 1) (JNum (nat_digits n))) (\<lambda>n. Inr (int n))"
    unfolding t by (cases cs) (simp_all add: dec_int_def split: char.split bool.split)
  then show ?thesis using n by (simp add: dec_uint_digits)
qed

lemma Decode_reply:
  assumes "parses t j"
  shows "Decode (hr_Body (reply t)) = Some (JObj [(''result'', t, j), (''status'', mstr ''ok'', JStr ''ok''), (''time'', nat_digits 0, JNum (nat_digits 0))])"
proof -
  have "parses (hr_Body (reply t)) (JObj [(''result'', t, j), (''status'', mstr ''ok'', JStr ''ok''), (''time'', nat_digits 0, JNum (nat_digits 0))])"
    unfolding reply_def by simp (intro parses_mobj, simp add: parses_intros assms)
  then show ?thesis by (simp add: parses_json)
qed

lemma envelope_reply: "parses t j \<Longrightarrow> envelope dec (reply t) = dec j"
  by (simp add: envelope_def Decode_reply jraw_def)

definition json_local :: "ShardInfo \<Rightarrow> json" where
  "json_local s = JObj [(''shard_id'', mu32 (sh_ShardID s), JNum (mu32 (sh_ShardID s))),
     (''points_count'', mu64 (sh_PointsCount s), JNum (mu64 (sh_PointsCount s))), (''state'', mstr (sh_State s), JStr (sh_State s))]"

definition json_remote :: "ShardInfo \<Rightarrow> json" where
  "json_remote s = JObj [(''shard_id'', mu32 (sh_ShardID s), JNum (mu32 (sh_ShardID s))),
     (''peer_id'', mu64 (sh_PeerID s), JNum (mu64 (sh_PeerID s))), (''state'', mstr (sh_State s), JStr (sh_State s))]"

definition json_transfer :: "TransferInfo \<Rightarrow> json" where
  "json_transfer t = JObj [(''shard_id'', mu32 (tr_ShardID t), JNum (mu32 (tr_ShardID t))), (''from'', mu64 (tr_From t), JNum (mu64 (tr_From t))),
     (''to'', mu64 (tr_To t), JNum (mu64 (tr_To t))), (''method'', mstr (tr_Method t), JStr (tr_Method t))]"

lemma parses_shards:
  "parses (print_local s) (json_local s)" "parses (print_remote s) (json_remote s)" "parses (print_transfer t) (json_transfer t)"
  unfolding print_local_def json_local_def print_remote_def json_remote_def print_transfer_def json_transfer_def
  by (intro parses_mobj; simp add: parses_intros)+

lemma dec_shards:
  "dec_local (json_local s) = Inr (sh_ShardID s, sh_PointsCount s, sh_State s)"
  "dec_remote (json_remote s) = Inr (s\<lparr>sh_PointsCount := 0\<rparr>)"
  "dec_transfer (json_transfer t) = Inr t"
  by (simp_all add: dec_local_def json_local_def dec_remote_def json_remote_def dec_transfer_def json_transfer_def fieldOf_JObj)

lemma dec_list_map:
  "(\<And>x. x \<in> set xs \<Longrightarrow> f (j x) = Inr (h x)) \<Longrightarrow> dec_list f (JArr (map (\<lambda>x. (p x, j x)) xs)) = Inr (map h xs)"
  using emap_map [of xs "\<lambda>(_, v). f v" "\<lambda>x. (p x, j x)" h] by (simp add: dec_list_def)

lemma dec_shard_lists:
  "dec_list dec_local (JArr (map (\<lambda>s. (print_local s, json_local s)) ss)) = Inr (map (\<lambda>s. (sh_ShardID s, sh_PointsCount s, sh_State s)) ss)"
  "dec_list dec_remote (JArr (map (\<lambda>s. (print_remote s, json_remote s)) ss)) = Inr (map (\<lambda>s. s\<lparr>sh_PointsCount := 0\<rparr>) ss)"
  "dec_list dec_transfer (JArr (map (\<lambda>t. (print_transfer t, json_transfer t)) ts)) = Inr (map (\<lambda>t. t) ts)"
  by (rule dec_list_map, simp add: dec_shards)+

lemma local_again:
  "map (\<lambda>(sid, points, state). \<lparr>sh_ShardID = sid, sh_PeerID = cc_PeerID cc, sh_State = state, sh_PointsCount = points\<rparr>)
     (map (\<lambda>s. (sh_ShardID s, sh_PointsCount s, sh_State s)) (local_shards cc)) = local_shards cc"
  unfolding map_map by (rule map_idI) (auto simp: local_shards_def intro!: ShardInfo.equality)

text \<open>The observation as the client reports it: the shards of the answering peer first, the others without their points.\<close>

definition as_observed :: "CollectionClusterInfo \<Rightarrow> CollectionClusterInfo" where
  "as_observed cc = cc\<lparr>cc_Shards := local_shards cc @ map (\<lambda>s. s\<lparr>sh_PointsCount := 0\<rparr>) (remote_shards cc)\<rparr>"

lemma envelope_collection_cluster:
  assumes "0 \<le> cc_ShardCount cc" and "cc_ShardCount cc < 2 ^ 63"
  shows "envelope dec_collection_cluster (reply (print_collection_cluster cc)) = Inr (as_observed cc)"
proof -
  let ?arr = "\<lambda>p j xs. JArr (map (\<lambda>x. (p x, j x)) xs)"
  let ?j = "JObj [(''peer_id'', mu64 (cc_PeerID cc), JNum (mu64 (cc_PeerID cc))),
     (''shard_count'', nat_digits (nat (cc_ShardCount cc)), JNum (nat_digits (nat (cc_ShardCount cc)))),
     (''local_shards'', marr (map print_local (local_shards cc)), ?arr print_local json_local (local_shards cc)),
     (''remote_shards'', marr (map print_remote (remote_shards cc)), ?arr print_remote json_remote (remote_shards cc)),
     (''shard_transfers'', marr (map print_transfer (cc_Transfers cc)), ?arr print_transfer json_transfer (cc_Transfers cc))]"
  have "parses (print_collection_cluster cc) ?j"
    unfolding print_collection_cluster_def by (intro parses_mobj) (simp add: parses_intros parses_marr_map parses_shards)
  then have "envelope dec_collection_cluster (reply (print_collection_cluster cc)) = dec_collection_cluster ?j" by (rule envelope_reply)
  also have "nat (cc_ShardCount cc) \<le> 2 ^ 63 - 1" using assms by simp
  then have "dec_collection_cluster ?j = Inr (as_observed cc)"
    using assms(1)
    by (simp add: dec_collection_cluster_def fieldOf_JObj dec_int_digits dec_shard_lists local_again as_observed_def del: map_map)
  finally show ?thesis .
qed

text \<open>The members of the cluster, ordered by their identifiers.\<close>

definition by_id :: "ClusterInfo \<Rightarrow> ClusterInfo" where
  "by_id ci = ci\<lparr>clu_Peers := sort_func (\<lambda>a b. go_compare (peer_ID a) (peer_ID b)) (clu_Peers ci)\<rparr>"

lemma AList_update_new: "k \<notin> fst ` set m \<Longrightarrow> AList.update k u m = m @ [(k, u)]"
  by (induction m) auto

lemma fold_update_distinct:
  "distinct (map fst (m @ kus)) \<Longrightarrow> fold (\<lambda>(k, u) m. AList.update k u m) kus m = m @ kus"
proof (induction kus arbitrary: m)
  case (Cons ku kus)
  obtain k u where "ku = (k, u)" by (cases ku)
  then show ?case using Cons.prems Cons.IH [of "m @ [ku]"] by (simp add: AList_update_new image_Un)
qed simp

lemma emap_peerOf: "emap peerOf (map (\<lambda>p. (FormatUint (peer_ID p), peer_URI p)) ps) = Inr ps"
  using emap_map [of ps peerOf "\<lambda>p. (FormatUint (peer_ID p), peer_URI p)" id] by (simp add: peerOf_def)

lemma dec_peers_print:
  assumes "distinct (map peer_ID ps)"
  shows "dec_peers (JObj (map (\<lambda>p. (FormatUint (peer_ID p), mobj [(''uri'', mstr (peer_URI p))], JObj [(''uri'', mstr (peer_URI p), JStr (peer_URI p))])) ps)) =
    Inr (map (\<lambda>p. (FormatUint (peer_ID p), peer_URI p)) ps)"
proof -
  let ?kus = "map (\<lambda>p. (FormatUint (peer_ID p), peer_URI p)) ps"
  have "distinct (map fst ([] @ ?kus))"
    using assms by (simp add: comp_def distinct_map inj_on_def FormatUint_inj)
  then have "fold (\<lambda>(k, u) m. AList.update k u m) ?kus [] = ?kus" using fold_update_distinct [of "[]" ?kus] by simp
  moreover have "emap (\<lambda>(k, _, v). ebind (fieldOf ''uri'' dec_str v) (\<lambda>u. Inr (k, u)))
      (map (\<lambda>p. (FormatUint (peer_ID p), mobj [(''uri'', mstr (peer_URI p))], JObj [(''uri'', mstr (peer_URI p), JStr (peer_URI p))])) ps) = Inr ?kus"
    by (rule emap_map) (simp add: fieldOf_JObj)
  ultimately show ?thesis by (simp add: dec_peers_def)
qed

lemma envelope_cluster:
  assumes "distinct (map peer_ID (clu_Peers ci))" and "0 \<le> clu_PendingOperations ci" and "clu_PendingOperations ci < 2 ^ 63"
  shows "envelope dec_cluster (reply (print_cluster ci)) = Inr (by_id ci)"
proof -
  let ?raft = "[(''leader'', mu64 (clu_RaftLeader ci), JNum (mu64 (clu_RaftLeader ci))),
      (''pending_operations'', nat_digits (nat (clu_PendingOperations ci)), JNum (nat_digits (nat (clu_PendingOperations ci))))]"
  let ?peers = "map (\<lambda>p. (FormatUint (peer_ID p), mobj [(''uri'', mstr (peer_URI p))], JObj [(''uri'', mstr (peer_URI p), JStr (peer_URI p))])) (clu_Peers ci)"
  let ?status = "if clu_Enabled ci then ''enabled'' else ''disabled''"
  let ?j = "JObj [(''status'', mstr ?status, JStr ?status), (''peer_id'', mu64 (clu_PeerID ci), JNum (mu64 (clu_PeerID ci))),
      (''peers'', mobj (map print_peer (clu_Peers ci)), JObj ?peers),
      (''raft_info'', mobj [(''leader'', mu64 (clu_RaftLeader ci)), (''pending_operations'', nat_digits (nat (clu_PendingOperations ci)))], JObj ?raft)]"
  have "parses (mobj (map print_peer (clu_Peers ci))) (JObj ?peers)"
    by (intro parses_mobj) (simp add: list.rel_map print_peer_def parses_mobj parses_intros list.rel_refl_strong)
  moreover have "parses (mobj [(''leader'', mu64 (clu_RaftLeader ci)), (''pending_operations'', nat_digits (nat (clu_PendingOperations ci)))]) (JObj ?raft)"
    by (intro parses_mobj) (simp add: parses_intros)
  ultimately have "parses (print_cluster ci) ?j"
    unfolding print_cluster_def by (intro parses_mobj) (simp add: parses_intros)
  then have "envelope dec_cluster (reply (print_cluster ci)) = dec_cluster ?j" by (rule envelope_reply)
  also have "nat (clu_PendingOperations ci) \<le> 2 ^ 63 - 1" using assms by simp
  then have "dec_cluster ?j = Inr (by_id ci)"
    using assms(2) by (simp add: dec_cluster_def fieldOf_JObj jget_JObj dec_int_digits dec_peers_print [OF assms(1)] emap_peerOf by_id_def)
  finally show ?thesis .
qed

lemma envelope_collections:
  "envelope (\<lambda>j. ebind (fieldOf ''collections'' (dec_list (fieldOf ''name'' dec_str)) j) (\<lambda>names. Inr (sort names))) (reply (print_collections ns)) = Inr (sort ns)"
proof -
  let ?name = "\<lambda>n. JObj [(''name'', mstr n, JStr n)]"
  have "parses (print_collections ns) (JObj [(''collections'', marr (map (\<lambda>n. mobj [(''name'', mstr n)]) ns), JArr (map (\<lambda>n. (mobj [(''name'', mstr n)], ?name n)) ns))])"
    unfolding print_collections_def by (intro parses_mobj) (simp add: parses_marr_map parses_mobj parses_intros)
  moreover have "dec_list (fieldOf ''name'' dec_str) (JArr (map (\<lambda>n. (mobj [(''name'', mstr n)], ?name n)) ns)) = Inr (map (\<lambda>n. n) ns)"
    by (rule dec_list_map) (simp add: fieldOf_JObj)
  ultimately show ?thesis by (simp add: envelope_reply fieldOf_JObj)
qed

lemma Decode_collection:
  assumes "ci_Exists ci"
  shows "(case Decode (hr_Body (reply (print_collection ci))) of None \<Rightarrow> Inl jsonError | Some j \<Rightarrow> dec_collection j) = Inr ci"
proof -
  let ?v = "JObj [(''size'', mu64 (ci_VectorSize ci), JNum (mu64 (ci_VectorSize ci))), (''distance'', mstr (ci_Distance ci), JStr (ci_Distance ci))]"
  let ?vt = "mobj [(''size'', mu64 (ci_VectorSize ci)), (''distance'', mstr (ci_Distance ci))]"
  let ?pt = "mobj [(''vectors'', ?vt), (''shard_number'', mu32 (ci_ShardNumber ci)), (''replication_factor'', mu32 (ci_ReplicationFactor ci))]"
  let ?p = "JObj [(''vectors'', ?vt, ?v), (''shard_number'', mu32 (ci_ShardNumber ci), JNum (mu32 (ci_ShardNumber ci))),
      (''replication_factor'', mu32 (ci_ReplicationFactor ci), JNum (mu32 (ci_ReplicationFactor ci)))]"
  have "parses ?vt ?v" by (intro parses_mobj) (simp add: parses_intros)
  then have "parses ?pt ?p" by (intro parses_mobj) (simp add: parses_intros)
  then have "parses (mobj [(''params'', ?pt)]) (JObj [(''params'', ?pt, ?p)])" by (intro parses_mobj) simp
  then have "parses (print_collection ci) (JObj [(''points_count'', mu64 (ci_PointsCount ci), JNum (mu64 (ci_PointsCount ci))),
      (''config'', mobj [(''params'', ?pt)], JObj [(''params'', ?pt, ?p)])])"
    unfolding print_collection_def by (intro parses_mobj) (simp add: parses_intros)
  then show ?thesis using assms
    by (simp add: Decode_reply dec_collection_def fieldOf_JObj jget_JObj)
qed

lemma envelope_snapshots: "envelope (dec_list dec_snapshot) (reply (marr (map print_snapshot sns))) = Inr sns"
proof -
  let ?j = "\<lambda>sn. JObj [(''name'', mstr (sn_Name sn), JStr (sn_Name sn)), (''creation_time'', mstr (sn_CreationTime sn), JStr (sn_CreationTime sn)),
      (''size'', mu64 (sn_Size sn), JNum (mu64 (sn_Size sn)))]"
  have "parses (print_snapshot sn) (?j sn)" for sn unfolding print_snapshot_def by (intro parses_mobj) (simp add: parses_intros)
  then have "parses (marr (map print_snapshot sns)) (JArr (map (\<lambda>sn. (print_snapshot sn, ?j sn)) sns))" by (rule parses_marr_map)
  moreover have "dec_list dec_snapshot (JArr (map (\<lambda>sn. (print_snapshot sn, ?j sn)) sns)) = Inr (map (\<lambda>sn. sn) sns)"
    by (rule dec_list_map) (simp add: dec_snapshot_def fieldOf_JObj)
  ultimately show ?thesis by (simp add: envelope_reply)
qed

lemma fold_map_upd: "fold (\<lambda>(n, t) m. m(n \<mapsto> t)) (map (\<lambda>a. (a, g a)) xs) m0 = (\<lambda>a. if a \<in> set xs then Some (g a) else m0 a)"
  by (induction xs arbitrary: m0) auto

lemma envelope_aliases:
  assumes "finite (dom m)"
  shows "envelope dec_aliases (reply (print_aliases m)) = Inr m"
proof -
  let ?as = "sorted_list_of_set (dom m)"
  let ?t = "\<lambda>a. mobj [(''alias_name'', mstr a), (''collection_name'', mstr (the (m a)))]"
  let ?j = "\<lambda>a. JObj [(''alias_name'', mstr a, JStr a), (''collection_name'', mstr (the (m a)), JStr (the (m a)))]"
  have "parses (?t a) (?j a)" for a by (intro parses_mobj) (simp add: parses_intros)
  then have "parses (marr (map ?t ?as)) (JArr (map (\<lambda>a. (?t a, ?j a)) ?as))" by (rule parses_marr_map)
  then have "parses (print_aliases m) (JObj [(''aliases'', marr (map ?t ?as), JArr (map (\<lambda>a. (?t a, ?j a)) ?as))])"
    unfolding print_aliases_def by (intro parses_mobj) simp
  moreover have "dec_list (\<lambda>a. ebind (fieldOf ''alias_name'' dec_str a) (\<lambda>n. ebind (fieldOf ''collection_name'' dec_str a) (\<lambda>t. Inr (n, t))))
      (JArr (map (\<lambda>a. (?t a, ?j a)) ?as)) = Inr (map (\<lambda>a. (a, the (m a))) ?as)"
    by (rule dec_list_map) (simp add: fieldOf_JObj)
  moreover have "fold (\<lambda>(n, t) m. m(n \<mapsto> t)) (map (\<lambda>a. (a, the (m a))) ?as) Map.empty = m"
    using assms by (auto simp: fold_map_upd fun_eq_iff dom_def)
  ultimately show ?thesis by (simp add: envelope_reply dec_aliases_def fieldOf_JObj)
qed

text \<open>A page of points in the texts the server sends: compact JSON.\<close>

definition page_ok :: "raw list \<times> raw option \<Rightarrow> bool" where
  "page_ok pg \<longleftrightarrow> list_all (\<lambda>p. mraw p = Some p) (fst pg) \<and>
     (case snd pg of None \<Rightarrow> True | Some t \<Rightarrow> t \<noteq> ''null'' \<and> mraw t = Some t)"

lemma parses_null: "parses ''null'' JNull"
proof -
  have "j_value n (''null'' @ rest) = Some (JNull, rest)" if "2 * length ''null'' < n" for n rest
    using that by (cases n) (simp_all add: literal_def)
  then show ?thesis by (simp add: parses_def starts_def is_ws_def)
qed

lemma mraws_id: "list_all (\<lambda>p. mraw p = Some p) ps \<Longrightarrow> mraws ps = Some ps"
  by (induction ps) simp_all

lemma envelope_page:
  assumes "page_ok pg"
  shows "envelope dec_scroll (reply (print_page pg)) = Inr pg"
proof -
  obtain ps nx where pg: "pg = (ps, nx)" by (cases pg)
  have ps: "mraws ps = Some ps" using assms by (simp add: page_ok_def pg mraws_id)
  obtain es where es: "list_all2 (\<lambda>t (t', j). t = t' \<and> parses t j) ps es" "map fst es = ps" using mraws_parses [OF ps] by blast
  define t where "t = (case nx of None \<Rightarrow> ''null'' | Some t \<Rightarrow> t)"
  have "\<exists>j. parses t j"
  proof (cases nx)
    case (Some x)
    then have "mraw x = Some x" using assms by (simp add: page_ok_def pg)
    then show ?thesis using mraw_value [of x x] Some by (auto simp: t_def)
  qed (use parses_null t_def in auto)
  then obtain j where "parses t j" by blast
  then have "parses (print_page pg) (JObj [(''points'', marr ps, JArr es), (''next_page_offset'', t, j)])"
    unfolding print_page_def pg t_def [symmetric] fst_conv snd_conv
    by (intro parses_mobj) (simp add: parses_marr [OF es(1)] t_def)
  then have "envelope dec_scroll (reply (print_page pg)) = Inr (ps, if t = ''null'' then None else Some t)"
    using es(2) by (simp add: envelope_reply dec_scroll_def fieldOf_JObj dec_raws_def jraw_def)
  moreover have "(if t = ''null'' then None else Some t) = nx" using assms by (cases nx) (simp_all add: t_def page_ok_def pg)
  ultimately show ?thesis by (simp add: pg)
qed

section \<open>The client in front of the server\<close>

lemma request_segments_join:
  assumes "list_all (\<lambda>s. CHR ''/'' \<notin> set s \<and> CHR ''?'' \<notin> set s) segs" and "segs \<noteq> []"
  shows "request_segments base \<lparr>rq_Method = method, rq_URL = base @ concat (map ((#) (CHR ''/'')) segs), rq_Body = body\<rparr> = map unescape_path segs"
proof -
  have nq: "CHR ''?'' \<notin> set (concat (map ((#) (CHR ''/'')) segs))" using assms(1) by (auto simp: list_all_iff)
  show ?thesis by (simp add: request_segments_def cut_notin [OF nq] segments_join [OF assms(2,1)])
qed

lemma route_get: "\<exists>e. route ''GET'' segs query body = Inl e"
  by (auto simp: route_def split: list.split)

lemma rest_server_get:
  assumes "list_all (\<lambda>s. CHR ''/'' \<notin> set s \<and> CHR ''?'' \<notin> set s) segs" and "segs \<noteq> []"
  shows "rest_server cl base \<lparr>rq_Method = ''GET'', rq_URL = base @ concat (map ((#) (CHR ''/'')) segs), rq_Body = None\<rparr> w =
    serve_read cl (map unescape_path segs) w"
proof -
  obtain e where "serve base \<lparr>rq_Method = ''GET'', rq_URL = base @ concat (map ((#) (CHR ''/'')) segs), rq_Body = None\<rparr> = Inl e"
    using serve_path(1) [OF assms, of base "''GET''" None] route_get by metis
  then show ?thesis by (simp add: rest_server_def request_segments_join [OF assms])
qed

lemma doJSON_answer:
  assumes "hc_Do c \<lparr>rq_Method = method, rq_URL = hc_BaseURL c @ path, rq_Body = body\<rparr> w = answer print r"
  shows "doJSON c method path (map_option Some body) dec w =
    (case fst r of Inl e \<Rightarrow> Inl (statusError method path (failure e)) | Inr x \<Rightarrow> envelope dec (reply (print x)), snd r)"
  using assms by (cases body) (simp_all add: doJSON_def exchange_def answer_def reply_def failure_def split: sum.split)

text \<open>The same outcome: an error for an error, the given view of the value for a value, and the same world.\<close>

definition same_result :: "('a \<Rightarrow> 'a) \<Rightarrow> ('a \<Rightarrow> bool) \<Rightarrow> (err + 'a) \<times> 'w \<Rightarrow> (err + 'a) \<times> 'w \<Rightarrow> bool" where
  "same_result view good r r' \<longleftrightarrow> snd r' = snd r \<and>
     (case fst r of Inl e \<Rightarrow> (\<exists>e'. fst r' = Inl e') | Inr x \<Rightarrow> good x \<longrightarrow> fst r' = Inr (view x))"

definition int64_range :: "int \<Rightarrow> bool" where
  "int64_range i \<longleftrightarrow> 0 \<le> i \<and> i < 2 ^ 63"

lemma over_http_mutation:
  assumes "\<not> is_read_call q" and "marshals q" and "list_all path_plain (raw_name q)"
  shows "snd (call_mutation (over_http base cl) q w) = snd (call_mutation cl (arrives q) w) \<and>
    (fst (call_mutation (over_http base cl) q w) = None \<longleftrightarrow> fst (call_mutation cl (arrives q) w) = None)"
  using serve_rest_request [OF assms, of base]
  by (auto simp: over_http_def mutation_answered [OF assms(1,2)] answered_def rest_server_def serve_write_def reply_def failure_def
      rest_accepts_codes split: prod.splits option.splits)

lemma over_http_read:
  assumes "list_all (\<lambda>s. CHR ''/'' \<notin> set s \<and> CHR ''?'' \<notin> set s) segs" and "segs \<noteq> []"
    and "serve_read cl (map unescape_path segs) w = answer print r"
    and "\<And>x. good x \<Longrightarrow> envelope dec (reply (print x)) = Inr (view x)"
  shows "same_result view good r (doJSON \<lparr>hc_BaseURL = base, hc_Do = rest_server cl base\<rparr> ''GET'' (concat (map ((#) (CHR ''/'')) segs)) None dec w)"
proof -
  have "rest_server cl base \<lparr>rq_Method = ''GET'', rq_URL = base @ concat (map ((#) (CHR ''/'')) segs), rq_Body = None\<rparr> w = answer print r"
    using rest_server_get [OF assms(1,2), of cl base w] assms(3) by simp
  then show ?thesis
    using assms(4) doJSON_answer [of "\<lparr>hc_BaseURL = base, hc_Do = rest_server cl base\<rparr>" "''GET''" "concat (map ((#) (CHR ''/'')) segs)" None w print r dec]
    by (auto simp: same_result_def split: sum.split)
qed

lemma over_http_GetCollection:
  assumes "list_all path_plain name"
  shows "same_result (\<lambda>ci. if ci_Exists ci then ci else absentCollection) (\<lambda>_. True)
    (GetCollection cl name w) (GetCollection (over_http base cl) name w)"
proof -
  have get: "rest_server cl base \<lparr>rq_Method = ''GET'', rq_URL = base @ ''/collections/'' @ name, rq_Body = None\<rparr> w = serve_read cl [''collections'', name] w"
    using rest_server_get [of "[''collections'', name]" cl base w] plain_name [OF assms] by simp
  have codes: "hr_Code (reply t) = 200" "hr_Code (missing n) = 404" "hr_Code (failure e) = 500" for t n e
    by (simp_all add: reply_def missing_def failure_def)
  obtain r w' where "GetCollection cl name w = (r, w')" by fastforce
  then show ?thesis using get Decode_collection
    by (cases r) (auto simp: same_result_def over_http_def http_client_def http_GetCollection_def exchange_def serve_read_def codes)
qed

lemma over_http_ListAliases:
  "same_result id (\<lambda>m. finite (dom m)) (ListAliases cl w) (ListAliases (over_http base cl) w)"
  using over_http_read [of "[''aliases'']" cl w print_aliases "ListAliases cl w" "\<lambda>m. finite (dom m)" dec_aliases id base] envelope_aliases
  by (simp add: over_http_def http_client_def http_ListAliases_def serve_read_def)

lemma over_http_ListSnapshots:
  "same_result id (\<lambda>_. True) (ListSnapshots cl c w) (ListSnapshots (over_http base cl) c w)"
  using over_http_read [of "[''collections'', PathEscape c, ''snapshots'']" cl w "\<lambda>sns. marr (map print_snapshot sns)" "ListSnapshots cl c w"
      "\<lambda>_. True" "dec_list dec_snapshot" id base]
    envelope_snapshots PathEscape_set [of c] unescape_PathEscape [of c]
  by (simp add: over_http_def http_client_def http_ListSnapshots_def serve_read_def)

lemma parses_scrollBody:
  assumes "0 \<le> limit" and "limit < 2 ^ 63" and "\<forall>off. offset = Some off \<longrightarrow> json_parse off \<noteq> None"
  shows "\<exists>b j. scrollBody offset limit = Some b \<and> parses b j \<and> read_scroll j = Inr (map_option (compact False) offset, limit)"
proof -
  have lim: "FormatInt limit = nat_digits (nat limit)" "dec_int (JNum (nat_digits (nat limit))) = Inr limit"
    using assms(1,2) dec_int_digits [of "nat limit"] by (simp_all add: FormatInt_def)
  have true: "parses ''true'' (JBool True)"
  proof -
    have "j_value n (''true'' @ rest) = Some (JBool True, rest)" if "2 * length ''true'' < n" for n rest
      using that by (cases n) (simp_all add: literal_def)
    then show ?thesis by (simp add: parses_def starts_def is_ws_def)
  qed
  show ?thesis
  proof (cases offset)
    case None
    let ?j = "JObj [(''limit'', nat_digits (nat limit), JNum (nat_digits (nat limit))), (''with_payload'', ''true'', JBool True), (''with_vector'', ''true'', JBool True)]"
    have "parses (mobj [(''limit'', nat_digits (nat limit)), (''with_payload'', ''true''), (''with_vector'', ''true'')]) ?j"
      by (intro parses_mobj) (simp add: parses_intros true)
    then show ?thesis
      by (intro exI [of _ "mobj [(''limit'', nat_digits (nat limit)), (''with_payload'', ''true''), (''with_vector'', ''true'')]"] exI [of _ ?j])
        (simp add: None scrollBody_def lim read_scroll_def fieldOf_JObj jraw_def)
  next
    case (Some off)
    have "json_parse [] = None" by (simp add: json_parse_def json_fuel_def skip_ws_def)
    then have off: "off \<noteq> []" "json_parse off \<noteq> None" using assms(3) Some by auto
    then obtain t where t: "mraw off = Some t" "t = compact False off" by (simp add: mraw_def)
    obtain jo where jo: "parses t jo" using mraw_value [OF t(1)] by blast
    let ?b = "mobj [(''limit'', nat_digits (nat limit)), (''offset'', t), (''with_payload'', ''true''), (''with_vector'', ''true'')]"
    let ?j = "JObj [(''limit'', nat_digits (nat limit), JNum (nat_digits (nat limit))), (''offset'', t, jo), (''with_payload'', ''true'', JBool True), (''with_vector'', ''true'', JBool True)]"
    have "parses ?b ?j" by (intro parses_mobj) (simp add: parses_intros true jo)
    then show ?thesis using off(1) t
      by (intro exI [of _ ?b] exI [of _ ?j]) (simp add: Some scrollBody_def lim read_scroll_def fieldOf_JObj jraw_def)
  qed
qed

lemma over_http_ScrollPoints:
  assumes "list_all path_plain name" and "0 \<le> limit" and "limit < 2 ^ 63" and "\<forall>off. offset = Some off \<longrightarrow> json_parse off \<noteq> None"
  shows "same_result id page_ok (ScrollPoints cl name (map_option (compact False) offset) limit w) (ScrollPoints (over_http base cl) name offset limit w)"
proof -
  define offset' where "offset' = map_option (compact False) offset"
  obtain b j where b: "scrollBody offset limit = Some b" "parses b j" "read_scroll j = Inr (offset', limit)"
    using parses_scrollBody [OF assms(2-4)] by (auto simp: offset'_def)
  let ?segs = "[''collections'', name, ''points'', ''scroll'']"
  let ?rq = "\<lparr>rq_Method = ''POST'', rq_URL = base @ concat (map ((#) (CHR ''/'')) ?segs), rq_Body = Some b\<rparr>"
  have segs: "list_all (\<lambda>s. CHR ''/'' \<notin> set s \<and> CHR ''?'' \<notin> set s) ?segs" using plain_name [OF assms(1)] by simp
  have "serve base ?rq = Inl ''POST''" using serve_path(1) [OF segs, of base "''POST''" "Some b"] by (simp add: route_def)
  moreover have "request_segments base ?rq = [''collections'', name, ''points'', ''scroll'']"
    using request_segments_join [OF segs, of base "''POST''" "Some b"] plain_name [OF assms(1)] by simp
  ultimately have "rest_server cl base ?rq w = answer print_page (ScrollPoints cl name offset' limit w)"
    using b(2,3) by (simp add: rest_server_def serve_scroll_def parses_json)
  then have "doJSON \<lparr>hc_BaseURL = base, hc_Do = rest_server cl base\<rparr> ''POST'' (concat (map ((#) (CHR ''/'')) ?segs)) (map_option Some (Some b)) dec_scroll w =
      (case fst (ScrollPoints cl name offset' limit w) of Inl e \<Rightarrow> Inl (statusError ''POST'' (concat (map ((#) (CHR ''/'')) ?segs)) (failure e))
        | Inr x \<Rightarrow> envelope dec_scroll (reply (print_page x)), snd (ScrollPoints cl name offset' limit w))"
    by (intro doJSON_answer) simp
  then show ?thesis unfolding offset'_def [symmetric] using b(1) envelope_page
    by (auto simp: same_result_def over_http_def http_client_def http_ScrollPoints_def split: sum.split)
qed


end
