(* ===== verification/Backup_Http.thy ===== *)
theory Backup_Http
  imports Backup_Retention Http_Server
begin

text \<open>
  Retention over the wire. The snapshot routes escape the names they carry, so every store of snapshots
  remains one behind a REST server, whatever the names of collections and snapshots are.
\<close>

lemma over_http_DeleteSnapshot: "snd (DeleteSnapshot (over_http base cl) c n w) = snd (DeleteSnapshot cl c n w)"
  using over_http_mutation [of "QDeleteSnapshot c n" base cl w] by simp

lemma over_http_snapshot_store:
  assumes "snapshot_store cl snaps up"
  shows "snapshot_store (over_http base cl) snaps up"
proof
  fix w c assume "up w"
  then have "ListSnapshots cl c w = (Inr (snaps w c), w)" by (rule snapshot_store.list_snapshots [OF assms])
  then show "ListSnapshots (over_http base cl) c w = (Inr (snaps w c), w)"
    using over_http_ListSnapshots [of cl c w base] by (simp add: same_result_def prod_eq_iff)
next
  fix w c n e w' assume up: "up w" and d: "DeleteSnapshot (over_http base cl) c n w = (e, w')"
  have "DeleteSnapshot cl c n w = (fst (DeleteSnapshot cl c n w), w')"
    using over_http_DeleteSnapshot [of base cl c n w] d by (simp add: prod_eq_iff)
  note behind = this
  show "up w'" by (rule snapshot_store.delete_up [OF assms up behind])
  show "snaps w' = (snaps w)(c := filter (\<lambda>s. sn_Name s \<noteq> n) (snaps w c))"
    by (rule snapshot_store.delete_snapshot [OF assms up behind])
qed

interpretation http_snapshots: snapshot_store "over_http base (fake_client now)" "\<lambda>f. get_or [] (fk_Snapshots f)" "\<lambda>f. fk_ErrOn f = Map.empty"
  for base now
  by (rule over_http_snapshot_store) (rule fake_snapshots.snapshot_store_axioms)


end
