(* ===== verification/Backup_Witnesses.thy ===== *)
theory Backup_Witnesses
  imports Backup_Retention Restore_Safety Executor_Witnesses Backup_Http
begin

text \<open>
  The backup and restore theorems on a small world: an API server that stores one backup and one
  restore, and a peer that stores snapshots. \<open>demo k\<close> is this world after \<open>k\<close> passes of the backup
  controller: a generation is opened, issued, settled and closed.
\<close>

record Demo =
  w_bk :: QdrantBackup
  w_rs :: QdrantRestore
  w_snaps :: "SnapshotInfo list"

definition demoClient :: "Demo Client" where
  "demoClient = \<lparr>GetCollection = \<lambda>_ w. (Inl [], w), CreateCollection = \<lambda>_ _ w. (Some [], w),
     DeleteCollection = \<lambda>_ w. (Some [], w), ListCollections = \<lambda>w. (Inl [], w), GetClusterInfo = \<lambda>w. (Inl [], w),
     CollectionCluster = \<lambda>_ w. (Inl [], w), MoveShard = \<lambda>_ _ _ _ w. (Some [], w), ReplicateShard = \<lambda>_ _ _ _ w. (Some [], w),
     DropReplica = \<lambda>_ _ _ w. (Some [], w), RemovePeer = \<lambda>_ _ w. (Some [], w), UpdateAliases = \<lambda>_ w. (Some [], w),
     ListAliases = \<lambda>w. (Inl [], w), ScrollPoints = \<lambda>_ _ _ w. (Inl [], w), UpsertPoints = \<lambda>_ _ w. (Some [], w),
     CreateSnapshot = \<lambda>c w. (None, w\<lparr>w_snaps := w_snaps w @ [\<lparr>sn_Name = c @ ''-new'', sn_CreationTime = ''2'', sn_Size = 0\<rparr>]\<rparr>),
     ListSnapshots = \<lambda>_ w. (Inr (w_snaps w), w),
     DeleteSnapshot = \<lambda>_ n w. (None, w\<lparr>w_snaps := filter (\<lambda>s. sn_Name s \<noteq> n) (w_snaps w)\<rparr>),
     RecoverSnapshot = \<lambda>_ _ _ w. (None, w)\<rparr>"

definition demoCluster :: QdrantCluster where
  "demoCluster = sampleCluster\<lparr>qc_Spec := blankSpec\<lparr>spec_Replicas := 1\<rparr>\<rparr>"

definition demoR :: "Demo BackupReconciler" where
  "demoR = \<lparr>b_Meta = list_meta, b_Cron = \<lambda>_. Some (\<lambda>_. 0), b_Now = \<lambda>_. 1000 * Minute, b_Clock = \<lambda>_. 1000 * Minute,
     b_GetBackup = \<lambda>_ _ w. (Inr (w_bk w), w), b_GetCluster = \<lambda>_ _ w. (Inr demoCluster, w),
     b_StatusUpdate = \<lambda>bk w. (None, w\<lparr>w_bk := bk\<rparr>), b_QdrantClientFor = \<lambda>_. demoClient,
     b_QdrantClientForPeer = \<lambda>_ _. demoClient\<rparr>"

definition demoBackup :: QdrantBackup where
  "demoBackup = \<lparr>bk_Name = ''b'', bk_Namespace = ''ns'', bk_Generation = 1,
     bk_Spec = \<lparr>bks_ClusterRef = ''q'', bks_Collections = [''c''], bks_Schedule = [],
       bks_Retention = Some \<lparr>ret_KeepLast = 1\<rparr>, bks_Suspend = False\<rparr>,
     bk_Status = \<lparr>bst_Phase = [], bst_ObservedGeneration = 0, bst_Active = None, bst_Pending = [], bst_Snapshots = [],
       bst_LastSuccessTime = None, bst_NextScheduleTime = None, bst_Conditions = []\<rparr>\<rparr>"

definition demoRestore :: QdrantRestore where
  "demoRestore = \<lparr>res_Name = ''r'', res_Namespace = ''ns'', res_Generation = 1,
     res_Spec = \<lparr>rss_ClusterRef = ''q'', rss_Collection = ''c'', rss_FromBackup = [], rss_Sources = [\<lparr>src_Peer = 0, src_Location = ''http://q/s''\<rparr>], rss_Priority = []\<rparr>,
     res_Status = \<lparr>rst_Phase = [], rst_ObservedGeneration = 0, rst_Pending = [], rst_Restored = [],
       rst_CompletionTime = None, rst_Conditions = []\<rparr>\<rparr>"

definition oldSnapshot :: SnapshotInfo where
  "oldSnapshot = \<lparr>sn_Name = ''old'', sn_CreationTime = ''1'', sn_Size = 0\<rparr>"

definition newSnapshot :: SnapshotInfo where
  "newSnapshot = \<lparr>sn_Name = ''new'', sn_CreationTime = ''2'', sn_Size = 0\<rparr>"

primrec demo :: "nat \<Rightarrow> (Demo, effect) sys" where
  "demo 0 = \<lparr>world = \<lparr>w_bk = demoBackup, w_rs = demoRestore, w_snaps = [oldSnapshot]\<rparr>, trace = []\<rparr>"
| "demo (Suc k) = snd (run_state (backup_Reconcile demoR ''ns'' ''b'') (demo k))"

definition demoEffects :: "nat \<Rightarrow> effect list" where
  "demoEffects k = drop (length (trace (demo k))) (trace (demo (Suc k)))"

lemma demo_run:
  "run_state (backup_Reconcile demoR ''ns'' ''b'') (demo k) =
     (fst (run_state (backup_Reconcile demoR ''ns'' ''b'') (demo k)), demo (Suc k))"
  by simp

lemma demo_get: "fst (b_GetBackup demoR ns n (world (demo k))) = Inr (w_bk (world (demo k)))"
  by (simp add: demoR_def)

definition demo_step_ok :: "nat \<Rightarrow> bool" where
  "demo_step_ok k \<longleftrightarrow> trace (demo (Suc k)) = trace (demo k) @ demoEffects k \<and>
     w_bk (world (demo (Suc k))) = (w_bk (world (demo k)))\<lparr>bk_Status := stored (bk_Status (w_bk (world (demo k)))) (demoEffects k)\<rparr>"

lemma demo_steps: "demo_step_ok 0" "demo_step_ok 1" "demo_step_ok 2" "demo_step_ok 3"
  by code_simp+

lemma demo_reach: "backup_reach demoR (w_bk (world (demo 3))) (demo 3)"
proof -
  have next_reach: "backup_reach demoR (w_bk (world (demo (Suc k)))) (demo (Suc k))"
    if "backup_reach demoR (w_bk (world (demo k))) (demo k)" and "demo_step_ok k" for k
    using backup_reach.pass [OF that(1) demo_get demo_run] that(2) unfolding demo_step_ok_def by metis
  have "backup_reach demoR (w_bk (world (demo 0))) (demo 0)"
    by (rule backup_reach.fresh) (simp_all add: demoBackup_def)
  then have "backup_reach demoR (w_bk (world (demo (Suc (Suc (Suc 0)))))) (demo (Suc (Suc (Suc 0))))"
    using demo_steps by (intro next_reach) (simp_all add: numeral_2_eq_2)
  then show ?thesis by (simp only: numeral_3_eq_3)
qed

theorem backup_issues_one_witness:
  "filter is_create (demoEffects 1) = [Qdrant (Some 0) (QCreateSnapshot ''c'') True] \<and> filter is_delete (demoEffects 1) = []"
proof -
  have "trace (demo (Suc 1)) = trace (demo 1) @ demoEffects 1" using demo_steps(2) by (simp only: demo_step_ok_def)
  moreover have "Qdrant (Some 0) (QCreateSnapshot ''c'') True \<in> set (demoEffects 1)" by code_simp
  ultimately show ?thesis using backup_issues_one [OF demo_run demo_get] by blast
qed

theorem backup_deletes_only_retention_witness:
  "generationJustFinished (w_bk (world (demo 3))) \<and>
   (\<exists>cl. pruned demoR cl (w_bk (world (demo 3))) (Qdrant (Some 0) (QDeleteSnapshot ''c'' ''old'') True))"
proof -
  have "trace (demo (Suc 3)) = trace (demo 3) @ demoEffects 3" using demo_steps(4) by (simp only: demo_step_ok_def)
  moreover have "Qdrant (Some 0) (QDeleteSnapshot ''c'' ''old'') True \<in> set (demoEffects 3)" by code_simp
  moreover have "is_delete (Qdrant (Some 0) (QDeleteSnapshot ''c'' ''old'') True)" by simp
  ultimately show ?thesis using backup_deletes_only_retention [OF demo_run demo_get] by blast
qed

theorem backup_success_covers_plan_witness:
  "mset (map snap_key (bst_Snapshots (bk_Status (w_bk (world (demo 3)))))) = mset (plan_of (trace (demo 3))) \<and>
   plan_of (trace (demo 3)) = [(''c'', 0)]"
proof -
  have "trace (demo (Suc 3)) = trace (demo 3) @ demoEffects 3" using demo_steps(4) by (simp only: demo_step_ok_def)
  moreover have "bst_LastSuccessTime (stored (bk_Status (w_bk (world (demo 3)))) (demoEffects 3)) \<noteq>
      bst_LastSuccessTime (bk_Status (w_bk (world (demo 3))))" by code_simp
  moreover have "planGeneration cs (spec_Replicas (qc_Spec demoCluster)) \<noteq> []"
    if "selected demoR (w_bk (world (demo 3))) demoCluster v cs" for v cs
  proof -
    have "bks_Collections (bk_Spec (w_bk (world (demo 3)))) = [''c'']" by code_simp
    then show ?thesis using that by (simp add: selected_def planGeneration_def demoCluster_def)
  qed
  moreover have "plan_of (trace (demo 3)) = [(''c'', 0)]" by code_simp
  ultimately show ?thesis
    using backup_success_covers_plan [OF demo_reach demo_get demo_run] by (auto simp: demoR_def)
qed

text \<open>A backup with the schedule of 30 February, resting.\<close>

definition februaryBackup :: QdrantBackup where
  "februaryBackup = demoBackup\<lparr>bk_Spec := (bk_Spec demoBackup)\<lparr>bks_Schedule := ''0 0 30 2 *''\<rparr>,
     bk_Status := (bk_Status demoBackup)\<lparr>bst_LastSuccessTime := Some (1000 * Minute), bst_Phase := phaseBackupReady\<rparr>\<rparr>"

theorem backup_unsatisfiable_schedule_never_rests_witness:
  "bst_Pending (bk_Status (snd (fst (run_state (backup_advance demoR februaryBackup demoCluster) (demo 0))))) = [pendingOf ''c'' 0]"
proof -
  obtain d bk' s' where run: "run_state (backup_advance demoR februaryBackup demoCluster) (demo 0) = ((d, bk'), s')" by (metis surj_pair)
  have "bst_Pending (bk_Status bk') = planGeneration [''c''] 1"
    using backup_unsatisfiable_schedule_never_rests [OF _ _ _ _ _ _ _ _ run]
    by (simp add: demoR_def februaryBackup_def demoBackup_def demoCluster_def go_consts)
  then show ?thesis using run by (simp add: planGeneration_def)
qed

definition twoSnapshots :: "(Fake, effect) sys" where
  "twoSnapshots = \<lparr>world = NewFake\<lparr>fk_Snapshots := [''c'' \<mapsto> [oldSnapshot, newSnapshot]]\<rparr>, trace = []\<rparr>"


section \<open>Restore\<close>

definition demoS :: "Demo RestoreReconciler" where
  "demoS = \<lparr>s_Meta = list_meta, s_Clock = \<lambda>_. 2000 * Minute, s_GetRestore = \<lambda>_ _ w. (Inr (w_rs w), w),
     s_GetCluster = \<lambda>_ _ w. (Inr demoCluster, w), s_GetBackup = \<lambda>_ _ w. (Inr (w_bk w), w),
     s_StatusUpdate = \<lambda>rs w. (None, w\<lparr>w_rs := rs\<rparr>), s_QdrantClientForPeer = \<lambda>_ _. demoClient\<rparr>"

text \<open>A backup with one snapshot of the collection, and the passes of a restore.\<close>

definition backedUp :: QdrantBackup where
  "backedUp = upd_bk (\<lambda>s. s\<lparr>bst_Snapshots := [\<lparr>sr_Collection = ''c'', sr_Peer = 0, sr_Name = ''new'', sr_CreatedAt = ''2''\<rparr>]\<rparr>) demoBackup"

primrec redo :: "nat \<Rightarrow> (Demo, effect) sys" where
  "redo 0 = \<lparr>world = \<lparr>w_bk = backedUp, w_rs = demoRestore, w_snaps = [newSnapshot]\<rparr>, trace = []\<rparr>"
| "redo (Suc k) = snd (run_state (restore_Reconcile demoS ''ns'' ''r'') (redo k))"

definition redoEffects :: "nat \<Rightarrow> effect list" where
  "redoEffects k = drop (length (trace (redo k))) (trace (redo (Suc k)))"

definition redo_step_ok :: "nat \<Rightarrow> bool" where
  "redo_step_ok k \<longleftrightarrow> trace (redo (Suc k)) = trace (redo k) @ redoEffects k \<and>
     w_rs (world (redo (Suc k))) = (w_rs (world (redo k)))\<lparr>res_Status := rs_stored (res_Status (w_rs (world (redo k)))) (redoEffects k)\<rparr>"

lemma redo_steps: "redo_step_ok 0" "redo_step_ok 1"
  by code_simp+

lemma redo_run:
  "run_state (restore_Reconcile demoS ''ns'' ''r'') (redo k) =
     (fst (run_state (restore_Reconcile demoS ''ns'' ''r'') (redo k)), redo (Suc k))"
  by simp

lemma redo_get: "fst (s_GetRestore demoS ns n (world (redo k))) = Inr (w_rs (world (redo k)))"
  by (simp add: demoS_def)

lemma redo_reach: "restore_reach demoS (w_rs (world (redo 2))) (redo 2)"
proof -
  have next_reach: "restore_reach demoS (w_rs (world (redo (Suc k)))) (redo (Suc k))"
    if "restore_reach demoS (w_rs (world (redo k))) (redo k)" and "redo_step_ok k" for k
    using restore_reach.pass [OF that(1) redo_get redo_run] that(2) unfolding redo_step_ok_def by metis
  have "restore_reach demoS (w_rs (world (redo 0))) (redo 0)"
    by (rule restore_reach.fresh) (simp_all add: demoRestore_def)
  then have "restore_reach demoS (w_rs (world (redo (Suc (Suc 0))))) (redo (Suc (Suc 0)))"
    using redo_steps by (intro next_reach) simp_all
  then show ?thesis by (simp only: numeral_2_eq_2)
qed

theorem restore_issues_one_witness:
  "\<exists>x ok. filter is_recover (redoEffects 0) = [recovery demoRestore x ok]"
proof -
  have t: "trace (redo (Suc 0)) = trace (redo 0) @ redoEffects 0" using redo_steps(1) by (simp only: redo_step_ok_def)
  have "filter is_recover (redoEffects 0) \<noteq> []" and "rst_CompletionTime (res_Status (w_rs (world (redo 0)))) = None"
    by code_simp+
  moreover have "w_rs (world (redo 0)) = demoRestore" by simp
  ultimately show ?thesis using restore_issues_one [OF redo_run redo_get t] by auto
qed

theorem restore_complete_covers_sources_witness:
  "rst_Pending (res_Status (w_rs (world (redo 2)))) = [] \<and>
   map src_Peer (rst_Restored (res_Status (w_rs (world (redo 2))))) = [0]"
proof -
  define st where "st = res_Status (w_rs (world (redo 1)))"
  have "rst_CompletionTime (res_Status (w_rs (world (redo 2)))) \<noteq> None" by code_simp
  moreover have "Kube (KStatusRestore st) True \<in> set (trace (redo 2))" unfolding st_def by code_simp
  moreover have "rst_Restored st @ rst_Pending st \<noteq> []" unfolding st_def by code_simp
  moreover have "map src_Peer (rst_Restored st @ rst_Pending st) = [0]" unfolding st_def by code_simp
  ultimately show ?thesis using restore_complete_covers_sources [OF redo_reach] by metis
qed

end
