(* ===== verification/Collection_Controller.thy ===== *)
theory Collection_Controller
  imports Cluster_Env Move_Executor
begin

text \<open>
  The collection controller (\<open>internal/controller/qdrantcollection_controller.go\<close>) and the reshard
  workflow (\<open>internal/controller/reshard.go\<close>). A pass creates, adopts or reports a collection; when
  the shard number has to change and the user opted in, it drives the workflow
  Preparing, Copying, Swapping, Finalizing on a shadow collection, whose commit point is the swap of
  the alias. The status of the resource is the only memory between passes.

  \<open>c_Clock\<close> is \<open>metav1.Now\<close>. The finalizer helpers of controller-runtime are written out on the list of
  finalizers.
\<close>

record 'w CollectionReconciler =
  c_Meta :: meta_lib
  c_Clock :: "'w \<Rightarrow> time"
  c_GetCollection :: "string \<Rightarrow> string \<Rightarrow> 'w \<Rightarrow> (kerr + QdrantCollection) \<times> 'w"
  c_GetCluster :: "string \<Rightarrow> string \<Rightarrow> 'w \<Rightarrow> (kerr + QdrantCluster) \<times> 'w"
  c_Update :: "QdrantCollection \<Rightarrow> 'w \<Rightarrow> kerr option \<times> 'w"
  c_StatusUpdate :: "QdrantCollection \<Rightarrow> 'w \<Rightarrow> kerr option \<times> 'w"
  c_QdrantClientFor :: "QdrantCluster \<Rightarrow> 'w Client"

section \<open>Constants and calls\<close>

definition collectionFinalizer :: string where "collectionFinalizer = ''qdrant.keiailab.com/collection-cleanup''"
definition reshardCopyBatch :: int where "reshardCopyBatch = 128"
definition phaseResharding :: string where "phaseResharding = ''Resharding''"

declare collectionFinalizer_def [go_consts] reshardCopyBatch_def [go_consts] phaseResharding_def [go_consts]

definition c_get :: "'w CollectionReconciler \<Rightarrow> string \<Rightarrow> string \<Rightarrow> ('w, kerr + QdrantCollection) io" where
  "c_get r ns n = perform (\<lambda>e. Kube (KGet ''QdrantCollection'' ns n) (ok_ksum e)) (c_GetCollection r ns n)"

definition c_cluster :: "'w CollectionReconciler \<Rightarrow> string \<Rightarrow> string \<Rightarrow> ('w, kerr + QdrantCluster) io" where
  "c_cluster r ns n = perform (\<lambda>e. Kube (KGet ''QdrantCluster'' ns n) (ok_ksum e)) (c_GetCluster r ns n)"

definition c_update :: "'w CollectionReconciler \<Rightarrow> QdrantCollection \<Rightarrow> ('w, kerr option) io" where
  "c_update r col = perform (\<lambda>e. Kube (KUpdate ''QdrantCollection'' (col_Name col)) (e = None)) (c_Update r col)"

definition c_status :: "'w CollectionReconciler \<Rightarrow> QdrantCollection \<Rightarrow> ('w, kerr option) io" where
  "c_status r col = perform (\<lambda>e. Kube (KStatusCollection (col_Status col)) (e = None)) (c_StatusUpdate r col)"

lemmas c_defs = c_get_def c_cluster_def c_update_def c_status_def

definition upd_col :: "(QdrantCollectionStatus \<Rightarrow> QdrantCollectionStatus) \<Rightarrow> QdrantCollection \<Rightarrow> QdrantCollection" where
  "upd_col f col = col\<lparr>col_Status := f (col_Status col)\<rparr>"

lemma upd_col_sel [simp]:
  "col_Status (upd_col f c) = f (col_Status c)" "col_Spec (upd_col f c) = col_Spec c"
  "col_Name (upd_col f c) = col_Name c" "col_Namespace (upd_col f c) = col_Namespace c"
  "col_Generation (upd_col f c) = col_Generation c" "col_Finalizers (upd_col f c) = col_Finalizers c"
  "col_DeletionTimestamp (upd_col f c) = col_DeletionTimestamp c"
  by (simp_all add: upd_col_def)

definition set_col_cond ::
    "'w CollectionReconciler \<Rightarrow> string \<Rightarrow> ConditionStatus \<Rightarrow> string \<Rightarrow> message \<Rightarrow> QdrantCollection \<Rightarrow> QdrantCollection" where
  "set_col_cond r t st reason msg col =
     upd_col (\<lambda>s. s\<lparr>cst_Conditions := SetStatusCondition (c_Meta r) (cst_Conditions s)
       (mk_cond t st reason msg (col_Generation col))\<rparr>) col"

section \<open>Pure functions\<close>

definition resolvedShardNumber :: "QdrantCollection \<Rightarrow> CollectionInfo \<Rightarrow> u32" where
  "resolvedShardNumber col live =
     (case cs_ShardNumber (col_Spec col) of
        Some n \<Rightarrow> n
      | None \<Rightarrow> if ci_Exists live then ci_ShardNumber live else 1)"

definition reshardable :: "CollectionInfo \<Rightarrow> QdrantCollection \<Rightarrow> bool" where
  "reshardable live col \<longleftrightarrow>
     (case cs_ShardNumber (col_Spec col) of
        None \<Rightarrow> False
      | Some n \<Rightarrow> ci_Exists live \<and> ci_VectorSize live = vec_Size (cs_Vectors (col_Spec col)) \<and>
          ci_Distance live = vec_Distance (cs_Vectors (col_Spec col)) \<and>
          ci_ReplicationFactor live = cs_ReplicationFactor (col_Spec col) \<and> ci_ShardNumber live \<noteq> n)"

definition physicalName :: "QdrantCollection \<Rightarrow> string" where
  "physicalName col =
     (if cst_ActiveCollection (col_Status col) \<noteq> [] then cst_ActiveCollection (col_Status col) else TargetCollectionName col)"

definition paramsMatch :: "CollectionInfo \<Rightarrow> CollectionSpec \<Rightarrow> bool" where
  "paramsMatch live want \<longleftrightarrow> ci_VectorSize live = csp_VectorSize want \<and> ci_Distance live = csp_Distance want \<and>
     ci_ShardNumber live = csp_ShardNumber want \<and> ci_ReplicationFactor live \<le> csp_ReplicationFactor want"

definition clusterMoveActive :: "QdrantCluster \<Rightarrow> bool" where
  "clusterMoveActive cluster \<longleftrightarrow> st_ActiveMove (qc_Status cluster) \<noteq> None \<or> st_DrainStatus (qc_Status cluster) \<noteq> None"

text \<open>The actions that point an alias at a collection, as \<open>ensureAlias\<close> and the swap build them.\<close>

definition aliasActions :: "(string \<rightharpoonup> string) \<Rightarrow> string \<Rightarrow> string \<Rightarrow> AliasAction list" where
  "aliasActions aliases alias coll =
     (if aliases alias \<noteq> None
      then [\<lparr>aa_CreateAlias = None, aa_DeleteAlias = Some \<lparr>da_AliasName = alias\<rparr>\<rparr>] else []) @
     [\<lparr>aa_CreateAlias = Some \<lparr>ca_AliasName = alias, ca_CollectionName = coll\<rparr>, aa_DeleteAlias = None\<rparr>]"

section \<open>Reporting\<close>

definition setReady :: "'w CollectionReconciler \<Rightarrow> QdrantCollection \<Rightarrow> u64 \<Rightarrow> ('w, kerr + Result) io" where
  "setReady r col points = do {
     let col = upd_col (\<lambda>s. s\<lparr>cst_Phase := condReady, cst_PointsCount := points,
       cst_ObservedGeneration := col_Generation col\<rparr>) col;
     let col = set_col_cond r condReady ConditionTrue ''Ensured'' (Msg ''collection present and matching'' []) col;
     let col = set_col_cond r condDegraded ConditionFalse ''Healthy'' (Msg ''healthy'' []) col;
     e \<leftarrow> c_status r col;
     case e of
       Some k \<Rightarrow> State_Monad.return (Inl k)
     | None \<Rightarrow> State_Monad.return (Inr \<lparr>RequeueAfter = 2 * Minute\<rparr>)
   }"

definition setDegraded :: "'w CollectionReconciler \<Rightarrow> QdrantCollection \<Rightarrow> string \<Rightarrow> message \<Rightarrow> ('w, unit) io" where
  "setDegraded r col reason msg = do {
     let col = upd_col (\<lambda>s. s\<lparr>cst_Phase := condDegraded, cst_ObservedGeneration := col_Generation col\<rparr>) col;
     let col = set_col_cond r condDegraded ConditionTrue reason msg col;
     EmitWarning reason msg;
     _ \<leftarrow> c_status r col;
     State_Monad.return ()
   }"

text \<open>\<open>setDegraded\<close> followed by a return with a delay, as all its callers do.\<close>

definition degraded_after ::
    "'w CollectionReconciler \<Rightarrow> QdrantCollection \<Rightarrow> string \<Rightarrow> message \<Rightarrow> duration \<Rightarrow> ('w, kerr + Result) io" where
  "degraded_after r col reason msg d = do {
     setDegraded r col reason msg;
     State_Monad.return (Inr \<lparr>RequeueAfter = d\<rparr>)
   }"

text \<open>\<open>if err := r.Status().Update(...); err != nil { return ..., err }\<close>, then a delay.\<close>

definition status_then :: "'w CollectionReconciler \<Rightarrow> QdrantCollection \<Rightarrow> duration \<Rightarrow> ('w, kerr + Result) io" where
  "status_then r col d = do {
     e \<leftarrow> c_status r col;
     case e of
       Some k \<Rightarrow> State_Monad.return (Inl k)
     | None \<Rightarrow> State_Monad.return (Inr \<lparr>RequeueAfter = d\<rparr>)
   }"

definition ensureAlias :: "'w Client \<Rightarrow> string \<Rightarrow> string \<Rightarrow> ('w, err option) io" where
  "ensureAlias qcl alias physical =
     (if alias = [] then State_Monad.return None
      else do {
        got \<leftarrow> q_ListAliases None qcl;
        case got of
          Inl m \<Rightarrow> State_Monad.return (Some m)
        | Inr aliases \<Rightarrow>
            if get_or [] aliases alias = physical then State_Monad.return None
            else q_UpdateAliases None qcl (aliasActions aliases alias physical)
      })"

section \<open>Reshard\<close>

definition upd_reshard :: "(ReshardStatus \<Rightarrow> ReshardStatus) \<Rightarrow> QdrantCollection \<Rightarrow> QdrantCollection" where
  "upd_reshard f col = upd_col (\<lambda>s. s\<lparr>cst_Reshard := map_option f (cst_Reshard s)\<rparr>) col"

definition shadowName :: "string \<Rightarrow> int \<Rightarrow> string" where
  "shadowName physical gen = physical @ ''-rs-g'' @ FormatInt gen"

text \<open>
  \<open>target\<close> is \<open>*col.Spec.ShardNumber\<close>: the only caller passes the resolved shard number, in a branch where
  \<open>reshardable\<close> holds and the number is set.
\<close>

definition beginReshard ::
    "'w CollectionReconciler \<Rightarrow> QdrantCollection \<Rightarrow> CollectionInfo \<Rightarrow> u32 \<Rightarrow> ('w, kerr + Result) io" where
  "beginReshard r col info target = do {
     now \<leftarrow> inspect (c_Clock r);
     let physical = physicalName col;
     let col = upd_col (\<lambda>s. s\<lparr>cst_Reshard := Some \<lparr>rsh_Phase = ''Preparing'', rsh_SourceCollection = physical,
       rsh_ShadowCollection = shadowName physical (col_Generation col), rsh_TargetShardNumber = target,
       rsh_CopiedPoints = 0, rsh_TotalPoints = ci_PointsCount info, rsh_Cursor = [], rsh_StartedAt = Some now,
       rsh_Attempts = 0\<rparr>, cst_Phase := phaseResharding\<rparr>) col;
     Emit ''ReshardStarted'' (Msg ''reshard'' [ArgS physical, ArgN (uint (ci_ShardNumber info)), ArgN (uint target),
       ArgS (shadowName physical (col_Generation col))]);
     status_then r col Second
   }"

definition failReshard ::
    "'w CollectionReconciler \<Rightarrow> QdrantCollection \<Rightarrow> ReshardStatus \<Rightarrow> 'w Client \<Rightarrow> string \<Rightarrow> message \<Rightarrow> ('w, kerr + Result) io" where
  "failReshard r col rs qcl reason msg = do {
     _ \<leftarrow> q_DeleteCollection None qcl (rsh_ShadowCollection rs);
     let rs = rs\<lparr>rsh_Phase := ''Failed'', rsh_Cursor := [], rsh_CopiedPoints := 0, rsh_Attempts := i32 (rsh_Attempts rs + 1)\<rparr>;
     let col = upd_col (\<lambda>s. s\<lparr>cst_Reshard := Some rs, cst_Phase := condDegraded\<rparr>) col;
     let col = set_col_cond r condDegraded ConditionTrue reason msg col;
     EmitWarning reason msg;
     status_then r col (backoff (rsh_Attempts rs))
   }"

definition reshardCopyStep ::
    "'w CollectionReconciler \<Rightarrow> QdrantCollection \<Rightarrow> ReshardStatus \<Rightarrow> QdrantCluster \<Rightarrow> 'w Client \<Rightarrow> ('w, kerr + Result) io" where
  "reshardCopyStep r col rs cluster qcl =
     (if clusterMoveActive cluster then State_Monad.return (Inr \<lparr>RequeueAfter = 15 * Second\<rparr>)
      else do {
        got \<leftarrow> q_ScrollPoints None qcl (rsh_SourceCollection rs)
          (if rsh_Cursor rs = [] then None else Some (rsh_Cursor rs)) reshardCopyBatch;
        case got of
          Inl m \<Rightarrow> failReshard r col rs qcl ''ReshardFailed'' (Msg ''scroll'' [ArgS m])
        | Inr (points, next) \<Rightarrow> do {
            e \<leftarrow> (if points = [] then State_Monad.return None
                  else q_UpsertPoints None qcl (rsh_ShadowCollection rs) points);
            case e of
              Some m \<Rightarrow> failReshard r col rs qcl ''ReshardFailed'' (Msg ''upsert'' [ArgS m])
            | None \<Rightarrow> do {
                let rs = rs\<lparr>rsh_CopiedPoints := rsh_CopiedPoints rs + of_nat (length points)\<rparr>;
                case next of
                  Some cursor \<Rightarrow>
                    status_then r (upd_col (\<lambda>s. s\<lparr>cst_Reshard := Some (rs\<lparr>rsh_Cursor := cursor\<rparr>)\<rparr>) col) (200 * Millisecond)
                | None \<Rightarrow> do {
                    src \<leftarrow> q_GetCollection None qcl (rsh_SourceCollection rs);
                    case src of
                      Inl m \<Rightarrow> failReshard r col rs qcl ''ReshardFailed'' (Text m)
                    | Inr info \<Rightarrow>
                        if ci_PointsCount info \<noteq> rsh_TotalPoints rs then
                          failReshard r col rs qcl ''SourceMutatedDuringReshard''
                            (Msg ''source changed'' [ArgN (uint (rsh_TotalPoints rs)), ArgN (uint (ci_PointsCount info))])
                        else status_then r (upd_col (\<lambda>s. s\<lparr>cst_Reshard := Some (rs\<lparr>rsh_Phase := ''Swapping''\<rparr>)\<rparr>) col) Second
                  }
              }
          }
      })"

text \<open>The cases of \<open>reconcileReshard\<close>, one definition each.\<close>

definition reshardAbort ::
    "'w CollectionReconciler \<Rightarrow> QdrantCollection \<Rightarrow> ReshardStatus \<Rightarrow> 'w Client \<Rightarrow> ('w, kerr + Result) io" where
  "reshardAbort r col rs qcl = do {
     _ \<leftarrow> q_DeleteCollection None qcl (rsh_ShadowCollection rs);
     let col = upd_col (\<lambda>s. s\<lparr>cst_Reshard := None\<rparr>) col;
     Emit ''ReshardAborted'' (Msg ''target changed'' []);
     status_then r col Second
   }"

definition startCopying ::
    "'w CollectionReconciler \<Rightarrow> QdrantCollection \<Rightarrow> ReshardStatus \<Rightarrow> ('w, kerr + Result) io" where
  "startCopying r col rs =
     status_then r (upd_col (\<lambda>s. s\<lparr>cst_Reshard := Some (rs\<lparr>rsh_Phase := ''Copying'', rsh_Cursor := [],
       rsh_CopiedPoints := 0\<rparr>)\<rparr>) col) Second"

definition shadowSpec :: "QdrantCollection \<Rightarrow> ReshardStatus \<Rightarrow> CollectionSpec" where
  "shadowSpec col rs = \<lparr>csp_VectorSize = vec_Size (cs_Vectors (col_Spec col)),
     csp_Distance = vec_Distance (cs_Vectors (col_Spec col)), csp_ShardNumber = rsh_TargetShardNumber rs,
     csp_ReplicationFactor = cs_ReplicationFactor (col_Spec col)\<rparr>"

definition reshardPrepare ::
    "'w CollectionReconciler \<Rightarrow> QdrantCollection \<Rightarrow> ReshardStatus \<Rightarrow> 'w Client \<Rightarrow> ('w, kerr + Result) io" where
  "reshardPrepare r col rs qcl = do {
     got \<leftarrow> q_GetCollection None qcl (rsh_ShadowCollection rs);
     case got of
       Inl m \<Rightarrow> failReshard r col rs qcl ''ReshardFailed'' (Text m)
     | Inr info \<Rightarrow>
         if \<not> ci_Exists info then do {
           e \<leftarrow> q_CreateCollection None qcl (rsh_ShadowCollection rs) (shadowSpec col rs);
           case e of
             Some m \<Rightarrow> failReshard r col rs qcl ''ReshardFailed'' (Text m)
           | None \<Rightarrow> startCopying r col rs
         }
         else if ci_ShardNumber info \<noteq> rsh_TargetShardNumber rs then
           degraded_after r (upd_col (\<lambda>s. s\<lparr>cst_Reshard := Some (rs\<lparr>rsh_Phase := ''Blocked''\<rparr>)\<rparr>) col) ''ShadowConflict''
             (Msg ''foreign collection under the shadow name'' []) (5 * Minute)
         else startCopying r col rs
   }"

definition reshardSwap ::
    "'w CollectionReconciler \<Rightarrow> QdrantCollection \<Rightarrow> ReshardStatus \<Rightarrow> 'w Client \<Rightarrow> ('w, kerr + Result) io" where
  "reshardSwap r col rs qcl = do {
     let alias = cs_Alias (col_Spec col);
     got \<leftarrow> q_ListAliases None qcl;
     case got of
       Inl m \<Rightarrow> failReshard r col rs qcl ''ReshardFailed'' (Text m)
     | Inr aliases \<Rightarrow> do {
         e \<leftarrow> q_UpdateAliases None qcl (aliasActions aliases alias (rsh_ShadowCollection rs));
         case e of
           Some m \<Rightarrow> failReshard r col rs qcl ''ReshardFailed'' (Msg ''alias swap'' [ArgS m])
         | None \<Rightarrow> do {
             after \<leftarrow> q_ListAliases None qcl;
             if (case after of Inl _ \<Rightarrow> True | Inr aliases \<Rightarrow> get_or [] aliases alias \<noteq> rsh_ShadowCollection rs)
             then failReshard r col rs qcl ''ReshardFailed'' (Msg ''alias swap not verified'' [])
             else status_then r (upd_col (\<lambda>s. s\<lparr>cst_Reshard := Some (rs\<lparr>rsh_Phase := ''Finalizing''\<rparr>)\<rparr>) col) Second
           }
       }
   }"

definition reshardDone ::
    "'w CollectionReconciler \<Rightarrow> QdrantCollection \<Rightarrow> ReshardStatus \<Rightarrow> string \<Rightarrow> ('w, kerr + Result) io" where
  "reshardDone r col rs event = do {
     Emit event (Text (rsh_SourceCollection rs));
     let col = upd_col (\<lambda>s. s\<lparr>cst_Reshard := None\<rparr>) col;
     Emit ''ReshardCompleted'' (Msg ''resharded'' [ArgS (rsh_SourceCollection rs),
       ArgS (cst_ActiveCollection (col_Status col)), ArgN (uint (rsh_TargetShardNumber rs))]);
     setReady r col (rsh_TotalPoints rs)
   }"

definition reshardFinalize ::
    "'w CollectionReconciler \<Rightarrow> QdrantCollection \<Rightarrow> ReshardStatus \<Rightarrow> 'w Client \<Rightarrow> ('w, kerr + Result) io" where
  "reshardFinalize r col rs qcl = do {
     let col = upd_col (\<lambda>s. s\<lparr>cst_ActiveCollection := rsh_ShadowCollection rs\<rparr>) col;
     if cs_OnDelete (col_Spec col) = CollectionDelete then do {
       e \<leftarrow> q_DeleteCollection None qcl (rsh_SourceCollection rs);
       case e of
         Some m \<Rightarrow> do {
           EmitWarning ''SourceDisposalRetry'' (Text m);
           State_Monad.return (Inr \<lparr>RequeueAfter = 30 * Second\<rparr>)
         }
       | None \<Rightarrow> reshardDone r col rs ''SourceDeleted''
     }
     else reshardDone r col rs ''SourceRetained''
   }"

definition reconcileReshard ::
    "'w CollectionReconciler \<Rightarrow> QdrantCollection \<Rightarrow> ReshardStatus \<Rightarrow> QdrantCluster \<Rightarrow> 'w Client \<Rightarrow> ('w, kerr + Result) io" where
  "reconcileReshard r col rs cluster qcl =
     (if cs_ShardNumber (col_Spec col) \<noteq> Some (rsh_TargetShardNumber rs) then reshardAbort r col rs qcl
      else if rsh_Phase rs \<in> {''Preparing'', ''Failed''} then reshardPrepare r col rs qcl
      else if rsh_Phase rs = ''Copying'' then reshardCopyStep r col rs cluster qcl
      else if rsh_Phase rs = ''Swapping'' then reshardSwap r col rs qcl
      else if rsh_Phase rs = ''Finalizing'' then reshardFinalize r col rs qcl
      else if rsh_Phase rs = ''Blocked'' then State_Monad.return (Inr \<lparr>RequeueAfter = 5 * Minute\<rparr>)
      else State_Monad.return (Inr \<lparr>RequeueAfter = 0\<rparr>))"

section \<open>Reconcile\<close>

text \<open>\<open>ensureAlias\<close>, reported when it fails, then \<open>setReady\<close>; the end of the create and adopt cases.\<close>

definition aliasThenReady ::
    "'w CollectionReconciler \<Rightarrow> QdrantCollection \<Rightarrow> 'w Client \<Rightarrow> string \<Rightarrow> u64 \<Rightarrow> ('w, kerr + Result) io" where
  "aliasThenReady r col qcl name points = do {
     e \<leftarrow> ensureAlias qcl (cs_Alias (col_Spec col)) name;
     case e of
       Some m \<Rightarrow> degraded_after r col ''AliasFailed'' (Text m) (30 * Second)
     | None \<Rightarrow> setReady r col points
   }"

definition desiredSpec :: "QdrantCollection \<Rightarrow> CollectionInfo \<Rightarrow> CollectionSpec" where
  "desiredSpec col info = \<lparr>csp_VectorSize = vec_Size (cs_Vectors (col_Spec col)),
     csp_Distance = vec_Distance (cs_Vectors (col_Spec col)), csp_ShardNumber = resolvedShardNumber col info,
     csp_ReplicationFactor = cs_ReplicationFactor (col_Spec col)\<rparr>"

definition ensureCollection ::
    "'w CollectionReconciler \<Rightarrow> QdrantCollection \<Rightarrow> QdrantCluster \<Rightarrow> 'w Client \<Rightarrow> string \<Rightarrow> CollectionInfo \<Rightarrow> ('w, kerr + Result) io" where
  "ensureCollection r col cluster qcl name info =
     (let desired = desiredSpec col info in
      if \<not> ci_Exists info then do {
        e \<leftarrow> q_CreateCollection None qcl name desired;
        case e of
          Some m \<Rightarrow> degraded_after r col ''CreateFailed'' (Text m) (30 * Second)
        | None \<Rightarrow> do {
            Emit ''CollectionCreated'' (Text name);
            aliasThenReady r (upd_col (\<lambda>s. s\<lparr>cst_Adopted := False, cst_ActiveCollection := name\<rparr>) col) qcl name 0
          }
      }
      else if paramsMatch info desired then
        (if \<not> IsStatusConditionTrue (c_Meta r) (cst_Conditions (col_Status col)) condReady then do {
           Emit ''CollectionAdopted'' (Text name);
           aliasThenReady r (upd_col (\<lambda>s. s\<lparr>cst_Adopted := True, cst_ActiveCollection := name\<rparr>) col) qcl name (ci_PointsCount info)
         }
         else aliasThenReady r (upd_col (\<lambda>s. s\<lparr>cst_ActiveCollection := name\<rparr>) col) qcl name (ci_PointsCount info))
      else if reshardable info col \<and> cs_Reshard (col_Spec col) = ReshardAuto \<and> cs_Alias (col_Spec col) \<noteq> [] then
        (if clusterMoveActive cluster then State_Monad.return (Inr \<lparr>RequeueAfter = 15 * Second\<rparr>)
         else beginReshard r col info (csp_ShardNumber desired))
      else if reshardable info col then
        degraded_after r col ''ReshardRequired'' (Msg ''shard number differs'' [ArgN (uint (ci_ShardNumber info)),
          ArgN (uint (csp_ShardNumber desired))]) (5 * Minute)
      else
        degraded_after r col ''ParamsMismatch'' (Msg ''live parameters differ''
          [ArgN (uint (ci_VectorSize info)), ArgS (ci_Distance info), ArgN (uint (ci_ShardNumber info)),
           ArgN (uint (ci_ReplicationFactor info)), ArgN (uint (csp_VectorSize desired)), ArgS (csp_Distance desired),
           ArgN (uint (csp_ShardNumber desired)), ArgN (uint (csp_ReplicationFactor desired))]) (5 * Minute))"

text \<open>The deletion path, for a resource that carries the finalizer.\<close>

definition deleteCollectionCR ::
    "'w CollectionReconciler \<Rightarrow> QdrantCollection \<Rightarrow> 'w Client \<Rightarrow> string \<Rightarrow> ('w, kerr + Result) io" where
  "deleteCollectionCR r col qcl name =
     (if collectionFinalizer \<in> set (col_Finalizers col) then do {
        e \<leftarrow> q_DeleteCollection None qcl name;
        case e of
          Some m \<Rightarrow> do {
            EmitWarning ''DeleteFailed'' (Text m);
            State_Monad.return (Inl (KOther m))
          }
        | None \<Rightarrow> do {
            Emit ''CollectionDeleted'' (Text name);
            u \<leftarrow> c_update r (col\<lparr>col_Finalizers := filter (\<lambda>f. f \<noteq> collectionFinalizer) (col_Finalizers col)\<rparr>);
            case u of
              Some k \<Rightarrow> State_Monad.return (Inl k)
            | None \<Rightarrow> State_Monad.return (Inr \<lparr>RequeueAfter = 0\<rparr>)
          }
      }
      else State_Monad.return (Inr \<lparr>RequeueAfter = 0\<rparr>))"

text \<open>The finalizer follows the deletion policy; \<open>Inl\<close> when the update of the resource failed.\<close>

definition syncFinalizer :: "'w CollectionReconciler \<Rightarrow> QdrantCollection \<Rightarrow> ('w, kerr + QdrantCollection) io" where
  "syncFinalizer r col =
     (let has = collectionFinalizer \<in> set (col_Finalizers col); want = cs_OnDelete (col_Spec col) = CollectionDelete in
      if has = want then State_Monad.return (Inr col)
      else do {
        let col = col\<lparr>col_Finalizers := (if want then col_Finalizers col @ [collectionFinalizer]
          else filter (\<lambda>f. f \<noteq> collectionFinalizer) (col_Finalizers col))\<rparr>;
        e \<leftarrow> c_update r col;
        case e of Some k \<Rightarrow> State_Monad.return (Inl k) | None \<Rightarrow> State_Monad.return (Inr col)
      })"

definition reconcileLive ::
    "'w CollectionReconciler \<Rightarrow> QdrantCollection \<Rightarrow> QdrantCluster \<Rightarrow> 'w Client \<Rightarrow> string \<Rightarrow> ('w, kerr + Result) io" where
  "reconcileLive r col cluster qcl name = do {
     synced \<leftarrow> syncFinalizer r col;
     case synced of
       Inl k \<Rightarrow> State_Monad.return (Inl k)
     | Inr col \<Rightarrow>
         (case cst_Reshard (col_Status col) of
            Some rs \<Rightarrow> reconcileReshard r col rs cluster qcl
          | None \<Rightarrow> do {
              got \<leftarrow> q_GetCollection None qcl name;
              case got of
                Inl m \<Rightarrow> degraded_after r col ''QdrantUnreachable'' (Text m) (30 * Second)
              | Inr info \<Rightarrow> ensureCollection r col cluster qcl name info
            })
   }"

text \<open>\<open>Reconcile\<close>: the part after the resource was read, and the read.\<close>

definition reconcileCollection :: "'w CollectionReconciler \<Rightarrow> QdrantCollection \<Rightarrow> ('w, kerr + Result) io" where
  "reconcileCollection r col = do {
     got \<leftarrow> c_cluster r (col_Namespace col) (cs_ClusterRef (col_Spec col));
     case got of
       Inl k \<Rightarrow>
         if k = KNotFound then degraded_after r col ''ClusterNotFound''
           (Msg ''cluster not found'' [ArgS (cs_ClusterRef (col_Spec col)), ArgS (col_Namespace col)]) (30 * Second)
         else State_Monad.return (Inl k)
     | Inr cluster \<Rightarrow>
         let qcl = c_QdrantClientFor r cluster; name = physicalName col in
         if col_DeletionTimestamp col \<noteq> None then deleteCollectionCR r col qcl name
         else reconcileLive r col cluster qcl name
   }"

definition collection_Reconcile :: "'w CollectionReconciler \<Rightarrow> string \<Rightarrow> string \<Rightarrow> ('w, kerr + Result) io" where
  "collection_Reconcile r ns n = do {
     got \<leftarrow> c_get r ns n;
     case got of
       Inl k \<Rightarrow> State_Monad.return (if k = KNotFound then Inr \<lparr>RequeueAfter = 0\<rparr> else Inl k)
     | Inr col \<Rightarrow> reconcileCollection r col
   }"

end
