(* ===== verification/Collection_Safety.thy ===== *)
theory Collection_Safety
  imports Collection_Controller
begin

text \<open>
  What the collection controller may do to Qdrant: the list of all mutations it can issue, with the
  state of the resource each one requires. Everything destructive is in this list.
\<close>

section \<open>The permitted mutations\<close>

text \<open>
  \<open>permitted col e\<close>: \<open>e\<close> is not a mutation of Qdrant, or it is one that the stored resource \<open>col\<close> allows.
  A resource without a reshard may create its collection and set its alias. A reshard may create, fill
  and drop its shadow, and set the alias. Only after the commit point, with the target unchanged and
  the policy \<open>Delete\<close>, the source is deleted. A deleted resource deletes its collection when it carries
  the finalizer.
\<close>

fun permitted :: "QdrantCollection \<Rightarrow> effect \<Rightarrow> bool" where
  "permitted col (Qdrant t (QCreateCollection c sp) ok) \<longleftrightarrow> t = None \<and> col_DeletionTimestamp col = None \<and>
     (case cst_Reshard (col_Status col) of
        None \<Rightarrow> c = physicalName col
      | Some rs \<Rightarrow> c = rsh_ShadowCollection rs \<and> rsh_Phase rs \<in> {''Preparing'', ''Failed''} \<and>
          cs_ShardNumber (col_Spec col) = Some (rsh_TargetShardNumber rs) \<and> sp = shadowSpec col rs)"
| "permitted col (Qdrant t (QDeleteCollection c) ok) \<longleftrightarrow> t = None \<and>
     (if col_DeletionTimestamp col \<noteq> None
      then collectionFinalizer \<in> set (col_Finalizers col) \<and> c = physicalName col
      else case cst_Reshard (col_Status col) of
          None \<Rightarrow> False
        | Some rs \<Rightarrow> c = rsh_ShadowCollection rs \<and>
              (rsh_Phase rs \<in> {''Preparing'', ''Failed'', ''Copying'', ''Swapping''} \<or>
               cs_ShardNumber (col_Spec col) \<noteq> Some (rsh_TargetShardNumber rs)) \<or>
            c = rsh_SourceCollection rs \<and> rsh_Phase rs = ''Finalizing'' \<and>
              cs_ShardNumber (col_Spec col) = Some (rsh_TargetShardNumber rs) \<and> cs_OnDelete (col_Spec col) = CollectionDelete)"
| "permitted col (Qdrant t (QUpsertPoints c ps) ok) \<longleftrightarrow> t = None \<and> col_DeletionTimestamp col = None \<and>
     (case cst_Reshard (col_Status col) of
        None \<Rightarrow> False
      | Some rs \<Rightarrow> c = rsh_ShadowCollection rs \<and> rsh_Phase rs = ''Copying'' \<and>
          cs_ShardNumber (col_Spec col) = Some (rsh_TargetShardNumber rs))"
| "permitted col (Qdrant t (QUpdateAliases as) ok) \<longleftrightarrow> t = None \<and> col_DeletionTimestamp col = None \<and>
     (\<exists>aliases target. as = aliasActions aliases (cs_Alias (col_Spec col)) target \<and>
       (case cst_Reshard (col_Status col) of
          None \<Rightarrow> target = physicalName col \<and> cs_Alias (col_Spec col) \<noteq> []
        | Some rs \<Rightarrow> target = rsh_ShadowCollection rs \<and> rsh_Phase rs = ''Swapping''))"
| "permitted col (Qdrant t call ok) \<longleftrightarrow> is_read_call call"
| "permitted col e \<longleftrightarrow> True"

lemma permitted_reads [simp]:
  "permitted col (Qdrant t (QGetCollection c) ok)" "permitted col (Qdrant t QListAliases ok)"
  "permitted col (Qdrant t (QScrollPoints c off l) ok)"
  by simp_all

lemma permitted_spec_only:
  assumes "col_Spec col' = col_Spec col" "col_Status col' = col_Status col" "col_Name col' = col_Name col"
    "col_DeletionTimestamp col' = None" "col_DeletionTimestamp col = None"
  shows "permitted col' = permitted col"
proof
  fix e
  have "physicalName col' = physicalName col" "shadowSpec col' = shadowSpec col"
    using assms by (simp_all add: physicalName_def TargetCollectionName_def shadowSpec_def fun_eq_iff)
  then show "permitted col' e = permitted col e"
    using assms by (cases "(col, e)" rule: permitted.cases) (simp_all split: option.splits)
qed

section \<open>Each operation issues permitted effects only\<close>

lemma status_then_emits: "emits (permitted col) (status_then r c d)"
  unfolding status_then_def c_defs by (intro emits_intros) simp_all

lemma setReady_emits: "emits (permitted col) (setReady r c p)"
  unfolding setReady_def c_defs Let_def by (intro emits_intros) simp_all

lemma degraded_emits: "emits (permitted col) (degraded_after r c t m d)"
  unfolding degraded_after_def setDegraded_def c_defs event_defs Let_def by (intro emits_intros) simp_all

lemmas report_emits = status_then_emits setReady_emits degraded_emits

lemma failReshard_emits:
  assumes "col_DeletionTimestamp col = None" and "cst_Reshard (col_Status col) = Some rs"
    and "rsh_Phase rs \<in> {''Preparing'', ''Failed'', ''Copying'', ''Swapping''}"
    and "rsh_ShadowCollection rs' = rsh_ShadowCollection rs"
  shows "emits (permitted col) (failReshard r c rs' qcl reason msg)"
  unfolding failReshard_def q_defs event_defs Let_def
  using assms by (intro emits_intros report_emits) auto

lemma ensureAlias_emits:
  assumes "col_DeletionTimestamp col = None" and "cst_Reshard (col_Status col) = None"
  shows "emits (permitted col) (ensureAlias qcl (cs_Alias (col_Spec col)) (physicalName col))"
  unfolding ensureAlias_def q_defs using assms by (intro emits_intros) auto

lemma aliasThenReady_emits:
  assumes "col_DeletionTimestamp col = None" and "cst_Reshard (col_Status col) = None" and "col_Spec c = col_Spec col"
  shows "emits (permitted col) (aliasThenReady r c qcl (physicalName col) p)"
  unfolding aliasThenReady_def assms(3)
  using assms by (intro emits_intros report_emits ensureAlias_emits)

lemma ensureCollection_emits:
  assumes "col_DeletionTimestamp col = None" and "cst_Reshard (col_Status col) = None"
  shows "emits (permitted col) (ensureCollection r col cl qcl (physicalName col) info)"
  unfolding ensureCollection_def beginReshard_def q_defs event_defs Let_def
  using assms by (intro emits_intros report_emits aliasThenReady_emits) auto

lemma reconcileReshard_emits:
  assumes "col_DeletionTimestamp col = None" and "cst_Reshard (col_Status col) = Some rs"
  shows "emits (permitted col) (reconcileReshard r col rs cl qcl)"
proof (cases "cs_ShardNumber (col_Spec col) = Some (rsh_TargetShardNumber rs)")
  case False
  then show ?thesis
    unfolding reconcileReshard_def reshardAbort_def q_defs event_defs Let_def
    using assms by (simp, intro emits_intros report_emits) auto
next
  case target: True
  have prep: "emits (permitted col) (reshardPrepare r col rs qcl)" if "rsh_Phase rs \<in> {''Preparing'', ''Failed''}"
    unfolding reshardPrepare_def startCopying_def q_defs
    using assms target that by (intro emits_intros report_emits failReshard_emits [OF assms]) auto
  have copy: "emits (permitted col) (reshardCopyStep r col rs cl qcl)" if "rsh_Phase rs = ''Copying''"
    unfolding reshardCopyStep_def q_defs Let_def
    using assms target that by (intro emits_intros report_emits failReshard_emits [OF assms]) auto
  have swap: "emits (permitted col) (reshardSwap r col rs qcl)" if "rsh_Phase rs = ''Swapping''"
    unfolding reshardSwap_def q_defs Let_def
    using assms that by (intro emits_intros report_emits failReshard_emits [OF assms]) auto
  have fin: "emits (permitted col) (reshardFinalize r col rs qcl)" if "rsh_Phase rs = ''Finalizing''"
    unfolding reshardFinalize_def reshardDone_def q_defs event_defs Let_def
    using assms target that by (intro emits_intros report_emits) auto
  show ?thesis
    unfolding reconcileReshard_def using target
    by (simp, intro conjI impI prep copy swap fin emits_return) auto
qed

lemma syncFinalizer_run:
  assumes "run_state (syncFinalizer r col) s = (Inr col', s')"
  shows "col_Spec col' = col_Spec col \<and> col_Status col' = col_Status col \<and> col_Name col' = col_Name col \<and>
    col_DeletionTimestamp col' = col_DeletionTimestamp col"
  using assms by (auto simp: syncFinalizer_def c_defs Let_def split: if_splits option.splits prod.splits)

lemma reconcileLive_emits:
  assumes "col_DeletionTimestamp col = None"
  shows "emits (permitted col) (reconcileLive r col cl qcl (physicalName col))"
  unfolding reconcileLive_def
proof (rule emits_bind_run, goal_cases)
  case 1
  show ?case unfolding syncFinalizer_def c_defs Let_def by (intro emits_intros) simp_all
next
  case (2 s x s')
  show ?case
  proof (cases x)
    case (Inl k)
    then show ?thesis by (simp add: emits_return)
  next
    case (Inr col')
    note same = syncFinalizer_run [OF 2 [unfolded Inr]]
    have p: "permitted col' = permitted col" using same assms by (intro permitted_spec_only) simp_all
    have n: "physicalName col' = physicalName col" using same by (simp add: physicalName_def TargetCollectionName_def)
    have live: "col_DeletionTimestamp col' = None" using same assms by simp
    show ?thesis
      unfolding Inr sum.case q_defs p [symmetric] n [symmetric]
      by (intro emits_intros degraded_emits reconcileReshard_emits [OF live] ensureCollection_emits [OF live]) simp_all
  qed
qed

lemma deleteCollectionCR_emits:
  assumes "col_DeletionTimestamp col \<noteq> None"
  shows "emits (permitted col) (deleteCollectionCR r col qcl (physicalName col))"
  unfolding deleteCollectionCR_def q_defs c_defs event_defs using assms by (intro emits_intros) auto

lemma reconcileCollection_emits: "emits (permitted col) (reconcileCollection r col)"
  unfolding reconcileCollection_def c_cluster_def Let_def
  by (intro emits_intros degraded_emits deleteCollectionCR_emits reconcileLive_emits) simp_all

lemma collection_Reconcile_emits:
  assumes run: "run_state (collection_Reconcile r ns n) s = (res, s')"
    and got: "fst (c_GetCollection r ns n (world s)) = Inr col" and es: "trace s' = trace s @ es"
  shows "list_all (permitted col) es"
proof -
  obtain w1 where w1: "c_GetCollection r ns n (world s) = (Inr col, w1)" using got by (metis prod.collapse)
  let ?s1 = "s\<lparr>world := w1, trace := trace s @ [Kube (KGet ''QdrantCollection'' ns n) True]\<rparr>"
  have "run_state (reconcileCollection r col) ?s1 = (res, s')"
    using run w1 by (simp add: collection_Reconcile_def c_get_def)
  then obtain es1 where "trace s' = trace ?s1 @ es1" "list_all (permitted col) es1"
    by (rule emitsD [OF reconcileCollection_emits])
  then show ?thesis using es by simp
qed

section \<open>Properties\<close>

text \<open>
  C25: every mutation of Qdrant that a pass issues is one the stored resource permits: a collection is
  created only as the collection of the resource or as the shadow of its reshard; points are written
  only into the shadow while copying; an alias is set only to the collection of the resource or, when
  swapping, to the shadow; a collection is deleted only as an uncommitted or abandoned shadow, as the
  source after the commit under the policy \<open>Delete\<close>, or on deletion of a resource with the finalizer.
\<close>

theorem collection_mutations_permitted:
  assumes "run_state (collection_Reconcile r ns n) s = (res, s')"
    and "fst (c_GetCollection r ns n (world s)) = Inr col" and "trace s' = trace s @ es"
  shows "list_all (permitted col) es"
  by (rule collection_Reconcile_emits [OF assms])

text \<open>
  Until the commit point the source of a reshard is not touched: while the workflow is preparing,
  failed, copying or swapping, no pass deletes the source, creates it or writes points into it.
\<close>

theorem reshard_source_untouched:
  assumes "run_state (collection_Reconcile r ns n) s = (res, s')"
    and "fst (c_GetCollection r ns n (world s)) = Inr col" and "trace s' = trace s @ es"
    and "cst_Reshard (col_Status col) = Some rs" and "rsh_Phase rs \<noteq> ''Finalizing''"
    and "rsh_SourceCollection rs \<noteq> rsh_ShadowCollection rs" and "col_DeletionTimestamp col = None"
    and "e \<in> set es"
  shows "e \<noteq> Qdrant t (QDeleteCollection (rsh_SourceCollection rs)) ok \<and>
    e \<noteq> Qdrant t (QCreateCollection (rsh_SourceCollection rs) sp) ok \<and>
    e \<noteq> Qdrant t (QUpsertPoints (rsh_SourceCollection rs) ps) ok"
proof -
  have "permitted col e" using collection_Reconcile_emits [OF assms(1-3)] assms(8) by (simp add: list_all_iff)
  then show ?thesis using assms(4-7) by auto
qed

end
