(* ===== verification/Reshard_Correct.thy ===== *)
theory Reshard_Correct
  imports Collection_Controller Fake_Client
begin

text \<open>
  The reshard workflow end to end. \<open>reshard_store\<close> is what the workflow needs of Qdrant: collections of
  points that are read page by page and appended to, and aliases (\<open>name_ok\<close> and \<open>point_ok\<close> are the names and the
  texts of points it serves). Over any such store the passes of
  \<open>reconcileReshard\<close> copy every point, swap the alias and finish, in a number of passes that the number
  of points bounds. The in-memory Qdrant of the repository is such a store.
\<close>

section \<open>Passes\<close>

fun col_written :: "effect \<Rightarrow> QdrantCollectionStatus option" where
  "col_written (Kube (KStatusCollection st) True) = Some st"
| "col_written _ = None"

definition col_stored :: "QdrantCollectionStatus \<Rightarrow> effect list \<Rightarrow> QdrantCollectionStatus" where
  "col_stored st es = fold (\<lambda>e st. case col_written e of None \<Rightarrow> st | Some st' \<Rightarrow> st') es st"

text \<open>
  A pass of the workflow on the stored resource: \<open>reconcileReshard\<close> runs, and the resource takes the
  status that was written.
\<close>

definition reshard_pass ::
    "'w CollectionReconciler \<Rightarrow> QdrantCluster \<Rightarrow> 'w Client \<Rightarrow> QdrantCollection \<times> ('w, effect) sys \<Rightarrow> QdrantCollection \<times> ('w, effect) sys" where
  "reshard_pass r cluster qcl x =
     (case cst_Reshard (col_Status (fst x)) of
        None \<Rightarrow> x
      | Some rs \<Rightarrow>
          let s' = snd (run_state (reconcileReshard r (fst x) rs cluster qcl) (snd x)) in
          ((fst x)\<lparr>col_Status := col_stored (col_Status (fst x)) (drop (length (trace (snd x))) (trace s'))\<rparr>, s'))"

lemma status_then_run:
  assumes "\<And>c w. c_StatusUpdate r c w = (None, w)"
  shows "run_state (status_then r col d) s =
    (Inr \<lparr>RequeueAfter = d\<rparr>, s\<lparr>trace := trace s @ [Kube (KStatusCollection (col_Status col)) True]\<rparr>)"
  using assms by (simp add: status_then_def c_defs)

lemma reshard_pass_writes:
  assumes "cst_Reshard (col_Status col) = Some rs"
    and "run_state (reconcileReshard r col rs cluster qcl) s = (res, s')"
    and "trace s' = trace s @ es @ [Kube (KStatusCollection st) True]"
  shows "reshard_pass r cluster qcl (col, s) = (col\<lparr>col_Status := st\<rparr>, s')"
  using assms by (simp add: reshard_pass_def col_stored_def)

text \<open>Two records of the same reshard.\<close>

definition same_job :: "ReshardStatus \<Rightarrow> ReshardStatus \<Rightarrow> bool" where
  "same_job rs rs' \<longleftrightarrow> rsh_SourceCollection rs' = rsh_SourceCollection rs \<and> rsh_ShadowCollection rs' = rsh_ShadowCollection rs \<and>
     rsh_TargetShardNumber rs' = rsh_TargetShardNumber rs \<and> rsh_TotalPoints rs' = rsh_TotalPoints rs"

definition with_reshard :: "QdrantCollection \<Rightarrow> ReshardStatus option \<Rightarrow> QdrantCollection" where
  "with_reshard col x = upd_col (\<lambda>s. s\<lparr>cst_Reshard := x\<rparr>) col"

lemma with_reshard_sel [simp]:
  "cst_Reshard (col_Status (with_reshard col x)) = x" "col_Spec (with_reshard col x) = col_Spec col"
  "with_reshard (with_reshard col y) x = with_reshard col x"
  by (simp_all add: with_reshard_def upd_col_def)

section \<open>A store that can be resharded\<close>

locale reshard_store =
  fixes cl :: "'w Client" and up :: "'w \<Rightarrow> bool" and present :: "'w \<Rightarrow> string \<Rightarrow> bool"
    and pts :: "'w \<Rightarrow> string \<Rightarrow> raw list" and counted :: "'w \<Rightarrow> string \<Rightarrow> bool"
    and aliases :: "'w \<Rightarrow> (string \<rightharpoonup> string)" and cursor :: "nat \<Rightarrow> raw"
    and name_ok :: "string \<Rightarrow> bool" and point_ok :: "raw \<Rightarrow> bool"
  assumes points_ok: "up w \<Longrightarrow> list_all point_ok (pts w c)"
    and get: "up w \<Longrightarrow> name_ok c \<Longrightarrow> GetCollection cl c w = (x, w') \<Longrightarrow>
      w' = w \<and> (\<exists>info. x = Inr info \<and> ci_Exists info = present w c \<and>
        (counted w c \<longrightarrow> ci_PointsCount info = of_nat (length (pts w c))))"
    and create: "up w \<Longrightarrow> name_ok c \<Longrightarrow> \<not> present w c \<Longrightarrow> CreateCollection cl c sp w = (e, w') \<Longrightarrow>
      e = None \<and> up w' \<and> pts w' = pts w \<and> aliases w' = aliases w \<and> (d \<noteq> c \<longrightarrow> counted w' d = counted w d)"
    and delete: "up w \<Longrightarrow> name_ok c \<Longrightarrow> DeleteCollection cl c w = (e, w') \<Longrightarrow>
      e = None \<and> up w' \<and> aliases w' = aliases w \<and> (d \<noteq> c \<longrightarrow> pts w' d = pts w d)"
    and cursor_inj: "cursor n \<noteq> []"
    and scroll_first: "up w \<Longrightarrow> name_ok c \<Longrightarrow> 0 < k \<Longrightarrow> k < 2 ^ 63 \<Longrightarrow> length (pts w c) < 2 ^ 63 \<Longrightarrow> ScrollPoints cl c None (int k) w =
      (Inr (take k (pts w c), if k < length (pts w c) then Some (cursor k) else None), w)"
    and scroll_next: "up w \<Longrightarrow> name_ok c \<Longrightarrow> 0 < k \<Longrightarrow> k < 2 ^ 63 \<Longrightarrow> length (pts w c) < 2 ^ 63 \<Longrightarrow> n < length (pts w c) \<Longrightarrow>
      ScrollPoints cl c (Some (cursor n)) (int k) w =
      (Inr (take k (drop n (pts w c)), if n + k < length (pts w c) then Some (cursor (n + k)) else None), w)"
    and upsert: "up w \<Longrightarrow> name_ok c \<Longrightarrow> list_all point_ok ps \<Longrightarrow> UpsertPoints cl c ps w = (e, w') \<Longrightarrow>
      e = None \<and> up w' \<and> pts w' = (pts w)(c := pts w c @ ps) \<and> aliases w' = aliases w \<and> (d \<noteq> c \<longrightarrow> counted w' d = counted w d)"
    and list_aliases: "up w \<Longrightarrow> ListAliases cl w = (Inr (aliases w), w)"
    and update_aliases: "up w \<Longrightarrow> UpdateAliases cl as w = (e, w') \<Longrightarrow>
      e = None \<and> up w' \<and> aliases w' = fold apply_alias as (aliases w) \<and> pts w' = pts w"
begin

text \<open>The actions of the swap set the alias and nothing else.\<close>

lemma swap_aliases: "fold apply_alias (aliasActions m a c) m = m(a \<mapsto> c)"
  by (auto simp: aliasActions_def apply_alias_def fun_eq_iff)

lemma ensureAlias_run:
  assumes "run_state (ensureAlias cl alias physical) s = (e, s')" and "up (world s)" and "alias \<noteq> []" and "physical \<noteq> []"
  shows "e = None \<and> up (world s') \<and> aliases (world s') = (aliases (world s))(alias \<mapsto> physical)"
proof (cases "get_or [] (aliases (world s)) alias = physical")
  case True
  then have "aliases (world s) alias = Some physical"
    using assms(4) by (cases "aliases (world s) alias") (auto simp: get_or_def)
  then show ?thesis using assms True list_aliases by (auto simp: ensureAlias_def q_defs fun_upd_idem)
next
  case False
  obtain e' w where u: "UpdateAliases cl (aliasActions (aliases (world s)) alias physical) (world s) = (e', w)" by fastforce
  then show ?thesis
    using assms False list_aliases update_aliases [OF assms(2) u] by (auto simp: ensureAlias_def q_defs swap_aliases)
qed

lemma prepare_pass:
  assumes ok: "\<And>c w. c_StatusUpdate r c w = (None, w)" and rs: "cst_Reshard (col_Status col) = Some rs"
    and ph: "rsh_Phase rs \<in> {''Preparing'', ''Failed''}" and tgt: "cs_ShardNumber (col_Spec col) = Some (rsh_TargetShardNumber rs)"
    and "up (world s)" and "\<not> present (world s) (rsh_ShadowCollection rs)"
    and "counted (world s) (rsh_SourceCollection rs)" and "rsh_SourceCollection rs \<noteq> rsh_ShadowCollection rs"
    and names: "name_ok (rsh_SourceCollection rs)" "name_ok (rsh_ShadowCollection rs)"
  obtains s' where "reshard_pass r cluster cl (col, s) =
      (with_reshard col (Some (rs\<lparr>rsh_Phase := ''Copying'', rsh_Cursor := [], rsh_CopiedPoints := 0\<rparr>)), s')"
    "up (world s')" "pts (world s') = pts (world s)" "aliases (world s') = aliases (world s)"
    "counted (world s') (rsh_SourceCollection rs)"
proof -
  obtain x w1 where g: "GetCollection cl (rsh_ShadowCollection rs) (world s) = (x, w1)" by fastforce
  obtain info where info: "w1 = world s" "x = Inr info" "\<not> ci_Exists info" using get [OF assms(5) names(2) g] assms(6) by auto
  obtain e w2 where c: "CreateCollection cl (rsh_ShadowCollection rs) (shadowSpec col rs) (world s) = (e, w2)" by fastforce
  note made = create [OF assms(5) names(2) assms(6) c]
  let ?col = "with_reshard col (Some (rs\<lparr>rsh_Phase := ''Copying'', rsh_Cursor := [], rsh_CopiedPoints := 0\<rparr>))"
  let ?es = "[Qdrant None (QGetCollection (rsh_ShadowCollection rs)) True,
     Qdrant None (QCreateCollection (rsh_ShadowCollection rs) (shadowSpec col rs)) True]"
  let ?s' = "s\<lparr>world := w2, trace := trace s @ ?es @ [Kube (KStatusCollection (col_Status ?col)) True]\<rparr>"
  have "run_state (reconcileReshard r col rs cluster cl) s = (Inr \<lparr>RequeueAfter = Second\<rparr>, ?s')"
    using ph tgt g info c made
    by (auto simp: reconcileReshard_def reshardPrepare_def startCopying_def q_defs status_then_run [OF ok] with_reshard_def)
  then have "reshard_pass r cluster cl (col, s) = (?col, ?s')"
    using reshard_pass_writes [OF rs, of r cluster cl s _ ?s' ?es] by (simp add: with_reshard_def upd_col_def)
  then show thesis by (rule that) (use made assms(7,8) create [OF assms(5) names(2) assms(6) c, of "rsh_SourceCollection rs"] in auto)
qed

lemma copy_pass:
  assumes ok: "\<And>c w. c_StatusUpdate r c w = (None, w)" and rs: "cst_Reshard (col_Status col) = Some rs"
    and ph: "rsh_Phase rs = ''Copying''" and tgt: "cs_ShardNumber (col_Spec col) = Some (rsh_TargetShardNumber rs)"
    and "up (world s)" and cnt: "counted (world s) (rsh_SourceCollection rs)"
    and ne: "rsh_SourceCollection rs \<noteq> rsh_ShadowCollection rs" and idle: "\<not> clusterMoveActive cluster"
    and src: "pts (world s) (rsh_SourceCollection rs) = ps" and len: "length ps < 2 ^ 63"
    and total: "rsh_TotalPoints rs = of_nat (length ps)"
    and cur: "rsh_Cursor rs = [] \<and> n = 0 \<or> rsh_Cursor rs = cursor n \<and> n < length ps"
    and shadow: "pts (world s) (rsh_ShadowCollection rs) = take n ps"
    and names: "name_ok (rsh_SourceCollection rs)" "name_ok (rsh_ShadowCollection rs)"
  obtains s' rs' where "reshard_pass r cluster cl (col, s) = (with_reshard col (Some rs'), s')" "same_job rs rs'"
    "up (world s')" "counted (world s') (rsh_SourceCollection rs)" "pts (world s') (rsh_SourceCollection rs) = ps"
    "aliases (world s') = aliases (world s)" "pts (world s') (rsh_ShadowCollection rs) = take (n + 128) ps"
    "if n + 128 < length ps then rsh_Phase rs' = ''Copying'' \<and> rsh_Cursor rs' = cursor (n + 128) else rsh_Phase rs' = ''Swapping''"
proof -
  let ?page = "take 128 (drop n ps)" and ?next = "if n + 128 < length ps then Some (cursor (n + 128)) else None"
  have scroll: "ScrollPoints cl (rsh_SourceCollection rs) (if rsh_Cursor rs = [] then None else Some (rsh_Cursor rs))
      reshardCopyBatch (world s) = (Inr (?page, ?next), world s)"
    using cur
  proof
    assume "rsh_Cursor rs = [] \<and> n = 0"
    then show ?thesis using scroll_first [OF assms(5) names(1), of 128] src len by (simp add: reshardCopyBatch_def)
  next
    assume "rsh_Cursor rs = cursor n \<and> n < length ps"
    then show ?thesis using scroll_next [OF assms(5) names(1), of 128 n] src len cursor_inj
      by (simp add: reshardCopyBatch_def)
  qed
  define ups where "ups = (if ?page = [] then State_Monad.return None else q_UpsertPoints None cl (rsh_ShadowCollection rs) ?page)"
  obtain w es where w: "\<And>t. run_state ups (s\<lparr>trace := t\<rparr>) = (None, s\<lparr>world := w, trace := t @ es\<rparr>)"
    and w_up: "up w" "counted w (rsh_SourceCollection rs)" "aliases w = aliases (world s)"
    "pts w = (pts (world s))(rsh_ShadowCollection rs := take (n + 128) ps)"
  proof (cases "?page = []")
    case True
    then have "take (n + 128) ps = take n ps" by (simp add: take_add)
    then have "pts (world s) = (pts (world s))(rsh_ShadowCollection rs := take (n + 128) ps)" using shadow by auto
    then show thesis using True assms(5) cnt by (intro that [of "[]" "world s"]) (simp_all add: ups_def)
  next
    case False
    obtain e w where u: "UpsertPoints cl (rsh_ShadowCollection rs) ?page (world s) = (e, w)" by fastforce
    have "list_all point_ok ?page" using points_ok [OF assms(5), of "rsh_SourceCollection rs"] src by (auto simp: list_all_iff dest: in_set_takeD in_set_dropD)
    note made = upsert [OF assms(5) names(2) this u] and keeps = upsert [OF assms(5) names(2) this u, of "rsh_SourceCollection rs"]
    show thesis
      by (rule that [of "[Qdrant None (QUpsertPoints (rsh_ShadowCollection rs) ?page) True]" w])
         (use False u made keeps shadow cnt ne in \<open>auto simp: ups_def q_defs take_add\<close>)
  qed
  obtain x w1 where g: "GetCollection cl (rsh_SourceCollection rs) w = (x, w1)" by fastforce
  obtain info where info: "w1 = w" "x = Inr info" "ci_PointsCount info = rsh_TotalPoints rs"
    using get [OF w_up(1) names(1) g] w_up ne src total by auto
  define rs' where "rs' = rs\<lparr>rsh_CopiedPoints := rsh_CopiedPoints rs + of_nat (length ?page)\<rparr>"
  define rs2 where "rs2 = (if n + 128 < length ps then rs'\<lparr>rsh_Cursor := cursor (n + 128)\<rparr> else rs'\<lparr>rsh_Phase := ''Swapping''\<rparr>)"
  let ?es = "[Qdrant None (QScrollPoints (rsh_SourceCollection rs) (if rsh_Cursor rs = [] then None else Some (rsh_Cursor rs)) reshardCopyBatch) True] @ es @
    (if n + 128 < length ps then [] else [Qdrant None (QGetCollection (rsh_SourceCollection rs)) True])"
  let ?s' = "s\<lparr>world := w, trace := trace s @ ?es @ [Kube (KStatusCollection (col_Status (with_reshard col (Some rs2)))) True]\<rparr>"
  have "\<exists>res. run_state (reconcileReshard r col rs cluster cl) s = (res, ?s')"
    using ph tgt idle scroll w [unfolded ups_def] g info
    by (auto simp: reconcileReshard_def reshardCopyStep_def q_ScrollPoints_def q_GetCollection_def status_then_run [OF ok]
        with_reshard_def Let_def rs2_def rs'_def)
  then obtain res where "run_state (reconcileReshard r col rs cluster cl) s = (res, ?s')" by blast
  then have "reshard_pass r cluster cl (col, s) = (with_reshard col (Some rs2), ?s')"
    using reshard_pass_writes [OF rs, of r cluster cl s _ ?s' ?es] by (simp add: with_reshard_def upd_col_def)
  then show thesis
    by (rule that) (use w_up ne src ph in \<open>auto simp: same_job_def rs2_def rs'_def\<close>)
qed

text \<open>The copy of a source of \<open>length ps\<close> points ends, in at most one pass per batch of 128 and one more.\<close>

lemma copy_run:
  assumes ok: "\<And>c w. c_StatusUpdate r c w = (None, w)" and rs: "cst_Reshard (col_Status col) = Some rs"
    and ph: "rsh_Phase rs = ''Copying''" and tgt: "cs_ShardNumber (col_Spec col) = Some (rsh_TargetShardNumber rs)"
    and "up (world s)" and cnt: "counted (world s) (rsh_SourceCollection rs)"
    and ne: "rsh_SourceCollection rs \<noteq> rsh_ShadowCollection rs" and idle: "\<not> clusterMoveActive cluster"
    and src: "pts (world s) (rsh_SourceCollection rs) = ps" and len: "length ps < 2 ^ 63"
    and total: "rsh_TotalPoints rs = of_nat (length ps)"
    and cur: "rsh_Cursor rs = [] \<and> n = 0 \<or> rsh_Cursor rs = cursor n \<and> n < length ps"
    and shadow: "pts (world s) (rsh_ShadowCollection rs) = take n ps"
    and names: "name_ok (rsh_SourceCollection rs)" "name_ok (rsh_ShadowCollection rs)"
  shows "\<exists>k s' rs'. k \<le> (length ps - n) div 128 + 1 \<and>
    (reshard_pass r cluster cl ^^ k) (col, s) = (with_reshard col (Some rs'), s') \<and> same_job rs rs' \<and>
    rsh_Phase rs' = ''Swapping'' \<and> up (world s') \<and> aliases (world s') = aliases (world s) \<and>
    pts (world s') (rsh_SourceCollection rs) = ps \<and> pts (world s') (rsh_ShadowCollection rs) = ps"
  using assms(2-)
proof (induction "length ps - n" arbitrary: n col rs s rule: less_induct)
  case less
  obtain s1 rs1 where p: "reshard_pass r cluster cl (col, s) = (with_reshard col (Some rs1), s1)" "same_job rs rs1"
    "up (world s1)" "counted (world s1) (rsh_SourceCollection rs)" "pts (world s1) (rsh_SourceCollection rs) = ps"
    "aliases (world s1) = aliases (world s)" "pts (world s1) (rsh_ShadowCollection rs) = take (n + 128) ps"
    "if n + 128 < length ps then rsh_Phase rs1 = ''Copying'' \<and> rsh_Cursor rs1 = cursor (n + 128) else rsh_Phase rs1 = ''Swapping''"
    by (rule copy_pass [OF ok less.prems])
  show ?case
  proof (cases "n + 128 < length ps")
    case True
    have job: "rsh_SourceCollection rs1 = rsh_SourceCollection rs" "rsh_ShadowCollection rs1 = rsh_ShadowCollection rs"
      "rsh_TargetShardNumber rs1 = rsh_TargetShardNumber rs" "rsh_TotalPoints rs1 = rsh_TotalPoints rs"
      using p(2) by (simp_all add: same_job_def)
    have "\<exists>k s' rs'. k \<le> (length ps - (n + 128)) div 128 + 1 \<and>
      (reshard_pass r cluster cl ^^ k) (with_reshard col (Some rs1), s1) = (with_reshard (with_reshard col (Some rs1)) (Some rs'), s') \<and>
      same_job rs1 rs' \<and> rsh_Phase rs' = ''Swapping'' \<and> up (world s') \<and> aliases (world s') = aliases (world s1) \<and>
      pts (world s') (rsh_SourceCollection rs1) = ps \<and> pts (world s') (rsh_ShadowCollection rs1) = ps"
      by (rule less.hyps) (use True p less.prems(3-10,13-) job in simp_all)
    then obtain k s' rs' where k: "k \<le> (length ps - (n + 128)) div 128 + 1"
      "(reshard_pass r cluster cl ^^ k) (with_reshard col (Some rs1), s1) = (with_reshard col (Some rs'), s')"
      "same_job rs1 rs'" "rsh_Phase rs' = ''Swapping''" "up (world s')" "aliases (world s') = aliases (world s1)"
      "pts (world s') (rsh_SourceCollection rs1) = ps" "pts (world s') (rsh_ShadowCollection rs1) = ps" by auto
    have "Suc k \<le> (length ps - n) div 128 + 1" using k(1) True by simp
    moreover have "(reshard_pass r cluster cl ^^ Suc k) (col, s) = (with_reshard col (Some rs'), s')"
      using k(2) p(1) by (simp add: funpow_swap1)
    moreover have "same_job rs rs'" using k(3) p(2) by (simp add: same_job_def)
    ultimately show ?thesis using k p(6) job by (intro exI [of _ "Suc k"] exI [of _ s'] exI [of _ rs']) simp
  next
    case False
    then show ?thesis using p by (intro exI [of _ 1]) auto
  qed
qed

lemma swap_pass:
  assumes ok: "\<And>c w. c_StatusUpdate r c w = (None, w)" and rs: "cst_Reshard (col_Status col) = Some rs"
    and ph: "rsh_Phase rs = ''Swapping''" and tgt: "cs_ShardNumber (col_Spec col) = Some (rsh_TargetShardNumber rs)"
    and "up (world s)"
  obtains s' where "reshard_pass r cluster cl (col, s) = (with_reshard col (Some (rs\<lparr>rsh_Phase := ''Finalizing''\<rparr>)), s')"
    "up (world s')" "aliases (world s') = (aliases (world s))(cs_Alias (col_Spec col) \<mapsto> rsh_ShadowCollection rs)"
    "pts (world s') = pts (world s)"
proof -
  let ?acts = "aliasActions (aliases (world s)) (cs_Alias (col_Spec col)) (rsh_ShadowCollection rs)"
  obtain e w where u: "UpdateAliases cl ?acts (world s) = (e, w)" by fastforce
  note made = update_aliases [OF assms(5) u, unfolded swap_aliases]
  note now = list_aliases [OF assms(5)] and after = list_aliases [of w]
  let ?col = "with_reshard col (Some (rs\<lparr>rsh_Phase := ''Finalizing''\<rparr>))"
  let ?es = "[Qdrant None QListAliases True, Qdrant None (QUpdateAliases ?acts) True, Qdrant None QListAliases True]"
  let ?s' = "s\<lparr>world := w, trace := trace s @ ?es @ [Kube (KStatusCollection (col_Status ?col)) True]\<rparr>"
  have "run_state (reconcileReshard r col rs cluster cl) s = (Inr \<lparr>RequeueAfter = Second\<rparr>, ?s')"
    using ph tgt u made now after
    by (auto simp: reconcileReshard_def reshardSwap_def q_defs status_then_run [OF ok] with_reshard_def Let_def)
  then have "reshard_pass r cluster cl (col, s) = (?col, ?s')"
    using reshard_pass_writes [OF rs, of r cluster cl s _ ?s' ?es] by (simp add: with_reshard_def upd_col_def)
  then show thesis by (rule that) (use made in auto)
qed

lemma finalize_pass:
  assumes ok: "\<And>c w. c_StatusUpdate r c w = (None, w)" and rs: "cst_Reshard (col_Status col) = Some rs"
    and ph: "rsh_Phase rs = ''Finalizing''" and tgt: "cs_ShardNumber (col_Spec col) = Some (rsh_TargetShardNumber rs)"
    and "up (world s)" and "rsh_SourceCollection rs \<noteq> rsh_ShadowCollection rs" and name: "name_ok (rsh_SourceCollection rs)"
  obtains st s' where "reshard_pass r cluster cl (col, s) = (col\<lparr>col_Status := st\<rparr>, s')"
    "cst_Reshard st = None" "cst_ActiveCollection st = rsh_ShadowCollection rs" "cst_PointsCount st = rsh_TotalPoints rs"
    "cst_Phase st = condReady" "aliases (world s') = aliases (world s)"
    "pts (world s') (rsh_ShadowCollection rs) = pts (world s) (rsh_ShadowCollection rs)"
proof -
  obtain e w where d: "DeleteCollection cl (rsh_SourceCollection rs) (world s) = (e, w)" by fastforce
  note gone = delete [OF assms(5) name d, of "rsh_ShadowCollection rs"]
  let ?del = "cs_OnDelete (col_Spec col) = CollectionDelete"
  define es where "es = (if ?del then [Qdrant None (QDeleteCollection (rsh_SourceCollection rs)) True] else []) @
    [Event False (if ?del then ''SourceDeleted'' else ''SourceRetained'') (Text (rsh_SourceCollection rs)),
     Event False ''ReshardCompleted'' (Msg ''resharded'' [ArgS (rsh_SourceCollection rs),
       ArgS (rsh_ShadowCollection rs), ArgN (uint (rsh_TargetShardNumber rs))])]"
  let ?w = "if ?del then w else world s"
  let ?col = "upd_col (\<lambda>s. s\<lparr>cst_Reshard := None\<rparr>) (upd_col (\<lambda>s. s\<lparr>cst_ActiveCollection := rsh_ShadowCollection rs\<rparr>) col)"
  define col1 where "col1 = set_col_cond r condDegraded ConditionFalse ''Healthy'' (Msg ''healthy'' [])
    (set_col_cond r condReady ConditionTrue ''Ensured'' (Msg ''collection present and matching'' [])
      (upd_col (\<lambda>s. s\<lparr>cst_Phase := condReady, cst_PointsCount := rsh_TotalPoints rs,
         cst_ObservedGeneration := col_Generation ?col\<rparr>) ?col))"
  let ?s' = "s\<lparr>world := ?w, trace := trace s @ es @ [Kube (KStatusCollection (col_Status col1)) True]\<rparr>"
  have "run_state (reconcileReshard r col rs cluster cl) s = (Inr \<lparr>RequeueAfter = 2 * Minute\<rparr>, ?s')"
    using ph tgt d gone ok
    by (cases ?del) (auto simp: reconcileReshard_def reshardFinalize_def reshardDone_def setReady_def q_defs c_defs Emit_def Let_def es_def col1_def)
  then have pass: "reshard_pass r cluster cl (col, s) = (col\<lparr>col_Status := col_Status col1\<rparr>, ?s')"
    using reshard_pass_writes [OF rs, of r cluster cl s _ ?s' es] by simp
  show thesis
    by (rule that [OF pass]) (use gone assms(6) in \<open>auto simp: col1_def set_col_cond_def\<close>)
qed

text \<open>The whole workflow.\<close>

lemma reshard_run:
  assumes ok: "\<And>c w. c_StatusUpdate r c w = (None, w)" and rs: "cst_Reshard (col_Status col) = Some rs"
    and ph: "rsh_Phase rs \<in> {''Preparing'', ''Failed''}" and tgt: "cs_ShardNumber (col_Spec col) = Some (rsh_TargetShardNumber rs)"
    and up: "up (world s)" and absent: "\<not> present (world s) (rsh_ShadowCollection rs)"
    and cnt: "counted (world s) (rsh_SourceCollection rs)" and ne: "rsh_SourceCollection rs \<noteq> rsh_ShadowCollection rs"
    and idle: "\<not> clusterMoveActive cluster" and src: "pts (world s) (rsh_SourceCollection rs) = ps" and len: "length ps < 2 ^ 63"
    and total: "rsh_TotalPoints rs = of_nat (length ps)" and fresh: "pts (world s) (rsh_ShadowCollection rs) = []"
    and names: "name_ok (rsh_SourceCollection rs)" "name_ok (rsh_ShadowCollection rs)"
  shows "\<exists>k st s'. k \<le> length ps div 128 + 4 \<and>
    (reshard_pass r cluster cl ^^ k) (col, s) = (col\<lparr>col_Status := st\<rparr>, s') \<and>
    cst_Reshard st = None \<and> cst_ActiveCollection st = rsh_ShadowCollection rs \<and> cst_Phase st = condReady \<and>
    pts (world s') (rsh_ShadowCollection rs) = ps \<and>
    aliases (world s') = (aliases (world s))(cs_Alias (col_Spec col) \<mapsto> rsh_ShadowCollection rs)"
proof -
  let ?rs0 = "rs\<lparr>rsh_Phase := ''Copying'', rsh_Cursor := [], rsh_CopiedPoints := 0\<rparr>" and ?P = "reshard_pass r cluster cl"
  obtain s0 where p0: "?P (col, s) = (with_reshard col (Some ?rs0), s0)" "up (world s0)" "pts (world s0) = pts (world s)"
      "aliases (world s0) = aliases (world s)" "counted (world s0) (rsh_SourceCollection rs)"
    by (rule prepare_pass [OF ok rs ph tgt up absent cnt ne names])
  have "\<exists>k s' rs'. k \<le> (length ps - 0) div 128 + 1 \<and>
    (?P ^^ k) (with_reshard col (Some ?rs0), s0) = (with_reshard (with_reshard col (Some ?rs0)) (Some rs'), s') \<and> same_job ?rs0 rs' \<and>
    rsh_Phase rs' = ''Swapping'' \<and> up (world s') \<and> aliases (world s') = aliases (world s0) \<and>
    pts (world s') (rsh_SourceCollection ?rs0) = ps \<and> pts (world s') (rsh_ShadowCollection ?rs0) = ps"
    by (rule copy_run [OF ok]) (use p0 tgt ne idle src len total fresh names in simp_all)
  then obtain k s1 rs1 where k: "k \<le> length ps div 128 + 1"
      "(?P ^^ k) (with_reshard col (Some ?rs0), s0) = (with_reshard col (Some rs1), s1)" "same_job ?rs0 rs1"
      "rsh_Phase rs1 = ''Swapping''" "up (world s1)" "aliases (world s1) = aliases (world s0)"
      "pts (world s1) (rsh_ShadowCollection rs) = ps" by auto
  have job: "rsh_SourceCollection rs1 = rsh_SourceCollection rs" "rsh_ShadowCollection rs1 = rsh_ShadowCollection rs"
      "rsh_TargetShardNumber rs1 = rsh_TargetShardNumber rs" using k(3) by (simp_all add: same_job_def)
  let ?rs2 = "rs1\<lparr>rsh_Phase := ''Finalizing''\<rparr>"
  obtain s2 where p2: "?P (with_reshard col (Some rs1), s1) = (with_reshard col (Some ?rs2), s2)" "up (world s2)"
      "aliases (world s2) = (aliases (world s1))(cs_Alias (col_Spec col) \<mapsto> rsh_ShadowCollection rs1)" "pts (world s2) = pts (world s1)"
    using swap_pass [OF ok, of "with_reshard col (Some rs1)" rs1 s1 cluster] k(4,5) tgt job by auto
  obtain st s3 where p3: "?P (with_reshard col (Some ?rs2), s2) = ((with_reshard col (Some ?rs2))\<lparr>col_Status := st\<rparr>, s3)"
      "cst_Reshard st = None" "cst_ActiveCollection st = rsh_ShadowCollection ?rs2" "cst_PointsCount st = rsh_TotalPoints ?rs2" "cst_Phase st = condReady"
      "aliases (world s3) = aliases (world s2)" "pts (world s3) (rsh_ShadowCollection ?rs2) = pts (world s2) (rsh_ShadowCollection ?rs2)"
    by (rule finalize_pass [OF ok, of "with_reshard col (Some ?rs2)" ?rs2 s2 cluster]) (use p2(2) tgt job ne names in simp_all)
  have "(?P ^^ (Suc (Suc (Suc k)))) (col, s) = ?P (?P ((?P ^^ k) (?P (col, s))))" by (simp add: funpow_swap1)
  also have "\<dots> = (col\<lparr>col_Status := st\<rparr>, s3)"
    using p0(1) k(2) p2(1) p3(1) by (simp add: with_reshard_def upd_col_def)
  finally show ?thesis
    using k p0 p2 p3 job by (intro exI [of _ "Suc (Suc (Suc k))"] exI [of _ st] exI [of _ s3]) simp
qed

end

section \<open>The in-memory Qdrant can be resharded\<close>

lemma nat_digits_canonical: "hd (nat_digits n) = CHR ''0'' \<Longrightarrow> length (nat_digits n) = 1"
proof (induction n rule: nat_digits.induct)
  case (1 n)
  show ?case
  proof (cases "n < 10")
    case False
    have rec: "nat_digits n = nat_digits (n div 10) @ [digit_char (n mod 10)]" using False by (subst nat_digits.simps) simp
    then have "hd (nat_digits (n div 10)) = CHR ''0''" using 1(2) by simp
    then have one: "length (nat_digits (n div 10)) = 1" using 1(1) False by simp
    have small: "n div 10 < 10"
    proof (rule ccontr)
      assume "\<not> n div 10 < 10"
      then have "nat_digits (n div 10) = nat_digits (n div 10 div 10) @ [digit_char (n div 10 mod 10)]"
        by (subst nat_digits.simps) simp
      then show False using one by simp
    qed
    then have "nat_digits (n div 10) = [digit_char (n div 10)]" by (subst nat_digits.simps) simp
    then have "(of_char (digit_char (n div 10)) :: nat) = of_char (CHR ''0'')" using \<open>hd (nat_digits (n div 10)) = CHR ''0''\<close> by simp
    then show ?thesis using small False by (simp add: of_char_digit_char)
  qed (subst nat_digits.simps, simp)
qed

lemma offset_index_digits:
  assumes "n < 2 ^ 63"
  shows "offset_index (nat_digits n) = int n"
proof -
  have "hd (nat_digits n) \<noteq> CHR ''-''" using nat_digits_hd_digit [of n] by (auto simp: is_digit_def)
  then show ?thesis using assms parse_uint_digits [of n "2 ^ 63"] nat_digits_is_digit [of n] nat_digits_canonical [of n]
    by (auto simp: offset_index_def Let_def)
qed

interpretation fake_reshard: reshard_store "fake_client now" "\<lambda>f. fk_ErrOn f = Map.empty \<and> fk_PeersList f \<noteq> []"
  "\<lambda>f c. ci_Exists (fk_collection f c)" "\<lambda>f. get_or [] (fk_Points f)"
  "\<lambda>f c. ci_PointsCount (fk_collection f c) = of_nat (length (get_or [] (fk_Points f) c))" fk_Aliases nat_digits "\<lambda>_. True" "\<lambda>_. True"
  for now
proof (unfold_locales, goal_cases)
  case (2 w c x w')
  then show ?case by (auto simp: fake_client_def fake_GetCollection_def guarded_def)
next
  case (3 w c sp e w' d)
  then show ?case by (auto simp: fake_client_def fake_CreateCollection_def guarded_err_def fk_collection_def update_conv')
next
  case (4 w c e w' d)
  then show ?case by (auto simp: fake_client_def fake_DeleteCollection_def guarded_err_def)
next
  case (6 w k c)
  then show ?case by (auto simp: fake_client_def fake_ScrollPoints_def guarded_def Let_def min_def)
next
  case (7 w k c n)
  then show ?case by (auto simp: fake_client_def fake_ScrollPoints_def guarded_def Let_def min_def offset_index_digits nat_add_distrib)
next
  case (8 w c ps e w' d)
  then show ?case by (auto simp: fake_client_def fake_UpsertPoints_def guarded_err_def put_points_def fk_collection_def update_conv' get_or_def fun_eq_iff)
next
  case (9 w)
  then show ?case by (auto simp: fake_client_def fake_ListAliases_def guarded_def)
next
  case (10 w as e w')
  then show ?case by (auto simp: fake_client_def fake_UpdateAliases_def guarded_err_def)
qed (simp_all add: list_all_iff)

section \<open>Properties\<close>

text \<open>
  A reshard ends. Against a Qdrant that answers, with no shard move or drain in progress and with a
  source nobody writes to, at most \<open>n div 128 + 4\<close> passes after the workflow was recorded for \<open>n\<close>
  points, the workflow is finished: the shadow holds exactly the points of the source, the alias of the
  resource is set to the shadow and no other alias changed, the shadow is the active collection, and
  the resource is ready.
\<close>

lemma reshard_completes:
  assumes "\<And>c w. c_StatusUpdate r c w = (None, w)" and "cst_Reshard (col_Status col) = Some rs"
    and "rsh_Phase rs \<in> {''Preparing'', ''Failed''}" and "cs_ShardNumber (col_Spec col) = Some (rsh_TargetShardNumber rs)"
    and "fk_ErrOn (world s) = Map.empty" and "fk_PeersList (world s) \<noteq> []"
    and "\<not> ci_Exists (fk_collection (world s) (rsh_ShadowCollection rs))"
    and "get_or [] (fk_Points (world s)) (rsh_ShadowCollection rs) = []"
    and "get_or [] (fk_Points (world s)) (rsh_SourceCollection rs) = ps"
    and "ci_PointsCount (fk_collection (world s) (rsh_SourceCollection rs)) = of_nat (length ps)"
    and "rsh_TotalPoints rs = of_nat (length ps)" and "length ps < 2 ^ 63"
    and "rsh_SourceCollection rs \<noteq> rsh_ShadowCollection rs" and "\<not> clusterMoveActive cluster"
  shows "\<exists>k st s'. k \<le> length ps div 128 + 4 \<and>
    (reshard_pass r cluster (fake_client now) ^^ k) (col, s) = (col\<lparr>col_Status := st\<rparr>, s') \<and>
    cst_Reshard st = None \<and> cst_ActiveCollection st = rsh_ShadowCollection rs \<and> cst_Phase st = condReady \<and>
    get_or [] (fk_Points (world s')) (rsh_ShadowCollection rs) = ps \<and>
    fk_Aliases (world s') = (fk_Aliases (world s))(cs_Alias (col_Spec col) \<mapsto> rsh_ShadowCollection rs)"
  by (rule fake_reshard.reshard_run) (use assms in simp_all)

text \<open>
  C26: \<open>ensureAlias\<close> implements an assignment of the alias map: it succeeds, the alias of the resource
  names its physical collection afterwards, and every other alias is what it was, whether the alias was
  absent, elsewhere or already right.
\<close>

theorem ensureAlias_refines_assignment:
  assumes "run_state (ensureAlias (fake_client now) alias physical) s = (e, s')"
    and "fk_ErrOn (world s) = Map.empty" and "fk_PeersList (world s) \<noteq> []" and "alias \<noteq> []" and "physical \<noteq> []"
  shows "e = None \<and> fk_Aliases (world s') = (fk_Aliases (world s))(alias \<mapsto> physical)"
  using fake_reshard.ensureAlias_run [OF assms(1)] assms(2-) by simp

text \<open>
  C27: a change of the shard number after the commit point loses the collection. In the phase
  \<open>Finalizing\<close> the alias already names the shadow; when the target changes there, the pass takes the
  abort branch and deletes the shadow, and the alias is left naming a collection that does not exist.
\<close>

theorem reshard_abort_deletes_committed:
  assumes "run_state (reconcileReshard r col rs cluster (fake_client now)) s = (res, s')"
    and "\<And>c w. c_StatusUpdate r c w = (None, w)" and "rsh_Phase rs = ''Finalizing''"
    and "cs_ShardNumber (col_Spec col) \<noteq> Some (rsh_TargetShardNumber rs)" and "fk_ErrOn (world s) = Map.empty"
    and "fk_Aliases (world s) alias = Some (rsh_ShadowCollection rs)"
  shows "fk_Aliases (world s') alias = Some (rsh_ShadowCollection rs) \<and>
    \<not> ci_Exists (fk_collection (world s') (rsh_ShadowCollection rs))"
proof -
  have "world s' = snd (fake_DeleteCollection (rsh_ShadowCollection rs) (world s))"
    using assms(1,4,5) by (auto simp: reconcileReshard_def reshardAbort_def q_defs event_defs status_then_run [OF assms(2)] Let_def
        fake_client_def fake_DeleteCollection_def guarded_err_def)
  then show ?thesis using assms(5,6)
    by (simp add: fake_DeleteCollection_def guarded_err_def fk_collection_def delete_conv' noCollection_def)
qed

end
