(* ===== verification/Collection_Witnesses.thy ===== *)
theory Collection_Witnesses
  imports Collection_Safety Reshard_Correct Executor_Witnesses
begin

text \<open>
  The collection theorems on a small world: the in-memory Qdrant with one collection, and an API server
  that answers with a fixed resource.
\<close>

definition docsJob :: "string \<Rightarrow> ReshardStatus" where
  "docsJob phase = \<lparr>rsh_Phase = phase, rsh_SourceCollection = ''docs'', rsh_ShadowCollection = ''docs-rs'',
     rsh_TargetShardNumber = 2, rsh_CopiedPoints = 0, rsh_TotalPoints = 300, rsh_Cursor = [], rsh_StartedAt = None,
     rsh_Attempts = 0\<rparr>"

definition docs :: "u32 \<Rightarrow> ReshardStatus option \<Rightarrow> QdrantCollection" where
  "docs shards job = \<lparr>col_Name = ''docs'', col_Namespace = ''ns'', col_Generation = 2, col_DeletionTimestamp = None,
     col_Finalizers = [collectionFinalizer],
     col_Spec = \<lparr>cs_ClusterRef = ''q'', cs_CollectionName = [], cs_Vectors = \<lparr>vec_Size = 4, vec_Distance = ''Cosine''\<rparr>,
       cs_ShardNumber = Some shards, cs_ReplicationFactor = 1, cs_OnDelete = CollectionDelete, cs_Alias = ''live'',
       cs_Reshard = ReshardAuto\<rparr>,
     col_Status = \<lparr>cst_Phase = phaseResharding, cst_Adopted = False, cst_PointsCount = 0, cst_ObservedGeneration = 1,
       cst_ActiveCollection = ''docs'', cst_Reshard = job, cst_Conditions = []\<rparr>\<rparr>"

definition docsR :: "QdrantCollection \<Rightarrow> Fake CollectionReconciler" where
  "docsR col = \<lparr>c_Meta = list_meta, c_Clock = \<lambda>_. 0, c_GetCollection = \<lambda>_ _ w. (Inr col, w),
     c_GetCluster = \<lambda>_ _ w. (Inr sampleCluster, w), c_Update = \<lambda>_ w. (None, w), c_StatusUpdate = \<lambda>_ w. (None, w),
     c_QdrantClientFor = \<lambda>_. fake_client []\<rparr>"

definition docsQdrant :: Fake where
  "docsQdrant = NewFake\<lparr>fk_Collections := [(''docs'', \<lparr>ci_Exists = True, ci_PointsCount = 300, ci_VectorSize = 4,
       ci_Distance = ''Cosine'', ci_ShardNumber = 1, ci_ReplicationFactor = 1\<rparr>)],
     fk_Points := [''docs'' \<mapsto> map pointText [0..<300]], fk_Aliases := [''live'' \<mapsto> ''docs'']\<rparr>"

definition docsSys :: "(Fake, effect) sys" where
  "docsSys = \<lparr>world = docsQdrant, trace = []\<rparr>"

lemmas docs_defs = docs_def docsJob_def docsR_def docsQdrant_def docsSys_def NewFake_def

text \<open>A pass of the whole controller in the phase \<open>Copying\<close>, on a source of two points.\<close>

definition copyCol :: QdrantCollection where
  "copyCol = docs 2 (Some (docsJob ''Copying''\<lparr>rsh_TotalPoints := 2\<rparr>))"

definition copySys :: "(Fake, effect) sys" where
  "copySys = \<lparr>world = docsQdrant\<lparr>fk_Points := [''docs'' \<mapsto> [''a'', ''b'']]\<rparr>, trace = []\<rparr>"

definition copyEnd :: "(kerr + Result) \<times> (Fake, effect) sys" where
  "copyEnd = run_state (collection_Reconcile (docsR copyCol) ''ns'' ''docs'') copySys"

lemma copy_run_eq: "run_state (collection_Reconcile (docsR copyCol) ''ns'' ''docs'') copySys = (fst copyEnd, snd copyEnd)"
  by (simp add: copyEnd_def)

lemma copy_trace: "trace (snd copyEnd) = trace copySys @ trace (snd copyEnd)"
  by (simp add: copySys_def)

lemma copy_upserts: "Qdrant None (QUpsertPoints ''docs-rs'' [''a'', ''b'']) True \<in> set (trace (snd copyEnd))"
  by code_simp

theorem collection_mutations_permitted_witness:
  "list_all (permitted copyCol) (trace (snd copyEnd)) \<and>
   Qdrant None (QUpsertPoints ''docs-rs'' [''a'', ''b'']) True \<in> set (trace (snd copyEnd))"
  using collection_mutations_permitted [OF copy_run_eq _ copy_trace] copy_upserts by (simp add: docsR_def)

theorem ensureAlias_refines_assignment_witness:
  "fk_Aliases (world (snd (run_state (ensureAlias (fake_client []) ''live'' ''docs-rs'') docsSys))) = [''live'' \<mapsto> ''docs-rs'']"
proof -
  obtain e s' where run: "run_state (ensureAlias (fake_client []) ''live'' ''docs-rs'') docsSys = (e, s')" by (metis surj_pair)
  show ?thesis using ensureAlias_refines_assignment [OF run] run by (simp add: docs_defs)
qed

text \<open>The alias was swapped, then the user asked for three shards.\<close>

definition committedSys :: "(Fake, effect) sys" where
  "committedSys = \<lparr>world = docsQdrant\<lparr>fk_Aliases := [''live'' \<mapsto> ''docs-rs'']\<rparr>, trace = []\<rparr>"

theorem reshard_abort_deletes_committed_witness:
  "fk_Aliases (world (snd (run_state (reconcileReshard (docsR (docs 3 None)) (docs 3 None) (docsJob ''Finalizing'') sampleCluster
      (fake_client [])) committedSys))) ''live'' = Some ''docs-rs'' \<and>
   \<not> ci_Exists (fk_collection (world (snd (run_state (reconcileReshard (docsR (docs 3 None)) (docs 3 None) (docsJob ''Finalizing'') sampleCluster
      (fake_client [])) committedSys))) ''docs-rs'')"
proof -
  obtain res s' where run: "run_state (reconcileReshard (docsR (docs 3 None)) (docs 3 None) (docsJob ''Finalizing'') sampleCluster
      (fake_client [])) committedSys = (res, s')" by (metis surj_pair)
  show ?thesis using reshard_abort_deletes_committed [OF run, of "''live''"] run by (simp add: committedSys_def docs_defs)
qed

end
