(* ===== verification/Reshard_Http.thy ===== *)
theory Reshard_Http
  imports Reshard_Correct Http_Server
begin

text \<open>
  The reshard workflow over the wire: the collection controller with the REST client in front of a REST server
  over the in-memory Qdrant. Plain names and points in compact JSON make it a store that can be resharded, so
  the workflow ends there too, with the same points and the same aliases.
\<close>

definition compact_json :: "raw \<Rightarrow> bool" where
  "compact_json p \<longleftrightarrow> mraw p = Some p"

lemma compact_json_same: "compact_json p \<Longrightarrow> compact False p = p"
  by (auto simp: compact_json_def mraw_def split: if_splits)

lemma compact_json_digits: "compact_json (nat_digits n)"
proof -
  have "list_all number_char (nat_digits n)" using nat_digits_is_digit [of n] by (simp add: list_all_iff number_char_def)
  then have "compact False (nat_digits n) = nat_digits n" using compact_number [of "nat_digits n" "[]"] by simp
  then show ?thesis using parses_json [OF parses_digits [of n]] by (simp add: compact_json_def mraw_def)
qed

text \<open>A call that succeeds behind the server succeeds in front of it, with the same world.\<close>

lemma over_http_succeeds:
  assumes "\<not> is_read_call q" "marshals q" "list_all path_plain (raw_name q)" "arrives q = q"
    and "call_mutation cl q w = (None, w0)" and "call_mutation (over_http base cl) q w = (e, w')"
  shows "e = None \<and> w' = w0"
  using over_http_mutation [OF assms(1-3), of base cl w] assms(4-6) by simp

definition served :: "Fake \<Rightarrow> bool" where
  "served f \<longleftrightarrow> fk_ErrOn f = Map.empty \<and> fk_PeersList f \<noteq> [] \<and>
     (\<forall>c. list_all compact_json (get_or [] (fk_Points f) c)) \<and> finite (dom (fk_Aliases f))"

lemma finite_fold_alias: "finite (dom m) \<Longrightarrow> finite (dom (fold apply_alias as m))"
proof (induction as arbitrary: m)
  case (Cons a as)
  have "finite (dom (apply_alias a m))"
    using Cons.prems by (auto simp: apply_alias_def split: option.splits intro: finite_subset [of _ "dom m"])
  then show ?case using Cons.IH by simp
qed simp

lemma page_ok_served:
  assumes "list_all compact_json ps"
  shows "page_ok (take k (drop n ps), if b then Some (nat_digits m) else None)"
proof -
  have "nat_digits m \<noteq> ''null''" using nat_digits_hd_digit [of m] by (auto simp: is_digit_def)
  then show ?thesis using assms compact_json_digits [of m]
    by (auto simp: page_ok_def compact_json_def list_all_iff dest: in_set_takeD in_set_dropD)
qed

lemma http_get:
  assumes "served w" and "list_all path_plain c" and "GetCollection (over_http base (fake_client now)) c w = (x, w')"
  shows "w' = w \<and> (\<exists>info. x = Inr info \<and> ci_Exists info = ci_Exists (fk_collection w c) \<and>
    (ci_Exists (fk_collection w c) \<longrightarrow> info = fk_collection w c))"
proof -
  have "GetCollection (fake_client now) c w = (Inr (fk_collection w c), w)"
    using assms(1) by (simp add: served_def fake_client_def fake_GetCollection_def guarded_def)
  then show ?thesis using over_http_GetCollection [OF assms(2), of "fake_client now" w base] assms(3)
    by (auto simp: same_result_def absentCollection_def)
qed

lemma http_scroll:
  assumes "served w" and "list_all path_plain c" and "0 < k" "k < 2 ^ 63" and "offset = None \<or> (\<exists>m. offset = Some (nat_digits m))"
    and "ScrollPoints (fake_client now) c offset (int k) w = (Inr (take k (drop n (get_or [] (fk_Points w) c)), if b then Some (nat_digits m) else None), w)"
  shows "ScrollPoints (over_http base (fake_client now)) c offset (int k) w =
    (Inr (take k (drop n (get_or [] (fk_Points w) c)), if b then Some (nat_digits m) else None), w)"
proof -
  have "json_parse (nat_digits m) \<noteq> None" for m using parses_json [OF parses_digits [of m]] by simp
  then have off: "\<forall>off. offset = Some off \<longrightarrow> json_parse off \<noteq> None" using assms(5) by auto
  have "map_option (compact False) offset = offset" using assms(5) compact_json_same [OF compact_json_digits] by auto
  moreover have "page_ok (take k (drop n (get_or [] (fk_Points w) c)), if b then Some (nat_digits m) else None)"
    using assms(1) by (intro page_ok_served) (simp add: served_def)
  ultimately show ?thesis
    using over_http_ScrollPoints [OF assms(2) _ _ off, of "int k" "fake_client now" w base] assms(4,6)
    by (simp add: same_result_def prod_eq_iff)
qed

interpretation http_reshard: reshard_store "over_http base (fake_client now)" served
  "\<lambda>f c. ci_Exists (fk_collection f c)" "\<lambda>f. get_or [] (fk_Points f)"
  "\<lambda>f c. ci_Exists (fk_collection f c) \<and> ci_PointsCount (fk_collection f c) = of_nat (length (get_or [] (fk_Points f) c))"
  fk_Aliases nat_digits "list_all path_plain" compact_json
  for base now
proof (unfold_locales, goal_cases)
  case (1 w c)
  then show ?case by (simp add: served_def)
next
  case (2 w c x w')
  then show ?case using http_get by fastforce
next
  case (3 w c sp e w' d)
  obtain w0 where "CreateCollection (fake_client now) c sp w = (None, w0)" "served w0" "get_or [] (fk_Points w0) = get_or [] (fk_Points w)" "fk_Aliases w0 = fk_Aliases w"
      "d \<noteq> c \<longrightarrow> fk_collection w0 d = fk_collection w d"
    using 3(1,3) by (auto simp: served_def fake_client_def fake_CreateCollection_def guarded_err_def fk_collection_def update_conv')
  then show ?case using over_http_succeeds [of "QCreateCollection c sp" "fake_client now" w w0 base e w'] 3(2,4) by simp
next
  case (4 w c e w' d)
  obtain w0 where "DeleteCollection (fake_client now) c w = (None, w0)" "served w0" "fk_Points w0 = fk_Points w" "fk_Aliases w0 = fk_Aliases w"
    using 4(1) by (auto simp: served_def fake_client_def fake_DeleteCollection_def guarded_err_def)
  then show ?case using over_http_succeeds [of "QDeleteCollection c" "fake_client now" w w0 base e w'] 4(2,3) by simp
next
  case (6 w c k)
  then have "ScrollPoints (fake_client now) c None (int k) w = (Inr (take k (drop 0 (get_or [] (fk_Points w) c)), if k < length (get_or [] (fk_Points w) c) then Some (nat_digits k) else None), w)"
    using fake_reshard.scroll_first [where w = w and c = c and k = k and now = now] by (simp add: served_def)
  from http_scroll [OF 6(1-4) _ this, of base] show ?case by simp
next
  case (7 w c k n)
  have off: "Some (nat_digits n) = None \<or> (\<exists>m. Some (nat_digits n) = Some (nat_digits m))" by blast
  have "ScrollPoints (fake_client now) c (Some (nat_digits n)) (int k) w = (Inr (take k (drop n (get_or [] (fk_Points w) c)), if n + k < length (get_or [] (fk_Points w) c) then Some (nat_digits (n + k)) else None), w)"
    using 7 fake_reshard.scroll_next [where w = w and c = c and k = k and n = n and now = now] by (simp add: served_def)
  from http_scroll [OF 7(1-4) off this, of base] show ?case .
next
  case (8 w c ps e w' d)
  have same: "map (compact False) ps = ps" using 8(3) by (auto simp: list_all_iff compact_json_same intro: map_idI)
  have valid: "list_all (\<lambda>p. json_parse p \<noteq> None) ps" using 8(3) unfolding list_all_iff compact_json_def mraw_def by (metis option.distinct(1))
  obtain w0 where w0: "UpsertPoints (fake_client now) c ps w = (None, w0)" 
  proof -
    obtain e0 w0 where u: "UpsertPoints (fake_client now) c ps w = (e0, w0)" by fastforce
    then show thesis using that fake_reshard.upsert [OF _ _ _ u] 8(1) by (simp add: served_def list_all_iff)
  qed
  have law: "get_or [] (fk_Points w0) = (get_or [] (fk_Points w))(c := get_or [] (fk_Points w) c @ ps)" "fk_Aliases w0 = fk_Aliases w"
      "fk_ErrOn w0 = Map.empty" "fk_PeersList w0 \<noteq> []"
    using fake_reshard.upsert [OF _ _ _ w0] 8(1) by (auto simp: served_def list_all_iff)
  have kept: "d \<noteq> c \<longrightarrow> fk_collection w0 d = fk_collection w d"
    using w0 8(1) by (auto simp: served_def fake_client_def fake_UpsertPoints_def guarded_err_def put_points_def fk_collection_def update_conv' split: if_splits)
  have "served w0" using law 8(1,3) by (simp add: served_def)
  then show ?case using over_http_succeeds [of "QUpsertPoints c ps" "fake_client now" w w0 base e w'] 8(2,4) w0 law kept same valid by simp
next
  case (9 w)
  then show ?case using over_http_ListAliases [of "fake_client now" w base] fake_reshard.list_aliases [where w = w and now = now]
    by (auto simp: served_def same_result_def prod_eq_iff)
next
  case (10 w as e w')
  obtain w0 where w0: "UpdateAliases (fake_client now) as w = (None, w0)" "fk_Aliases w0 = fold apply_alias as (fk_Aliases w)" "fk_Points w0 = fk_Points w"
      "fk_ErrOn w0 = Map.empty" "fk_PeersList w0 \<noteq> []"
    using 10(1) by (auto simp: served_def fake_client_def fake_UpdateAliases_def guarded_err_def)
  then have "served w0" using 10(1) finite_fold_alias by (simp add: served_def)
  then show ?case using over_http_succeeds [of "QUpdateAliases as" "fake_client now" w w0 base e w'] 10(2) w0 by simp
qed simp

text \<open>
  C37: a reshard ends over the wire, too. The collection controller with the REST client, in front of a REST server
  over a Qdrant that answers, copies a source nobody writes to: at most \<open>n div 128 + 4\<close> passes after the workflow
  was recorded for \<open>n\<close> points, the shadow holds exactly the points of the source, text for text, the alias
  of the resource names the shadow and no other alias changed, the shadow is the active collection and
  the resource is ready. The points are compact JSON, as Qdrant writes them, and the two names need no escape.
\<close>

theorem reshard_completes_over_http:
  assumes "\<And>c w. c_StatusUpdate r c w = (None, w)" and "cst_Reshard (col_Status col) = Some rs"
    and "rsh_Phase rs \<in> {''Preparing'', ''Failed''}" and "cs_ShardNumber (col_Spec col) = Some (rsh_TargetShardNumber rs)"
    and "served (world s)" and "\<not> ci_Exists (fk_collection (world s) (rsh_ShadowCollection rs))"
    and "ci_Exists (fk_collection (world s) (rsh_SourceCollection rs))"
    and "get_or [] (fk_Points (world s)) (rsh_ShadowCollection rs) = []"
    and "get_or [] (fk_Points (world s)) (rsh_SourceCollection rs) = ps"
    and "ci_PointsCount (fk_collection (world s) (rsh_SourceCollection rs)) = of_nat (length ps)"
    and "rsh_TotalPoints rs = of_nat (length ps)" and "length ps < 2 ^ 63"
    and "rsh_SourceCollection rs \<noteq> rsh_ShadowCollection rs" and "\<not> clusterMoveActive cluster"
    and "list_all path_plain (rsh_SourceCollection rs)" and "list_all path_plain (rsh_ShadowCollection rs)"
  shows "\<exists>k st s'. k \<le> length ps div 128 + 4 \<and>
    (reshard_pass r cluster (over_http base (fake_client now)) ^^ k) (col, s) = (col\<lparr>col_Status := st\<rparr>, s') \<and>
    cst_Reshard st = None \<and> cst_ActiveCollection st = rsh_ShadowCollection rs \<and> cst_Phase st = condReady \<and>
    get_or [] (fk_Points (world s')) (rsh_ShadowCollection rs) = ps \<and>
    fk_Aliases (world s') = (fk_Aliases (world s))(cs_Alias (col_Spec col) \<mapsto> rsh_ShadowCollection rs)"
  by (rule http_reshard.reshard_run) (use assms in simp_all)

end
