(* ===== verification/Controller_Setup.thy ===== *)
theory Controller_Setup
  imports Tls_Client
begin

text \<open>
  How the controllers are wired to the manager (the four \<open>SetupWithManager\<close>) and which kinds the API group puts
  into the scheme (\<open>api/v1alpha1\<close>). A reconciler is seen here through the fields \<open>SetupWithManager\<close> fills in; a
  nil field is \<open>None\<close>. The manager is a record of what the code asks of it; each request it answers is an effect.
\<close>

section \<open>Kinds and scheme\<close>

type_synonym GroupVersion = "string \<times> string"
type_synonym Scheme = "(GroupVersion \<times> string) list"

definition SchemeGroupVersion :: GroupVersion where
  "SchemeGroupVersion = (''qdrant.keiailab.com'', ''v1alpha1'')"

definition AddKnownTypes :: "GroupVersion \<Rightarrow> string list \<Rightarrow> Scheme \<Rightarrow> Scheme" where
  "AddKnownTypes gv kinds sch = sch @ map (Pair gv) kinds"

definition registerCluster :: "Scheme \<Rightarrow> Scheme" where
  "registerCluster = AddKnownTypes SchemeGroupVersion [''QdrantCluster'', ''QdrantClusterList'']"

definition registerCollection :: "Scheme \<Rightarrow> Scheme" where
  "registerCollection = AddKnownTypes SchemeGroupVersion [''QdrantCollection'', ''QdrantCollectionList'']"

definition registerBackup :: "Scheme \<Rightarrow> Scheme" where
  "registerBackup = AddKnownTypes SchemeGroupVersion [''QdrantBackup'', ''QdrantBackupList'']"

definition registerRestore :: "Scheme \<Rightarrow> Scheme" where
  "registerRestore = AddKnownTypes SchemeGroupVersion [''QdrantRestore'', ''QdrantRestoreList'']"

text \<open>
  \<open>SchemeBuilder.AddToScheme\<close>: the kinds \<open>metav1.AddToGroupVersion\<close> adds to every group (\<open>metaKinds\<close>, a parameter), then
  the functions registered by the \<open>init\<close> of each file, in the order of the file names.
\<close>

definition AddToScheme :: "string list \<Rightarrow> Scheme \<Rightarrow> Scheme" where
  "AddToScheme metaKinds sch =
     fold (\<lambda>f. f) [AddKnownTypes SchemeGroupVersion metaKinds, registerBackup, registerCluster, registerCollection, registerRestore] sch"

lemmas scheme_defs =
  AddToScheme_def registerBackup_def registerCluster_def registerCollection_def registerRestore_def AddKnownTypes_def

section \<open>Wiring of the controllers\<close>

record Registration =
  reg_Named :: "string option"
  reg_For :: string
  reg_OnlyGeneration :: bool
  reg_Owns :: "string list"

record 'w Wiring =
  wr_APIReader :: "'w secret_reader option"
  wr_QdrantClientFor :: "(QdrantCluster \<Rightarrow> 'w \<Rightarrow> 'w HTTPClient \<times> 'w) option"
  wr_QdrantClientForPeer :: "(QdrantCluster \<Rightarrow> int \<Rightarrow> 'w \<Rightarrow> 'w HTTPClient \<times> 'w) option"
  wr_Recorder :: "string option"

record 'w Manager =
  mgr_APIReader :: "'w secret_reader"
  mgr_Complete :: "Registration \<Rightarrow> 'w Wiring \<Rightarrow> 'w \<Rightarrow> err option \<times> 'w"
  mgr_AddHealthzCheck :: "string \<Rightarrow> 'w \<Rightarrow> err option \<times> 'w"
  mgr_AddReadyzCheck :: "string \<Rightarrow> 'w \<Rightarrow> err option \<times> 'w"
  mgr_Start :: "'w \<Rightarrow> err option \<times> 'w"

text \<open>A field that is nil gets the default, one that was injected is kept.\<close>

definition or_default :: "'a option \<Rightarrow> 'a \<Rightarrow> 'a" where
  "or_default x d = (case x of None \<Rightarrow> d | Some v \<Rightarrow> v)"

lemma or_default_simps [simp]: "or_default None d = d" "or_default (Some v) d = v"
  by (simp_all add: or_default_def)

definition clusterRegistration :: Registration where
  "clusterRegistration = \<lparr>reg_Named = None, reg_For = ''QdrantCluster'', reg_OnlyGeneration = True,
     reg_Owns = [''StatefulSet'', ''Service'', ''ConfigMap'', ''ServiceAccount'']\<rparr>"

definition collectionRegistration :: Registration where
  "collectionRegistration = \<lparr>reg_Named = Some ''qdrantcollection'', reg_For = ''QdrantCollection'', reg_OnlyGeneration = False, reg_Owns = []\<rparr>"

definition backupRegistration :: Registration where
  "backupRegistration = \<lparr>reg_Named = Some ''qdrantbackup'', reg_For = ''QdrantBackup'', reg_OnlyGeneration = False, reg_Owns = []\<rparr>"

definition restoreRegistration :: Registration where
  "restoreRegistration = \<lparr>reg_Named = Some ''qdrantrestore'', reg_For = ''QdrantRestore'', reg_OnlyGeneration = False, reg_Owns = []\<rparr>"

definition cluster_wire ::
    "('w, 'cert) network \<Rightarrow> (string \<Rightarrow> 'cert list) \<Rightarrow> 'w Manager \<Rightarrow> 'w Wiring \<Rightarrow> 'w Wiring" where
  "cluster_wire net certs mgr r =
     (let get = or_default (wr_APIReader r) (mgr_APIReader mgr) in
      \<lparr>wr_APIReader = Some get,
       wr_QdrantClientFor = Some (or_default (wr_QdrantClientFor r) (defaultClientFor net certs get)),
       wr_QdrantClientForPeer = Some (or_default (wr_QdrantClientForPeer r) (defaultClientForPeer net certs get)),
       wr_Recorder = Some ''qdrantcluster''\<rparr>)"

definition collection_wire ::
    "('w, 'cert) network \<Rightarrow> (string \<Rightarrow> 'cert list) \<Rightarrow> 'w Manager \<Rightarrow> 'w Wiring \<Rightarrow> 'w Wiring" where
  "collection_wire net certs mgr r =
     (let get = or_default (wr_APIReader r) (mgr_APIReader mgr) in
      r\<lparr>wr_APIReader := Some get, wr_Recorder := Some ''qdrantcollection'',
        wr_QdrantClientFor := Some (or_default (wr_QdrantClientFor r) (defaultClientFor net certs get))\<rparr>)"

definition backup_wire ::
    "('w, 'cert) network \<Rightarrow> (string \<Rightarrow> 'cert list) \<Rightarrow> 'w Manager \<Rightarrow> 'w Wiring \<Rightarrow> 'w Wiring" where
  "backup_wire net certs mgr r =
     (let get = or_default (wr_APIReader r) (mgr_APIReader mgr) in
      \<lparr>wr_APIReader = Some get,
       wr_QdrantClientFor = Some (or_default (wr_QdrantClientFor r) (defaultClientFor net certs get)),
       wr_QdrantClientForPeer = Some (or_default (wr_QdrantClientForPeer r) (defaultClientForPeer net certs get)),
       wr_Recorder = Some ''qdrantbackup''\<rparr>)"

definition restore_wire ::
    "('w, 'cert) network \<Rightarrow> (string \<Rightarrow> 'cert list) \<Rightarrow> 'w Manager \<Rightarrow> 'w Wiring \<Rightarrow> 'w Wiring" where
  "restore_wire net certs mgr r =
     (let get = or_default (wr_APIReader r) (mgr_APIReader mgr) in
      r\<lparr>wr_APIReader := Some get,
        wr_QdrantClientForPeer := Some (or_default (wr_QdrantClientForPeer r) (defaultClientForPeer net certs get)),
        wr_Recorder := Some ''qdrantrestore''\<rparr>)"

end
