(* ===== verification/Operator_Main.thy ===== *)
theory Operator_Main
  imports Controller_Setup
begin

text \<open>
  The process entry point (\<open>cmd/main.go\<close>): command line, server options, and the sequence of steps up to the start
  of the manager. Parameters: the flags that libraries register on the same command line (\<open>ext\<close>: whether a
  flag is boolean, and which values it accepts), the Kubernetes configuration, \<open>ctrl.NewManager\<close>, and the network.
\<close>

section \<open>The command line\<close>

record Flags =
  metricsAddr :: string
  probeAddr :: string
  enableLeaderElection :: bool
  secureMetrics :: bool
  webhookCertPath :: string
  webhookCertName :: string
  webhookCertKey :: string
  metricsCertPath :: string
  metricsCertName :: string
  metricsCertKey :: string
  enableHTTP2 :: bool

definition defaultFlags :: Flags where
  "defaultFlags = \<lparr>metricsAddr = ''0'', probeAddr = '':8081'', enableLeaderElection = False, secureMetrics = True,
     webhookCertPath = [], webhookCertName = ''tls.crt'', webhookCertKey = ''tls.key'',
     metricsCertPath = [], metricsCertName = ''tls.crt'', metricsCertKey = ''tls.key'', enableHTTP2 = False\<rparr>"

datatype flag_value =
    BoolVar "bool \<Rightarrow> Flags \<Rightarrow> Flags"
  | StringVar "string \<Rightarrow> Flags \<Rightarrow> Flags"
  | LibraryVar bool "string \<Rightarrow> bool"

definition declaredFlags :: "(string \<times> flag_value) list" where
  "declaredFlags =
     [(''metrics-bind-address'', StringVar (\<lambda>v. metricsAddr_update (\<lambda>_. v))),
      (''health-probe-bind-address'', StringVar (\<lambda>v. probeAddr_update (\<lambda>_. v))),
      (''leader-elect'', BoolVar (\<lambda>v. enableLeaderElection_update (\<lambda>_. v))),
      (''metrics-secure'', BoolVar (\<lambda>v. secureMetrics_update (\<lambda>_. v))),
      (''webhook-cert-path'', StringVar (\<lambda>v. webhookCertPath_update (\<lambda>_. v))),
      (''webhook-cert-name'', StringVar (\<lambda>v. webhookCertName_update (\<lambda>_. v))),
      (''webhook-cert-key'', StringVar (\<lambda>v. webhookCertKey_update (\<lambda>_. v))),
      (''metrics-cert-path'', StringVar (\<lambda>v. metricsCertPath_update (\<lambda>_. v))),
      (''metrics-cert-name'', StringVar (\<lambda>v. metricsCertName_update (\<lambda>_. v))),
      (''metrics-cert-key'', StringVar (\<lambda>v. metricsCertKey_update (\<lambda>_. v))),
      (''enable-http2'', BoolVar (\<lambda>v. enableHTTP2_update (\<lambda>_. v)))]"

type_synonym library_flags = "string \<Rightarrow> (bool \<times> (string \<Rightarrow> bool)) option"

definition lookupFlag :: "library_flags \<Rightarrow> string \<Rightarrow> flag_value option" where
  "lookupFlag ext name = (case map_of declaredFlags name of
     Some v \<Rightarrow> Some v
   | None \<Rightarrow> (case ext name of None \<Rightarrow> None | Some (isBool, accepts) \<Rightarrow> Some (LibraryVar isBool accepts)))"

text \<open>How \<open>flag.parseOne\<close> reads one argument, and \<open>strconv.ParseBool\<close>.\<close>

datatype argument = NotFlag | Terminator | BadSyntax | Flag string "string option"

definition flagBody :: "string \<Rightarrow> argument" where
  "flagBody name =
     (if name = [] \<or> hd name = CHR ''-'' \<or> hd name = CHR ''='' then BadSyntax
      else case cut CHR ''='' name of (n, v, found) \<Rightarrow> Flag n (if found then Some v else None))"

definition flagOf :: "string \<Rightarrow> argument" where
  "flagOf s =
     (if length s < 2 \<or> hd s \<noteq> CHR ''-'' then NotFlag
      else if s ! 1 \<noteq> CHR ''-'' then flagBody (drop 1 s)
      else if length s = 2 then Terminator
      else flagBody (drop 2 s))"

definition ParseBool :: "string \<Rightarrow> bool option" where
  "ParseBool s =
     (if s \<in> {''1'', ''t'', ''T'', ''true'', ''TRUE'', ''True''} then Some True
      else if s \<in> {''0'', ''f'', ''F'', ''false'', ''FALSE'', ''False''} then Some False
      else None)"

text \<open>
  \<open>flag.Parse\<close> on a command line that exits on errors: status 2 for an error, 0 for a request of help. What
  \<open>setFlag\<close> sets is one flag with its value; a boolean flag without a value is set to true.
\<close>

datatype parsed = Parsed Flags | Exit nat

definition setFlag :: "flag_value \<Rightarrow> string \<Rightarrow> Flags \<Rightarrow> Flags option" where
  "setFlag fv v f = (case fv of
     BoolVar put \<Rightarrow> (case ParseBool v of None \<Rightarrow> None | Some b \<Rightarrow> Some (put b f))
   | StringVar put \<Rightarrow> Some (put v f)
   | LibraryVar _ accepts \<Rightarrow> if accepts v then Some f else None)"

definition isBoolFlag :: "flag_value \<Rightarrow> bool" where
  "isBoolFlag fv = (case fv of BoolVar _ \<Rightarrow> True | StringVar _ \<Rightarrow> False | LibraryVar b _ \<Rightarrow> b)"

fun flag_Parse :: "library_flags \<Rightarrow> string list \<Rightarrow> Flags \<Rightarrow> parsed" where
  "flag_Parse ext [] f = Parsed f"
| "flag_Parse ext (a # args) f = (case flagOf a of
     NotFlag \<Rightarrow> Parsed f
   | Terminator \<Rightarrow> Parsed f
   | BadSyntax \<Rightarrow> Exit 2
   | Flag name value \<Rightarrow> (case lookupFlag ext name of
       None \<Rightarrow> if name = ''help'' \<or> name = ''h'' then Exit 0 else Exit 2
     | Some fv \<Rightarrow> (case value of
         Some v \<Rightarrow> (case setFlag fv v f of None \<Rightarrow> Exit 2 | Some f' \<Rightarrow> flag_Parse ext args f')
       | None \<Rightarrow>
           if isBoolFlag fv
           then (case setFlag fv ''true'' f of None \<Rightarrow> Exit 2 | Some f' \<Rightarrow> flag_Parse ext args f')
           else (case args of
               [] \<Rightarrow> Exit 2
             | v # args' \<Rightarrow> (case setFlag fv v f of None \<Rightarrow> Exit 2 | Some f' \<Rightarrow> flag_Parse ext args' f')))))"

section \<open>Options of the servers and of the manager\<close>

record TlsConfig =
  NextProtos :: "string list"

type_synonym tls_opts = "(TlsConfig \<Rightarrow> TlsConfig) list"

record WebhookOptions =
  wh_TLSOpts :: tls_opts
  wh_CertDir :: string
  wh_CertName :: string
  wh_KeyName :: string

record MetricsOptions =
  mo_BindAddress :: string
  mo_SecureServing :: bool
  mo_TLSOpts :: tls_opts
  mo_Authenticated :: bool
  mo_CertDir :: string
  mo_CertName :: string
  mo_KeyName :: string

record ManagerOptions =
  op_Scheme :: Scheme
  op_Metrics :: MetricsOptions
  op_WebhookServer :: WebhookOptions
  op_HealthProbeBindAddress :: string
  op_LeaderElection :: bool
  op_LeaderElectionID :: string

definition disableHTTP2 :: "TlsConfig \<Rightarrow> TlsConfig" where
  "disableHTTP2 c = c\<lparr>NextProtos := [''http/1.1'']\<rparr>"

definition tlsOpts :: "Flags \<Rightarrow> tls_opts" where
  "tlsOpts f = (if \<not> enableHTTP2 f then [disableHTTP2] else [])"

definition webhookServerOptions :: "Flags \<Rightarrow> WebhookOptions" where
  "webhookServerOptions f =
     (let o1 = \<lparr>wh_TLSOpts = tlsOpts f, wh_CertDir = [], wh_CertName = [], wh_KeyName = []\<rparr> in
      if length (webhookCertPath f) > 0
      then o1\<lparr>wh_CertDir := webhookCertPath f, wh_CertName := webhookCertName f, wh_KeyName := webhookCertKey f\<rparr>
      else o1)"

definition metricsServerOptions :: "Flags \<Rightarrow> MetricsOptions" where
  "metricsServerOptions f =
     (let o1 = \<lparr>mo_BindAddress = metricsAddr f, mo_SecureServing = secureMetrics f, mo_TLSOpts = tlsOpts f,
            mo_Authenticated = False, mo_CertDir = [], mo_CertName = [], mo_KeyName = []\<rparr>;
          o2 = (if secureMetrics f then o1\<lparr>mo_Authenticated := True\<rparr> else o1) in
      if length (metricsCertPath f) > 0
      then o2\<lparr>mo_CertDir := metricsCertPath f, mo_CertName := metricsCertName f, mo_KeyName := metricsCertKey f\<rparr>
      else o2)"

text \<open>\<open>init\<close>: the kinds of Kubernetes itself (\<open>clientgoscheme\<close>, a parameter), then those of the API group.\<close>

definition init_scheme :: "string list \<Rightarrow> Scheme \<Rightarrow> Scheme" where
  "init_scheme metaKinds clientgoscheme = AddToScheme metaKinds clientgoscheme"

definition managerOptions :: "Scheme \<Rightarrow> Flags \<Rightarrow> ManagerOptions" where
  "managerOptions scheme f =
     \<lparr>op_Scheme = scheme, op_Metrics = metricsServerOptions f,
      op_WebhookServer = webhookServerOptions f, op_HealthProbeBindAddress = probeAddr f,
      op_LeaderElection = enableLeaderElection f, op_LeaderElectionID = ''2f71cb5c.keiailab.com''\<rparr>"

section \<open>The start\<close>

text \<open>The steps of the start, each with whether it succeeded.\<close>

datatype 'w startup =
    Config bool
  | NewManager ManagerOptions bool
  | Complete Registration "'w Wiring" bool
  | HealthzCheck string bool
  | ReadyzCheck string bool
  | Started bool

fun succeeded :: "'w startup \<Rightarrow> bool" where
  "succeeded (Config ok) = ok"
| "succeeded (NewManager opts ok) = ok"
| "succeeded (Complete reg r ok) = ok"
| "succeeded (HealthzCheck name ok) = ok"
| "succeeded (ReadyzCheck name ok) = ok"
| "succeeded (Started ok) = ok"

type_synonym ('w, 'a) boot = "(('w, 'w startup) sys, 'a) state"

record ('w, 'cert) Platform =
  pf_Flags :: library_flags
  pf_MetaKinds :: "string list"
  pf_KubeScheme :: Scheme
  pf_Config :: "'w \<Rightarrow> err option \<times> 'w"
  pf_NewManager :: "ManagerOptions \<Rightarrow> 'w \<Rightarrow> (err + 'w Manager) \<times> 'w"
  pf_Network :: "('w, 'cert) network"
  pf_Certs :: "string \<Rightarrow> 'cert list"

abbreviation pf_Scheme :: "('w, 'cert) Platform \<Rightarrow> Scheme" where
  "pf_Scheme pf \<equiv> init_scheme (pf_MetaKinds pf) (pf_KubeScheme pf)"

definition setupWithManager ::
    "Registration \<Rightarrow> ('w Manager \<Rightarrow> 'w Wiring \<Rightarrow> 'w Wiring) \<Rightarrow> 'w Manager \<Rightarrow> 'w Wiring \<Rightarrow> ('w, err option) boot" where
  "setupWithManager reg wire mgr r =
     perform (\<lambda>e. Complete reg (wire mgr r) (e = None)) (mgr_Complete mgr reg (wire mgr r))"

definition cluster_SetupWithManager where
  "cluster_SetupWithManager pf =
     setupWithManager clusterRegistration (cluster_wire (pf_Network pf) (pf_Certs pf))"

definition collection_SetupWithManager where
  "collection_SetupWithManager pf =
     setupWithManager collectionRegistration (collection_wire (pf_Network pf) (pf_Certs pf))"

definition backup_SetupWithManager where
  "backup_SetupWithManager pf =
     setupWithManager backupRegistration (backup_wire (pf_Network pf) (pf_Certs pf))"

definition restore_SetupWithManager where
  "restore_SetupWithManager pf =
     setupWithManager restoreRegistration (restore_wire (pf_Network pf) (pf_Certs pf))"

lemmas setup_defs =
  setupWithManager_def cluster_SetupWithManager_def collection_SetupWithManager_def backup_SetupWithManager_def
  restore_SetupWithManager_def

text \<open>The reconcilers of \<open>main\<close> set none of the fields, and each step that fails exits with status 1.\<close>

definition zeroWiring :: "'w Wiring" where
  "zeroWiring = \<lparr>wr_APIReader = None, wr_QdrantClientFor = None, wr_QdrantClientForPeer = None, wr_Recorder = None\<rparr>"

definition orExit :: "('w, err option) boot \<Rightarrow> ('w, nat) boot \<Rightarrow> ('w, nat) boot" where
  "orExit step next = do {
     e \<leftarrow> step;
     case e of Some _ \<Rightarrow> State_Monad.return 1 | None \<Rightarrow> next
   }"

definition startOperator :: "('w, 'cert) Platform \<Rightarrow> 'w Manager \<Rightarrow> ('w, nat) boot" where
  "startOperator pf mgr =
     orExit (cluster_SetupWithManager pf mgr zeroWiring)
    (orExit (collection_SetupWithManager pf mgr zeroWiring)
    (orExit (backup_SetupWithManager pf mgr zeroWiring)
    (orExit (restore_SetupWithManager pf mgr zeroWiring)
    (orExit (perform (\<lambda>e. HealthzCheck ''healthz'' (e = None)) (mgr_AddHealthzCheck mgr ''healthz''))
    (orExit (perform (\<lambda>e. ReadyzCheck ''readyz'' (e = None)) (mgr_AddReadyzCheck mgr ''readyz''))
    (orExit (perform (\<lambda>e. Started (e = None)) (mgr_Start mgr))
       (State_Monad.return 0)))))))"

definition main :: "('w, 'cert) Platform \<Rightarrow> string list \<Rightarrow> ('w, nat) boot" where
  "main pf args = (case flag_Parse (pf_Flags pf) args defaultFlags of
     Exit status \<Rightarrow> State_Monad.return status
   | Parsed f \<Rightarrow>
       orExit (perform (\<lambda>e. Config (e = None)) (pf_Config pf)) (do {
         let opts = managerOptions (pf_Scheme pf) f;
         res \<leftarrow> perform (\<lambda>r. NewManager opts (case r of Inl _ \<Rightarrow> False | Inr _ \<Rightarrow> True)) (pf_NewManager pf opts);
         case res of
           Inl _ \<Rightarrow> State_Monad.return 1
         | Inr mgr \<Rightarrow> startOperator pf mgr
       }))"

section \<open>Flags that are not given keep their default\<close>

definition names_flag :: "string \<Rightarrow> string \<Rightarrow> bool" where
  "names_flag name a = (case flagOf a of Flag n _ \<Rightarrow> n = name | _ \<Rightarrow> False)"

text \<open>Setting a flag leaves the fields of the other flags alone.\<close>

definition flag_keeps :: "(Flags \<Rightarrow> 'a) \<Rightarrow> flag_value \<Rightarrow> bool" where
  "flag_keeps sel fv \<longleftrightarrow> (\<forall>v f f'. setFlag fv v f = Some f' \<longrightarrow> sel f' = sel f)"

lemma flag_keeps_simps [simp]:
  "flag_keeps sel (LibraryVar b accepts)"
  "(\<And>v f. sel (put v f) = sel f) \<Longrightarrow> flag_keeps sel (StringVar put)"
  "(\<And>v f. sel (put' v f) = sel f) \<Longrightarrow> flag_keeps sel (BoolVar put')"
  by (auto simp: flag_keeps_def setFlag_def split: option.splits if_splits)

definition only_flag :: "string \<Rightarrow> (Flags \<Rightarrow> 'a) \<Rightarrow> bool" where
  "only_flag name sel \<longleftrightarrow> list_all (\<lambda>(n, fv). n = name \<or> flag_keeps sel fv) declaredFlags"

lemma only_flags: "only_flag ''enable-http2'' enableHTTP2" "only_flag ''metrics-secure'' secureMetrics"
  unfolding only_flag_def declaredFlags_def list.pred_inject prod.case by (intro conjI; simp)+

lemma only_flag_keeps:
  assumes "only_flag name sel" and "lookupFlag ext n = Some fv" and "n \<noteq> name"
  shows "flag_keeps sel fv"
proof (cases "map_of declaredFlags n")
  case None
  then show ?thesis using assms(2) by (auto simp: lookupFlag_def split: option.splits)
next
  case (Some v)
  then have "(n, fv) \<in> set declaredFlags" using assms(2) by (simp add: lookupFlag_def map_of_SomeD)
  then show ?thesis using assms(1, 3) by (auto simp: only_flag_def list_all_iff)
qed

text \<open>A flag is read by setting it and parsing what follows.\<close>

lemma flag_Parse_step:
  assumes parsed: "flag_Parse ext (a # args) f = Parsed f'" and a: "flagOf a = Flag n g"
  obtains fv v args' f1 where "lookupFlag ext n = Some fv" "setFlag fv v f = Some f1"
    "flag_Parse ext args' f1 = Parsed f'" "args' = args \<or> args = v # args'"
proof (cases "lookupFlag ext n")
  case None
  then show thesis using parsed a by (simp split: if_splits)
next
  case (Some fv)
  note found = that
  have step: thesis
    if "flag_Parse ext (a # args) f = (case setFlag fv v f of None \<Rightarrow> Exit 2 | Some f1 \<Rightarrow> flag_Parse ext args' f1)"
      "args' = args \<or> args = v # args'" for v args'
  proof (cases "setFlag fv v f")
    case None
    then show thesis using that(1) parsed by (simp del: flag_Parse.simps)
  next
    case (Some f1)
    then show thesis
      using that parsed by (intro found [OF \<open>lookupFlag ext n = Some fv\<close> Some _ that(2)]) (simp del: flag_Parse.simps)
  qed
  show thesis
  proof (cases "\<exists>v. g = Some v \<or> g = None \<and> isBoolFlag fv \<and> v = ''true''")
    case True
    then obtain v where "g = Some v \<or> g = None \<and> isBoolFlag fv \<and> v = ''true''" by blast
    then show thesis using a Some by (intro step [of args v]) auto
  next
    case False
    then have "g = None" by (cases g) auto
    moreover from this have "\<not> isBoolFlag fv" using False by simp
    ultimately show thesis
    proof (cases args)
      case Nil
      then show thesis using parsed a Some False by (cases g) auto
    next
      case (Cons v args')
      then show thesis using a Some \<open>g = None\<close> \<open>\<not> isBoolFlag fv\<close> by (intro step [of args' v]) simp_all
    qed
  qed
qed

text \<open>A field is kept by the parser when no argument names the flag that changes it.\<close>

lemma flag_Parse_keeps:
  assumes "flag_Parse ext args f = Parsed f'" and "\<forall>a \<in> set args. \<not> names_flag name a" and only: "only_flag name sel"
  shows "sel f' = sel f"
  using assms(1, 2)
proof (induction args arbitrary: f rule: length_induct)
  case (1 args)
  show ?case
  proof (cases args)
    case (Cons a rest)
    show ?thesis
    proof (cases "flagOf a")
      case (Flag n g)
      then have n: "n \<noteq> name" using 1 Cons by (simp add: names_flag_def)
      obtain fv v args' f1 where st: "lookupFlag ext n = Some fv" "setFlag fv v f = Some f1"
          "flag_Parse ext args' f1 = Parsed f'" "args' = rest \<or> rest = v # args'"
        using flag_Parse_step [OF _ Flag] 1 Cons by metis
      have "sel f1 = sel f"
        using only_flag_keeps [OF only st(1) n] st(2) by (simp add: flag_keeps_def)
      moreover have "length args' < length args" "\<forall>a \<in> set args'. \<not> names_flag name a"
        using st(4) Cons 1(3) by auto
      then have "sel f' = sel f1" using 1(1) st(3) by blast
      ultimately show ?thesis by simp
    qed (use 1 Cons in auto)
  qed (use 1 in simp)
qed

section \<open>The sequence of steps\<close>

text \<open>
  \<open>boots act steps\<close>: \<open>act\<close> performs the steps in order up to the first that fails, and its status is 0 exactly when
  none fails.
\<close>

definition boots :: "('w, nat) boot \<Rightarrow> (bool \<Rightarrow> 'w startup) list \<Rightarrow> bool" where
  "boots act steps \<longleftrightarrow> (\<forall>s. \<exists>k \<le> length steps.
     trace (snd (run_state act s)) =
       trace s @ map (\<lambda>f. f True) (take k steps) @ (if k < length steps then [(steps ! k) False] else []) \<and>
     fst (run_state act s) = (if k = length steps then 0 else 1))"

lemma boots_return: "boots (State_Monad.return 0) []"
  by (simp add: boots_def)

lemma boots_step:
  assumes "boots act steps"
  shows "boots (orExit (perform (\<lambda>e. f (e = None)) g) act) (f # steps)"
  unfolding boots_def
proof
  fix s :: "('a, 'a startup) sys"
  obtain e w where g: "g (world s) = (e, w)" by fastforce
  show "\<exists>k\<le>length (f # steps).
     trace (snd (run_state (orExit (perform (\<lambda>e. f (e = None)) g) act) s)) =
       trace s @ map (\<lambda>f. f True) (take k (f # steps)) @ (if k < length (f # steps) then [((f # steps) ! k) False] else []) \<and>
     fst (run_state (orExit (perform (\<lambda>e. f (e = None)) g) act) s) = (if k = length (f # steps) then 0 else 1)"
  proof (cases e)
    case None
    let ?s1 = "s\<lparr>world := w, trace := trace s @ [f True]\<rparr>"
    obtain k where k: "k \<le> length steps"
      "trace (snd (run_state act ?s1)) =
         trace ?s1 @ map (\<lambda>f. f True) (take k steps) @ (if k < length steps then [(steps ! k) False] else [])"
      "fst (run_state act ?s1) = (if k = length steps then 0 else 1)"
      using assms unfolding boots_def by blast
    then show ?thesis using g None by (intro exI [of _ "Suc k"]) (simp add: orExit_def)
  next
    case (Some m)
    then show ?thesis using g by (intro exI [of _ 0]) (simp add: orExit_def)
  qed
qed

definition controllerSteps :: "('w, 'cert) Platform \<Rightarrow> 'w Manager \<Rightarrow> (bool \<Rightarrow> 'w startup) list" where
  "controllerSteps pf mgr =
     [Complete clusterRegistration (cluster_wire (pf_Network pf) (pf_Certs pf) mgr zeroWiring),
      Complete collectionRegistration (collection_wire (pf_Network pf) (pf_Certs pf) mgr zeroWiring),
      Complete backupRegistration (backup_wire (pf_Network pf) (pf_Certs pf) mgr zeroWiring),
      Complete restoreRegistration (restore_wire (pf_Network pf) (pf_Certs pf) mgr zeroWiring)]"

lemma startOperator_boots:
  "boots (startOperator pf mgr) (controllerSteps pf mgr @ [HealthzCheck ''healthz'', ReadyzCheck ''readyz'', Started])"
  unfolding startOperator_def setup_defs controllerSteps_def append_Cons append_Nil
  by (intro boots_step boots_return)

section \<open>Properties\<close>

text \<open>The kinds the controllers watch are in the scheme the manager is created with.\<close>

lemma watched_kinds_known:
  assumes "reg \<in> {clusterRegistration, collectionRegistration, backupRegistration, restoreRegistration}"
  shows "(SchemeGroupVersion, reg_For reg) \<in> set (init_scheme metaKinds base)"
  using assms by (auto simp: init_scheme_def scheme_defs clusterRegistration_def collectionRegistration_def
      backupRegistration_def restoreRegistration_def)

lemma options_hardened:
  "\<not> enableHTTP2 f \<Longrightarrow> wh_TLSOpts (op_WebhookServer (managerOptions base f)) = [disableHTTP2] \<and>
     mo_TLSOpts (op_Metrics (managerOptions base f)) = [disableHTTP2]"
  "secureMetrics f \<Longrightarrow> mo_SecureServing (op_Metrics (managerOptions base f)) \<and> mo_Authenticated (op_Metrics (managerOptions base f))"
  by (simp_all add: managerOptions_def webhookServerOptions_def metricsServerOptions_def tlsOpts_def Let_def)

text \<open>The start as a whole: nothing happens when the command line is refused, otherwise the steps in order.\<close>

lemma main_run:
  assumes "run_state (main pf args) \<lparr>world = w, trace = []\<rparr> = (code, s)"
  obtains (exited) "flag_Parse (pf_Flags pf) args defaultFlags = Exit code" "trace s = []"
  | (unconfigured) f where "flag_Parse (pf_Flags pf) args defaultFlags = Parsed f" "trace s = [Config False]" "code = 1"
  | (unmanaged) f where "flag_Parse (pf_Flags pf) args defaultFlags = Parsed f"
      "trace s = [Config True, NewManager (managerOptions (pf_Scheme pf) f) False]" "code = 1"
  | (booted) f mgr k steps where "flag_Parse (pf_Flags pf) args defaultFlags = Parsed f"
      "steps = controllerSteps pf mgr @ [HealthzCheck ''healthz'', ReadyzCheck ''readyz'', Started]" "k \<le> length steps"
      "trace s = Config True # NewManager (managerOptions (pf_Scheme pf) f) True #
         map (\<lambda>f. f True) (take k steps) @ (if k < length steps then [(steps ! k) False] else [])"
      "code = (if k = length steps then 0 else 1)"
proof (cases "flag_Parse (pf_Flags pf) args defaultFlags")
  case (Parsed f)
  obtain e w1 where cfg: "pf_Config pf w = (e, w1)" by fastforce
  obtain res w2 where mgr: "pf_NewManager pf (managerOptions (pf_Scheme pf) f) w1 = (res, w2)" by fastforce
  show thesis
  proof (cases e)
    case (Some m)
    then show thesis using assms Parsed cfg by (intro unconfigured) (auto simp: main_def orExit_def Let_def)
  next
    case None
    show thesis
    proof (cases res)
      case (Inl m)
      then show thesis using assms Parsed cfg mgr None by (intro unmanaged) (auto simp: main_def orExit_def Let_def)
    next
      case (Inr m)
      let ?steps = "controllerSteps pf m @ [HealthzCheck ''healthz'', ReadyzCheck ''readyz'', Started]"
      let ?s = "\<lparr>world = w2, trace = [Config True, NewManager (managerOptions (pf_Scheme pf) f) True]\<rparr>"
      have run: "run_state (startOperator pf m) ?s = (code, s)"
        using assms Parsed cfg mgr None Inr by (simp add: main_def orExit_def Let_def)
      obtain k where k: "k \<le> length ?steps"
        "trace (snd (run_state (startOperator pf m) ?s)) =
           trace ?s @ map (\<lambda>f. f True) (take k ?steps) @ (if k < length ?steps then [(?steps ! k) False] else [])"
        "fst (run_state (startOperator pf m) ?s) = (if k = length ?steps then 0 else 1)"
        using startOperator_boots [of pf m] unfolding boots_def by blast
      show thesis by (rule booted [OF Parsed refl k(1)]) (use k(2, 3) run in simp_all)
    qed
  qed
qed (use assms exited in \<open>auto simp: main_def\<close>)

text \<open>Which steps appear in a start that stopped after \<open>k\<close> of the seven.\<close>

lemma steps_up_to:
  assumes "steps = controllerSteps pf mgr @ [HealthzCheck ''healthz'', ReadyzCheck ''readyz'', Started]" and "k \<le> length steps"
    and es: "es = map (\<lambda>f. f True) (take k steps) @ (if k < length steps then [(steps ! k) False] else [])"
  shows "Started ok \<in> set es \<Longrightarrow>
      es = map (\<lambda>f. f True) (controllerSteps pf mgr) @ [HealthzCheck ''healthz'' True, ReadyzCheck ''readyz'' True, Started ok]"
    and "Started True \<in> set es \<longleftrightarrow> k = length steps"
    and "NewManager opts ok \<notin> set es"
    and "Complete reg r ok \<in> set es \<Longrightarrow> reg \<in> {clusterRegistration, collectionRegistration, backupRegistration, restoreRegistration}"
proof -
  have len: "length steps = 7" using assms(1) by (simp add: controllerSteps_def)
  then have "k = 0 \<or> k = 1 \<or> k = 2 \<or> k = 3 \<or> k = 4 \<or> k = 5 \<or> k = 6 \<or> k = 7" using assms(2) by linarith
  then show "Started ok \<in> set es \<Longrightarrow>
      es = map (\<lambda>f. f True) (controllerSteps pf mgr) @ [HealthzCheck ''healthz'' True, ReadyzCheck ''readyz'' True, Started ok]"
    and "Started True \<in> set es \<longleftrightarrow> k = length steps"
    and "NewManager opts ok \<notin> set es"
    and "Complete reg r ok \<in> set es \<Longrightarrow> reg \<in> {clusterRegistration, collectionRegistration, backupRegistration, restoreRegistration}"
    unfolding es len by (elim disjE; simp add: assms(1) controllerSteps_def)+
qed

lemma flags_by_default:
  assumes "flag_Parse ext args defaultFlags = Parsed f"
  shows "\<forall>a \<in> set args. \<not> names_flag ''enable-http2'' a \<Longrightarrow> \<not> enableHTTP2 f"
    and "\<forall>a \<in> set args. \<not> names_flag ''metrics-secure'' a \<Longrightarrow> secureMetrics f"
  using flag_Parse_keeps [OF assms _ only_flags(1)] flag_Parse_keeps [OF assms _ only_flags(2)]
  by (simp_all add: defaultFlags_def)

text \<open>
  C40: The process exits with status 0 only after the manager has run, or when help was asked for. The manager is
  started only after it was created and all four controllers, with the readers and clients of their defaults, and
  both health checks have been accepted, in this order, and every kind a controller watches is in its scheme. Unless
  the command line names \<open>enable-http2\<close>, both servers speak HTTP/1.1 only; unless it names \<open>metrics-secure\<close>, metrics are
  served over TLS to authenticated clients.
\<close>

theorem main_starts_whole_operator:
  assumes run: "run_state (main pf args) \<lparr>world = w, trace = []\<rparr> = (code, s)"
  shows "(code = 0 \<longleftrightarrow> Started True \<in> set (trace s) \<or> flag_Parse (pf_Flags pf) args defaultFlags = Exit 0) \<and>
    (\<forall>ok. Started ok \<in> set (trace s) \<longrightarrow>
      (\<exists>opts mgr. trace s = Config True # NewManager opts True # map (\<lambda>f. f True) (controllerSteps pf mgr) @
         [HealthzCheck ''healthz'' True, ReadyzCheck ''readyz'' True, Started ok])) \<and>
    (\<forall>reg r ok. Complete reg r ok \<in> set (trace s) \<longrightarrow>
      (\<exists>opts. NewManager opts True \<in> set (trace s) \<and> (SchemeGroupVersion, reg_For reg) \<in> set (op_Scheme opts))) \<and>
    (\<forall>opts ok. NewManager opts ok \<in> set (trace s) \<longrightarrow>
      ((\<forall>a \<in> set args. \<not> names_flag ''enable-http2'' a) \<longrightarrow>
        (\<forall>c. NextProtos (fold (\<lambda>g. g) (wh_TLSOpts (op_WebhookServer opts)) c) = [''http/1.1'']) \<and>
        (\<forall>c. NextProtos (fold (\<lambda>g. g) (mo_TLSOpts (op_Metrics opts)) c) = [''http/1.1''])) \<and>
      ((\<forall>a \<in> set args. \<not> names_flag ''metrics-secure'' a) \<longrightarrow>
        mo_SecureServing (op_Metrics opts) \<and> mo_Authenticated (op_Metrics opts)))"
proof -
  have opts: "((\<forall>a \<in> set args. \<not> names_flag ''enable-http2'' a) \<longrightarrow>
        (\<forall>c. NextProtos (fold (\<lambda>g. g) (wh_TLSOpts (op_WebhookServer opts)) c) = [''http/1.1'']) \<and>
        (\<forall>c. NextProtos (fold (\<lambda>g. g) (mo_TLSOpts (op_Metrics opts)) c) = [''http/1.1''])) \<and>
      ((\<forall>a \<in> set args. \<not> names_flag ''metrics-secure'' a) \<longrightarrow>
        mo_SecureServing (op_Metrics opts) \<and> mo_Authenticated (op_Metrics opts))"
    if "flag_Parse (pf_Flags pf) args defaultFlags = Parsed f" "opts = managerOptions (pf_Scheme pf) f" for opts f
    using flags_by_default [OF that(1)] options_hardened [of f "pf_Scheme pf"] that(2) by (simp add: disableHTTP2_def)
  show ?thesis using run
  proof (cases rule: main_run)
    case (booted f mgr k steps)
    define es where "es = map (\<lambda>f. f True) (take k steps) @ (if k < length steps then [(steps ! k) False] else [])"
    let ?o = "managerOptions (pf_Scheme pf) f"
    note up = steps_up_to [OF booted(2, 3) es_def]
    have tr: "trace s = Config True # NewManager ?o True # es" using booted(4) by (simp add: es_def)
    have "code = 0 \<longleftrightarrow> Started True \<in> set es" using booted(5) up(2) by simp
    moreover have "\<exists>mgr. es = map (\<lambda>f. f True) (controllerSteps pf mgr) @ [HealthzCheck ''healthz'' True, ReadyzCheck ''readyz'' True, Started ok]"
      if "Started ok \<in> set es" for ok using up(1) [OF that] by blast
    moreover have "(SchemeGroupVersion, reg_For reg) \<in> set (op_Scheme ?o)" if "Complete reg r ok \<in> set es" for reg r ok
      using watched_kinds_known up(4) [OF that] by (simp add: managerOptions_def)
    ultimately show ?thesis using booted(1) opts [OF booted(1) refl] unfolding tr by (simp add: up(3))
  qed (use opts in simp_all)
qed

end
