(* ===== verification/Metrics_Registry.thy ===== *)
theory Metrics_Registry
  imports Cluster_Safety Backup_Safety Collection_Safety Restore_Safety
begin

text \<open>
  The Prometheus vectors the operator declares and registers (\<open>internal/controller/metrics.go\<close>), the series they
  hold after a trace, and what the four controllers do to them. \<open>With\<close> panics when the number of labels is not the declared
  one, so a pass may only name a declared vector with its labels.
\<close>

section \<open>The vectors\<close>

datatype MetricKind = Gauge | Counter

record MetricVec =
  mv_Kind :: MetricKind
  mv_Namespace :: string
  mv_Name :: string
  mv_Labels :: "string list"

definition metricNS :: string where "metricNS = ''qdrant_operator''"
definition labelNS :: string where "labelNS = ''namespace''"
definition labelName :: string where "labelName = ''name''"

definition gaugeVec :: "string \<Rightarrow> MetricVec" where
  "gaugeVec name = \<lparr>mv_Kind = Gauge, mv_Namespace = metricNS, mv_Name = name, mv_Labels = [labelNS, labelName]\<rparr>"

definition backupVecs :: "MetricVec list" where
  "backupVecs = [gaugeVec ''backup_last_success_timestamp_seconds'', gaugeVec ''backup_snapshots'']"

definition clusterGauges :: "MetricVec list" where
  "clusterGauges =
     [gaugeVec ''dead_replicas'', gaugeVec ''planned_moves'', gaugeVec ''peers'', gaugeVec ''upgrade_in_progress'']"

definition shardOperations :: MetricVec where
  "shardOperations =
     \<lparr>mv_Kind = Counter, mv_Namespace = metricNS, mv_Name = ''shard_operations_total'',
      mv_Labels = [labelNS, labelName, ''kind'']\<rparr>"

definition shardOperationFailures :: MetricVec where
  "shardOperationFailures =
     \<lparr>mv_Kind = Counter, mv_Namespace = metricNS, mv_Name = ''shard_operation_failures_total'',
      mv_Labels = [labelNS, labelName]\<rparr>"

definition clusterVecs :: "MetricVec list" where
  "clusterVecs = clusterGauges @ [shardOperations, shardOperationFailures]"

text \<open>What \<open>init\<close> registers.\<close>

definition registry :: "MetricVec list" where
  "registry = backupVecs @ clusterVecs"

lemmas vec_defs =
  registry_def backupVecs_def clusterVecs_def clusterGauges_def gaugeVec_def shardOperations_def
  shardOperationFailures_def metricNS_def labelNS_def labelName_def

definition vec_of :: "string \<Rightarrow> MetricVec option" where
  "vec_of name = List.find (\<lambda>v. mv_Name v = name) registry"

section \<open>The series after a trace\<close>

type_synonym series = "string \<times> string list \<rightharpoonup> int"

text \<open>
  \<open>Set\<close> of a gauge, \<open>Inc\<close> of a counter, and \<open>Delete\<close> or \<open>DeletePartialMatch\<close> on the labels given. An effect
  on an undeclared vector, or with the wrong number of labels, is the panic \<open>None\<close>.
\<close>

fun apply_metric :: "effect \<Rightarrow> series \<Rightarrow> series option" where
  "apply_metric (Metric name ls v) m =
     (case vec_of name of
        None \<Rightarrow> None
      | Some vec \<Rightarrow>
          if length ls \<noteq> length (mv_Labels vec) then None
          else if mv_Kind vec = Gauge then Some (m((name, ls) \<mapsto> v))
          else Some (m((name, ls) \<mapsto> v + (case m (name, ls) of None \<Rightarrow> 0 | Some u \<Rightarrow> u))))"
| "apply_metric (Forget name ls) m =
     (case vec_of name of
        None \<Rightarrow> None
      | Some vec \<Rightarrow> Some (\<lambda>(name', ls'). if name' = name \<and> take (length ls) ls' = ls then None else m (name', ls')))"
| "apply_metric _ m = Some m"

fun replay :: "effect list \<Rightarrow> series \<Rightarrow> series option" where
  "replay [] m = Some m"
| "replay (e # es) m = (case apply_metric e m of None \<Rightarrow> None | Some m' \<Rightarrow> replay es m')"

lemma replay_append:
  "replay (es @ fs) m = (case replay es m of None \<Rightarrow> None | Some m' \<Rightarrow> replay fs m')"
  by (induction es arbitrary: m) (simp_all split: option.split)

definition declared :: "effect \<Rightarrow> bool" where
  "declared e = (case e of
       Metric name ls _ \<Rightarrow> (case vec_of name of None \<Rightarrow> False | Some vec \<Rightarrow> length ls = length (mv_Labels vec))
     | Forget name _ \<Rightarrow> vec_of name \<noteq> None
     | _ \<Rightarrow> True)"

lemma declared_simps [simp]:
  "declared (Qdrant t q ok)" "declared (Kube k ok)" "declared (Event w reason msg)"
  by (simp_all add: declared_def)

lemma declared_applies: "declared e \<Longrightarrow> \<exists>m'. apply_metric e m = Some m'"
  by (cases e) (auto simp: declared_def split: option.splits)

lemma declared_replays: "list_all declared es \<Longrightarrow> \<exists>m'. replay es m = Some m'"
proof (induction es arbitrary: m)
  case (Cons e es)
  obtain m1 where "apply_metric e m = Some m1" using declared_applies [of e m] Cons.prems by auto
  then show ?case using Cons by simp
qed simp

lemma declared_metric:
  "declared (Metric ''planned_moves'' [a, b] v)" "declared (Metric ''upgrade_in_progress'' [a, b] v)"
  "declared (Metric ''peers'' [a, b] v)" "declared (Metric ''dead_replicas'' [a, b] v)"
  "declared (Metric ''shard_operations_total'' [a, b, c] v)" "declared (Metric ''shard_operation_failures_total'' [a, b] v)"
  "declared (Metric ''backup_last_success_timestamp_seconds'' [a, b] v)" "declared (Metric ''backup_snapshots'' [a, b] v)"
  "declared (Forget ''planned_moves'' ls)" "declared (Forget ''upgrade_in_progress'' ls)"
  "declared (Forget ''peers'' ls)" "declared (Forget ''dead_replicas'' ls)"
  "declared (Forget ''shard_operations_total'' ls)" "declared (Forget ''shard_operation_failures_total'' ls)"
  "declared (Forget ''backup_last_success_timestamp_seconds'' ls)" "declared (Forget ''backup_snapshots'' ls)"
  by (simp_all add: declared_def vec_of_def vec_defs)

section \<open>The passes name declared vectors only\<close>

named_theorems declares
lemmas declare_defs = k_defs q_defs event_defs metric_defs shardOperationFailed_def Let_def

lemma emits_case_kerr [emits_intros]:
  "(k = KNotFound \<Longrightarrow> emits P a) \<Longrightarrow> (k = KAlreadyExists \<Longrightarrow> emits P b) \<Longrightarrow> (\<And>m. k = KOther m \<Longrightarrow> emits P (c m)) \<Longrightarrow>
   emits P (case k of KNotFound \<Rightarrow> a | KAlreadyExists \<Rightarrow> b | KOther m \<Rightarrow> c m)"
  by (cases k) simp_all

lemma reads_declared: "emits is_read m \<Longrightarrow> emits declared m"
  by (erule emits_mono) (auto elim!: is_read.elims)

lemma observe_declared [declares]: "emits declared (observe r qc)"
  by (rule reads_declared [OF observe_reads])

lemma settle_declared [declares]: "emits declared (settleActiveMove r qc obs)"
  unfolding settleActiveMove_def declare_defs by (intro emits_intros; simp add: declared_metric)

lemma issue_declared [declares]: "emits declared (issueActiveMove r qc mv kind qcl)"
  unfolding issueActiveMove_def issueOp_def declare_defs by (intro emits_intros; simp add: declared_metric)

lemma rebalance_declared [declares]: "emits declared (reconcileRebalance r qc obs qcl)"
  unfolding reconcileRebalance_def Let_def by (intro emits_intros declares)

lemma statusSwitch_declared [declares]: "emits declared (statusSwitch r qc live obs)"
  unfolding statusSwitch_def Let_def
  by (intro emits_intros declares) (auto intro: emits_return split: prod.split)

lemma reconcileStatus_declared [declares]: "emits declared (reconcileStatus r qc sts)"
  unfolding reconcileStatus_def reportStatus_def switchAndCommit_def clusterMetrics_def declare_defs
  by (intro emits_intros declares; simp add: declared_metric)

lemma drain_declared [declares]: "emits declared (reconcileDrainCycle r qc live cur)"
  unfolding reconcileDrainCycle_def drainObserved_def drainPlanned_def drainTarget_def shrinkAndReport_def shrinkOne_def
    blockDrain_def reshardActive_def publishDrainStatus_def declare_defs
  by (intro emits_intros declares; simp)

lemma gateRollout_declared [declares]: "emits declared (gateRollout r qc live desired)"
  unfolding gateRollout_def Let_def by (intro emits_intros declares)

lemma updateOwned_declared [declares]: "emits declared (updateOwned r ob v)"
  unfolding updateOwned_def declare_defs by (cases ob) (auto intro!: emits_intros)

lemma applyOwned_declared [declares]: "emits declared (applyOwned r qc ob)"
  unfolding applyOwned_def k_GetVersion_def k_Create_def by (intro emits_intros declares; simp)

lemma applyChildren_declared [declares]: "emits declared (applyChildren r qc obs)"
  by (induction obs) (auto intro!: emits_intros declares)

lemma refuse_declared [declares]: "emits declared (refuseTLS r qc)" "emits declared (refuseImmutable r qc)"
  unfolding refuseTLS_def refuseImmutable_def declare_defs by (intro emits_intros declares; simp)+

lemma stuckLoop_declared: "emits declared (stuckLoop r qc pods)"
  by (induction pods) (auto simp: nodeDown_def declare_defs intro!: emits_intros)

lemma stuckPods_declared [declares]: "emits declared (reconcileStuckPods r qc)"
  unfolding reconcileStuckPods_def declare_defs by (intro emits_intros stuckLoop_declared; simp)

lemma cluster_declared: "emits declared (cluster_Reconcile r ns n)"
  unfolding cluster_Reconcile_def reconcileCluster_def reconcileChildren_def reconcileSts_def reconcileApply_def
    forgetCluster_def declare_defs
  by (intro emits_intros declares; simp add: declared_metric)

lemma prune_declared [declares]: "emits declared (prune r bk cl)"
  unfolding prune_def pruneOne_def deleteSnapshots_def declare_defs by (intro emits_intros; simp)

lemma close_declared [declares]: "emits declared (closeGeneration r bk cl now)"
  unfolding closeGeneration_def declare_defs by (intro emits_intros declares; simp add: declared_metric)

lemma open_declared [declares]: "emits declared (openGeneration r bk cl)"
  unfolding openGeneration_def startGeneration_def declare_defs by (intro emits_intros; simp add: declared_metric)

lemma advance_declared [declares]: "emits declared (backup_advance r bk cl)"
  unfolding backup_advance_def backup_settle_def backup_issue_def backup_idle_def declare_defs
  by (intro emits_intros declares; simp)

lemma backup_declared: "emits declared (backup_Reconcile r ns n)"
  unfolding backup_Reconcile_def backup_commit_def scheduleInvalid_def b_defs declare_defs
  by (intro emits_intros declares; simp add: declared_metric)

lemma restore_declared: "emits declared (restore_Reconcile r ns n)"
  unfolding restore_Reconcile_def commitRestore_def resolveSources_def restoreStep_def restoreNext_def finishRestore_def
    s_defs declare_defs
  by (intro emits_intros; simp)

lemmas report_defs =
  setDegraded_def setReady_def degraded_after_def status_then_def c_defs declare_defs

lemma aliasThenReady_declared [declares]: "emits declared (aliasThenReady r col qcl target p)"
  unfolding aliasThenReady_def ensureAlias_def report_defs
  by (intro emits_intros; simp)

lemma reshard_declared [declares]: "emits declared (reconcileReshard r col rs cl qcl)"
  unfolding reconcileReshard_def reshardPrepare_def reshardCopyStep_def reshardSwap_def reshardFinalize_def failReshard_def
    reshardAbort_def startCopying_def reshardDone_def ensureAlias_def report_defs
  by (intro emits_intros; simp)

lemma collection_declared: "emits declared (collection_Reconcile r ns n)"
  unfolding collection_Reconcile_def reconcileCollection_def deleteCollectionCR_def reconcileLive_def syncFinalizer_def
    ensureCollection_def beginReshard_def report_defs
  by (intro emits_intros declares; simp)

section \<open>Properties\<close>

text \<open>The series of the resource \<open>ns/n\<close> in the vectors \<open>vecs\<close>.\<close>

definition series_of :: "MetricVec list \<Rightarrow> string \<Rightarrow> string \<Rightarrow> (string \<times> string list) set" where
  "series_of vecs ns n = {(mv_Name v, ns # n # ls) | v ls. v \<in> set vecs}"

lemma in_series_of:
  "(name, ls) \<in> series_of vecs ns n \<longleftrightarrow> name \<in> mv_Name ` set vecs \<and> take 2 ls = [ns, n]"
proof
  assume r: "name \<in> mv_Name ` set vecs \<and> take 2 ls = [ns, n]"
  then obtain rest where "ls = ns # n # rest" by (metis append_Cons append_Nil append_take_drop_id)
  then show "(name, ls) \<in> series_of vecs ns n" using r by (auto simp: series_of_def)
qed (auto simp: series_of_def)

text \<open>Deleting on the names of a list of vectors removes exactly their series of the resource.\<close>

lemma replay_forget:
  assumes "\<And>name. name \<in> set names \<Longrightarrow> vec_of name \<noteq> None"
  shows "replay (map (\<lambda>name. Forget name [ns, n]) names) m =
    Some (\<lambda>(name, ls). if name \<in> set names \<and> take 2 ls = [ns, n] then None else m (name, ls))"
  using assms
proof (induction names arbitrary: m)
  case (Cons name names)
  obtain vec where "vec_of name = Some vec" using Cons.prems [of name] by auto
  then show ?case using Cons.IH Cons.prems by (auto simp: fun_eq_iff numeral_2_eq_2)
qed (simp add: fun_eq_iff)

lemma forget_series:
  assumes "set names = mv_Name ` set vecs" and "\<And>name. name \<in> set names \<Longrightarrow> vec_of name \<noteq> None"
  shows "replay (map (\<lambda>name. Forget name [ns, n]) names) m =
    Some (\<lambda>k. if k \<in> series_of vecs ns n then None else m k)"
  by (subst replay_forget [OF assms(2)]) (auto simp: fun_eq_iff in_series_of assms(1))

text \<open>From every state, and whatever series there are, the effects of a pass can be replayed.\<close>

definition never_panics :: "('w, 'a) io \<Rightarrow> bool" where
  "never_panics act \<longleftrightarrow> (\<forall>s m. \<exists>es m'. trace (snd (run_state act s)) = trace s @ es \<and> replay es m = Some m')"

lemma declared_never_panics: "emits declared act \<Longrightarrow> never_panics act"
  unfolding emits_def never_panics_def using declared_replays by meson

abbreviation clusterNames :: "string list" where
  "clusterNames \<equiv> [''planned_moves'', ''peers'', ''dead_replicas'', ''upgrade_in_progress'',
     ''shard_operation_failures_total'', ''shard_operations_total'']"

abbreviation backupNames :: "string list" where
  "backupNames \<equiv> [''backup_last_success_timestamp_seconds'', ''backup_snapshots'']"

lemma names_of_vecs: "set clusterNames = mv_Name ` set clusterVecs" "set backupNames = mv_Name ` set backupVecs"
  by (auto simp: vec_defs)

lemma vec_of_names: "name \<in> set (clusterNames @ backupNames) \<Longrightarrow> vec_of name \<noteq> None"
  by (auto simp: vec_of_def vec_defs)

lemma cluster_gone_trace:
  assumes "fst (r_GetCluster r ns n (world s)) = Inl KNotFound"
  shows "trace (snd (run_state (cluster_Reconcile r ns n) s)) =
    trace s @ Kube (KGet ''QdrantCluster'' ns n) False # map (\<lambda>name. Forget name [ns, n]) clusterNames"
  using assms by (cases "r_GetCluster r ns n (world s)") (simp add: cluster_Reconcile_def k_defs forgetCluster_def)

lemma backup_gone_trace:
  assumes "fst (b_GetBackup r ns n (world s)) = Inl KNotFound"
  shows "trace (snd (run_state (backup_Reconcile r ns n) s)) =
    trace s @ Kube (KGet ''QdrantBackup'' ns n) False # map (\<lambda>name. Forget name [ns, n]) backupNames"
  using assms by (cases "b_GetBackup r ns n (world s)") (simp add: backup_Reconcile_def b_defs forgetBackup_def)

lemma gone_replay:
  assumes "set names = mv_Name ` set vecs" and "set names \<subseteq> set (clusterNames @ backupNames)"
  shows "replay (Kube g ok # map (\<lambda>name. Forget name [ns, n]) names) m =
    Some (\<lambda>k. if k \<in> series_of vecs ns n then None else m k)"
proof -
  have "vec_of name \<noteq> None" if "name \<in> set names" for name using vec_of_names assms(2) that by blast
  then show ?thesis using forget_series [OF assms(1)] by simp
qed


end
