(* ===== verification/Startup_Witnesses.thy ===== *)
theory Startup_Witnesses
  imports Operator_Main Metrics_Registry Cluster_Witnesses Backup_Witnesses Collection_Witnesses
begin

text \<open>The start of the process and the metrics, on concrete command lines and resources.\<close>

section \<open>Start\<close>

definition accepting :: "unit Manager" where
  "accepting = \<lparr>mgr_APIReader = \<lambda>_ _ w. (Inl KNotFound, w), mgr_Complete = \<lambda>_ _ w. (None, w),
     mgr_AddHealthzCheck = \<lambda>_ w. (None, w), mgr_AddReadyzCheck = \<lambda>_ w. (None, w), mgr_Start = \<lambda>w. (None, w)\<rparr>"

definition platform :: "(unit, nat) Platform" where
  "platform = \<lparr>pf_Flags = Map.empty, pf_MetaKinds = [''WatchEvent''], pf_KubeScheme = [((''apps'', ''v1''), ''StatefulSet'')], pf_Config = \<lambda>w. (None, w),
     pf_NewManager = \<lambda>_ w. (Inr accepting, w), pf_Network = \<lambda>_ _ w. (Inl ''unreachable'', w), pf_Certs = \<lambda>_. []\<rparr>"

abbreviation cmdline :: "string list" where
  "cmdline \<equiv> [''--leader-elect'', ''-metrics-bind-address'', '':8443'', ''--metrics-cert-path=/tls'']"

lemma cmdline_parsed:
  "flag_Parse Map.empty cmdline defaultFlags =
     Parsed (defaultFlags\<lparr>enableLeaderElection := True, metricsAddr := '':8443'', metricsCertPath := ''/tls''\<rparr>)"
  by code_simp

abbreviation booted :: "(unit, unit startup) sys" where
  "booted \<equiv> snd (run_state (main platform cmdline) \<lparr>world = (), trace = []\<rparr>)"

lemma booted_started: "Started True \<in> set (trace booted)"
  unfolding main_def
  by (simp add: platform_def cmdline_parsed startOperator_def setup_defs orExit_def accepting_def Let_def
      del: flag_Parse.simps)

theorem main_starts_whole_operator_witness:
  "\<exists>opts mgr. trace booted = Config True # NewManager opts True # map (\<lambda>f. f True) (controllerSteps platform mgr) @
       [HealthzCheck ''healthz'' True, ReadyzCheck ''readyz'' True, Started True] \<and>
     NextProtos (fold (\<lambda>g. g) (mo_TLSOpts (op_Metrics opts)) \<lparr>NextProtos = []\<rparr>) = [''http/1.1''] \<and> mo_Authenticated (op_Metrics opts)"
proof -
  have unnamed: "\<forall>a \<in> set cmdline. \<not> names_flag ''enable-http2'' a" "\<forall>a \<in> set cmdline. \<not> names_flag ''metrics-secure'' a"
    by code_simp+
  note all = main_starts_whole_operator [of platform cmdline "()", OF prod.collapse [symmetric]]
  obtain opts mgr where tr: "trace booted = Config True # NewManager opts True # map (\<lambda>f. f True) (controllerSteps platform mgr) @
       [HealthzCheck ''healthz'' True, ReadyzCheck ''readyz'' True, Started True]"
    using all booted_started by blast
  have "NewManager opts True \<in> set (trace booted)" unfolding tr by simp
  then have "NextProtos (fold (\<lambda>g. g) (mo_TLSOpts (op_Metrics opts)) \<lparr>NextProtos = []\<rparr>) = [''http/1.1''] \<and> mo_Authenticated (op_Metrics opts)"
    using all unnamed by blast
  then show ?thesis using tr by blast
qed

section \<open>Metrics\<close>

definition goneR :: "Demo BackupReconciler" where
  "goneR = demoR\<lparr>b_GetBackup := \<lambda>_ _ w. (Inl KNotFound, w)\<rparr>"

text \<open>Two clusters and a backup have series; the cluster \<open>ns/q\<close> is gone.\<close>

definition someSeries :: series where
  "someSeries = [(''shard_operations_total'', [''ns'', ''q'', ''Drain'']) \<mapsto> 4, (''peers'', [''ns'', ''p'']) \<mapsto> 3,
     (''backup_snapshots'', [''ns'', ''q'']) \<mapsto> 6]"


end
