(* ===== verification/Spec2Isabelle.thy ===== *)
theory Spec2Isabelle
  imports Top_Witnesses Backup_Witnesses Collection_Witnesses Http_Witnesses Startup_Witnesses
begin

text \<open>
  A verification library for the Qdrant operator (Go, \<open>src/\<close>): a Kubernetes operator that runs Qdrant
  clusters, their collections, backups and restores.

  \<^bold>\<open>The program.\<close> Four controllers, each a \<open>Reconcile\<close> function that is called again and again with the name of a
  resource. A pass reads the resource from the API server, asks Qdrant over its REST interface, issues
  at most a few calls, writes the status of the resource, and says when it wants to be called again.
  Nothing survives between two passes but the status. The cluster controller renders and applies the
  Kubernetes objects of a cluster, observes the placement of the shards, plans moves, executes them one
  at a time, drains peers before a scale-in, gates rolling upgrades and frees pods of dead nodes. The
  collection controller creates or adopts a collection and changes its shard number by copying it. The
  backup controller takes generations of snapshots on a schedule and prunes old ones; the restore
  controller replays them. The controllers share the resources: the drain waits for a reshard, a reshard
  for a move, the observation reads the replication factors that collections ask for, and a restore reads
  the generation a backup recorded.

  \<^bold>\<open>Modelling.\<close> A pass is a value of the state monad over \<open>sys\<close>: a world of any type and the trace of effects so
  far. Every call to Qdrant or to the API server is a function of the world (a field of the record of the
  controller, because neither is part of the repository) and appends an effect that names the call, its
  arguments and whether it succeeded; events and metrics are effects too. Theorems about a pass are
  theorems about the effects it appends and the status it writes, for every world. Go errors are sums or
  options, a nil dereference is an error value, \<open>int32\<close> arithmetic is \<open>i32\<close>, \<open>uint32\<close> and \<open>uint64\<close> are words,
  times and durations are integers of nanoseconds with Go's saturating subtraction. Messages are kept as
  a key and the formatted arguments. A structure that the code mutates through a pointer is passed in and
  returned.

  \<^bold>\<open>The theories, and the code they model\<close> (paths under \<open>src/\<close>).
  \<^item> \<open>Prelude\<close>, \<open>Go_Strings\<close>, \<open>Sha256\<close>: fixed-width integers, time, the effect monad and its \<open>emits\<close> calculus, sorting with a
    comparison, decimal formatting and parsing, host names of URLs, SHA-256.
  \<^item> \<open>Api_Types\<close> (\<open>api/v1alpha1\<close>), \<open>Kube_Objects\<close> (the fields of Kubernetes objects that are set or read), \<open>Qdrant_Client\<close>
    (\<open>internal/qdrant/client.go\<close>, \<open>cluster.go\<close>, \<open>snapshot.go\<close>: data, the \<open>Client\<close> interface, effects), \<open>Cluster_Env\<close>
    (the cluster reconciler), \<open>Resource_Names\<close> (\<open>internal/resources/names.go\<close>, addresses of \<open>tls.go\<close>).
  \<^item> \<open>Fake_Client\<close> (\<open>internal/qdrant/fake.go\<close>): the in-memory Qdrant of the repository's tests, method by method. It is
    the instance on which the interface laws are discharged.
  \<^item> \<open>Rebalance_Planner\<close>, \<open>Rebalance_Safety\<close>, \<open>Rebalance_Convergence\<close>, \<open>Move_Executor\<close> (\<open>internal/controller/rebalance.go\<close>): the four
    planners and the executor.
  \<^item> \<open>Cluster_Observe\<close>, \<open>Drain\<close>, \<open>Upgrade\<close>, \<open>Node_Failure\<close> (\<open>observe\<close> and \<open>collectSizes\<close>, \<open>drain.go\<close>, \<open>upgrade.go\<close>, \<open>nodefailure.go\<close>).
  \<^item> \<open>Resource_Builders\<close>, \<open>Resource_Safety\<close> (\<open>internal/resources\<close>): the manifests.
  \<^item> \<open>Cluster_Reconcile\<close>, \<open>Cluster_Safety\<close> (\<open>qdrantcluster_controller.go\<close>, \<open>metrics.go\<close>): the whole pass of the cluster controller.
  \<^item> \<open>Collection_Controller\<close>, \<open>Collection_Safety\<close>, \<open>Reshard_Correct\<close> (\<open>qdrantcollection_controller.go\<close>, \<open>reshard.go\<close>).
  \<^item> \<open>Backup_Plan\<close>, \<open>Backup_Controller\<close>, \<open>Backup_Safety\<close>, \<open>Backup_Retention\<close> (\<open>backup.go\<close>, \<open>qdrantbackup_controller.go\<close>).
  \<^item> \<open>Restore_Controller\<close>, \<open>Restore_Safety\<close> (\<open>qdrantrestore_controller.go\<close>).
  \<^item> \<open>Json\<close>, \<open>Json_Print\<close>, \<open>Json_Compact\<close> (\<open>encoding/json\<close>, as far as it is used): a parser that keeps the text of each value, the
    writer with its escapes, and the compaction of raw messages; \<open>Http_Client\<close> (\<open>internal/qdrant/http.go\<close>, \<open>points.go\<close>, and the
    methods of \<open>cluster.go\<close> and \<open>snapshot.go\<close>): every method of the REST client, its request, its accepted codes and its
    decoding; \<open>Tls_Client\<close> (\<open>internal/controller/tls.go\<close>, \<open>internal/qdrant/tls.go\<close>): how a client is made.
  \<^item> \<open>Http_Wire\<close>, \<open>Http_Roundtrip\<close>, \<open>Http_Server\<close>: the REST interface as Qdrant documents it (the table of routes, a reader of
    requests, a server over any implementation of the client interface), and the theorems that relate the client to it;
    \<open>Reshard_Http\<close>, \<open>Backup_Http\<close>: the reshard workflow and the retention of snapshots over that wire.
  \<^item> \<open>Metrics_Registry\<close> (\<open>metrics.go\<close>): the Prometheus vectors, and the series a trace of effects leaves.
  \<^item> \<open>Controller_Setup\<close> (the four \<open>SetupWithManager\<close>, the scheme of \<open>api/v1alpha1\<close>), \<open>Operator_Main\<close> (\<open>cmd/main.go\<close>): command
    line, server options, and the steps of the start.
  \<^item> \<open>Rebalance_Witnesses\<close>, \<open>Executor_Witnesses\<close>, \<open>Cluster_Witnesses\<close>, \<open>Top_Witnesses\<close>, \<open>Backup_Witnesses\<close>, \<open>Collection_Witnesses\<close>,
    \<open>Http_Witnesses\<close>, \<open>Startup_Witnesses\<close>: the theorems applied to concrete clusters, evaluated in the kernel.

  \<^bold>\<open>What is shown.\<close>
  \<^item> Planners: every planned operation is legal, durable (an under-replicated shard is copied from an active
    replica, a dead replica is dropped only where enough active ones remain) and depends on the placement
    only, not on map order; executing the count plan move by move ends in a balanced placement.
  \<^item> Executor: one shard operation at a time, committed before it is issued, replication before drops
    before moves; a lost command is cleared with a bounded backoff; nothing in dry-run mode.
  \<^item> Drain, upgrade, nodes: the replica count goes down by one, only for a peer that is empty and was
    removed without force; the upgrade releases one pod at a time and completes; one pod of a dead node
    is deleted per pass.
  \<^item> Whole pass: the composition never lowers the replica count outside the drain, never touches the
    StatefulSet of a refused specification, and runs the executor only on a complete cluster.
  \<^item> Manifests: the StatefulSet is well-formed for every specification, names, selectors, ports and
    certificate paths agree between the objects.
  \<^item> Collections: every mutation of Qdrant is one of a short list, each with the state that permits it; a
    reshard of \<open>n\<close> points ends within \<open>n div 128 + 4\<close> passes with exactly the points of the source.
  \<^item> Backups and restores: over every history of passes, refused writes and edits, a recorded success
    covers the plan of its generation; snapshots are deleted only by retention, which leaves the newest;
    a completed restore has recovered every source.
  \<^item> REST client: a mutation is one request whose answer alone decides the result; a reader of the wire recovers
    every call, and points keep their JSON value through scroll and upsert; in front of a server over any
    implementation, the client refines that implementation. With TLS the client verifies the server with the
    CA of the Secret the server itself mounts.
  \<^item> Metrics and start: no pass makes Prometheus panic, and a deleted resource leaves no series; the manager starts only
    with every controller and check in place, with HTTP/2 off and metrics authenticated unless the command line says otherwise.
  \<^item> Deviations found in the code are theorems as well (oscillation of the size stage, peers hidden by a
    shared ordinal, the abort of a committed reshard, the skipped drain, the schedule that never rests).

  \<^bold>\<open>Interfaces.\<close> Locales state what a component relies on and are interpreted on the model's own definitions:
  comparisons and choice orders of the planners (\<open>go_cmp\<close>, \<open>choice_order\<close>), a store of snapshots (\<open>snapshot_store\<close>) and
  a store that can be resharded (\<open>reshard_store\<close>), both on the in-memory Qdrant and on the REST client in front
  of a REST server over it.

  \<^bold>\<open>Bounds and termination.\<close> All definitions are total functions; loops are recursion over the lists the code ranges
  over. Only the JSON parser has fuel, twice the length of its text and one more, which is always enough (\<open>j_value_fuel\<close>). Runs over several passes are iterations with a proved number of rounds:
  \<open>count_run\<close> (half the initial potential), \<open>rollout_step\<close> (the pods left), \<open>reshard_pass\<close> (above), or inductive
  reachability relations (\<open>backup_reach\<close>, \<open>restore_reach\<close>).

  \<^bold>\<open>Parameters.\<close> The API server, the clock, the condition and finalizer helpers, the cron library, owner
  references, quantities and label strings of the Kubernetes libraries are arguments; what a theorem needs
  of them is a named hypothesis (\<open>conditions_ok\<close>, \<open>owner_ok\<close>), and the witnesses instantiate them.

  \<^bold>\<open>Not modelled.\<close> The transport under \<open>http.Client.Do\<close> and the parsing of certificates (parameters of the REST
  client); the manager of controller-runtime, what its watches enqueue, and the flags other libraries register (parameters
  of the start); logging; the generated deep copies \<open>zz_generated.deepcopy.go\<close> (records are values, a copy is the value itself); concurrency inside one controller (controller-runtime runs one pass per
  resource at a time). JSON: Go's replacement of ill-formed UTF-8, its case-insensitive keys and its limit
  on nesting.
\<close>

end
